(* ===== verification/Prelude.thy ===== *)
theory Prelude
  imports Complex_Main "HOL-Library.Multiset" "HOL-Library.Code_Target_Nat"
begin

text \<open>
  What the components share: JavaScript strings and values, the result type of code that may
  throw, the array operations the sources use (a mutated \<open>find\<close> result, \<open>[...new Set(xs)]\<close>, the
  stable \<open>sort\<close>), instants and their ISO spelling, and two generic interfaces: a consistent
  comparator (what \<open>Array.prototype.sort\<close> needs to be deterministic) and a transition system with
  an invariant.
\<close>

named_theorems js_defs \<open>definitions of the JavaScript operations, unfolded to evaluate them\<close>
named_theorems result_simps \<open>inversion of successful results\<close>

section \<open>Strings\<close>

text \<open>
  A JavaScript string is its sequence of UTF-16 code units; \<open>js\<close> turns an ASCII literal into one.
\<close>

type_synonym jstring = "nat list"

definition js :: "string \<Rightarrow> jstring" where
  "js s = map of_char s"

lemma inj_of_char_nat: "inj (of_char :: char \<Rightarrow> nat)"
  by (auto intro: injI simp: of_char_eq_iff)

lemma js_eq_iff [simp]: "js s = js t \<longleftrightarrow> s = t"
  unfolding js_def using inj_map_eq_map [OF inj_of_char_nat] by blast

lemma js_Nil [simp]: "js [] = []"
  by (simp add: js_def)

lemma js_eq_Nil_iff [simp]: "js s = [] \<longleftrightarrow> s = []"
  by (simp add: js_def)

lemma length_js [simp]: "length (js s) = length s"
  by (simp add: js_def)

text \<open>White space and line terminators, as \<open>String.prototype.trim\<close> and \<open>\s\<close> see them.\<close>

definition is_space :: "nat \<Rightarrow> bool" where
  "is_space c \<longleftrightarrow> c \<in> {9, 10, 11, 12, 13, 32, 160, 5760, 8232, 8233, 8239, 8287, 12288, 65279}
     \<or> (8192 \<le> c \<and> c \<le> 8202)"

definition trim :: "jstring \<Rightarrow> jstring" where
  "trim s = rev (dropWhile is_space (rev (dropWhile is_space s)))"

lemma trim_Nil [simp]: "trim [] = []"
  by (simp add: trim_def)

lemma dropWhile_hd: "dropWhile p s = c # t \<Longrightarrow> \<not> p c"
  by (induction s) (auto split: if_splits)

lemma dropWhile_idem [simp]: "dropWhile p (dropWhile p s) = dropWhile p s"
  by (induction s) auto

lemma trim_idem [simp]: "trim (trim s) = trim s"
proof -
  define d where "d = dropWhile is_space s"
  have prefix: "rev (dropWhile is_space (rev d)) @ rev (takeWhile is_space (rev d)) = d"
    by (metis rev_append rev_rev_ident takeWhile_dropWhile_id)
  have "dropWhile is_space (rev (dropWhile is_space (rev d))) = rev (dropWhile is_space (rev d))"
  proof (cases "rev (dropWhile is_space (rev d))")
    case (Cons c t)
    then have "dropWhile is_space s = c # t @ rev (takeWhile is_space (rev d))"
      using prefix by (simp add: d_def)
    from dropWhile_hd [OF this] Cons show ?thesis by simp
  next
    case Nil
    then show ?thesis unfolding Nil by simp
  qed
  then show ?thesis by (simp add: trim_def d_def)
qed

lemma trim_no_space: "list_all (\<lambda>c. \<not> is_space c) s \<Longrightarrow> trim s = s"
  unfolding trim_def by (metis dropWhile_eq_self_iff list.pred_set list.set_sel(1) rev_is_Nil_conv rev_rev_ident set_rev)

lemma trim_subset: "c \<in> set (trim s) \<Longrightarrow> c \<in> set s"
  unfolding trim_def by (auto dest!: set_dropWhileD)

definition is_digit :: "nat \<Rightarrow> bool" where "is_digit c \<longleftrightarrow> 48 \<le> c \<and> c \<le> 57"
definition is_lower :: "nat \<Rightarrow> bool" where "is_lower c \<longleftrightarrow> 97 \<le> c \<and> c \<le> 122"
definition is_upper :: "nat \<Rightarrow> bool" where "is_upper c \<longleftrightarrow> 65 \<le> c \<and> c \<le> 90"

text \<open>The class \<open>[\u0000-\u001f\u007f]\<close>.\<close>

definition is_control :: "nat \<Rightarrow> bool" where "is_control c \<longleftrightarrow> c \<le> 31 \<or> c = 127"

text \<open>\<open>split_on c s\<close> is \<open>s.split(c)\<close> for a one-unit separator: never empty.\<close>

fun split_on :: "'a \<Rightarrow> 'a list \<Rightarrow> 'a list list" where
  "split_on c [] = [[]]"
| "split_on c (x # xs) =
     (if x = c then [] # split_on c xs
      else (case split_on c xs of [] \<Rightarrow> [[x]] | w # ws \<Rightarrow> (x # w) # ws))"

definition starts_with :: "jstring \<Rightarrow> jstring \<Rightarrow> bool" where
  "starts_with p s \<longleftrightarrow> take (length p) s = p"

definition ends_with :: "jstring \<Rightarrow> jstring \<Rightarrow> bool" where
  "ends_with p s \<longleftrightarrow> length p \<le> length s \<and> drop (length s - length p) s = p"

lemma split_on_nonempty [simp]: "split_on c s \<noteq> []"
  by (induction s) (auto split: list.splits)

lemma split_on_no_sep: "w \<in> set (split_on c s) \<Longrightarrow> c \<notin> set w"
proof (induction s arbitrary: w)
  case (Cons x xs)
  obtain u us where us: "split_on c xs = u # us"
    by (cases "split_on c xs") auto
  with Cons show ?case by (cases "x = c") auto
qed simp

lemma split_on_single: "c \<notin> set s \<Longrightarrow> split_on c s = [s]"
  by (induction s) auto

lemma split_on_append_sep: "c \<notin> set u \<Longrightarrow> split_on c (u @ c # v) = u # split_on c v"
  by (induction u) auto

lemma set_split_on: "w \<in> set (split_on c s) \<Longrightarrow> set w \<subseteq> set s"
proof (induction s arbitrary: w)
  case (Cons x xs)
  obtain u us where us: "split_on c xs = u # us"
    by (cases "split_on c xs") auto
  with Cons.prems show ?case
    using Cons.IH [of u] Cons.IH [of w] by (cases "x = c") (auto simp: us)
qed simp

section \<open>Values\<close>

text \<open>
  The \<open>unknown\<close> values that cross the API boundary. Numbers keep the cases the code tests for
  (\<open>Number.isFinite\<close>, \<open>Number.isInteger\<close>, \<open>Number.isSafeInteger\<close>); a finite number is a rational.
\<close>

datatype jnum = NaN | Infinity | NegInfinity | Num rat

datatype jsval =
    JUndefined
  | JNull
  | JBool bool
  | JNum jnum
  | JStr jstring
  | JArr "jsval list"
  | JObj "(jstring \<times> jsval) list"

fun is_object :: "jsval \<Rightarrow> bool" where
  "is_object (JObj _) = True"
| "is_object _ = False"

fun get_prop :: "jsval \<Rightarrow> string \<Rightarrow> jsval" where
  "get_prop (JObj ps) k = (case map_of ps (js k) of None \<Rightarrow> JUndefined | Some v \<Rightarrow> v)"
| "get_prop _ k = JUndefined"

fun str_of :: "jsval \<Rightarrow> jstring option" where
  "str_of (JStr s) = Some s"
| "str_of _ = None"

fun arr_of :: "jsval \<Rightarrow> jsval list option" where
  "arr_of (JArr vs) = Some vs"
| "arr_of _ = None"

definition rat_is_int :: "rat \<Rightarrow> bool" where
  "rat_is_int r \<longleftrightarrow> snd (quotient_of r) = 1"

definition MAX_SAFE_INTEGER :: rat where
  "MAX_SAFE_INTEGER = 9007199254740991"

fun is_safe_integer :: "jnum \<Rightarrow> bool" where
  "is_safe_integer (Num r) \<longleftrightarrow> rat_is_int r \<and> - MAX_SAFE_INTEGER \<le> r \<and> r \<le> MAX_SAFE_INTEGER"
| "is_safe_integer _ \<longleftrightarrow> False"

text \<open>The relational operators on numbers: every comparison with \<open>NaN\<close> is false.\<close>

instantiation jnum :: ord
begin

fun less_jnum :: "jnum \<Rightarrow> jnum \<Rightarrow> bool" where
  "less_jnum NaN _ = False"
| "less_jnum _ NaN = False"
| "less_jnum (Num r) (Num q) = (r < q)"
| "less_jnum (Num _) Infinity = True"
| "less_jnum NegInfinity (Num _) = True"
| "less_jnum NegInfinity Infinity = True"
| "less_jnum _ _ = False"

definition less_eq_jnum :: "jnum \<Rightarrow> jnum \<Rightarrow> bool" where
  "less_eq_jnum a b \<longleftrightarrow> a < b \<or> (a = b \<and> a \<noteq> NaN)"

instance ..

end

fun is_finite :: "jnum \<Rightarrow> bool" where
  "is_finite (Num _) = True"
| "is_finite _ = False"

section \<open>Results\<close>

text \<open>
  A function that may throw returns \<open>Inl\<close> of the error or \<open>Inr\<close> of its value; \<open>bindr\<close> sequences
  two of them, and \<open>mapr\<close> is \<open>Array.prototype.map\<close> with a callback that may throw (left to right,
  the first throw wins).
\<close>

definition bindr :: "'e + 'a \<Rightarrow> ('a \<Rightarrow> 'e + 'b) \<Rightarrow> 'e + 'b" where
  "bindr m f = (case m of Inl e \<Rightarrow> Inl e | Inr x \<Rightarrow> f x)"

lemma bindr_simps [simp]: "bindr (Inl e) f = Inl e" "bindr (Inr x) f = f x"
  by (simp_all add: bindr_def)

lemma bindr_Inr_iff [result_simps]:
  "bindr m f = Inr y \<longleftrightarrow> (\<exists>x. m = Inr x \<and> f x = Inr y)"
  by (cases m) auto

lemma bindr_Inl_iff:
  "bindr m f = Inl e \<longleftrightarrow> m = Inl e \<or> (\<exists>x. m = Inr x \<and> f x = Inl e)"
  by (cases m) auto

lemma bindr_cong [fundef_cong]:
  "m = m' \<Longrightarrow> (\<And>x. m' = Inr x \<Longrightarrow> f x = f' x) \<Longrightarrow> bindr m f = bindr m' f'"
  by (cases m') auto

lemma if_Inl_eq_Inr [result_simps]:
  "(if b then Inl e else r) = Inr y \<longleftrightarrow> \<not> b \<and> r = Inr y"
  by simp

lemma if_Inl_eq_Inr' [result_simps]:
  "(if b then r else Inl e) = Inr y \<longleftrightarrow> b \<and> r = Inr y"
  by simp

lemma case_option_Inl_eq_Inr [result_simps]:
  "(case x of None \<Rightarrow> Inl e | Some y \<Rightarrow> f y) = Inr z \<longleftrightarrow> (\<exists>y. x = Some y \<and> f y = Inr z)"
  by (cases x) auto

lemma case_bool_value_eq_Inr [result_simps]:
  "(case v of JBool b \<Rightarrow> f b | _ \<Rightarrow> Inl e) = Inr z \<longleftrightarrow> (\<exists>b. v = JBool b \<and> f b = Inr z)"
  by (cases v) auto

lemma case_single_eq_Inr [result_simps]:
  "(case xs of [] \<Rightarrow> Inl e | [x] \<Rightarrow> f x | x # y # ys \<Rightarrow> Inl e') = Inr z \<longleftrightarrow> (\<exists>x. xs = [x] \<and> f x = Inr z)"
  by (auto split: list.splits)

lemma case_finite_eq_Inr [result_simps]:
  "(case n of Num r \<Rightarrow> f r | _ \<Rightarrow> Inl e) = Inr z \<longleftrightarrow> (\<exists>r. n = Num r \<and> f r = Inr z)"
  by (cases n) auto

fun mapr :: "('a \<Rightarrow> 'e + 'b) \<Rightarrow> 'a list \<Rightarrow> 'e + 'b list" where
  "mapr f [] = Inr []"
| "mapr f (x # xs) = bindr (f x) (\<lambda>y. bindr (mapr f xs) (\<lambda>ys. Inr (y # ys)))"

lemma mapr_cong [fundef_cong]:
  "xs = ys \<Longrightarrow> (\<And>x. x \<in> set ys \<Longrightarrow> f x = g x) \<Longrightarrow> mapr f xs = mapr g ys"
  by (induction xs arbitrary: ys) (force intro: bindr_cong)+

lemma mapr_Inr_iff: "mapr f xs = Inr ys \<longleftrightarrow> list_all2 (\<lambda>x y. f x = Inr y) xs ys"
  by (induction xs arbitrary: ys) (auto simp: bindr_Inr_iff list_all2_Cons1)

lemma mapr_InrD:
  assumes "mapr f xs = Inr ys" and "y \<in> set ys"
  shows "\<exists>x \<in> set xs. f x = Inr y"
  using assms by (induction xs arbitrary: ys) (auto simp: bindr_Inr_iff)

lemma length_mapr: "mapr f xs = Inr ys \<Longrightarrow> length ys = length xs"
  by (auto simp: mapr_Inr_iff dest: list_all2_lengthD)

section \<open>Arrays\<close>

text \<open>
  \<open>const x = xs.find(p)\<close> followed by writes to \<open>x\<close> mutates the first element that satisfies \<open>p\<close>,
  in place.
\<close>

fun update_first :: "('a \<Rightarrow> bool) \<Rightarrow> ('a \<Rightarrow> 'a) \<Rightarrow> 'a list \<Rightarrow> 'a list" where
  "update_first p f [] = []"
| "update_first p f (x # xs) = (if p x then f x # xs else x # update_first p f xs)"

lemma length_update_first [simp]: "length (update_first p f xs) = length xs"
  by (induction xs) auto

lemma map_update_first: "(\<And>x. p x \<Longrightarrow> g (f x) = g x) \<Longrightarrow> map g (update_first p f xs) = map g xs"
  by (induction xs) auto

lemma update_first_in:
  "y \<in> set (update_first p f xs) \<Longrightarrow> y \<in> set xs \<or> (\<exists>x. find p xs = Some x \<and> y = f x)"
  by (induction xs) (auto split: if_splits)

lemma update_first_other: "x \<in> set xs \<Longrightarrow> \<not> p x \<Longrightarrow> x \<in> set (update_first p f xs)"
  by (induction xs) auto

lemma update_first_found: "find p xs = Some x \<Longrightarrow> f x \<in> set (update_first p f xs)"
  by (induction xs) (auto split: if_splits)

lemma update_first_none: "find p xs = None \<Longrightarrow> update_first p f xs = xs"
  by (induction xs) (auto split: if_splits)

lemma find_in_set: "find p xs = Some x \<Longrightarrow> x \<in> set xs \<and> p x"
  by (induction xs) (auto split: if_splits)

lemma find_update_first:
  "find p xs = Some x \<Longrightarrow> p (f x) \<Longrightarrow> find p (update_first p f xs) = Some (f x)"
  by (induction xs) (auto split: if_splits)

lemma find_None_notin: "find p xs = None \<Longrightarrow> x \<in> set xs \<Longrightarrow> \<not> p x"
  by (auto simp: find_None_iff)

lemma find_unique:
  "x \<in> set xs \<Longrightarrow> p x \<Longrightarrow> (\<And>y. y \<in> set xs \<Longrightarrow> p y \<Longrightarrow> y = x) \<Longrightarrow> find p xs = Some x"
  by (metis find_None_notin find_in_set option.exhaust)

text \<open>The elements of \<open>new Set(xs)\<close> in iteration order: each at its first occurrence.\<close>

fun unique :: "'a list \<Rightarrow> 'a list" where
  "unique [] = []"
| "unique (x # xs) = x # unique (filter (\<lambda>y. y \<noteq> x) xs)"

lemma set_unique [simp]: "set (unique xs) = set xs"
  by (induction xs rule: unique.induct) auto

lemma distinct_unique [simp]: "distinct (unique xs)"
  by (induction xs rule: unique.induct) auto

lemma length_unique_eq_distinct: "length (unique xs) = length xs \<longleftrightarrow> distinct xs"
  by (metis card_distinct distinct_card distinct_unique set_unique)

lemma length_unique_map_eq_distinct: "length (unique (map f xs)) = length xs \<longleftrightarrow> distinct (map f xs)"
  using length_unique_eq_distinct [of "map f xs"] by simp

text \<open>\<open>Array.prototype.sort\<close> with a comparator: the stable sort.\<close>

fun insert_by :: "('a \<Rightarrow> 'a \<Rightarrow> int) \<Rightarrow> 'a \<Rightarrow> 'a list \<Rightarrow> 'a list" where
  "insert_by cmp x [] = [x]"
| "insert_by cmp x (y # ys) = (if cmp x y \<le> 0 then x # y # ys else y # insert_by cmp x ys)"

fun sort_by :: "('a \<Rightarrow> 'a \<Rightarrow> int) \<Rightarrow> 'a list \<Rightarrow> 'a list" where
  "sort_by cmp [] = []"
| "sort_by cmp (x # xs) = insert_by cmp x (sort_by cmp xs)"

lemma mset_insert_by [simp]: "mset (insert_by cmp x ys) = add_mset x (mset ys)"
  by (induction ys) auto

lemma mset_sort_by [simp]: "mset (sort_by cmp xs) = mset xs"
  by (induction xs) auto

lemma set_sort_by [simp]: "set (sort_by cmp xs) = set xs"
  by (metis mset_sort_by set_mset_mset)

lemma length_sort_by [simp]: "length (sort_by cmp xs) = length xs"
  by (metis mset_sort_by size_mset)

lemma set_insert_by [simp]: "set (insert_by cmp x ys) = insert x (set ys)"
  by (metis mset_insert_by set_mset_add_mset_insert set_mset_mset)

text \<open>
  The result of \<open>sort\<close> is determined by the language only for a consistent comparator, which is
  the contract below.
\<close>

locale comparator =
  fixes cmp :: "'a \<Rightarrow> 'a \<Rightarrow> int"
  assumes cmp_total: "cmp x y \<le> 0 \<or> cmp y x \<le> 0"
    and cmp_trans: "cmp x y \<le> 0 \<Longrightarrow> cmp y z \<le> 0 \<Longrightarrow> cmp x z \<le> 0"
begin

lemma sorted_insert_by:
  "sorted_wrt (\<lambda>x y. cmp x y \<le> 0) ys \<Longrightarrow> sorted_wrt (\<lambda>x y. cmp x y \<le> 0) (insert_by cmp x ys)"
proof (induction ys)
  case (Cons a ys)
  then show ?case
    using cmp_total [of x a] by (auto intro: cmp_trans)
qed simp

lemma sorted_sort_by: "sorted_wrt (\<lambda>x y. cmp x y \<le> 0) (sort_by cmp xs)"
  by (induction xs) (auto intro: sorted_insert_by)

lemma hd_sort_by_least:
  assumes "sort_by cmp xs = y # ys" and "x \<in> set xs"
  shows "cmp y x \<le> 0"
proof -
  have "sorted_wrt (\<lambda>x y. cmp x y \<le> 0) (y # ys)"
    using sorted_sort_by [of xs] assms(1) by simp
  moreover have "x \<in> set (y # ys)"
    using assms by (metis set_sort_by)
  ultimately show ?thesis
    using cmp_total [of y y] by auto
qed

lemma sort_by_sorted_id: "sorted_wrt (\<lambda>x y. cmp x y \<le> 0) xs \<Longrightarrow> sort_by cmp xs = xs"
proof (induction xs)
  case (Cons x xs)
  then show ?case by (cases xs) auto
qed simp

lemma sort_by_idem: "sort_by cmp (sort_by cmp xs) = sort_by cmp xs"
  by (rule sort_by_sorted_id) (rule sorted_sort_by)

text \<open>Sorted lists with the same elements are equal when equal keys mean equal elements.\<close>

lemma sorted_unique:
  assumes "sorted_wrt (\<lambda>x y. cmp x y \<le> 0) xs" and "sorted_wrt (\<lambda>x y. cmp x y \<le> 0) ys"
    and "mset xs = mset ys"
    and "\<And>x y. x \<in> set xs \<Longrightarrow> y \<in> set xs \<Longrightarrow> cmp x y \<le> 0 \<Longrightarrow> cmp y x \<le> 0 \<Longrightarrow> x = y"
  shows "xs = ys"
  using assms
proof (induction xs arbitrary: ys)
  case (Cons x xs)
  from Cons.prems(3) obtain y ys' where ys: "ys = y # ys'"
    by (cases ys) auto
  have sets: "set (x # xs) = set (y # ys')"
    using Cons.prems(3) ys by (metis mset_eq_setD)
  have "x = y"
  proof (rule Cons.prems(4))
    show "x \<in> set (x # xs)" by simp
    show "y \<in> set (x # xs)" using sets by simp
    show "cmp x y \<le> 0"
      using Cons.prems(1) sets cmp_total [of x x] by (cases "y = x") auto
    show "cmp y x \<le> 0"
      using Cons.prems(2) ys sets cmp_total [of x x] by (cases "y = x") auto
  qed
  moreover have "xs = ys'"
    by (rule Cons.IH) (use Cons.prems ys \<open>x = y\<close> in auto)
  ultimately show ?case using ys by simp
qed simp

lemma sort_by_perm:
  assumes "mset xs = mset ys"
    and "\<And>x y. x \<in> set xs \<Longrightarrow> y \<in> set xs \<Longrightarrow> cmp x y \<le> 0 \<Longrightarrow> cmp y x \<le> 0 \<Longrightarrow> x = y"
  shows "sort_by cmp xs = sort_by cmp ys"
  by (rule sorted_unique [OF sorted_sort_by sorted_sort_by]) (use assms in auto)

end

text \<open>Code-unit order of strings, the \<open><\<close> of the language.\<close>

fun jstr_less :: "jstring \<Rightarrow> jstring \<Rightarrow> bool" where
  "jstr_less _ [] = False"
| "jstr_less [] (_ # _) = True"
| "jstr_less (x # xs) (y # ys) = (x < y \<or> (x = y \<and> jstr_less xs ys))"

lemma jstr_less_irrefl [simp]: "\<not> jstr_less s s"
  by (induction s) auto

lemma jstr_less_trans: "jstr_less s t \<Longrightarrow> jstr_less t u \<Longrightarrow> jstr_less s u"
proof (induction s t arbitrary: u rule: jstr_less.induct)
  case (2 y ys) then show ?case by (cases u) auto
next
  case (3 x xs y ys) then show ?case by (cases u) auto
qed simp

lemma jstr_less_linear: "s = t \<or> jstr_less s t \<or> jstr_less t s"
proof (induction s t rule: jstr_less.induct)
  case (1 s) then show ?case by (cases s) auto
qed auto

definition jstr_cmp :: "jstring \<Rightarrow> jstring \<Rightarrow> int" where
  "jstr_cmp s t = (if jstr_less s t then -1 else if jstr_less t s then 1 else 0)"

lemma jstr_cmp_le_iff: "jstr_cmp s t \<le> 0 \<longleftrightarrow> s = t \<or> jstr_less s t"
  unfolding jstr_cmp_def using jstr_less_linear [of s t] jstr_less_trans [of s t s] by auto

interpretation jstr_order: comparator jstr_cmp
proof unfold_locales
  show "jstr_cmp x y \<le> 0 \<or> jstr_cmp y x \<le> 0" for x y
    using jstr_less_linear [of x y] by (auto simp: jstr_cmp_le_iff)
  show "jstr_cmp x y \<le> 0 \<Longrightarrow> jstr_cmp y z \<le> 0 \<Longrightarrow> jstr_cmp x z \<le> 0" for x y z
    using jstr_less_trans [of x y z] by (auto simp: jstr_cmp_le_iff)
qed

section \<open>Instants\<close>

text \<open>
  The state stores instants as strings. \<open>Stamp ms\<close> stands for \<open>new Date(ms).toISOString()\<close>, which
  \<open>Date.parse\<close> reads back; \<open>BadStamp s\<close> for a string that \<open>Date.parse\<close> reads as \<open>NaN\<close>.
\<close>

datatype timestamp = Stamp int | BadStamp jstring

fun date_parse :: "timestamp \<Rightarrow> int option" where
  "date_parse (Stamp ms) = Some ms"
| "date_parse (BadStamp _) = None"

text \<open>
  \<open>new Date(ms).toISOString()\<close> of a number: fractions of a millisecond are cut off; \<open>None\<close> when it
  throws, outside the range of dates.
\<close>

definition iso_string :: "rat \<Rightarrow> timestamp option" where
  "iso_string ms = (if \<bar>ms\<bar> > 8640000000000000 then None else Some (Stamp (if ms < 0 then \<lceil>ms\<rceil> else \<lfloor>ms\<rfloor>)))"

lemma iso_string_int: "iso_string (of_int n) = Some x \<Longrightarrow> x = Stamp n"
  by (auto simp: iso_string_def split: if_splits)

section \<open>Transition systems\<close>

inductive reach :: "('s \<Rightarrow> bool) \<Rightarrow> ('s \<Rightarrow> 's \<Rightarrow> bool) \<Rightarrow> 's \<Rightarrow> bool"
  for init :: "'s \<Rightarrow> bool" and step :: "'s \<Rightarrow> 's \<Rightarrow> bool" where
  reach_init: "init s \<Longrightarrow> reach init step s"
| reach_step: "reach init step s \<Longrightarrow> step s t \<Longrightarrow> reach init step t"

locale transition_system =
  fixes init :: "'s \<Rightarrow> bool" and step :: "'s \<Rightarrow> 's \<Rightarrow> bool" and inv :: "'s \<Rightarrow> bool"
  assumes init_inv: "init s \<Longrightarrow> inv s"
    and step_inv: "inv s \<Longrightarrow> step s t \<Longrightarrow> inv t"
begin

lemma reach_inv: "reach init step s \<Longrightarrow> inv s"
  by (induction rule: reach.induct) (auto intro: init_inv step_inv)

lemma steps_inv: "step\<^sup>*\<^sup>* s t \<Longrightarrow> inv s \<Longrightarrow> inv t"
  by (induction rule: rtranclp_induct) (auto intro: step_inv)

lemma reach_steps: "step\<^sup>*\<^sup>* s t \<Longrightarrow> reach init step s \<Longrightarrow> reach init step t"
  by (induction rule: rtranclp_induct) (auto intro: reach_step)

end

section \<open>Leased queues\<close>

text \<open>
  The contract of a work queue with leases: \<open>claim now tok s\<close> takes a piece of work under a fresh
  token, or nothing; \<open>valid s i tok now\<close> is the check that a worker's write makes. A claim makes its
  own token the only valid one, until \<open>until now\<close>; it never takes work under a live lease, and it
  leaves the other leases alone.
\<close>

locale leased_queue =
  fixes inv :: "'s \<Rightarrow> bool" and claim :: "int \<Rightarrow> 'tok \<Rightarrow> 's \<Rightarrow> ('s \<times> 'id) option"
    and valid :: "'s \<Rightarrow> 'id \<Rightarrow> 'tok \<Rightarrow> int \<Rightarrow> bool" and until :: "int \<Rightarrow> int"
  assumes claim_inv: "inv s \<Longrightarrow> claim now tok s = Some (t, i) \<Longrightarrow> inv t"
    and claim_valid: "inv s \<Longrightarrow> claim now tok s = Some (t, i) \<Longrightarrow> valid t i tok' now' \<longleftrightarrow> tok' = tok \<and> now' < until now"
    and claim_free: "inv s \<Longrightarrow> claim now tok s = Some (t, i) \<Longrightarrow> \<not> valid s i tok' now"
    and claim_other: "inv s \<Longrightarrow> claim now tok s = Some (t, i) \<Longrightarrow> i' \<noteq> i \<Longrightarrow> valid t i' tok' now' \<longleftrightarrow> valid s i' tok' now'"
    and valid_earlier: "valid s i tok now \<Longrightarrow> now' \<le> now \<Longrightarrow> valid s i tok now'"
begin

fun claims :: "(int \<times> 'tok) list \<Rightarrow> 's \<Rightarrow> 's" where
  "claims [] s = s"
| "claims ((now, tok) # cs) s = claims cs (case claim now tok s of None \<Rightarrow> s | Some (t, _) \<Rightarrow> t)"

lemma fenced: "inv s \<Longrightarrow> claim now tok s = Some (t, i) \<Longrightarrow> tok' \<noteq> tok \<Longrightarrow> \<not> valid t i tok' now'"
  by (simp add: claim_valid)

lemma lease_kept:
  assumes "inv s" and "valid s i tok now" and "now' \<le> now" and "claim now' tok' s = Some (t, i')"
  shows "valid t i tok now"
proof -
  have "i \<noteq> i'" using claim_free [OF assms(1,4), of tok] valid_earlier [OF assms(2,3)] by auto
  then show ?thesis using claim_other [OF assms(1,4)] assms(2) by blast
qed

lemma lease_survives:
  "inv s \<Longrightarrow> valid s i tok now \<Longrightarrow> \<forall>(n, _) \<in> set cs. n \<le> now \<Longrightarrow> valid (claims cs s) i tok now"
proof (induction cs arbitrary: s)
  case (Cons c cs)
  obtain n tok' where c: "c = (n, tok')" by (cases c)
  show ?case
  proof (cases "claim n tok' s")
    case None
    then show ?thesis using Cons c by simp
  next
    case (Some r)
    then obtain t i' where r: "claim n tok' s = Some (t, i')" by (cases r) auto
    from lease_kept [OF Cons.prems(1,2) _ r] Cons.prems(3) c have "valid t i tok now" by simp
    from Cons.IH [OF claim_inv [OF Cons.prems(1) r] this] Cons.prems(3) show ?thesis by (simp add: c r)
  qed
qed simp

end

end
