(* ===== verification/Contracts.thy ===== *)
theory Contracts
  imports Prelude
begin

text \<open>
  The data model of \<open>packages/contracts/src/index.ts\<close>: enumerations as datatypes, interfaces as
  records, optional fields as \<open>option\<close>. A field keeps the source's name behind a prefix for its
  record. The arrays that \<open>ensureState\<close> of \<open>packages/core/src/index.ts\<close> fills in when an older
  document lacks them are plain lists here.

  Left out, because no modelled operation reads them: the display metadata of a principal; the
  \<open>provenance\<close> and \<open>authoring\<close> notes of a release; the server-owned acquisition fields of a job
  (\<open>openclawSource\<close>, \<open>sourceAcquisition\<close>, \<open>sourceCatalogAliases\<close>); the details object of an audit
  event; and of the state the collections owned by other packages (\<open>drafts\<close>, \<open>builderSessions\<close>, the
  \<open>feeds\<close> of the transparent proxy) and the document's schema numbers.
\<close>

datatype role = Owner | Admin | Publisher | Reader | Worker | UnknownRole jstring

text \<open>The \<open>identity\<close> mark that the authentication layer may add to a principal.\<close>

datatype identity = UserIdentity | WorkerIdentity | OtherIdentity

record principal =
  pr_organizationId :: jstring
  pr_subject :: jstring
  pr_roles :: "role list"
  pr_namespaces :: "jstring list option"
  pr_scopes :: "jstring list option"
  pr_identity :: "identity option"

record stored_blob =
  blob_key :: jstring
  blob_digest :: jstring
  blob_size :: nat

datatype distribution_state = Pending | Approved | Quarantined | ScanError | Revoked

datatype scanner_id = CiscoSkillScanner | NvidiaSkillspector | Skillsguard

datatype severity = Info | Low | Medium | High | Critical

datatype scanner_mode = Disabled | Advisory | Required

record scanner_policy =
  sp_id :: scanner_id
  sp_mode :: scanner_mode
  sp_blockSeverities :: "severity list"
  sp_timeoutSeconds :: rat
  sp_configuration :: "jsval option"

datatype hook_event =
  IngestValidate | ArtifactEvaluate | PackEvaluate | ArtifactApproved | ArtifactQuarantined

record hook_configuration =
  hk_id :: jstring
  hk_event :: hook_event
  hk_mode :: scanner_mode
  hk_url :: "jstring option"
  hk_secretEnv :: "jstring option"
  hk_timeoutSeconds :: rat

record policy =
  po_revision :: jstring
  po_scanners :: "scanner_policy list"
  po_allowUnscanned :: bool
  po_evidenceMaxAgeSeconds :: rat
  po_hooks :: "hook_configuration list"

record finding =
  fi_ruleId :: jstring
  fi_fingerprint :: jstring
  fi_severity :: severity
  fi_category :: jstring
  fi_message :: jstring
  fi_file :: "jstring option"
  fi_line :: "rat option"
  fi_redactedEvidence :: "jstring option"

datatype scan_status = Completed | Degraded | Error | Timeout | Unsupported

record coverage =
  filesEnumerated :: nat
  filesAnalyzed :: nat
  filesSkipped :: nat
  filesUnsupported :: nat
  limitations :: "jstring list"
  externalDestinations :: "jstring list"

record scan_result =
  sr_id :: jstring
  sr_organizationId :: jstring
  sr_jobId :: jstring
  sr_artifactDigest :: jstring
  sr_policyRevision :: jstring
  sr_scannerId :: scanner_id
  sr_engineVersion :: jstring
  sr_rulesRevision :: jstring
  sr_configurationHash :: jstring
  sr_status :: scan_status
  sr_findings :: "finding list"
  sr_coverage :: coverage
  sr_createdAt :: timestamp
  sr_durationMs :: nat
  sr_error :: "jstring option"

datatype upstream_kind = GithubUpstream | RegistryUpstream | SkillsShUpstream

record upstream =
  up_id :: jstring
  up_organizationId :: jstring
  up_name :: jstring
  up_kind :: upstream_kind
  up_enabled :: bool
  up_repositories :: "jstring list option"
  up_baseUrl :: "jstring option"
  up_credentialEnv :: "jstring option"
  up_namespace :: jstring
  up_configRevision :: "jstring option"

record import_request =
  im_upstreamId :: jstring
  im_repository :: "jstring option"
  im_path :: jstring
  im_ref :: "jstring option"
  im_name :: jstring
  im_version :: jstring
  im_externalId :: "jstring option"
  im_externalSourceType :: "jstring option"
  im_externalSnapshotHash :: "jstring option option"
  im_feedId :: "jstring option"
  im_feedName :: "jstring option"
  im_feedConfigRevision :: "jstring option"
  im_sourceReference :: "jstring option"
  im_sourceCatalogId :: "jstring option"
  im_sourceCatalogConfigRevision :: "jstring option"
  im_sourceCatalogProviderVersion :: "jstring option"

record skill_version =
  sk_id :: jstring
  sk_organizationId :: jstring
  sk_name :: jstring
  sk_skillName :: jstring
  sk_version :: jstring
  sk_description :: jstring
  sk_artifact :: stored_blob
  sk_state :: distribution_state
  sk_policyRevision :: jstring
  sk_createdAt :: timestamp
  sk_approvedAt :: "timestamp option"
  sk_fileCount :: nat
  sk_scanIds :: "jstring list"

record pack_member =
  pm_resourceId :: jstring
  pm_name :: jstring
  pm_version :: jstring
  pm_digest :: jstring

datatype pack_state = PackApproved | PackRevoked

record pack_version =
  pk_id :: jstring
  pk_organizationId :: jstring
  pk_name :: jstring
  pk_version :: jstring
  pk_description :: jstring
  pk_members :: "pack_member list"
  pk_manifestDigest :: jstring
  pk_state :: pack_state
  pk_createdAt :: timestamp
  pk_policyRevision :: jstring

datatype resource_kind = SkillKind | PackKind

record resolution =
  rs_kind :: resource_kind
  rs_resourceId :: jstring
  rs_organizationId :: jstring
  rs_name :: jstring
  rs_version :: jstring
  rs_digest :: jstring
  rs_members :: "skill_version list"

record install_authorization =
  au_id :: jstring
  au_organizationId :: jstring
  au_subject :: jstring
  au_resolution :: resolution
  au_expiresAt :: timestamp

record install_receipt_ticket =
  ti_id :: jstring
  ti_organizationId :: jstring
  ti_subject :: jstring
  ti_authorizationId :: jstring
  ti_resolution :: resolution
  ti_issuedAt :: timestamp
  ti_expiresAt :: timestamp

datatype receipt_agent = Codex | Claude | Universal
datatype receipt_platform = Windows | Macos | Linux | OtherPlatform

record install_receipt =
  re_id :: jstring
  re_organizationId :: jstring
  re_subject :: jstring
  re_authorizationId :: jstring
  re_ticketId :: jstring
  re_resolution :: resolution
  re_changed :: bool
  re_agent :: receipt_agent
  re_platform :: receipt_platform
  re_clientVersion :: jstring
  re_createdAt :: timestamp
  re_expiresAt :: timestamp

record transfer_grant =
  gr_id :: jstring
  gr_organizationId :: jstring
  gr_subject :: jstring
  gr_resourceId :: jstring
  gr_authorizationId :: jstring
  gr_digest :: jstring
  gr_expiresAt :: timestamp

datatype job_kind = ScanJob | ImportJob
datatype job_state = Queued | Running | JobCompleted | JobFailed

record job =
  jb_id :: jstring
  jb_organizationId :: jstring
  jb_kind :: job_kind
  jb_state :: job_state
  jb_resourceId :: "jstring option"
  jb_artifact :: "stored_blob option"
  jb_policyRevision :: jstring
  jb_policy :: policy
  jb_import :: "import_request option"
  jb_upstream :: "upstream option"
  jb_createdAt :: timestamp
  jb_updatedAt :: timestamp
  jb_attempts :: nat
  jb_leaseToken :: "jstring option"
  jb_leaseExpiresAt :: "timestamp option"
  jb_error :: "jstring option"

record audit_event =
  ae_id :: jstring
  ae_organizationId :: jstring
  ae_subject :: jstring
  ae_action :: string
  ae_resourceId :: "jstring option"
  ae_createdAt :: timestamp

record registry_state =
  st_skills :: "skill_version list"
  st_packs :: "pack_version list"
  st_jobs :: "job list"
  st_scans :: "scan_result list"
  st_policy :: policy
  st_upstreams :: "upstream list"
  st_authorizations :: "install_authorization list"
  st_installReceiptTickets :: "install_receipt_ticket list"
  st_installReceipts :: "install_receipt list"
  st_grants :: "transfer_grant list"
  st_audit :: "audit_event list"

text \<open>
  \<open>RegistryApiError\<close>: the code, the HTTP status and the retry flag; the human-readable message and
  the details object are left out.
\<close>

datatype api_error = RegistryApiError (err_code: string) (err_status: nat) (err_retryable: bool)

abbreviation unavailable :: api_error where
  "unavailable \<equiv> RegistryApiError ''NOT_AVAILABLE'' 404 False"

type_synonym 'a api = "api_error + 'a"

text \<open>
  What the code takes from the runtime or from an injected adapter and the repository does not
  define: the collation order of the host's locale (\<open>String.prototype.localeCompare\<close>), SHA-256
  (\<open>digestBytes\<close> wraps Web Crypto), \<open>Date.parse\<close> on a string of unknown origin (\<open>None\<close> is
  \<open>NaN\<close>; formats other than the ISO one are implementation-defined), the conversion of a string
  to the nearest double (\<open>Number(s)\<close>), the WHATWG URL parser (\<open>None\<close> when \<open>new URL\<close> throws) and the
  lower-case mapping of Unicode (\<open>toLowerCase\<close>, and \<open>toLocaleLowerCase('en-US')\<close>, which has no mapping of
  its own), and the ISO spelling of an instant (\<open>Date.prototype.toISOString\<close>).
\<close>

record parsed_url =
  url_protocol :: jstring
  url_username :: jstring
  url_password :: jstring
  url_hostname :: jstring
  url_origin :: jstring
  url_port :: jstring
  url_pathname :: jstring
  url_search :: jstring
  url_hash :: jstring

record host =
  localeCompare :: "jstring \<Rightarrow> jstring \<Rightarrow> int"
  digestBytes :: "nat list \<Rightarrow> jstring"
  dateParse :: "jstring \<Rightarrow> int option"
  stringToNumber :: "jstring \<Rightarrow> jnum"
  parseUrl :: "jstring \<Rightarrow> parsed_url option"
  toLowerCase :: "jstring \<Rightarrow> jstring"
  toISOString :: "int \<Rightarrow> jstring"

end
