(* ===== verification/Access.thy ===== *)
theory Access
  imports Contracts
begin

text \<open>
  Authorization of \<open>packages/core/src/index.ts\<close>: the shape checks on an authenticated principal
  (\<open>assertPrincipal\<close>), roles, namespaces, and the scope language (\<open>hasAnyScope\<close>,
  \<open>requireRouteScopes\<close>, \<open>scopesForRoute\<close>). The principal record is typed, so the \<open>typeof\<close> tests of
  the source are met by construction; a role outside the known five and an identity mark outside
  \<open>user\<close>/\<open>worker\<close> keep a constructor of their own.
\<close>

definition forbidden :: api_error where
  "forbidden = RegistryApiError ''FORBIDDEN'' 403 False"

definition hasRole :: "principal \<Rightarrow> role \<Rightarrow> bool" where
  "hasRole p r \<longleftrightarrow> r \<in> set (pr_roles p)"

definition known_role :: "role \<Rightarrow> bool" where
  "known_role r \<longleftrightarrow> r \<in> {Owner, Admin, Publisher, Reader, Worker}"

definition assertPrincipal :: "principal \<Rightarrow> jstring \<Rightarrow> unit api" where
  "assertPrincipal p org =
     (if trim (pr_subject p) = [] \<or> trim (pr_organizationId p) = []
        then Inl (RegistryApiError ''UNAUTHORIZED'' 401 False)
      else if pr_organizationId p \<noteq> org then Inl forbidden
      else if pr_identity p = Some OtherIdentity then Inl forbidden
      else if (case pr_namespaces p of None \<Rightarrow> False | Some ns \<Rightarrow> \<exists>n \<in> set ns. trim n = [])
        then Inl forbidden
      else if (case pr_scopes p of None \<Rightarrow> False | Some ss \<Rightarrow> \<exists>s \<in> set ss. trim s = [])
        then Inl forbidden
      else if pr_roles p = [] \<or> (\<exists>r \<in> set (pr_roles p). \<not> known_role r) then Inl forbidden
      else if pr_identity p = Some UserIdentity \<and> hasRole p Worker then Inl forbidden
      else if pr_identity p = Some WorkerIdentity \<and> \<not> hasRole p Worker then Inl forbidden
      else Inr ())"

definition assertUserPrincipal :: "principal \<Rightarrow> unit api" where
  "assertUserPrincipal p =
     (if pr_identity p = Some WorkerIdentity \<or> hasRole p Worker then Inl forbidden else Inr ())"

text \<open>
  One granted scope against one required scope: equality, or a granted \<open>prefix:*\<close> whose prefix
  (colon included) the required scope starts with.
\<close>

definition scope_covers :: "jstring \<Rightarrow> jstring \<Rightarrow> bool" where
  "scope_covers granted candidate \<longleftrightarrow>
     granted = candidate \<or> (ends_with (js '':*'') granted \<and> starts_with (butlast granted) candidate)"

definition hasAnyScope :: "principal \<Rightarrow> jstring list \<Rightarrow> bool" where
  "hasAnyScope p required =
     (case pr_scopes p of
        None \<Rightarrow> True
      | Some scopes \<Rightarrow>
          (if scopes = [] then False
           else if js ''registry:*'' \<in> set scopes then True
           else (\<exists>granted \<in> set scopes.
                   granted = js ''*'' \<or> (\<exists>candidate \<in> set required. scope_covers granted candidate))))"

definition requireRouteScopes :: "principal \<Rightarrow> jstring list \<Rightarrow> unit api" where
  "requireRouteScopes p required =
     (if required \<noteq> [] \<and> \<not> hasAnyScope p required then Inl forbidden else Inr ())"

definition requireReader :: "principal \<Rightarrow> unit api" where
  "requireReader p =
     (if \<not> hasRole p Reader \<and> \<not> hasRole p Publisher \<and> \<not> hasRole p Admin \<and> \<not> hasRole p Owner
      then Inl forbidden else Inr ())"

definition requirePublisher :: "principal \<Rightarrow> unit api" where
  "requirePublisher p =
     (if \<not> hasRole p Publisher \<and> \<not> hasRole p Admin \<and> \<not> hasRole p Owner then Inl forbidden else Inr ())"

definition requireAdmin :: "principal \<Rightarrow> unit api" where
  "requireAdmin p = (if \<not> hasRole p Admin \<and> \<not> hasRole p Owner then Inl forbidden else Inr ())"

definition requireWorker :: "principal \<Rightarrow> unit api" where
  "requireWorker p = (if \<not> hasRole p Worker then Inl forbidden else Inr ())"

text \<open>The namespace of a name: \<open>@ns/slug\<close> belongs to \<open>@ns\<close>; any other string is its own namespace.\<close>

definition namespace_of :: "jstring \<Rightarrow> jstring" where
  "namespace_of name = (if starts_with (js ''@'') name then hd (split_on 47 name) else name)"

definition canReadNamespace :: "principal \<Rightarrow> jstring \<Rightarrow> bool" where
  "canReadNamespace p name =
     (if hasRole p Owner \<or> hasRole p Admin then True
      else let namespace = namespace_of name in
        if \<not> hasRole p Reader \<and> \<not> hasRole p Publisher then False
        else (case pr_namespaces p of
                None \<Rightarrow> True
              | Some [] \<Rightarrow> True
              | Some ns \<Rightarrow> \<exists>candidate \<in> set ns. candidate = namespace \<or> candidate = drop 1 namespace))"

definition canPublishName :: "principal \<Rightarrow> jstring \<Rightarrow> bool" where
  "canPublishName p name \<longleftrightarrow>
     (hasRole p Owner \<or> hasRole p Admin \<or> hasRole p Publisher) \<and> canReadNamespace p name"

section \<open>The scopes a route needs\<close>

datatype http_method = GET | POST | PUT | PATCH | DELETE

definition seg :: "jstring list \<Rightarrow> nat \<Rightarrow> string \<Rightarrow> bool" where
  "seg segments i s \<longleftrightarrow> i < length segments \<and> segments ! i = js s"

definition scopes_skills :: "http_method \<Rightarrow> jstring list \<Rightarrow> string list option" where
  "scopes_skills m s =
     (if length s = 2 \<or> (length s = 3 \<and> m = GET) then Some [''skills:read'', ''registry:read'']
      else if length s = 4 \<and> (seg s 3 ''files'' \<or> seg s 3 ''file'') then Some [''skills:read'', ''registry:read'']
      else if length s = 4 \<and> seg s 3 ''drafts'' then Some [''skills:write'', ''skills:publish'']
      else if length s = 4 \<and> seg s 3 ''rescan'' then Some [''skills:rescan'', ''skills:write'', ''skills:publish'']
      else if length s = 4 \<and> seg s 3 ''revoke'' then Some [''skills:revoke'', ''skills:write'', ''skills:admin'']
      else None)"

definition scopes_openclaw_feed :: "http_method \<Rightarrow> jstring list \<Rightarrow> string list" where
  "scopes_openclaw_feed m s =
     (if (length s = 3 \<or> (length s = 4 \<and> seg s 3 ''catalog'')) \<and> m = GET then [''registry:read'']
      else if length s = 4 \<and> seg s 3 ''refresh'' \<and> m = POST then [''registry:admin'']
      else if length s = 4 \<and> seg s 3 ''import'' \<and> m = POST then [''proxy:resolve'']
      else [''registry:admin''])"

definition scopes_v1 :: "http_method \<Rightarrow> jstring list \<Rightarrow> string list" where
  "scopes_v1 m s =
     (if seg s 1 ''publish'' then [''skills:publish'', ''skills:write'']
      else if seg s 1 ''drafts'' then [''skills:write'', ''skills:publish'']
      else if seg s 1 ''resolve'' then [''skills:read'', ''packs:read'', ''registry:read'']
      else if seg s 1 ''operations'' then [''jobs:read'', ''registry:read'']
      else if seg s 1 ''install-authorizations'' then
        (if length s = 4 then [''install:validate'', ''artifacts:download'', ''registry:read'']
         else [''install:authorize'', ''artifacts:download'', ''registry:read''])
      else if seg s 1 ''install-receipts'' then [''install:receipt'', ''analytics:write'']
      else if seg s 1 ''analytics'' then [''analytics:read'', ''registry:admin'']
      else if seg s 1 ''directory'' then
        (if length s = 3 \<and> seg s 2 ''import'' then [''imports:create'', ''skills:publish'', ''proxy:resolve'']
         else [''skills:read'', ''registry:read''])
      else if seg s 1 ''artifacts'' then [''artifacts:download'', ''install:read'', ''registry:read'']
      else if seg s 1 ''packs'' then
        (if m = GET then [''packs:read'', ''registry:read''] else [''packs:publish'', ''packs:write''])
      else if seg s 1 ''policy'' then
        (if m = GET then [''policy:read'', ''registry:read''] else [''policy:write'', ''policy:admin''])
      else if seg s 1 ''scans'' then [''scans:read'', ''registry:read'']
      else if seg s 1 ''feeds'' \<and> seg s 2 ''skills'' then scopes_openclaw_feed m s
      else if seg s 1 ''feeds'' then
        (if m = GET then [''registry:read''] else [''upstreams:write'', ''upstreams:admin''])
      else if seg s 1 ''upstreams'' then
        (if m = GET then [''upstreams:read'', ''registry:read''] else [''upstreams:write'', ''upstreams:admin''])
      else if seg s 1 ''imports'' then
        [''imports:create'', ''upstreams:write'', ''skills:publish'', ''proxy:resolve'']
      else if seg s 1 ''proxy'' \<and> seg s 2 ''resolve'' then []
      else if seg s 1 ''audit'' then [''audit:read'', ''registry:admin'']
      else [])"

definition scopes_internal_jobs :: "jstring list \<Rightarrow> string list" where
  "scopes_internal_jobs s =
     (if length s = 3 \<and> seg s 2 ''claim'' then [''jobs:claim'']
      else if length s = 4 \<and> seg s 3 ''artifact'' then [''jobs:artifact'', ''jobs:read'']
      else if length s = 4 \<and> seg s 3 ''complete'' then [''jobs:complete'']
      else [''jobs:read''])"

definition scopesForRoute :: "http_method \<Rightarrow> jstring \<Rightarrow> jstring list \<Rightarrow> string list" where
  "scopesForRoute m path s =
     (if path = js ''/v1/me'' then []
      else if path = js ''/v1/capabilities'' then [''registry:read'']
      else if seg s 0 ''v1'' \<and> seg s 1 ''sources'' \<and> m = GET then [''registry:read'']
      else if seg s 0 ''v1'' \<and> seg s 1 ''sources'' \<and> m = POST \<and> (seg s 2 ''resolve'' \<or> seg s 3 ''resolve'')
        then [''proxy:resolve'']
      else if seg s 0 ''v1'' \<and> seg s 1 ''drafts'' \<and> (seg s 3 ''builder-context'' \<or> seg s 3 ''builder-file'')
        then [''skills:builder'']
      else if seg s 0 ''v1'' \<and> seg s 1 ''drafts'' \<and> seg s 3 ''proposals'' \<and> length s = 4 \<and> m = POST
        then [''skills:builder'']
      else case (if seg s 0 ''v1'' \<and> seg s 1 ''skills'' then scopes_skills m s else None) of
        Some r \<Rightarrow> r
      | None \<Rightarrow>
          (if seg s 0 ''v1'' then scopes_v1 m s
           else if seg s 0 ''internal'' \<and> seg s 1 ''jobs'' then scopes_internal_jobs s
           else []))"

section \<open>Facts\<close>

lemma assertPrincipal_InrD:
  assumes "assertPrincipal p org = Inr ()"
  shows "pr_organizationId p = org" and "trim (pr_subject p) \<noteq> []" and "pr_roles p \<noteq> []"
    and "pr_identity p = Some UserIdentity \<Longrightarrow> \<not> hasRole p Worker"
    and "pr_identity p = Some WorkerIdentity \<Longrightarrow> hasRole p Worker"
  using assms by (auto simp: assertPrincipal_def split: if_splits)

lemma canPublishName_reads: "canPublishName p name \<Longrightarrow> canReadNamespace p name"
  by (simp add: canPublishName_def)

lemma canReadNamespace_requireReader: "canReadNamespace p name \<Longrightarrow> requireReader p = Inr ()"
  by (auto simp: canReadNamespace_def requireReader_def Let_def split: if_splits)

lemma namespace_of_scoped: "47 \<notin> set ns \<Longrightarrow> namespace_of (js ''@'' @ ns @ 47 # slug) = js ''@'' @ ns"
  by (simp add: namespace_of_def starts_with_def js_def split_on_append_sep [of 47 "64 # ns" slug, simplified])

text \<open>
  Whether a principal with namespace grants may read a name is decided by the namespace alone:
  the names of two different granted lists never mix.
\<close>

lemma canReadNamespace_restricted:
  assumes "\<not> hasRole p Owner" "\<not> hasRole p Admin" "hasRole p Reader \<or> hasRole p Publisher"
    and "pr_namespaces p = Some ns" "ns \<noteq> []"
  shows "canReadNamespace p name \<longleftrightarrow> namespace_of name \<in> set ns \<or> drop 1 (namespace_of name) \<in> set ns"
proof -
  from assms(5) obtain m ms where "ns = m # ms" by (cases ns) auto
  with assms show ?thesis by (auto simp: canReadNamespace_def Let_def)
qed

lemma scope_covers_refl [simp]: "scope_covers s s"
  by (simp add: scope_covers_def)

lemma hasAnyScope_mono_required:
  "hasAnyScope p r \<Longrightarrow> set r \<subseteq> set r' \<Longrightarrow> hasAnyScope p r'"
  by (auto simp: hasAnyScope_def split: option.splits if_splits)

lemma hasAnyScope_mono_granted:
  assumes "hasAnyScope p r" and "pr_scopes p = Some ss" and "set ss \<subseteq> set ss'"
  shows "hasAnyScope (p\<lparr>pr_scopes := Some ss'\<rparr>) r"
  using assms by (auto simp: hasAnyScope_def split: if_splits)

end
