(* ===== verification/Versions.thy ===== *)
theory Versions
  imports Contracts
begin

text \<open>
  The identifier formats of \<open>packages/core/src/index.ts\<close> (skill names, versions, digests) and the
  version order that resolution uses. Each regular expression is a recogniser on code units.
\<close>

definition stringValue :: "jsval \<Rightarrow> jstring option" where
  "stringValue v = (case v of JStr s \<Rightarrow> if s = [] then None else Some s | _ \<Rightarrow> None)"

section \<open>Formats\<close>

definition is_slug_head :: "nat \<Rightarrow> bool" where
  "is_slug_head c \<longleftrightarrow> is_lower c \<or> is_digit c"

definition is_slug_char :: "nat \<Rightarrow> bool" where
  "is_slug_char c \<longleftrightarrow> is_slug_head c \<or> c = 46 \<or> c = 95 \<or> c = 45"

text \<open>\<open>[a-z0-9][a-z0-9._-]{0,n}\<close>\<close>

fun slug_ok :: "nat \<Rightarrow> jstring \<Rightarrow> bool" where
  "slug_ok n [] = False"
| "slug_ok n (c # cs) = (is_slug_head c \<and> length cs \<le> n \<and> list_all is_slug_char cs)"

text \<open>\<open>^@[a-z0-9][a-z0-9._-]{0,63}\/[a-z0-9][a-z0-9._-]{0,127}$\<close>\<close>

definition skill_name_ok :: "jstring \<Rightarrow> bool" where
  "skill_name_ok s =
     (case s of
        [] \<Rightarrow> False
      | c # r \<Rightarrow> c = 64 \<and> (case split_on 47 r of
            [ns, slug] \<Rightarrow> slug_ok 63 ns \<and> slug_ok 127 slug
          | _ \<Rightarrow> False))"

definition requireSkillName :: "jsval \<Rightarrow> jstring api" where
  "requireSkillName v =
     (case stringValue v of
        None \<Rightarrow> Inl (RegistryApiError ''INVALID_NAME'' 400 False)
      | Some name \<Rightarrow>
          (if \<not> skill_name_ok name then Inl (RegistryApiError ''INVALID_NAME'' 400 False) else Inr name))"

text \<open>\<open>^[A-Za-z0-9][A-Za-z0-9._-]{0,127}$\<close>\<close>

definition normalizeSkillName :: "jsval \<Rightarrow> jstring option" where
  "normalizeSkillName v =
     (case v of
        JStr (c # cs) \<Rightarrow>
          (if (is_slug_head c \<or> is_upper c) \<and> length cs \<le> 127
              \<and> list_all (\<lambda>d. is_slug_char d \<or> is_upper d) cs
           then Some (c # cs) else None)
      | _ \<Rightarrow> None)"

definition is_ident :: "nat \<Rightarrow> bool" where
  "is_ident c \<longleftrightarrow> is_digit c \<or> is_upper c \<or> is_lower c \<or> c = 46 \<or> c = 45"

text \<open>\<open>(?:\+[0-9A-Za-z.-]+)?$\<close> and, before it, \<open>(?:-[0-9A-Za-z.-]+)?\<close>.\<close>

definition build_ok :: "jstring \<Rightarrow> bool" where
  "build_ok s = (case s of [] \<Rightarrow> True | c # b \<Rightarrow> c = 43 \<and> b \<noteq> [] \<and> list_all is_ident b)"

definition pre_ok :: "jstring \<Rightarrow> bool" where
  "pre_ok s =
     (case s of
        [] \<Rightarrow> True
      | c # r \<Rightarrow> if c = 45 then takeWhile is_ident r \<noteq> [] \<and> build_ok (dropWhile is_ident r)
                else build_ok s)"

text \<open>\<open>^(?:0|[1-9]\d*)\.\d+\.\d+\<close> before that.\<close>

definition version_ok :: "jstring \<Rightarrow> bool" where
  "version_ok s =
     (let major = takeWhile is_digit s; r1 = dropWhile is_digit s in
      major \<noteq> [] \<and> (major = [48] \<or> hd major \<noteq> 48) \<and>
      (case r1 of
         [] \<Rightarrow> False
       | d1 # t1 \<Rightarrow> d1 = 46 \<and>
           (let minor = takeWhile is_digit t1; r2 = dropWhile is_digit t1 in
            minor \<noteq> [] \<and>
            (case r2 of
               [] \<Rightarrow> False
             | d2 # t2 \<Rightarrow> d2 = 46 \<and> takeWhile is_digit t2 \<noteq> [] \<and> pre_ok (dropWhile is_digit t2)))))"

definition requireVersion :: "jsval \<Rightarrow> jstring api" where
  "requireVersion v =
     (case stringValue v of
        None \<Rightarrow> Inl (RegistryApiError ''INVALID_VERSION'' 400 False)
      | Some version \<Rightarrow>
          (if \<not> version_ok version then Inl (RegistryApiError ''INVALID_VERSION'' 400 False)
           else Inr version))"

definition is_hex :: "nat \<Rightarrow> bool" where
  "is_hex c \<longleftrightarrow> is_digit c \<or> (97 \<le> c \<and> c \<le> 102)"

definition isDigest :: "jstring \<Rightarrow> bool" where
  "isDigest s \<longleftrightarrow> starts_with (js ''sha256:'') s \<and> length s = 71 \<and> list_all is_hex (drop 7 s)"

section \<open>Version order\<close>

text \<open>
  \<open>Number(part)\<close> for the parts a version can have: decimal digits, or \<open>NaN\<close> (\<open>None\<close>) as soon as
  the part holds another character (the \<open>+\<close> of build metadata); the empty string is 0. Values
  beyond \<open>2^53\<close> are not rounded.
\<close>

definition digits_value :: "jstring \<Rightarrow> nat" where
  "digits_value s = foldl (\<lambda>n c. 10 * n + (c - 48)) 0 s"

definition js_Number :: "jstring \<Rightarrow> nat option" where
  "js_Number s = (if list_all is_digit s then Some (digits_value s) else None)"

record parsed_version =
  pv_nums :: "nat option list"
  pv_pre :: jstring

definition parse_version :: "jstring \<Rightarrow> parsed_version" where
  "parse_version v =
     (let parts = split_on 45 v; main = hd parts;
          pre = (case tl parts of [] \<Rightarrow> [] | p # _ \<Rightarrow> p)
      in \<lparr>pv_nums = map js_Number (split_on 46 main), pv_pre = pre\<rparr>)"

text \<open>\<open>nums[index] || 0\<close>: a missing entry and \<open>NaN\<close> both read as 0.\<close>

definition num_at :: "parsed_version \<Rightarrow> nat \<Rightarrow> int" where
  "num_at v i =
     (if i < length (pv_nums v) then (case pv_nums v ! i of None \<Rightarrow> 0 | Some n \<Rightarrow> int n) else 0)"

definition compareVersions :: "host \<Rightarrow> jstring \<Rightarrow> jstring \<Rightarrow> int" where
  "compareVersions h a b =
     (let left = parse_version a; right = parse_version b in
      if num_at left 0 \<noteq> num_at right 0 then num_at left 0 - num_at right 0
      else if num_at left 1 \<noteq> num_at right 1 then num_at left 1 - num_at right 1
      else if num_at left 2 \<noteq> num_at right 2 then num_at left 2 - num_at right 2
      else if pv_pre left = [] \<and> pv_pre right \<noteq> [] then 1
      else if pv_pre left \<noteq> [] \<and> pv_pre right = [] then -1
      else localeCompare h (pv_pre left) (pv_pre right))"

definition chooseVersion :: "host \<Rightarrow> ('a \<Rightarrow> jstring) \<Rightarrow> 'a list \<Rightarrow> jstring option \<Rightarrow> 'a option" where
  "chooseVersion h ver candidates version =
     (let matching = (case version of
                        None \<Rightarrow> candidates
                      | Some v \<Rightarrow> if v = [] then candidates else filter (\<lambda>c. ver c = v) candidates)
      in (case sort_by (\<lambda>a b. compareVersions h (ver b) (ver a)) matching of
            [] \<Rightarrow> None
          | c # _ \<Rightarrow> Some c))"

section \<open>Facts\<close>

lemma stringValue_nonempty: "stringValue v = Some s \<Longrightarrow> s \<noteq> []"
  by (auto simp: stringValue_def split: jsval.splits if_splits)

lemma requireVersion_ok: "requireVersion v = Inr s \<Longrightarrow> version_ok s \<and> s \<noteq> []"
  by (auto simp: requireVersion_def dest: stringValue_nonempty split: option.splits if_splits)

lemma requireSkillName_ok: "requireSkillName v = Inr s \<Longrightarrow> skill_name_ok s"
  by (auto simp: requireSkillName_def split: option.splits if_splits)

lemma slug_ok_no_slash: "slug_ok n s \<Longrightarrow> 47 \<notin> set s"
proof (cases s)
  case (Cons c cs)
  assume "slug_ok n s"
  with Cons show ?thesis
    by (auto simp: list_all_iff is_slug_char_def is_slug_head_def is_lower_def is_digit_def)
qed simp

text \<open>A well-formed name is \<open>@namespace/slug\<close> with exactly one slash.\<close>

lemma skill_name_ok_parts:
  assumes "skill_name_ok s"
  obtains ns slug where "s = 64 # ns @ 47 # slug" "slug_ok 63 ns" "slug_ok 127 slug"
proof -
  obtain r where s: "s = 64 # r"
    using assms by (auto simp: skill_name_ok_def split: list.splits)
  obtain ns slug where p: "split_on 47 r = [ns, slug]" "slug_ok 63 ns" "slug_ok 127 slug"
    using assms s by (auto simp: skill_name_ok_def split: list.splits)
  have "47 \<in> set r"
    using p(1) split_on_single [of 47 r] by auto
  then obtain u v where r: "r = u @ 47 # v" "47 \<notin> set u"
    by (metis split_list_first)
  then have "split_on 47 v = [slug]" "u = ns"
    using p(1) split_on_append_sep [OF r(2)] by auto
  moreover from this have "v = slug"
  proof (cases "47 \<in> set v")
    case True
    then obtain u' v' where "v = u' @ 47 # v'" "47 \<notin> set u'" by (metis split_list_first)
    with \<open>split_on 47 v = [slug]\<close> show ?thesis
      using split_on_append_sep [of 47 u' v'] split_on_nonempty [of 47 v'] by auto
  qed (use split_on_single [of 47 v] in auto)
  ultimately show ?thesis using that s r p by blast
qed

lemma chooseVersion_in:
  assumes "chooseVersion h ver cs v = Some c"
  shows "c \<in> set cs" and "v = Some w \<Longrightarrow> w \<noteq> [] \<Longrightarrow> ver c = w"
proof -
  let ?m = "case v of None \<Rightarrow> cs | Some w \<Rightarrow> if w = [] then cs else filter (\<lambda>c. ver c = w) cs"
  obtain ys where "sort_by (\<lambda>a b. compareVersions h (ver b) (ver a)) ?m = c # ys"
    using assms unfolding chooseVersion_def Let_def by (auto split: list.splits)
  then have "c \<in> set ?m"
    using set_sort_by [of "\<lambda>a b. compareVersions h (ver b) (ver a)" ?m] by (metis list.set_intros(1))
  then show "c \<in> set cs" and "v = Some w \<Longrightarrow> w \<noteq> [] \<Longrightarrow> ver c = w"
    by (auto split: option.splits if_splits)
qed

lemma chooseVersion_None_iff:
  "chooseVersion h ver cs None = None \<longleftrightarrow> cs = []"
proof -
  have "sort_by (\<lambda>a b. compareVersions h (ver b) (ver a)) cs = [] \<longleftrightarrow> cs = []"
    by (metis length_0_conv length_sort_by)
  then show ?thesis by (cases cs) (auto simp: chooseVersion_def split: list.splits)
qed

text \<open>
  The order is a total preorder whenever the host's collation is one: it compares, in turn, three
  numbers, whether there is a pre-release, and the pre-release.
\<close>

definition rank :: "jstring \<Rightarrow> int \<times> int \<times> int \<times> bool \<times> jstring" where
  "rank v = (let p = parse_version v in (num_at p 0, num_at p 1, num_at p 2, pv_pre p = [], pv_pre p))"

lemma compareVersions_le_iff:
  "compareVersions h a b \<le> 0 \<longleftrightarrow>
     (case (rank a, rank b) of ((a0, a1, a2, ar, ap), (b0, b1, b2, br, bp)) \<Rightarrow>
        a0 < b0 \<or> (a0 = b0 \<and> (a1 < b1 \<or> (a1 = b1 \<and> (a2 < b2 \<or> (a2 = b2 \<and>
          ((\<not> ar \<and> br) \<or> (ar = br \<and> localeCompare h ap bp \<le> 0))))))))"
  by (auto simp: compareVersions_def rank_def Let_def)

lemma comparator_compareVersions:
  assumes "comparator (localeCompare h)"
  shows "comparator (\<lambda>a b. compareVersions h (ver b) (ver a))"
proof
  fix x y z
  have total: "localeCompare h p q \<le> 0 \<or> localeCompare h q p \<le> 0" for p q
    by (rule comparator.cmp_total [OF assms])
  have trans: "localeCompare h p q \<le> 0 \<Longrightarrow> localeCompare h q r \<le> 0 \<Longrightarrow> localeCompare h p r \<le> 0" for p q r
    by (rule comparator.cmp_trans [OF assms])
  show "compareVersions h (ver y) (ver x) \<le> 0 \<or> compareVersions h (ver x) (ver y) \<le> 0"
    using total [of "pv_pre (parse_version (ver x))" "pv_pre (parse_version (ver y))"]
    by (auto simp: compareVersions_le_iff rank_def Let_def)
  assume "compareVersions h (ver y) (ver x) \<le> 0" "compareVersions h (ver z) (ver y) \<le> 0"
  then show "compareVersions h (ver z) (ver x) \<le> 0"
    using trans [of "pv_pre (parse_version (ver z))" "pv_pre (parse_version (ver y))"
        "pv_pre (parse_version (ver x))"]
    by (auto simp: compareVersions_le_iff rank_def Let_def)
qed

lemma chooseVersion_greatest:
  assumes "comparator (localeCompare h)" and "chooseVersion h ver cs None = Some c" and "d \<in> set cs"
  shows "compareVersions h (ver d) (ver c) \<le> 0"
proof -
  obtain ys where "sort_by (\<lambda>a b. compareVersions h (ver b) (ver a)) cs = c # ys"
    using assms(2) by (auto simp: chooseVersion_def split: list.splits)
  then show ?thesis
    using comparator.hd_sort_by_least [OF comparator_compareVersions [OF assms(1)] _ assms(3)] by blast
qed

text \<open>
  Build metadata makes the patch number \<open>NaN\<close>, which counts as 0: the order is not that of semantic
  versions.
\<close>

lemma compareVersions_build_metadata: "compareVersions h (js ''1.0.9+x'') (js ''1.0.1'') < 0"
  by code_simp

end
