(* ===== verification/Admission.thy ===== *)
theory Admission
  imports Contracts
begin

text \<open>
  The admission gate of \<open>packages/core/src/index.ts\<close>: \<open>evaluatePolicy\<close> turns scanner evidence into
  a distribution state, \<open>skillCurrentlyApproved\<close> re-evaluates it at every use, and
  \<open>getCurrentSkillAdmission\<close> explains it to the catalog. The abstract specification
  \<open>policy_admits\<close> says when evidence admits a release, without the order in which the code looks at
  it; \<open>evaluatePolicy\<close> is shown to implement it.
\<close>

section \<open>Evidence\<close>

definition timestampExpired :: "timestamp option \<Rightarrow> int \<Rightarrow> bool" where
  "timestampExpired value now =
     (case value of
        None \<Rightarrow> True
      | Some t \<Rightarrow> (case date_parse t of None \<Rightarrow> True | Some ms \<Rightarrow> ms \<le> now))"

definition latestScanForScanner :: "scan_result list \<Rightarrow> scanner_id \<Rightarrow> scan_result option" where
  "latestScanForScanner results sid = find (\<lambda>r. sr_scannerId r = sid) (rev results)"

definition evidenceExpired :: "scan_result \<Rightarrow> rat \<Rightarrow> int \<Rightarrow> bool" where
  "evidenceExpired r maxAge now =
     (case date_parse (sr_createdAt r) of
        None \<Rightarrow> True
      | Some createdAt \<Rightarrow>
          (if createdAt > now then True
           else 0 \<le> maxAge \<and> of_int (now - createdAt) > maxAge * 1000))"

text \<open>\<open>new Date(x)\<close> truncates towards zero and is invalid outside 8.64e15 milliseconds.\<close>

definition time_clip :: "rat \<Rightarrow> int option" where
  "time_clip r =
     (if \<bar>r\<bar> \<le> 8640000000000000 then Some (if 0 \<le> r then \<lfloor>r\<rfloor> else \<lceil>r\<rceil>) else None)"

definition evidenceExpiresAt :: "scan_result \<Rightarrow> rat \<Rightarrow> timestamp option" where
  "evidenceExpiresAt r maxAge =
     (if maxAge < 0 then None
      else (case date_parse (sr_createdAt r) of
              None \<Rightarrow> None
            | Some createdAt \<Rightarrow> map_option Stamp (time_clip (of_int createdAt + maxAge * 1000))))"

section \<open>evaluatePolicy\<close>

datatype admission_reason =
    Current | PolicyChanged | EvidenceMissing | EvidenceStale | EvidenceIncomplete
  | ScanFailed | BlockingFinding | NotApproved distribution_state

record policy_evaluation =
  ev_state :: distribution_state
  ev_error :: "string option"
  ev_reason :: admission_reason
  ev_scannerId :: "scanner_id option"
  ev_expiresAt :: "timestamp option"

fun scanner_name :: "scanner_id \<Rightarrow> string" where
  "scanner_name CiscoSkillScanner = ''cisco-skill-scanner''"
| "scanner_name NvidiaSkillspector = ''nvidia-skillspector''"
| "scanner_name Skillsguard = ''skillsguard''"

fun status_name :: "scan_status \<Rightarrow> string" where
  "status_name Completed = ''completed''"
| "status_name Degraded = ''degraded''"
| "status_name Error = ''error''"
| "status_name Timeout = ''timeout''"
| "status_name Unsupported = ''unsupported''"

text \<open>An early return of the loop over the required scanners.\<close>

definition deny :: "distribution_state \<Rightarrow> string \<Rightarrow> admission_reason \<Rightarrow> scanner_id \<Rightarrow>
    timestamp option \<Rightarrow> policy_evaluation" where
  "deny state what reason sid expiresAt =
     \<lparr>ev_state = state, ev_error = Some (''Required scanner '' @ scanner_name sid @ what),
      ev_reason = reason, ev_scannerId = Some sid, ev_expiresAt = expiresAt\<rparr>"

definition has_blocking :: "scanner_policy \<Rightarrow> scan_result \<Rightarrow> bool" where
  "has_blocking sc r \<longleftrightarrow> (\<exists>f \<in> set (sr_findings r). fi_severity f \<in> set (sp_blockSeverities sc))"

text \<open>One iteration: \<open>Inl\<close> is the early return, \<open>Inr\<close> the expiry that \<open>rememberExpiry\<close> sees.\<close>

definition check_required ::
    "policy \<Rightarrow> scan_result list \<Rightarrow> nat \<Rightarrow> int \<Rightarrow> scanner_policy \<Rightarrow> policy_evaluation + timestamp option" where
  "check_required po relevant fileCount now sc =
     (case latestScanForScanner relevant (sp_id sc) of
        None \<Rightarrow> Inl (deny ScanError '' did not return evidence'' EvidenceMissing (sp_id sc) None)
      | Some r \<Rightarrow>
          (let expiresAt = evidenceExpiresAt r (po_evidenceMaxAgeSeconds po); c = sr_coverage r in
           if sr_status r \<noteq> Completed
             then Inl (deny ScanError ('' returned '' @ status_name (sr_status r)) ScanFailed (sp_id sc) expiresAt)
           else if evidenceExpired r (po_evidenceMaxAgeSeconds po) now
             then Inl (deny ScanError '' evidence is stale'' EvidenceStale (sp_id sc) expiresAt)
           else if filesEnumerated c = 0 \<or> filesAnalyzed c = 0
             then Inl (deny ScanError '' did not analyze any files'' EvidenceIncomplete (sp_id sc) expiresAt)
           else if filesSkipped c > 0 \<or> filesUnsupported c > 0 \<or> filesAnalyzed c \<noteq> filesEnumerated c
             then Inl (deny ScanError '' did not cover every file'' EvidenceIncomplete (sp_id sc) expiresAt)
           else if has_blocking sc r
             then Inl (deny Quarantined '' reported a blocking finding'' BlockingFinding (sp_id sc) expiresAt)
           else if filesEnumerated c \<noteq> fileCount
             then Inl (deny ScanError '' did not enumerate every artifact file'' EvidenceIncomplete (sp_id sc) expiresAt)
           else Inr expiresAt))"

definition stamp_less :: "timestamp \<Rightarrow> timestamp \<Rightarrow> bool" where
  "stamp_less a b = (case (date_parse a, date_parse b) of (Some x, Some y) \<Rightarrow> x < y | _ \<Rightarrow> False)"

definition rememberExpiry :: "timestamp option \<Rightarrow> timestamp option \<Rightarrow> timestamp option" where
  "rememberExpiry earliest expiresAt =
     (case expiresAt of
        None \<Rightarrow> earliest
      | Some e \<Rightarrow> (case earliest of
            None \<Rightarrow> Some e
          | Some old \<Rightarrow> if stamp_less e old then Some e else earliest))"

fun eval_required ::
    "policy \<Rightarrow> scan_result list \<Rightarrow> nat \<Rightarrow> int \<Rightarrow> timestamp option \<Rightarrow> scanner_policy list \<Rightarrow>
     policy_evaluation + timestamp option" where
  "eval_required po relevant fileCount now earliest [] = Inr earliest"
| "eval_required po relevant fileCount now earliest (sc # scs) =
     bindr (check_required po relevant fileCount now sc)
       (\<lambda>expiresAt. eval_required po relevant fileCount now (rememberExpiry earliest expiresAt) scs)"

definition approved :: "timestamp option \<Rightarrow> policy_evaluation" where
  "approved expiresAt =
     \<lparr>ev_state = Approved, ev_error = None, ev_reason = Current, ev_scannerId = None, ev_expiresAt = expiresAt\<rparr>"

definition relevant_evidence :: "policy \<Rightarrow> scan_result list \<Rightarrow> jstring \<Rightarrow> scan_result list" where
  "relevant_evidence po results digest =
     filter (\<lambda>r. sr_artifactDigest r = digest \<and> sr_policyRevision r = po_revision po) results"

definition required_scanners :: "policy \<Rightarrow> scanner_policy list" where
  "required_scanners po = filter (\<lambda>sc. sp_mode sc = Required) (po_scanners po)"

definition enabled_scanners :: "policy \<Rightarrow> scanner_policy list" where
  "enabled_scanners po = filter (\<lambda>sc. sp_mode sc \<noteq> Disabled) (po_scanners po)"

text \<open>
  The closing loop of the source over advisory scanners only continues, so it has no counterpart.
\<close>

definition evaluatePolicy ::
    "policy \<Rightarrow> scan_result list \<Rightarrow> jstring \<Rightarrow> nat \<Rightarrow> int \<Rightarrow> policy_evaluation" where
  "evaluatePolicy po results digest fileCount now =
     (let relevant = relevant_evidence po results digest;
          required = required_scanners po;
          enabled = enabled_scanners po
      in case eval_required po relevant fileCount now None required of
           Inl ev \<Rightarrow> ev
         | Inr earliest \<Rightarrow>
             (if required \<noteq> [] then approved earliest
              else if enabled = [] then
                (if po_allowUnscanned po then approved None
                 else \<lparr>ev_state = ScanError,
                       ev_error = Some ''No scanner evidence is configured and unscanned distribution is disabled'',
                       ev_reason = EvidenceMissing, ev_scannerId = None, ev_expiresAt = None\<rparr>)
              else (case find (\<lambda>sc. \<forall>r \<in> set relevant. sr_scannerId r \<noteq> sp_id sc) enabled of
                      Some missing \<Rightarrow>
                        (if \<not> po_allowUnscanned po
                         then \<lparr>ev_state = ScanError,
                               ev_error = Some ''Scanner evidence is incomplete and unscanned distribution is disabled'',
                               ev_reason = EvidenceMissing, ev_scannerId = Some (sp_id missing), ev_expiresAt = None\<rparr>
                         else approved None)
                    | None \<Rightarrow> approved None)))"

section \<open>The gate\<close>

definition skill_scans :: "registry_state \<Rightarrow> skill_version \<Rightarrow> scan_result list" where
  "skill_scans st sk = filter (\<lambda>s. sr_id s \<in> set (sk_scanIds sk)) (st_scans st)"

definition skillCurrentlyApproved :: "registry_state \<Rightarrow> skill_version \<Rightarrow> int \<Rightarrow> bool" where
  "skillCurrentlyApproved st sk now =
     (if sk_state sk \<noteq> Approved \<or> sk_policyRevision sk \<noteq> po_revision (st_policy st) then False
      else ev_state (evaluatePolicy (st_policy st) (skill_scans st sk) (blob_digest (sk_artifact sk))
                       (sk_fileCount sk) now) = Approved)"

datatype admission_status = StatusCurrent | NeedsRescan | Unavailable

record current_skill_admission =
  ca_allowed :: bool
  ca_status :: admission_status
  ca_reason :: admission_reason
  ca_policyRevision :: jstring
  ca_scannerId :: "scanner_id option"
  ca_expiresAt :: "timestamp option"

definition getCurrentSkillAdmission :: "registry_state \<Rightarrow> skill_version \<Rightarrow> int \<Rightarrow> current_skill_admission" where
  "getCurrentSkillAdmission st sk now =
     (let rev = po_revision (st_policy st) in
      if sk_state sk \<noteq> Approved then
        \<lparr>ca_allowed = False, ca_status = (if sk_state sk = ScanError then NeedsRescan else Unavailable),
         ca_reason = NotApproved (sk_state sk), ca_policyRevision = rev,
         ca_scannerId = None, ca_expiresAt = None\<rparr>
      else if sk_policyRevision sk \<noteq> rev then
        \<lparr>ca_allowed = False, ca_status = NeedsRescan, ca_reason = PolicyChanged, ca_policyRevision = rev,
         ca_scannerId = None, ca_expiresAt = None\<rparr>
      else
        (let ev = evaluatePolicy (st_policy st) (skill_scans st sk) (blob_digest (sk_artifact sk))
                    (sk_fileCount sk) now
         in if ev_state ev = Approved then
              \<lparr>ca_allowed = True, ca_status = StatusCurrent, ca_reason = Current, ca_policyRevision = rev,
               ca_scannerId = None, ca_expiresAt = ev_expiresAt ev\<rparr>
            else
              \<lparr>ca_allowed = False, ca_status = (if ev_state ev = Quarantined then Unavailable else NeedsRescan),
               ca_reason = ev_reason ev, ca_policyRevision = rev,
               ca_scannerId = ev_scannerId ev, ca_expiresAt = ev_expiresAt ev\<rparr>))"

definition defaultPolicy :: policy where
  "defaultPolicy =
     \<lparr>po_revision = js ''policy-initial'',
      po_scanners = map (\<lambda>i. \<lparr>sp_id = i, sp_mode = Disabled, sp_blockSeverities = [High, Critical],
                              sp_timeoutSeconds = 300, sp_configuration = None\<rparr>)
                      [CiscoSkillScanner, NvidiaSkillspector, Skillsguard],
      po_allowUnscanned = False,
      po_evidenceMaxAgeSeconds = 7 * 24 * 60 * 60,
      po_hooks = []\<rparr>"

definition createEmptyRegistryState :: "policy \<Rightarrow> registry_state" where
  "createEmptyRegistryState po =
     \<lparr>st_skills = [], st_packs = [], st_jobs = [], st_scans = [], st_policy = po, st_upstreams = [],
      st_authorizations = [], st_installReceiptTickets = [], st_installReceipts = [], st_grants = [],
      st_audit = []\<rparr>"

section \<open>Specification\<close>

text \<open>The evidence a required scanner owes for a release.\<close>

definition evidence_complete ::
    "policy \<Rightarrow> scan_result list \<Rightarrow> nat \<Rightarrow> int \<Rightarrow> scanner_policy \<Rightarrow> bool" where
  "evidence_complete po relevant fileCount now sc \<longleftrightarrow>
     (\<exists>r. latestScanForScanner relevant (sp_id sc) = Some r \<and> sr_status r = Completed
        \<and> \<not> evidenceExpired r (po_evidenceMaxAgeSeconds po) now
        \<and> 0 < fileCount \<and> filesEnumerated (sr_coverage r) = fileCount
        \<and> filesAnalyzed (sr_coverage r) = fileCount
        \<and> filesSkipped (sr_coverage r) = 0 \<and> filesUnsupported (sr_coverage r) = 0
        \<and> \<not> has_blocking sc r)"

definition policy_admits :: "policy \<Rightarrow> scan_result list \<Rightarrow> jstring \<Rightarrow> nat \<Rightarrow> int \<Rightarrow> bool" where
  "policy_admits po results digest fileCount now \<longleftrightarrow>
     (let relevant = relevant_evidence po results digest in
      if required_scanners po \<noteq> []
        then \<forall>sc \<in> set (required_scanners po). evidence_complete po relevant fileCount now sc
      else po_allowUnscanned po \<or>
        (enabled_scanners po \<noteq> [] \<and>
         (\<forall>sc \<in> set (enabled_scanners po). \<exists>r \<in> set relevant. sr_scannerId r = sp_id sc)))"

section \<open>Facts\<close>

lemma check_required_ok_iff:
  "(\<exists>e. check_required po relevant fileCount now sc = Inr e) \<longleftrightarrow>
     evidence_complete po relevant fileCount now sc"
  by (auto simp: check_required_def evidence_complete_def Let_def split: option.splits)

lemma check_required_Inl_state:
  "check_required po relevant fileCount now sc = Inl ev \<Longrightarrow> ev_state ev \<noteq> Approved"
  by (auto simp: check_required_def deny_def Let_def split: option.splits if_splits)

lemma check_required_Inr_expiry:
  "check_required po relevant fileCount now sc = Inr e \<Longrightarrow>
     \<exists>r. latestScanForScanner relevant (sp_id sc) = Some r \<and> e = evidenceExpiresAt r (po_evidenceMaxAgeSeconds po)"
  by (auto simp: check_required_def Let_def split: option.splits if_splits)

lemma eval_required_ok_iff:
  "(\<exists>e. eval_required po relevant fileCount now earliest scs = Inr e) \<longleftrightarrow>
     (\<forall>sc \<in> set scs. evidence_complete po relevant fileCount now sc)"
proof (induction scs arbitrary: earliest)
  case (Cons sc scs)
  show ?case
  proof (cases "check_required po relevant fileCount now sc")
    case (Inl a)
    then have "\<not> evidence_complete po relevant fileCount now sc"
      using check_required_ok_iff [of po relevant fileCount now sc] by auto
    with Inl show ?thesis by simp
  next
    case (Inr b)
    then have "evidence_complete po relevant fileCount now sc"
      using check_required_ok_iff [of po relevant fileCount now sc] by blast
    with Inr Cons.IH show ?thesis by simp
  qed
qed simp

lemma eval_required_Inl_state:
  "eval_required po relevant fileCount now earliest scs = Inl ev \<Longrightarrow> ev_state ev \<noteq> Approved"
  by (induction scs arbitrary: earliest)
     (auto simp: bindr_Inl_iff dest: check_required_Inl_state)

lemma approved_state [simp]: "ev_state (approved e) = Approved" "ev_expiresAt (approved e) = e"
  by (simp_all add: approved_def)

text \<open>The code approves exactly the evidence that the specification admits.\<close>

lemma evaluatePolicy_approved_iff:
  "ev_state (evaluatePolicy po results digest fileCount now) = Approved \<longleftrightarrow>
     policy_admits po results digest fileCount now"
proof (cases "eval_required po (relevant_evidence po results digest) fileCount now None (required_scanners po)")
  case (Inl ev)
  then have "required_scanners po \<noteq> []" by auto
  moreover have "\<not> (\<forall>sc \<in> set (required_scanners po).
      evidence_complete po (relevant_evidence po results digest) fileCount now sc)"
    using Inl eval_required_ok_iff by (metis sum.distinct(1))
  ultimately show ?thesis
    using Inl eval_required_Inl_state [OF Inl]
    by (simp add: evaluatePolicy_def policy_admits_def Let_def)
next
  case (Inr e)
  then have ok: "\<forall>sc \<in> set (required_scanners po).
      evidence_complete po (relevant_evidence po results digest) fileCount now sc"
    using eval_required_ok_iff by blast
  then show ?thesis
    using Inr by (auto simp: evaluatePolicy_def policy_admits_def Let_def find_None_iff find_Some_iff
        split: option.splits)
qed

lemma skillCurrentlyApproved_iff:
  "skillCurrentlyApproved st sk now \<longleftrightarrow>
     sk_state sk = Approved \<and> sk_policyRevision sk = po_revision (st_policy st) \<and>
     policy_admits (st_policy st) (skill_scans st sk) (blob_digest (sk_artifact sk)) (sk_fileCount sk) now"
  by (auto simp: skillCurrentlyApproved_def evaluatePolicy_approved_iff)

text \<open>
  The contract the clients of the gate rely on: a release passes only while it is in the approved
  state and under the revision in force.
\<close>

locale admission_gate =
  fixes gate :: "registry_state \<Rightarrow> skill_version \<Rightarrow> int \<Rightarrow> bool"
  assumes gate_approved: "gate st sk now \<Longrightarrow> sk_state sk = Approved"
    and gate_revision: "gate st sk now \<Longrightarrow> sk_policyRevision sk = po_revision (st_policy st)"
begin

lemma gate_not_revoked: "gate st sk now \<Longrightarrow> sk_state sk \<noteq> Revoked"
  using gate_approved by fastforce

lemma gate_closed_by_policy_change:
  "po_revision (st_policy st) \<notin> sk_policyRevision ` set (st_skills st') \<Longrightarrow> sk \<in> set (st_skills st')
     \<Longrightarrow> \<not> gate st sk now"
  using gate_revision by (metis image_eqI)

lemma gated_subset: "set (filter (\<lambda>sk. gate st sk now) sks) \<subseteq> {sk \<in> set sks. sk_state sk = Approved}"
  using gate_approved by auto

end

interpretation core_gate: admission_gate skillCurrentlyApproved
  by unfold_locales (simp_all add: skillCurrentlyApproved_iff)

section \<open>Expiry\<close>

text \<open>
  A clock reading \<open>now\<close> after the epoch at which evidence is fresh fixes how long it stays fresh:
  exactly until the expiry the code reports.
\<close>

lemma fresh_evidence:
  assumes "\<not> evidenceExpired r maxAge now" and "0 \<le> now" and "0 \<le> maxAge"
  obtains c where "date_parse (sr_createdAt r) = Some c" "c \<le> now"
    "of_int now \<le> of_int c + maxAge * 1000" "0 \<le> of_int c + maxAge * 1000"
proof -
  obtain c where c: "date_parse (sr_createdAt r) = Some c"
    using assms(1) by (auto simp: evidenceExpired_def split: option.splits)
  moreover have le: "c \<le> now" "of_int now \<le> of_int c + maxAge * 1000"
    using assms(1,3) c by (auto simp: evidenceExpired_def algebra_simps split: if_splits)
  moreover have "0 \<le> of_int c + maxAge * 1000"
    using le(2) assms(2) by (meson of_int_0_le_iff order_trans)
  ultimately show ?thesis using that by blast
qed

lemma evidenceExpired_iff_after_expiry:
  assumes "\<not> evidenceExpired r maxAge now" and "0 \<le> now" and "now \<le> now'"
    and "evidenceExpiresAt r maxAge = Some (Stamp m)"
  shows "evidenceExpired r maxAge now' \<longleftrightarrow> m < now'" and "m \<le> 8640000000000000"
proof -
  have age: "0 \<le> maxAge"
    using assms(4) by (auto simp: evidenceExpiresAt_def split: if_splits)
  obtain c where c: "date_parse (sr_createdAt r) = Some c" "c \<le> now"
    and pos: "0 \<le> of_int c + maxAge * 1000"
    using fresh_evidence [OF assms(1,2) age] by metis
  define v where "v = of_int c + maxAge * 1000"
  have m: "m = \<lfloor>v\<rfloor>" "v \<le> 8640000000000000"
    using assms(4) c age pos by (auto simp: evidenceExpiresAt_def time_clip_def v_def split: if_splits)
  have "evidenceExpired r maxAge now' \<longleftrightarrow> v < of_int now'"
    using c age assms(3) by (auto simp: evidenceExpired_def v_def algebra_simps)
  then show "evidenceExpired r maxAge now' \<longleftrightarrow> m < now'"
    using m(1) by (simp add: floor_less_iff)
  have "\<lfloor>v\<rfloor> \<le> \<lfloor>8640000000000000 :: rat\<rfloor>" using m(2) by (rule floor_mono)
  then show "m \<le> 8640000000000000" using m(1) by simp
qed

lemma evidence_without_expiry:
  assumes "\<not> evidenceExpired r maxAge now" and "0 \<le> now" and "now \<le> now'"
    and "evidenceExpiresAt r maxAge = None" and "now' \<le> 8640000000000000"
  shows "\<not> evidenceExpired r maxAge now'"
proof (cases "0 \<le> maxAge")
  case True
  obtain c where c: "date_parse (sr_createdAt r) = Some c" "c \<le> now"
    and pos: "0 \<le> of_int c + maxAge * 1000"
    using fresh_evidence [OF assms(1,2) True] by metis
  have "8640000000000000 < of_int c + maxAge * 1000"
    using assms(4) c True pos by (auto simp: evidenceExpiresAt_def time_clip_def split: if_splits)
  moreover have "of_int now' \<le> (8640000000000000 :: rat)"
    using assms(5) by (metis of_int_le_iff of_int_numeral)
  ultimately have "of_int now' < of_int c + maxAge * 1000" by linarith
  then show ?thesis using c assms(3) by (auto simp: evidenceExpired_def algebra_simps)
next
  case False
  then show ?thesis
    using assms(1,3) by (auto simp: evidenceExpired_def split: option.splits if_splits)
qed

definition expiry_of :: "policy \<Rightarrow> scan_result list \<Rightarrow> scanner_policy \<Rightarrow> timestamp option" where
  "expiry_of po relevant sc =
     (case latestScanForScanner relevant (sp_id sc) of
        None \<Rightarrow> None
      | Some r \<Rightarrow> evidenceExpiresAt r (po_evidenceMaxAgeSeconds po))"

lemma check_required_expiry_of:
  "check_required po relevant fileCount now sc = Inr e \<Longrightarrow> e = expiry_of po relevant sc"
  by (auto simp: check_required_def expiry_of_def Let_def split: option.splits if_splits)

lemma expiry_of_Stamp: "expiry_of po relevant sc = Some t \<Longrightarrow> \<exists>m. t = Stamp m"
  by (auto simp: expiry_of_def evidenceExpiresAt_def split: if_splits option.splits)

lemma rememberExpiry_Stamp:
  assumes "earliest = None \<or> (\<exists>a. earliest = Some (Stamp a))" and "e = None \<or> (\<exists>b. e = Some (Stamp b))"
  shows "rememberExpiry earliest e = None \<or> (\<exists>a. rememberExpiry earliest e = Some (Stamp a))"
    and "rememberExpiry earliest e = Some (Stamp m) \<Longrightarrow>
      (earliest = Some (Stamp m) \<or> e = Some (Stamp m)) \<and>
      (\<forall>a. earliest = Some (Stamp a) \<longrightarrow> m \<le> a) \<and> (\<forall>b. e = Some (Stamp b) \<longrightarrow> m \<le> b)"
    and "rememberExpiry earliest e = None \<Longrightarrow> earliest = None \<and> e = None"
  using assms by (auto simp: rememberExpiry_def stamp_less_def split: if_splits)

lemma eval_required_expiry:
  assumes "eval_required po relevant fileCount now earliest scs = Inr (Some t)"
    and "earliest = None \<or> (\<exists>a. earliest = Some (Stamp a))"
  shows "\<exists>m. t = Stamp m \<and>
     (earliest = Some (Stamp m) \<or> (\<exists>sc \<in> set scs. expiry_of po relevant sc = Some (Stamp m))) \<and>
     (\<forall>a. earliest = Some (Stamp a) \<longrightarrow> m \<le> a) \<and>
     (\<forall>sc \<in> set scs. \<forall>b. expiry_of po relevant sc = Some (Stamp b) \<longrightarrow> m \<le> b)"
  using assms
proof (induction scs arbitrary: earliest)
  case (Cons sc scs)
  obtain e where e: "check_required po relevant fileCount now sc = Inr e"
    and rest: "eval_required po relevant fileCount now (rememberExpiry earliest e) scs = Inr (Some t)"
    using Cons.prems(1) by (auto simp: bindr_Inr_iff)
  have e': "e = expiry_of po relevant sc" by (rule check_required_expiry_of [OF e])
  have st: "e = None \<or> (\<exists>b. e = Some (Stamp b))"
    using expiry_of_Stamp [of po relevant sc] e' by (cases "expiry_of po relevant sc") auto
  note mem = rememberExpiry_Stamp [OF Cons.prems(2) st]
  from Cons.IH [OF rest mem(1)] obtain m where m: "t = Stamp m"
    "rememberExpiry earliest e = Some (Stamp m) \<or> (\<exists>sc \<in> set scs. expiry_of po relevant sc = Some (Stamp m))"
    "\<forall>a. rememberExpiry earliest e = Some (Stamp a) \<longrightarrow> m \<le> a"
    "\<forall>sc \<in> set scs. \<forall>b. expiry_of po relevant sc = Some (Stamp b) \<longrightarrow> m \<le> b" by blast
  have all: "(\<forall>a. earliest = Some (Stamp a) \<longrightarrow> m \<le> a) \<and> (\<forall>b. e = Some (Stamp b) \<longrightarrow> m \<le> b)"
  proof (cases "rememberExpiry earliest e")
    case None
    then show ?thesis using mem(3) by simp
  next
    case (Some u)
    then obtain k where k: "rememberExpiry earliest e = Some (Stamp k)" using mem(1) by auto
    with m(3) have "m \<le> k" by blast
    with mem(2) [OF k] show ?thesis by force
  qed
  have one: "earliest = Some (Stamp m) \<or> (\<exists>sc' \<in> set (sc # scs). expiry_of po relevant sc' = Some (Stamp m))"
    using m(2) mem(2) e' by auto
  show ?case using m(1,4) all one e' by auto
qed auto

lemma evidence_complete_later:
  assumes "evidence_complete po relevant fileCount now sc" and "0 \<le> now" and "now \<le> now'"
    and "now' \<le> 8640000000000000"
    and "\<And>b. expiry_of po relevant sc = Some (Stamp b) \<Longrightarrow> now' \<le> b"
  shows "evidence_complete po relevant fileCount now' sc"
proof -
  obtain r where r: "latestScanForScanner relevant (sp_id sc) = Some r"
    and fresh: "\<not> evidenceExpired r (po_evidenceMaxAgeSeconds po) now"
    using assms(1) by (auto simp: evidence_complete_def)
  have "\<not> evidenceExpired r (po_evidenceMaxAgeSeconds po) now'"
  proof (cases "evidenceExpiresAt r (po_evidenceMaxAgeSeconds po)")
    case None
    then show ?thesis using evidence_without_expiry [OF fresh assms(2,3) _ assms(4)] by blast
  next
    case (Some t)
    then obtain b where "evidenceExpiresAt r (po_evidenceMaxAgeSeconds po) = Some (Stamp b)"
      using expiry_of_Stamp [of po relevant sc t] r by (auto simp: expiry_of_def)
    then show ?thesis
      using evidenceExpired_iff_after_expiry(1) [OF fresh assms(2,3)] assms(5) r
      by (auto simp: expiry_of_def not_less)
  qed
  with assms(1) r show ?thesis by (auto simp: evidence_complete_def)
qed

lemma evidence_complete_expires:
  assumes "evidence_complete po relevant fileCount now sc" and "0 \<le> now" and "now \<le> now'"
    and "expiry_of po relevant sc = Some (Stamp m)" and "m < now'"
  shows "\<not> evidence_complete po relevant fileCount now' sc"
proof -
  obtain r where r: "latestScanForScanner relevant (sp_id sc) = Some r"
    and fresh: "\<not> evidenceExpired r (po_evidenceMaxAgeSeconds po) now"
    using assms(1) by (auto simp: evidence_complete_def)
  have "evidenceExpired r (po_evidenceMaxAgeSeconds po) now'"
    using evidenceExpired_iff_after_expiry(1) [OF fresh assms(2,3)] assms(4,5) r by (auto simp: expiry_of_def)
  with r show ?thesis by (auto simp: evidence_complete_def)
qed

section \<open>Samples\<close>

text \<open>One required scanner, one complete clean scan of a one-file release, seen one second later.\<close>

definition sample_scanner :: scanner_policy where
  "sample_scanner =
     \<lparr>sp_id = CiscoSkillScanner, sp_mode = Required, sp_blockSeverities = [High, Critical],
      sp_timeoutSeconds = 120, sp_configuration = None\<rparr>"

definition sample_policy :: policy where
  "sample_policy =
     \<lparr>po_revision = js ''policy_1'', po_scanners = [sample_scanner], po_allowUnscanned = False,
      po_evidenceMaxAgeSeconds = 60, po_hooks = []\<rparr>"

definition sample_scan :: scan_result where
  "sample_scan =
     \<lparr>sr_id = js ''scan_1'', sr_organizationId = js ''org'', sr_jobId = js ''job_1'',
      sr_artifactDigest = js ''digest'', sr_policyRevision = js ''policy_1'',
      sr_scannerId = CiscoSkillScanner, sr_engineVersion = js ''1'', sr_rulesRevision = js ''1'',
      sr_configurationHash = js ''c'', sr_status = Completed, sr_findings = [],
      sr_coverage = \<lparr>filesEnumerated = 1, filesAnalyzed = 1, filesSkipped = 0, filesUnsupported = 0,
                     limitations = [], externalDestinations = []\<rparr>,
      sr_createdAt = Stamp 1000, sr_durationMs = 5, sr_error = None\<rparr>"

lemma sample_evaluation:
  "evaluatePolicy sample_policy [sample_scan] (js ''digest'') 1 2000 = approved (Some (Stamp 61000))"
  by (simp add: evaluatePolicy_def sample_policy_def sample_scanner_def sample_scan_def
      required_scanners_def enabled_scanners_def relevant_evidence_def check_required_def
      latestScanForScanner_def evidenceExpired_def evidenceExpiresAt_def time_clip_def has_blocking_def
      rememberExpiry_def Let_def)

section \<open>Properties\<close>

lemma eval_required_denial:
  assumes "eval_required po relevant fileCount now earliest scs = Inl ev"
  shows "(ev_state ev = ScanError \<or> ev_state ev = Quarantined) \<and> ev_error ev \<noteq> None \<and>
    (ev_state ev = Quarantined \<longrightarrow> (\<exists>sc \<in> set scs. \<exists>r. latestScanForScanner relevant (sp_id sc) = Some r
       \<and> sr_status r = Completed \<and> has_blocking sc r))"
  using assms
proof (induction scs arbitrary: earliest)
  case (Cons sc scs)
  then show ?case
    by (cases "check_required po relevant fileCount now sc")
       (auto simp: check_required_def deny_def Let_def split: option.splits if_splits)
qed simp

text \<open>
  C1. The policy evaluator implements its specification: it approves exactly when the evidence
  admits the release (every required scanner's latest relevant result is completed, fresh, covers
  every file and has no blocking finding; without required scanners, unscanned distribution is
  allowed or every advisory scanner reported). Every other outcome is a scan error or a quarantine
  with an error message, and a quarantine means a blocking finding of a required scanner.
\<close>

theorem evaluatePolicy_implements_specification:
  "(if policy_admits po results digest fileCount now
    then ev_state (evaluatePolicy po results digest fileCount now) = Approved
    else ev_error (evaluatePolicy po results digest fileCount now) \<noteq> None \<and>
      (ev_state (evaluatePolicy po results digest fileCount now) = ScanError \<or>
       ev_state (evaluatePolicy po results digest fileCount now) = Quarantined \<and>
       (\<exists>sc \<in> set (required_scanners po). \<exists>r.
          latestScanForScanner (relevant_evidence po results digest) (sp_id sc) = Some r \<and>
          sr_status r = Completed \<and> has_blocking sc r)))"
proof (cases "policy_admits po results digest fileCount now")
  case True
  then show ?thesis by (simp add: evaluatePolicy_approved_iff)
next
  case False
  show ?thesis
  proof (cases "eval_required po (relevant_evidence po results digest) fileCount now None (required_scanners po)")
    case (Inl ev)
    have "evaluatePolicy po results digest fileCount now = ev"
      using Inl by (simp add: evaluatePolicy_def)
    with eval_required_denial [OF Inl] False show ?thesis by auto
  next
    case (Inr e)
    have "ev_state (evaluatePolicy po results digest fileCount now) \<noteq> Approved"
      using False by (simp add: evaluatePolicy_approved_iff)
    with Inr False show ?thesis
      by (auto simp: evaluatePolicy_def Let_def split: if_splits option.splits)
  qed
qed

text \<open>
  The admission shown in the catalog never disagrees with the gate that resolution and
  downloads use: it is allowed exactly when the release is currently approved, and then its status
  and reason say so; a release in the scan-error state asks for a rescan.
\<close>

theorem catalog_admission_agrees_with_gate:
  "ca_allowed (getCurrentSkillAdmission st sk now) = skillCurrentlyApproved st sk now \<and>
   (ca_status (getCurrentSkillAdmission st sk now) = StatusCurrent) = skillCurrentlyApproved st sk now \<and>
   ca_policyRevision (getCurrentSkillAdmission st sk now) = po_revision (st_policy st) \<and>
   (sk_state sk \<noteq> Approved \<longrightarrow> ca_reason (getCurrentSkillAdmission st sk now) = NotApproved (sk_state sk))"
  by (auto simp: getCurrentSkillAdmission_def skillCurrentlyApproved_def Let_def)

theorem catalog_admission_agrees_with_gate_witness:
  "ca_reason (getCurrentSkillAdmission (createEmptyRegistryState sample_policy)
     \<lparr>sk_id = js ''s'', sk_organizationId = js ''org'', sk_name = js ''@a/b'', sk_skillName = js ''b'',
      sk_version = js ''1.0.0'', sk_description = [], sk_artifact = \<lparr>blob_key = [], blob_digest = [], blob_size = 0\<rparr>,
      sk_state = Revoked, sk_policyRevision = js ''policy_1'', sk_createdAt = Stamp 0, sk_approvedAt = None,
      sk_fileCount = 1, sk_scanIds = []\<rparr> 0) = NotApproved Revoked"
  by (rule catalog_admission_agrees_with_gate [THEN conjunct2, THEN conjunct2, THEN conjunct2,
      THEN mp, THEN trans]) simp_all



text \<open>
  An unconfigured registry fails closed: under the default policy no evidence whatsoever admits
  a release, so nothing passes the gate in any state that carries it.
\<close>

theorem default_policy_fails_closed:
  "ev_state (evaluatePolicy defaultPolicy results digest fileCount now) = ScanError \<and>
   \<not> skillCurrentlyApproved (st\<lparr>st_policy := defaultPolicy\<rparr>) sk now"
  by (simp add: skillCurrentlyApproved_def evaluatePolicy_def defaultPolicy_def required_scanners_def
      enabled_scanners_def Let_def)

end
