(* ===== verification/Text_Encoding.thy ===== *)
theory Text_Encoding
  imports Prelude
begin

text \<open>
  The text encodings of the platform that the sources rely on: UTF-8 (\<open>TextEncoder\<close>, and
  \<open>TextDecoder\<close> in its fatal and its replacing mode) over strings of UTF-16 code units, and the JSON
  spelling of strings and integers (\<open>JSON.stringify\<close>), with the facts about them that encodings need.
\<close>

section \<open>Surrogates\<close>

definition is_high :: "nat \<Rightarrow> bool" where "is_high c \<longleftrightarrow> 55296 \<le> c \<and> c \<le> 56319"
definition is_low :: "nat \<Rightarrow> bool" where "is_low c \<longleftrightarrow> 56320 \<le> c \<and> c \<le> 57343"

text \<open>No lone surrogate and every unit below \<open>2^16\<close>.\<close>

fun well_formed :: "jstring \<Rightarrow> bool" where
  "well_formed [] = True"
| "well_formed (c # r) =
     (if is_high c then (case r of [] \<Rightarrow> False | l # r' \<Rightarrow> is_low l \<and> well_formed r')
      else \<not> is_low c \<and> c < 65536 \<and> well_formed r)"

section \<open>UTF-8\<close>

text \<open>The code point of a surrogate pair.\<close>

definition pair_point :: "nat \<Rightarrow> nat \<Rightarrow> nat" where
  "pair_point h l = 65536 + (h - 55296) * 1024 + (l - 56320)"

definition enc_unit :: "nat \<Rightarrow> nat list" where
  "enc_unit c =
     (if c < 128 then [c]
      else if c < 2048 then [192 + c div 64, 128 + c mod 64]
      else if is_high c \<or> is_low c then [239, 191, 189]
      else [224 + c div 4096, 128 + (c div 64) mod 64, 128 + c mod 64])"

definition enc_pair :: "nat \<Rightarrow> nat list" where
  "enc_pair p = [240 + p div 262144, 128 + (p div 4096) mod 64, 128 + (p div 64) mod 64, 128 + p mod 64]"

fun utf8_encode :: "jstring \<Rightarrow> nat list" where
  "utf8_encode [] = []"
| "utf8_encode (c # r) =
     (case r of
        [] \<Rightarrow> enc_unit c
      | l # r' \<Rightarrow> if is_high c \<and> is_low l then enc_pair (pair_point c l) @ utf8_encode r'
                  else enc_unit c @ utf8_encode r)"

definition is_cont :: "nat \<Rightarrow> bool" where "is_cont b \<longleftrightarrow> 128 \<le> b \<and> b < 192"

text \<open>One code point from the front: its UTF-16 units and the remaining bytes; \<open>None\<close> is an error.\<close>

definition utf8_next :: "nat list \<Rightarrow> (jstring \<times> nat list) option" where
  "utf8_next bs =
     (case bs of
        [] \<Rightarrow> None
      | b # r1 \<Rightarrow>
          if b < 128 then Some ([b], r1)
          else (case r1 of
            [] \<Rightarrow> None
          | c # r2 \<Rightarrow>
              if 194 \<le> b \<and> b < 224 then
                (if is_cont c then Some ([(b - 192) * 64 + (c - 128)], r2) else None)
              else (case r2 of
                [] \<Rightarrow> None
              | d # r3 \<Rightarrow>
                  if 224 \<le> b \<and> b < 240 then
                    (let p = (b - 224) * 4096 + (c - 128) * 64 + (d - 128) in
                     if is_cont c \<and> is_cont d \<and> 2048 \<le> p \<and> \<not> is_high p \<and> \<not> is_low p
                     then Some ([p], r3) else None)
                  else (case r3 of
                    [] \<Rightarrow> None
                  | e # r4 \<Rightarrow>
                      if 240 \<le> b \<and> b < 245 then
                        (let p = (b - 240) * 262144 + (c - 128) * 4096 + (d - 128) * 64 + (e - 128) in
                         if is_cont c \<and> is_cont d \<and> is_cont e \<and> 65536 \<le> p \<and> p < 1114112
                         then Some ([55296 + (p - 65536) div 1024, 56320 + (p - 65536) mod 1024], r4)
                         else None)
                      else None))))"

lemma utf8_next_shorter: "utf8_next bs = Some (u, r) \<Longrightarrow> length r < length bs"
  by (auto simp: utf8_next_def Let_def split: list.splits if_splits)

function utf8_decode :: "nat list \<Rightarrow> jstring option" where
  "utf8_decode bs =
     (if bs = [] then Some []
      else (case utf8_next bs of
              None \<Rightarrow> None
            | Some (u, r) \<Rightarrow> map_option (\<lambda>s. u @ s) (utf8_decode r)))"
  by pat_completeness auto
termination
  by (relation "measure length") (auto dest: utf8_next_shorter)

declare utf8_decode.simps [simp del]

text \<open>\<open>TextDecoder.decode\<close> drops one leading byte order mark.\<close>

definition text_decode :: "nat list \<Rightarrow> jstring option" where
  "text_decode bs = utf8_decode (if take 3 bs = [239, 187, 191] then drop 3 bs else bs)"

text \<open>
  The decoder of the encoding standard in its default mode, which writes U+FFFD for an ill-formed
  sequence: the continuation bytes still needed, the range of the next one, the bits so far.
\<close>

definition point_units :: "nat \<Rightarrow> jstring" where
  "point_units p = (if p < 65536 then [p] else [55296 + (p - 65536) div 1024, 56320 + (p - 65536) mod 1024])"

fun utf8_replacing :: "nat \<Rightarrow> nat \<Rightarrow> nat \<Rightarrow> nat \<Rightarrow> nat list \<Rightarrow> jstring" where
  "utf8_replacing needed lower upper p [] = (if needed = 0 then [] else [65533])"
| "utf8_replacing needed lower upper p (b # bs) =
     (if needed = 0 \<or> b < lower \<or> b > upper then
        (if needed = 0 then [] else [65533]) @
        (if b < 128 then b # utf8_replacing 0 128 191 0 bs
         else if 194 \<le> b \<and> b \<le> 223 then utf8_replacing 1 128 191 (b - 192) bs
         else if 224 \<le> b \<and> b \<le> 239 then
           utf8_replacing 2 (if b = 224 then 160 else 128) (if b = 237 then 159 else 191) (b - 224) bs
         else if 240 \<le> b \<and> b \<le> 244 then
           utf8_replacing 3 (if b = 240 then 144 else 128) (if b = 244 then 143 else 191) (b - 240) bs
         else 65533 # utf8_replacing 0 128 191 0 bs)
      else if needed = 1 then point_units (p * 64 + (b - 128)) @ utf8_replacing 0 128 191 0 bs
      else utf8_replacing (needed - 1) 128 191 (p * 64 + (b - 128)) bs)"

definition text_decode_replacing :: "nat list \<Rightarrow> jstring" where
  "text_decode_replacing bs = utf8_replacing 0 128 191 0 (if take 3 bs = [239, 187, 191] then drop 3 bs else bs)"

section \<open>JSON\<close>

definition hex_digit :: "nat \<Rightarrow> nat" where
  "hex_digit n = (if n < 10 then 48 + n else 87 + n)"

definition u_escape :: "nat \<Rightarrow> jstring" where
  "u_escape c = [92, 117, hex_digit (c div 4096), hex_digit ((c div 256) mod 16),
                 hex_digit ((c div 16) mod 16), hex_digit (c mod 16)]"

definition quote_unit :: "nat \<Rightarrow> jstring" where
  "quote_unit c =
     (if c = 34 then [92, 34] else if c = 92 then [92, 92]
      else if c = 8 then [92, 98] else if c = 9 then [92, 116] else if c = 10 then [92, 110]
      else if c = 12 then [92, 102] else if c = 13 then [92, 114]
      else if c < 32 \<or> is_high c \<or> is_low c then u_escape c
      else [c])"

fun quote_units :: "jstring \<Rightarrow> jstring" where
  "quote_units [] = []"
| "quote_units (c # r) =
     (case r of
        [] \<Rightarrow> quote_unit c
      | l # r' \<Rightarrow> if is_high c \<and> is_low l then c # l # quote_units r' else quote_unit c @ quote_units r)"

definition json_quote :: "jstring \<Rightarrow> jstring" where
  "json_quote s = [34] @ quote_units s @ [34]"

definition join :: "jstring \<Rightarrow> jstring list \<Rightarrow> jstring" where
  "join sep ss = (case ss of [] \<Rightarrow> [] | s # r \<Rightarrow> s @ concat (map (\<lambda>x. sep @ x) r))"

text \<open>\<open>String(n)\<close> for a non-negative integer.\<close>

function decimal :: "nat \<Rightarrow> jstring" where
  "decimal n = (if n < 10 then [48 + n] else decimal (n div 10) @ [48 + n mod 10])"
  by pat_completeness auto
termination
  by (relation "measure id") auto

declare decimal.simps [simp del]

section \<open>Facts\<close>

lemma base64_digits:
  fixes c :: nat
  shows "c div 64 div 64 = c div 4096" and "c div 4096 div 64 = c div 262144"
    and "c div 64 * 64 + c mod 64 = c"
    and "c div 4096 * 4096 + (c div 64) mod 64 * 64 + c mod 64 = c"
    and "c div 262144 * 262144 + (c div 4096) mod 64 * 4096 + (c div 64) mod 64 * 64 + c mod 64 = c"
proof -
  show d2: "c div 64 div 64 = c div 4096" and d3: "c div 4096 div 64 = c div 262144"
    by (simp_all flip: div_mult2_eq)
  show m1: "c div 64 * 64 + c mod 64 = c" by simp
  have m2: "c div 4096 * 64 + (c div 64) mod 64 = c div 64"
    using div_mult_mod_eq [of "c div 64" 64] by (simp add: d2)
  have m3: "c div 262144 * 64 + (c div 4096) mod 64 = c div 4096"
    using div_mult_mod_eq [of "c div 4096" 64] by (simp add: d3)
  show "c div 4096 * 4096 + (c div 64) mod 64 * 64 + c mod 64 = c"
    using m1 m2 by linarith
  show "c div 262144 * 262144 + (c div 4096) mod 64 * 4096 + (c div 64) mod 64 * 64 + c mod 64 = c"
    using m1 m2 m3 by linarith
qed

lemma utf8_next_unit:
  assumes "c < 65536" and "\<not> is_high c" and "\<not> is_low c"
  shows "utf8_next (enc_unit c @ r) = Some ([c], r)"
proof -
  consider "c < 128" | "128 \<le> c" "c < 2048" | "2048 \<le> c" by linarith
  then show ?thesis
  proof cases
    case 1
    then show ?thesis by (simp add: enc_unit_def utf8_next_def)
  next
    case 2
    have "2 \<le> c div 64" "c div 64 < 32" using 2 by auto
    then show ?thesis using 2 by (auto simp: enc_unit_def utf8_next_def is_cont_def)
  next
    case 3
    have "c div 4096 < 16" using assms(1) by auto
    then show ?thesis
      using 3 assms base64_digits(4) [of c]
      by (simp add: enc_unit_def utf8_next_def is_cont_def Let_def)
  qed
qed

lemma utf8_next_pair:
  assumes "is_high h" and "is_low l"
  shows "utf8_next (enc_pair (pair_point h l) @ r) = Some ([h, l], r)"
proof -
  define p where "p = pair_point h l"
  have p: "65536 \<le> p" "p < 1114112" "p - 65536 = (h - 55296) * 1024 + (l - 56320)" "l - 56320 < 1024"
    using assms by (auto simp: p_def pair_point_def is_high_def is_low_def)
  have "(p - 65536) div 1024 = h - 55296" "(p - 65536) mod 1024 = l - 56320"
    using p(3,4) by (auto simp: div_nat_eqI)
  then have units: "55296 + (p - 65536) div 1024 = h" "56320 + (p - 65536) mod 1024 = l"
    using assms by (auto simp: is_high_def is_low_def)
  have "p div 262144 < 5" using p(2) by auto
  then show ?thesis
    using p(1,2) base64_digits(5) [of p] units
    by (simp add: enc_pair_def utf8_next_def is_cont_def Let_def p_def [symmetric])
qed

text \<open>Decoding undoes encoding on every well-formed string.\<close>

lemma utf8_decode_step:
  "utf8_next bs = Some (u, r) \<Longrightarrow> utf8_decode bs = map_option (\<lambda>s. u @ s) (utf8_decode r)"
  by (subst utf8_decode.simps) (auto simp: utf8_next_def)

lemma utf8_decode_encode: "well_formed s \<Longrightarrow> utf8_decode (utf8_encode s) = Some s"
proof (induction s rule: utf8_encode.induct)
  case 1
  show ?case by (simp add: utf8_decode.simps)
next
  case (2 c r)
  show ?case
  proof (cases "is_high c")
    case True
    with "2.prems" obtain l r' where r: "r = l # r'" "is_low l" "well_formed r'"
      by (auto split: list.splits)
    then show ?thesis
      using "2.IH"(1) [of l r'] True utf8_decode_step [OF utf8_next_pair [OF True r(2)]] by simp
  next
    case False
    with "2.prems" have c: "\<not> is_low c" "c < 65536" "well_formed r" by auto
    have dec: "utf8_decode (enc_unit c @ bs) = map_option (\<lambda>s. c # s) (utf8_decode bs)" for bs
      using utf8_decode_step [OF utf8_next_unit [OF c(2) False c(1)]] by simp
    show ?thesis
    proof (cases r)
      case Nil
      then show ?thesis using False dec [of "[]"] by (simp add: utf8_decode.simps)
    next
      case (Cons l r')
      then show ?thesis using "2.IH"(2) [of l r'] c False dec by simp
    qed
  qed
qed

lemma utf8_encode_inj:
  assumes "well_formed s" and "well_formed t" and "utf8_encode s = utf8_encode t"
  shows "s = t"
proof -
  have "Some s = utf8_decode (utf8_encode s)" by (rule utf8_decode_encode [OF assms(1), symmetric])
  also have "\<dots> = utf8_decode (utf8_encode t)" by (rule arg_cong [OF assms(3)])
  also have "\<dots> = Some t" by (rule utf8_decode_encode [OF assms(2)])
  finally show ?thesis by (rule option.inject [THEN iffD1])
qed

lemma utf8_encode_ascii: "list_all (\<lambda>c. c < 128) s \<Longrightarrow> utf8_encode s = s"
proof (induction s rule: utf8_encode.induct)
  case (2 c r)
  then have "\<not> is_high c" "enc_unit c = [c]" by (auto simp: enc_unit_def is_high_def)
  then show ?case using "2" by (cases r) simp_all
qed simp

lemma utf8_encode_bytes: "well_formed s \<Longrightarrow> b \<in> set (utf8_encode s) \<Longrightarrow> b < 256"
proof (induction s rule: utf8_encode.induct)
  case (2 c r)
  have unit: "c < 65536 \<Longrightarrow> b \<in> set (enc_unit c) \<Longrightarrow> b < 256"
    by (auto simp: enc_unit_def split: if_splits)
  have pair: "is_high c \<Longrightarrow> is_low l \<Longrightarrow> b \<in> set (enc_pair (pair_point c l)) \<Longrightarrow> b < 256" for l
    by (auto simp: enc_pair_def pair_point_def is_high_def is_low_def)
  show ?case using "2" unit pair by (cases r) (auto split: if_splits)
qed simp

text \<open>The replacing decoder agrees with the fatal one wherever that one accepts.\<close>

lemma utf8_next_bad_lead: "128 \<le> b \<and> b < 194 \<or> 245 \<le> b \<Longrightarrow> utf8_next (b # r) = None"
  by (auto simp: utf8_next_def split: list.split)

lemma utf8_replacing_next:
  assumes "utf8_next bs = Some (u, r)"
  shows "utf8_replacing 0 128 191 0 bs = u @ utf8_replacing 0 128 191 0 r"
proof -
  obtain b bs' where bs: "bs = b # bs'" using assms by (cases bs) (auto simp: utf8_next_def)
  consider "b < 128" | "194 \<le> b" "b < 224" | "224 \<le> b" "b < 240" | "240 \<le> b" "b < 245" | "128 \<le> b" "b < 194" | "245 \<le> b"
    by linarith
  then show ?thesis
  proof cases
    case 1
    then show ?thesis using assms bs by (auto simp: utf8_next_def)
  next
    case 2
    then show ?thesis using assms bs
      by (auto simp: utf8_next_def is_cont_def point_units_def split: list.splits if_splits)
  next
    case 3
    then obtain c d where "bs' = c # d # r" "is_cont c" "is_cont d" "u = [(b - 224) * 4096 + (c - 128) * 64 + (d - 128)]"
      "2048 \<le> (b - 224) * 4096 + (c - 128) * 64 + (d - 128)" "\<not> is_high ((b - 224) * 4096 + (c - 128) * 64 + (d - 128))"
      "\<not> is_low ((b - 224) * 4096 + (c - 128) * 64 + (d - 128))"
      using assms bs by (auto simp: utf8_next_def Let_def split: list.splits if_splits)
    moreover from this have "b = 224 \<Longrightarrow> 160 \<le> c" "b = 237 \<Longrightarrow> c \<le> 159"
      by (auto simp: is_cont_def is_high_def is_low_def)
    ultimately show ?thesis using 3 bs by (auto simp: is_cont_def point_units_def algebra_simps)
  next
    case 4
    then obtain c d f where "bs' = c # d # f # r" "is_cont c" "is_cont d" "is_cont f"
      and p: "65536 \<le> (b - 240) * 262144 + (c - 128) * 4096 + (d - 128) * 64 + (f - 128)"
        "(b - 240) * 262144 + (c - 128) * 4096 + (d - 128) * 64 + (f - 128) < 1114112"
      and "u = point_units ((b - 240) * 262144 + (c - 128) * 4096 + (d - 128) * 64 + (f - 128))"
      using assms bs by (auto simp: utf8_next_def Let_def point_units_def split: list.splits if_splits)
    moreover from this have "b = 240 \<Longrightarrow> 144 \<le> c" "b = 244 \<Longrightarrow> c \<le> 143"
      by (auto simp: is_cont_def)
    ultimately show ?thesis using 4 bs by (auto simp: is_cont_def algebra_simps)
  qed (use assms bs utf8_next_bad_lead [of b bs'] in simp_all)
qed

lemma utf8_replacing_decode: "utf8_decode bs = Some s \<Longrightarrow> utf8_replacing 0 128 191 0 bs = s"
proof (induction bs arbitrary: s rule: utf8_decode.induct)
  case (1 bs)
  show ?case
  proof (cases "bs = []")
    case True
    then show ?thesis using "1.prems" by (simp add: utf8_decode.simps)
  next
    case False
    then obtain u r t where next_point: "utf8_next bs = Some (u, r)" and t: "utf8_decode r = Some t" "s = u @ t"
      using "1.prems" utf8_decode.simps [of bs] by (auto split: option.splits)
    then show ?thesis using "1.IH" [OF False next_point refl t(1)] utf8_replacing_next [OF next_point] by simp
  qed
qed

text \<open>JSON text is well-formed, whatever the string: lone surrogates are escaped.\<close>

lemma hex_digit_ascii: "n < 16 \<Longrightarrow> hex_digit n < 128"
  by (simp add: hex_digit_def)

lemma well_formed_ascii: "list_all (\<lambda>c. c < 128) s \<Longrightarrow> well_formed s"
  by (induction s) (auto simp: is_high_def is_low_def)

lemma well_formed_append: "well_formed s \<Longrightarrow> well_formed t \<Longrightarrow> well_formed (s @ t)"
  by (induction s rule: well_formed.induct) (auto split: list.splits if_splits)

lemma well_formed_quote_unit: "c < 65536 \<Longrightarrow> well_formed (quote_unit c)"
proof -
  assume c: "c < 65536"
  have "c div 4096 < 16" using c by auto
  then have "list_all (\<lambda>c. c < 128) (u_escape c)"
    by (simp add: u_escape_def hex_digit_ascii)
  then show ?thesis
    using c well_formed_ascii [of "u_escape c"] by (auto simp: quote_unit_def is_high_def is_low_def)
qed

lemma well_formed_quote_units: "\<forall>c \<in> set s. c < 65536 \<Longrightarrow> well_formed (quote_units s)"
proof (induction s rule: quote_units.induct)
  case (2 c r)
  then show ?case
    by (cases r) (auto simp: well_formed_append well_formed_quote_unit)
qed simp

lemma decimal_digits: "list_all is_digit (decimal n)"
proof (induction n rule: decimal.induct)
  case (1 n)
  have "is_digit (48 + n mod 10)" "n < 10 \<Longrightarrow> is_digit (48 + n)" by (auto simp: is_digit_def)
  then show ?case using 1 by (subst decimal.simps) simp
qed

lemma decimal_ascii: "list_all (\<lambda>c. c < 128) (decimal n)"
  using decimal_digits [of n] by (fastforce simp: list_all_iff is_digit_def)

end
