(* ===== verification/Policy_Input.thy ===== *)
theory Policy_Input
  imports Versions Admission
begin

text \<open>
  The validation of a policy document an administrator submits, \<open>parsePolicy\<close> and \<open>parseHooks\<close> of
  \<open>packages/core/src/index.ts\<close>, and the check \<open>validatePolicyRuntime\<close> that every later read of the
  state makes on the stored policy. \<open>hookId\<close> gives the random identifier of the hook at an index.
\<close>

section \<open>Membership tests on strings of unknown origin\<close>

definition parse_severity :: "jsval \<Rightarrow> severity option" where
  "parse_severity v =
     (if v = JStr (js ''info'') then Some Info else if v = JStr (js ''low'') then Some Low
      else if v = JStr (js ''medium'') then Some Medium else if v = JStr (js ''high'') then Some High
      else if v = JStr (js ''critical'') then Some Critical else None)"

definition parse_scanner :: "jsval \<Rightarrow> scanner_id option" where
  "parse_scanner v =
     (if v = JStr (js ''cisco-skill-scanner'') then Some CiscoSkillScanner
      else if v = JStr (js ''nvidia-skillspector'') then Some NvidiaSkillspector
      else if v = JStr (js ''skillsguard'') then Some Skillsguard else None)"

definition parse_mode :: "jsval \<Rightarrow> scanner_mode option" where
  "parse_mode v =
     (if v = JStr (js ''disabled'') then Some Disabled else if v = JStr (js ''advisory'') then Some Advisory
      else if v = JStr (js ''required'') then Some Required else None)"

definition parse_event :: "jsval \<Rightarrow> hook_event option" where
  "parse_event v =
     (if v = JStr (js ''ingest.validate'') then Some IngestValidate
      else if v = JStr (js ''artifact.evaluate'') then Some ArtifactEvaluate
      else if v = JStr (js ''pack.evaluate'') then Some PackEvaluate
      else if v = JStr (js ''artifact.approved'') then Some ArtifactApproved
      else if v = JStr (js ''artifact.quarantined'') then Some ArtifactQuarantined else None)"

text \<open>
  \<open>Number(x)\<close>: an array converts through its joined string, so a pair or more is never a number;
  an object that \<open>JSON.parse\<close> made converts to \<open>NaN\<close>.
\<close>

fun to_number :: "host \<Rightarrow> jsval \<Rightarrow> jnum" where
  "to_number h JUndefined = NaN"
| "to_number h JNull = Num 0"
| "to_number h (JBool b) = Num (if b then 1 else 0)"
| "to_number h (JNum n) = n"
| "to_number h (JStr s) = stringToNumber h s"
| "to_number h (JArr []) = Num 0"
| "to_number h (JArr [v]) =
     (case v of JUndefined \<Rightarrow> Num 0 | JNull \<Rightarrow> Num 0 | JBool _ \<Rightarrow> NaN | _ \<Rightarrow> to_number h v)"
| "to_number h (JArr (v # w # vs)) = NaN"
| "to_number h (JObj ps) = NaN"

text \<open>A finite positive number of seconds, at most a day.\<close>

definition seconds_of :: "host \<Rightarrow> jsval \<Rightarrow> rat option" where
  "seconds_of h v =
     (case to_number h v of Num r \<Rightarrow> if r \<le> 0 \<or> r > 24 * 60 * 60 then None else Some r | _ \<Rightarrow> None)"

section \<open>The document\<close>

definition invalid_policy :: api_error where
  "invalid_policy = RegistryApiError ''INVALID_POLICY'' 400 False"

definition parse_scanner_policy :: "host \<Rightarrow> jsval \<Rightarrow> scanner_policy api" where
  "parse_scanner_policy h raw =
     (if \<not> is_object raw then Inl invalid_policy
      else case parse_scanner (get_prop raw ''id'') of
        None \<Rightarrow> Inl invalid_policy
      | Some i \<Rightarrow> (case parse_mode (get_prop raw ''mode'') of
          None \<Rightarrow> Inl invalid_policy
        | Some mode \<Rightarrow> (case arr_of (get_prop raw ''blockSeverities'') of
            None \<Rightarrow> Inl invalid_policy
          | Some severities \<Rightarrow> (case those (map parse_severity severities) of
              None \<Rightarrow> Inl invalid_policy
            | Some blocking \<Rightarrow> (case seconds_of h (get_prop raw ''timeoutSeconds'') of
                None \<Rightarrow> Inl invalid_policy
              | Some timeout \<Rightarrow>
                  Inr \<lparr>sp_id = i, sp_mode = mode, sp_blockSeverities = blocking, sp_timeoutSeconds = timeout,
                       sp_configuration = (if is_object (get_prop raw ''configuration'')
                                           then Some (get_prop raw ''configuration'') else None)\<rparr>)))))"

text \<open>The pattern \<open>^[A-Z_][A-Z0-9_]{0,127}$\<close>.\<close>

definition env_name_ok :: "jstring \<Rightarrow> bool" where
  "env_name_ok s \<longleftrightarrow> s \<noteq> [] \<and> length s \<le> 128 \<and> (is_upper (hd s) \<or> hd s = 95) \<and>
     list_all (\<lambda>c. is_upper c \<or> is_digit c \<or> c = 95) s"

definition hook_url_ok :: "host \<Rightarrow> jstring option \<Rightarrow> bool" where
  "hook_url_ok h url =
     (case url of
        None \<Rightarrow> True
      | Some u \<Rightarrow> (case parseUrl h u of
          None \<Rightarrow> False
        | Some parsed \<Rightarrow> url_protocol parsed = js ''https:'' \<and> url_username parsed = [] \<and> url_password parsed = []))"

definition parse_hook :: "host \<Rightarrow> (nat \<Rightarrow> jstring) \<Rightarrow> nat \<times> jsval \<Rightarrow> hook_configuration api" where
  "parse_hook h hookId = (\<lambda>(n, value).
     if \<not> is_object value then Inl invalid_policy
     else case parse_event (get_prop value ''event'') of
       None \<Rightarrow> Inl invalid_policy
     | Some event \<Rightarrow> (case parse_mode (get_prop value ''mode'') of
         None \<Rightarrow> Inl invalid_policy
       | Some mode \<Rightarrow> (case seconds_of h (get_prop value ''timeoutSeconds'') of
           None \<Rightarrow> Inl invalid_policy
         | Some timeout \<Rightarrow>
             (if \<not> hook_url_ok h (stringValue (get_prop value ''url'')) then Inl invalid_policy
              else if (case stringValue (get_prop value ''secretEnv'') of None \<Rightarrow> False | Some s \<Rightarrow> \<not> env_name_ok s)
                then Inl invalid_policy
              else Inr \<lparr>hk_id = (case stringValue (get_prop value ''id'') of Some i \<Rightarrow> i | None \<Rightarrow> hookId n),
                        hk_event = event, hk_mode = mode, hk_url = stringValue (get_prop value ''url''),
                        hk_secretEnv = stringValue (get_prop value ''secretEnv''), hk_timeoutSeconds = timeout\<rparr>))))"

definition parseHooks :: "host \<Rightarrow> (nat \<Rightarrow> jstring) \<Rightarrow> jsval \<Rightarrow> hook_configuration list api" where
  "parseHooks h hookId raw =
     (case arr_of raw of
        None \<Rightarrow> Inl invalid_policy
      | Some values \<Rightarrow>
          bindr (mapr (parse_hook h hookId) (enumerate 0 values)) (\<lambda>hooks.
            if length (unique (map hk_id hooks)) \<noteq> length hooks then Inl invalid_policy else Inr hooks))"

definition parsePolicy :: "host \<Rightarrow> (nat \<Rightarrow> jstring) \<Rightarrow> jsval \<Rightarrow> policy api" where
  "parsePolicy h hookId body =
     (case arr_of (get_prop body ''scanners'') of
        None \<Rightarrow> Inl invalid_policy
      | Some raws \<Rightarrow>
          bindr (mapr (parse_scanner_policy h) raws) (\<lambda>scanners.
          if length (unique (map sp_id scanners)) \<noteq> length scanners then Inl invalid_policy
          else case get_prop body ''allowUnscanned'' of
            JBool allowUnscanned \<Rightarrow>
              (case to_number h (get_prop body ''evidenceMaxAgeSeconds'') of
                 Num age \<Rightarrow>
                   (if age < 0 then Inl invalid_policy
                    else bindr (if get_prop body ''hooks'' = JUndefined then Inr []
                                else parseHooks h hookId (get_prop body ''hooks'')) (\<lambda>hooks.
                      Inr \<lparr>po_revision = (case stringValue (get_prop body ''revision'') of Some r \<Rightarrow> r | None \<Rightarrow> []),
                           po_scanners = scanners, po_allowUnscanned = allowUnscanned,
                           po_evidenceMaxAgeSeconds = age, po_hooks = hooks\<rparr>))
               | _ \<Rightarrow> Inl invalid_policy)
          | _ \<Rightarrow> Inl invalid_policy))"

definition policy_runtime_ok :: "policy \<Rightarrow> bool" where
  "policy_runtime_ok po \<longleftrightarrow>
     po_revision po \<noteq> [] \<and> 0 \<le> po_evidenceMaxAgeSeconds po \<and>
     list_all (\<lambda>sc. 0 < sp_timeoutSeconds sc) (po_scanners po) \<and> distinct (map sp_id (po_scanners po))"

section \<open>A document that is accepted can be read back\<close>

lemma seconds_of_SomeD: "seconds_of h v = Some r \<Longrightarrow> 0 < r \<and> r \<le> 86400"
  by (auto simp: seconds_of_def split: jnum.splits if_splits)

lemma parse_scanner_policy_InrD:
  "parse_scanner_policy h raw = Inr sc \<Longrightarrow> 0 < sp_timeoutSeconds sc \<and> sp_timeoutSeconds sc \<le> 86400"
  by (auto simp: parse_scanner_policy_def result_simps dest!: seconds_of_SomeD)

lemma parsePolicy_runtime_ok:
  assumes "parsePolicy h hookId body = Inr po" and "r \<noteq> []"
  shows "policy_runtime_ok (po\<lparr>po_revision := r\<rparr>)"
proof -
  obtain raws scanners where raws: "mapr (parse_scanner_policy h) raws = Inr scanners"
    "length (unique (map sp_id scanners)) = length scanners" "po_scanners po = scanners" "0 \<le> po_evidenceMaxAgeSeconds po"
    using assms(1)
    by (auto simp: parsePolicy_def result_simps)
  moreover have "distinct (map sp_id scanners)"
    using raws(2) length_unique_eq_distinct [of "map sp_id scanners"] by simp
  moreover have "0 < sp_timeoutSeconds sc" if "sc \<in> set scanners" for sc
    using mapr_InrD [OF raws(1) that] parse_scanner_policy_InrD by blast
  ultimately show ?thesis
    using assms(2) by (auto simp: policy_runtime_ok_def list_all_iff)
qed

end
