(* ===== verification/Registry.thy ===== *)
theory Registry
  imports Access Versions Admission Text_Encoding Policy_Input
begin

text \<open>
  The registry's own state transitions of \<open>packages/core/src/index.ts\<close>: state validation on read,
  resolution of skills and packs, publication, packs, policy updates, rescans and revocation.

  A handler reads a snapshot, checks it, and commits in a transaction that may see a newer state.
  Both states are arguments: \<open>s0\<close> is the snapshot, \<open>s\<close> the state inside the transaction, so every
  theorem holds for any interleaving with other requests. The clock is read once per phase
  (\<open>en_now0\<close> before, \<open>en_now\<close> inside the transaction) and the random identifiers a request draws are
  the other fields of \<open>env\<close>. A thrown error is \<open>Inl\<close> and leaves the state as it was.
\<close>

record env =
  en_now0 :: int
  en_now :: int
  en_skill :: jstring
  en_job :: jstring
  en_pack :: jstring
  en_policy :: jstring
  en_hook :: "nat \<Rightarrow> jstring"
  en_authz :: jstring
  en_ticket :: jstring
  en_grant :: jstring
  en_receipt :: jstring
  en_lease :: jstring
  en_audit :: jstring
  en_upstream :: jstring

section \<open>Reading the state\<close>

definition internal_state_invalid :: api_error where
  "internal_state_invalid = RegistryApiError ''INTERNAL_STATE_INVALID'' 500 False"

definition stamp_present :: "timestamp \<Rightarrow> bool" where
  "stamp_present t \<longleftrightarrow> t \<noteq> BadStamp []"

definition ticket_state_ok :: "jstring \<Rightarrow> install_receipt_ticket \<Rightarrow> bool" where
  "ticket_state_ok org t \<longleftrightarrow>
     ti_organizationId t = org \<and> rs_organizationId (ti_resolution t) = org \<and>
     ti_id t \<noteq> [] \<and> ti_authorizationId t \<noteq> [] \<and> ti_subject t \<noteq> [] \<and>
     stamp_present (ti_issuedAt t) \<and> stamp_present (ti_expiresAt t)"

definition receipt_state_ok :: "jstring \<Rightarrow> install_receipt \<Rightarrow> bool" where
  "receipt_state_ok org r \<longleftrightarrow>
     re_organizationId r = org \<and> rs_organizationId (re_resolution r) = org \<and>
     re_id r \<noteq> [] \<and> re_authorizationId r \<noteq> [] \<and> re_ticketId r \<noteq> [] \<and> re_subject r \<noteq> [] \<and>
     stamp_present (re_createdAt r) \<and> stamp_present (re_expiresAt r)"

definition job_state_ok :: "jstring \<Rightarrow> job \<Rightarrow> bool" where
  "job_state_ok org j \<longleftrightarrow>
     jb_organizationId j = org \<and> (case jb_upstream j of None \<Rightarrow> True | Some u \<Rightarrow> up_organizationId u = org)"

definition authorization_state_ok :: "jstring \<Rightarrow> install_authorization \<Rightarrow> bool" where
  "authorization_state_ok org a \<longleftrightarrow>
     au_organizationId a = org \<and> rs_organizationId (au_resolution a) = org"

text \<open>
  All checks of \<open>validateStateStatuses\<close> raise the same error, so their conjunction is one predicate;
  the tests that a status is one of its enumeration's values hold by typing.
\<close>

definition state_ok :: "jstring \<Rightarrow> registry_state \<Rightarrow> bool" where
  "state_ok org st \<longleftrightarrow>
     policy_runtime_ok (st_policy st) \<and>
     list_all (\<lambda>s. sk_organizationId s = org) (st_skills st) \<and>
     list_all (\<lambda>p. pk_organizationId p = org) (st_packs st) \<and>
     list_all (job_state_ok org) (st_jobs st) \<and>
     list_all (\<lambda>s. sr_organizationId s = org) (st_scans st) \<and>
     list_all (\<lambda>u. up_organizationId u = org) (st_upstreams st) \<and>
     list_all (authorization_state_ok org) (st_authorizations st) \<and>
     list_all (ticket_state_ok org) (st_installReceiptTickets st) \<and>
     list_all (receipt_state_ok org) (st_installReceipts st) \<and>
     list_all (\<lambda>g. gr_organizationId g = org) (st_grants st) \<and>
     list_all (\<lambda>e. ae_organizationId e = org) (st_audit st)"

definition validateStateStatuses :: "registry_state \<Rightarrow> jstring \<Rightarrow> unit api" where
  "validateStateStatuses st org = (if state_ok org st then Inr () else Inl internal_state_invalid)"

definition readState :: "jstring \<Rightarrow> registry_state \<Rightarrow> registry_state api" where
  "readState org st = bindr (validateStateStatuses st org) (\<lambda>_. Inr st)"

definition audit :: "principal \<Rightarrow> string \<Rightarrow> jstring option \<Rightarrow> jstring \<Rightarrow> env \<Rightarrow> audit_event" where
  "audit p action resourceId org e =
     \<lparr>ae_id = en_audit e, ae_organizationId = org, ae_subject = pr_subject p, ae_action = action,
      ae_resourceId = resourceId, ae_createdAt = Stamp (en_now e)\<rparr>"

definition appendAudit :: "audit_event \<Rightarrow> registry_state \<Rightarrow> registry_state" where
  "appendAudit ev st = st\<lparr>st_audit := st_audit st @ [ev]\<rparr>"

section \<open>Resolution\<close>

datatype resource = SkillResource skill_version | PackResource pack_version

datatype resolve_result = Resolved resource resolution | PendingJob job | NotResolved

lemma case_resolved_eq_Inr [result_simps]:
  "(case r of Resolved res q \<Rightarrow> f res q | PendingJob j \<Rightarrow> Inl (g j) | NotResolved \<Rightarrow> Inl e) = Inr z \<longleftrightarrow>
     (\<exists>res q. r = Resolved res q \<and> f res q = Inr z)"
  by (cases r) auto

lemma case_skill_resource_eq_Inr [result_simps]:
  "(case res of PackResource k \<Rightarrow> Inl e | SkillResource k \<Rightarrow> f k) = Inr z \<longleftrightarrow>
     (\<exists>k. res = SkillResource k \<and> f k = Inr z)"
  by (cases res) auto

definition skill_by_id :: "registry_state \<Rightarrow> jstring \<Rightarrow> skill_version option" where
  "skill_by_id st i = find (\<lambda>s. sk_id s = i) (st_skills st)"

definition skillResolution :: "skill_version \<Rightarrow> resolution" where
  "skillResolution sk =
     \<lparr>rs_kind = SkillKind, rs_resourceId = sk_id sk, rs_organizationId = sk_organizationId sk,
      rs_name = sk_name sk, rs_version = sk_version sk, rs_digest = blob_digest (sk_artifact sk),
      rs_members = [sk]\<rparr>"

definition pending_scan_job :: "registry_state \<Rightarrow> principal \<Rightarrow> jstring \<Rightarrow> jstring option \<Rightarrow> job \<Rightarrow> bool" where
  "pending_scan_job st p ref version j =
     (case jb_resourceId j of
        None \<Rightarrow> False
      | Some rid \<Rightarrow> rid \<noteq> [] \<and> jb_kind j = ScanJob \<and>
          (case skill_by_id st rid of
             None \<Rightarrow> False
           | Some s \<Rightarrow> canReadNamespace p (sk_name s) \<and> (sk_id s = ref \<or> sk_name s = ref) \<and>
               (version = None \<or> version = Some (sk_version s))))"

definition pending_import_job :: "principal \<Rightarrow> jstring \<Rightarrow> jstring option \<Rightarrow> job \<Rightarrow> bool" where
  "pending_import_job p ref version j =
     ((jb_state j = Queued \<or> jb_state j = Running) \<and> jb_kind j = ImportJob \<and>
      (case jb_import j of
         None \<Rightarrow> False
       | Some r \<Rightarrow> canPublishName p (im_name r) \<and> im_name r = ref \<and>
           (version = None \<or> version = Some (im_version r))))"

definition resolve_skill ::
    "host \<Rightarrow> int \<Rightarrow> registry_state \<Rightarrow> principal \<Rightarrow> jstring \<Rightarrow> jstring option \<Rightarrow> resolve_result" where
  "resolve_skill h now st p ref version =
     (let candidates = filter (\<lambda>s. canReadNamespace p (sk_name s) \<and>
                                  (sk_id s = ref \<or> sk_name s = ref \<or> sk_skillName s = ref)) (st_skills st)
      in case chooseVersion h sk_version candidates version of
           None \<Rightarrow>
             (case find (pending_scan_job st p ref version) (st_jobs st) of
                Some j \<Rightarrow> PendingJob j
              | None \<Rightarrow> (case find (pending_import_job p ref version) (st_jobs st) of
                  Some j \<Rightarrow> PendingJob j
                | None \<Rightarrow> NotResolved))
         | Some selected \<Rightarrow>
             (if sk_state selected = Pending then
                (case find (\<lambda>j. jb_resourceId j = Some (sk_id selected) \<and> jb_kind j = ScanJob) (st_jobs st) of
                   Some j \<Rightarrow> PendingJob j
                 | None \<Rightarrow> NotResolved)
              else if \<not> skillCurrentlyApproved st selected now then NotResolved
              else Resolved (SkillResource selected) (skillResolution selected)))"

fun pack_members ::
    "int \<Rightarrow> registry_state \<Rightarrow> principal \<Rightarrow> pack_member list \<Rightarrow> skill_version list option" where
  "pack_members now st p [] = Some []"
| "pack_members now st p (m # ms) =
     (case skill_by_id st (pm_resourceId m) of
        None \<Rightarrow> None
      | Some s \<Rightarrow>
          (if \<not> skillCurrentlyApproved st s now \<or> blob_digest (sk_artifact s) \<noteq> pm_digest m
              \<or> \<not> canReadNamespace p (sk_name s) then None
           else map_option (\<lambda>ss. s # ss) (pack_members now st p ms)))"

definition resolve_pack ::
    "host \<Rightarrow> int \<Rightarrow> registry_state \<Rightarrow> principal \<Rightarrow> jstring \<Rightarrow> jstring option \<Rightarrow> resolve_result" where
  "resolve_pack h now st p ref version =
     (let candidates = filter (\<lambda>k. canReadNamespace p (pk_name k) \<and> (pk_id k = ref \<or> pk_name k = ref)) (st_packs st)
      in case chooseVersion h pk_version candidates version of
           None \<Rightarrow> NotResolved
         | Some selected \<Rightarrow>
             (if pk_state selected \<noteq> PackApproved \<or> pk_policyRevision selected \<noteq> po_revision (st_policy st)
              then NotResolved
              else (case pack_members now st p (pk_members selected) of
                      None \<Rightarrow> NotResolved
                    | Some members \<Rightarrow>
                        Resolved (PackResource selected)
                          \<lparr>rs_kind = PackKind, rs_resourceId = pk_id selected,
                           rs_organizationId = pk_organizationId selected, rs_name = pk_name selected,
                           rs_version = pk_version selected, rs_digest = pk_manifestDigest selected,
                           rs_members = members\<rparr>)))"

definition resolveResource ::
    "host \<Rightarrow> int \<Rightarrow> registry_state \<Rightarrow> principal \<Rightarrow> resource_kind \<Rightarrow> jstring \<Rightarrow> jstring option \<Rightarrow> resolve_result" where
  "resolveResource h now st p kind ref version =
     (case kind of
        SkillKind \<Rightarrow> resolve_skill h now st p ref version
      | PackKind \<Rightarrow> resolve_pack h now st p ref version)"

definition same_member :: "skill_version \<Rightarrow> skill_version \<Rightarrow> bool" where
  "same_member m other \<longleftrightarrow>
     sk_id m = sk_id other \<and> sk_name m = sk_name other \<and>
     blob_digest (sk_artifact m) = blob_digest (sk_artifact other) \<and> sk_version m = sk_version other"

definition sameResolution :: "resolution \<Rightarrow> resolution \<Rightarrow> bool" where
  "sameResolution a b \<longleftrightarrow>
     rs_kind a = rs_kind b \<and> rs_resourceId a = rs_resourceId b \<and> rs_organizationId a = rs_organizationId b \<and>
     rs_name a = rs_name b \<and> rs_version a = rs_version b \<and> rs_digest a = rs_digest b \<and>
     list_all2 same_member (rs_members a) (rs_members b)"

definition getVisibleApprovedSkills :: "registry_state \<Rightarrow> principal \<Rightarrow> int \<Rightarrow> skill_version list" where
  "getVisibleApprovedSkills st p now =
     filter (\<lambda>s. canReadNamespace p (sk_name s) \<and> skillCurrentlyApproved st s now) (st_skills st)"

definition jobVisibleToPrincipal :: "job \<Rightarrow> registry_state \<Rightarrow> principal \<Rightarrow> bool" where
  "jobVisibleToPrincipal j st p =
     (if hasRole p Owner \<or> hasRole p Admin then True
      else (case jb_resourceId j of
          Some (c # cs) \<Rightarrow>
            (case skill_by_id st (c # cs) of None \<Rightarrow> False | Some s \<Rightarrow> canReadNamespace p (sk_name s))
        | _ \<Rightarrow>
            (case jb_import j of
               None \<Rightarrow> False
             | Some r \<Rightarrow>
                 (if (im_externalId r \<noteq> None \<and> im_externalId r \<noteq> Some [])
                     \<or> (im_sourceReference r \<noteq> None \<and> im_sourceReference r \<noteq> Some [])
                  then canReadNamespace p (im_name r) else canPublishName p (im_name r)))))"

definition packVisibleToPrincipal :: "pack_version \<Rightarrow> registry_state \<Rightarrow> principal \<Rightarrow> bool" where
  "packVisibleToPrincipal k st p =
     (if \<not> canReadNamespace p (pk_name k) then False
      else if hasRole p Owner \<or> hasRole p Admin then True
      else list_all (\<lambda>m. case skill_by_id st (pm_resourceId m) of
                           None \<Rightarrow> False
                         | Some s \<Rightarrow> canReadNamespace p (sk_name s)) (pk_members k))"

definition resolveRoute :: "host \<Rightarrow> jstring \<Rightarrow> jsval \<Rightarrow> principal \<Rightarrow> int \<Rightarrow> registry_state \<Rightarrow> (job + resolution) api" where
  "resolveRoute h org body p now s0 =
     (case (if get_prop body ''kind'' = JStr (js ''skill'') then Some SkillKind
            else if get_prop body ''kind'' = JStr (js ''pack'') then Some PackKind else None) of
        None \<Rightarrow> Inl (RegistryApiError ''INVALID_RESOLUTION'' 400 False)
      | Some kind \<Rightarrow>
          (case stringValue (get_prop body ''ref'') of
             None \<Rightarrow> Inl (RegistryApiError ''INVALID_RESOLUTION'' 400 False)
           | Some ref \<Rightarrow>
               bindr (if get_prop body ''version'' = JUndefined then Inr None
                      else map_sum id Some (requireVersion (get_prop body ''version'')))
                 (\<lambda>version. bindr (readState org s0)
                   (\<lambda>st. case resolveResource h now st p kind ref version of
                           PendingJob j \<Rightarrow> Inr (Inl j)
                         | NotResolved \<Rightarrow> Inl unavailable
                         | Resolved _ r \<Rightarrow> Inr (Inr r)))))"

section \<open>Publication\<close>

text \<open>
  What the handlers take from the bundle component: \<open>bo_encode\<close> is \<open>validateBundle\<close> then
  \<open>encodeBundle\<close> (the canonical bytes and the number of files), \<open>bo_metadata\<close> is
  \<open>parseSkillMetadata\<close> (the skill name and the description). A failure has gone through
  \<open>bundleError\<close>.
\<close>

record bundle_ops =
  bo_encode :: "jsval \<Rightarrow> (nat list \<times> nat) api"
  bo_metadata :: "jsval \<Rightarrow> (jstring \<times> jstring) api"

text \<open>The injected blob store: \<open>None\<close> when \<open>put\<close> throws.\<close>

type_synonym blob_put = "nat list \<Rightarrow> stored_blob option"

definition putVerifiedBlob :: "blob_put \<Rightarrow> nat list \<Rightarrow> jstring \<Rightarrow> stored_blob api" where
  "putVerifiedBlob put bytes digest =
     (case put bytes of
        None \<Rightarrow> Inl (RegistryApiError ''STORAGE_UNAVAILABLE'' 503 True)
      | Some stored \<Rightarrow>
          (if blob_digest stored \<noteq> digest \<or> blob_size stored \<noteq> length bytes \<or> blob_key stored = []
           then Inl (RegistryApiError ''DIGEST_MISMATCH'' 409 False)
           else Inr stored))"

definition version_conflict :: api_error where
  "version_conflict = RegistryApiError ''VERSION_CONFLICT'' 409 False"

definition slug_of_name :: "jstring \<Rightarrow> jstring" where
  "slug_of_name name = (if 47 \<in> set name then drop 1 (dropWhile (\<lambda>c. c \<noteq> 47) name) else name)"

definition new_scan_job ::
    "jstring \<Rightarrow> env \<Rightarrow> jstring \<Rightarrow> stored_blob \<Rightarrow> policy \<Rightarrow> job" where
  "new_scan_job org e skillId artifact po =
     \<lparr>jb_id = en_job e, jb_organizationId = org, jb_kind = ScanJob, jb_state = Queued,
      jb_resourceId = Some skillId, jb_artifact = Some artifact, jb_policyRevision = po_revision po,
      jb_policy = po, jb_import = None, jb_upstream = None, jb_createdAt = Stamp (en_now0 e),
      jb_updatedAt = Stamp (en_now0 e), jb_attempts = 0, jb_leaseToken = None, jb_leaseExpiresAt = None,
      jb_error = None\<rparr>"

definition publish_skill_record ::
    "jstring \<Rightarrow> env \<Rightarrow> jstring \<Rightarrow> jstring \<Rightarrow> jstring \<Rightarrow> jstring \<times> jstring \<Rightarrow> nat \<Rightarrow> stored_blob \<Rightarrow> policy \<Rightarrow> skill_version" where
  "publish_skill_record org e name version description metadata fileCount stored po =
     \<lparr>sk_id = en_skill e, sk_organizationId = org, sk_name = name,
      sk_skillName = (case normalizeSkillName (JStr (fst metadata)) of Some n \<Rightarrow> n | None \<Rightarrow> slug_of_name name),
      sk_version = version,
      sk_description = (if description \<noteq> [] then description else snd metadata),
      sk_artifact = stored, sk_state = Pending, sk_policyRevision = po_revision po,
      sk_createdAt = Stamp (en_now0 e), sk_approvedAt = None, sk_fileCount = fileCount, sk_scanIds = []\<rparr>"

definition publishSkill ::
    "host \<Rightarrow> blob_put \<Rightarrow> bundle_ops \<Rightarrow> jstring \<Rightarrow> jsval \<Rightarrow> principal \<Rightarrow> env \<Rightarrow>
     registry_state \<Rightarrow> registry_state \<Rightarrow> (registry_state \<times> job) api" where
  "publishSkill h put bo org body p e s0 s =
     bindr (requireSkillName (get_prop body ''name'')) (\<lambda>name.
     if \<not> canPublishName p name then Inl forbidden
     else bindr (requireVersion (get_prop body ''version'')) (\<lambda>version.
     if get_prop body ''description'' \<noteq> JUndefined \<and> str_of (get_prop body ''description'') = None
       then Inl (RegistryApiError ''INVALID_REQUEST'' 400 False)
     else if \<not> is_object (get_prop body ''bundle'') then Inl (RegistryApiError ''BUNDLE_INVALID'' 400 False)
     else bindr (bo_encode bo (get_prop body ''bundle'')) (\<lambda>(bytes, fileCount).
     bindr (bo_metadata bo (get_prop body ''bundle'')) (\<lambda>metadata.
     let digest = digestBytes h bytes;
         description = (case stringValue (get_prop body ''description'') of None \<Rightarrow> [] | Some d \<Rightarrow> d) in
     bindr (readState org s0) (\<lambda>st0.
     if \<exists>k \<in> set (st_skills st0). sk_name k = name \<and> sk_version k = version then Inl version_conflict
     else bindr (putVerifiedBlob put bytes digest) (\<lambda>stored.
     let po = st_policy st0;
         skill = publish_skill_record org e name version description metadata fileCount stored po;
         j = new_scan_job org e (en_skill e) stored po in
     if \<exists>k \<in> set (st_skills s). sk_name k = name \<and> sk_version k = version then Inl version_conflict
     else Inr (appendAudit (audit p ''skill.publish.queued'' (Some (en_skill e)) org e)
                 (s\<lparr>st_skills := st_skills s @ [skill], st_jobs := st_jobs s @ [j]\<rparr>), j)))))))"

section \<open>Packs\<close>

text \<open>\<open>stableStringify\<close> on the values that manifests and cache keys are made of: keys sorted by code unit.\<close>

datatype manifest_value =
    MNull
  | MStr jstring
  | MArr "manifest_value list"
  | MObj "(jstring \<times> manifest_value) list"

function stableStringify :: "manifest_value \<Rightarrow> jstring" where
  "stableStringify MNull = js ''null''"
| "stableStringify (MStr s) = json_quote s"
| "stableStringify (MArr vs) = [91] @ join [44] (map stableStringify vs) @ [93]"
| "stableStringify (MObj ps) =
     [123] @ join [44] (map (\<lambda>(k, v). json_quote k @ [58] @ stableStringify v)
       (sort_by (\<lambda>a b. jstr_cmp (fst a) (fst b)) ps)) @ [125]"
  by pat_completeness auto
termination
proof (relation "measure size")
  fix vs :: "manifest_value list" and v
  assume "v \<in> set vs"
  then show "(v, MArr vs) \<in> measure size"
    by (induction vs) auto
next
  fix ps :: "(jstring \<times> manifest_value) list" and q k v
  assume "q \<in> set (sort_by (\<lambda>a b. jstr_cmp (fst a) (fst b)) ps)" and "(k, v) = q"
  then have "(k, v) \<in> set ps" by simp
  then show "(v, MObj ps) \<in> measure size"
    by (induction ps) auto
qed simp

definition manifest_of :: "jstring \<Rightarrow> jstring \<Rightarrow> jstring \<Rightarrow> pack_member list \<Rightarrow> manifest_value" where
  "manifest_of name version description members =
     MObj [(js ''name'', MStr name), (js ''version'', MStr version), (js ''description'', MStr description),
           (js ''members'', MArr (map (\<lambda>m. MObj [(js ''resourceId'', MStr (pm_resourceId m)),
              (js ''name'', MStr (pm_name m)), (js ''version'', MStr (pm_version m)),
              (js ''digest'', MStr (pm_digest m))]) members))]"

definition policy_blocked :: "bool \<Rightarrow> api_error" where
  "policy_blocked retryable = RegistryApiError ''POLICY_BLOCKED'' 409 retryable"

definition invalid_pack :: api_error where
  "invalid_pack = RegistryApiError ''INVALID_PACK'' 400 False"

fun collect_members ::
    "host \<Rightarrow> int \<Rightarrow> registry_state \<Rightarrow> principal \<Rightarrow> jstring list \<Rightarrow> jsval list \<Rightarrow> pack_member list api" where
  "collect_members h now st p ids [] = Inr []"
| "collect_members h now st p ids (raw # raws) =
     (if \<not> is_object raw then Inl invalid_pack
      else bindr (requireVersion (get_prop raw ''version'')) (\<lambda>version.
        case stringValue (get_prop raw ''ref'') of
          None \<Rightarrow> Inl invalid_pack
        | Some ref \<Rightarrow>
            (case resolveResource h now st p SkillKind ref (Some version) of
               PendingJob _ \<Rightarrow> Inl (RegistryApiError ''SCAN_PENDING'' 409 True)
             | NotResolved \<Rightarrow> Inl (policy_blocked False)
             | Resolved (PackResource _) _ \<Rightarrow> Inl (policy_blocked False)
             | Resolved (SkillResource sk) _ \<Rightarrow>
                 (if sk_state sk \<noteq> Approved then Inl (policy_blocked False)
                  else if sk_id sk \<in> set ids then Inl invalid_pack
                  else bindr (collect_members h now st p (ids @ [sk_id sk]) raws) (\<lambda>ms.
                    Inr (\<lparr>pm_resourceId = sk_id sk, pm_name = sk_name sk, pm_version = sk_version sk,
                          pm_digest = blob_digest (sk_artifact sk)\<rparr> # ms))))))"

definition member_current :: "registry_state \<Rightarrow> pack_member \<Rightarrow> bool" where
  "member_current st m =
     (case skill_by_id st (pm_resourceId m) of
        None \<Rightarrow> False
      | Some s \<Rightarrow> sk_state s = Approved \<and> blob_digest (sk_artifact s) = pm_digest m
          \<and> sk_policyRevision s = po_revision (st_policy st))"

definition createPack ::
    "host \<Rightarrow> jstring \<Rightarrow> jsval \<Rightarrow> principal \<Rightarrow> env \<Rightarrow> registry_state \<Rightarrow> registry_state \<Rightarrow>
     (registry_state \<times> pack_version) api" where
  "createPack h org body p e s0 s =
     bindr (requireSkillName (get_prop body ''name'')) (\<lambda>name.
     if \<not> canPublishName p name then Inl forbidden
     else bindr (requireVersion (get_prop body ''version'')) (\<lambda>version.
     if get_prop body ''description'' \<noteq> JUndefined \<and> str_of (get_prop body ''description'') = None
       then Inl invalid_pack
     else case arr_of (get_prop body ''skills'') of
       None \<Rightarrow> Inl invalid_pack
     | Some raws \<Rightarrow>
     if raws = [] \<or> length raws > 500 then Inl invalid_pack
     else bindr (readState org s0) (\<lambda>st0.
     if \<exists>k \<in> set (st_packs st0). pk_name k = name \<and> pk_version k = version then Inl version_conflict
     else bindr (collect_members h (en_now0 e) st0 p [] raws) (\<lambda>members.
     let description = (case stringValue (get_prop body ''description'') of None \<Rightarrow> [] | Some d \<Rightarrow> d);
         pack = \<lparr>pk_id = en_pack e, pk_organizationId = org, pk_name = name, pk_version = version,
                 pk_description = description, pk_members = members,
                 pk_manifestDigest =
                   digestBytes h (utf8_encode (stableStringify (manifest_of name version description members))),
                 pk_state = PackApproved, pk_createdAt = Stamp (en_now0 e),
                 pk_policyRevision = po_revision (st_policy st0)\<rparr> in
     if \<exists>k \<in> set (st_packs s). pk_name k = name \<and> pk_version k = version then Inl version_conflict
     else if \<exists>m \<in> set members. \<not> member_current s m then Inl (policy_blocked True)
     else Inr (appendAudit (audit p ''pack.publish'' (Some (en_pack e)) org e)
                 (s\<lparr>st_packs := st_packs s @ [pack]\<rparr>), pack)))))"

section \<open>Policy, rescan, revocation\<close>

text \<open>The revision of a policy is the server's, whatever the document says.\<close>

definition updatePolicy ::
    "host \<Rightarrow> jstring \<Rightarrow> jsval \<Rightarrow> principal \<Rightarrow> env \<Rightarrow> registry_state \<Rightarrow> registry_state \<Rightarrow>
     (registry_state \<times> policy) api" where
  "updatePolicy h org body p e s0 s =
     bindr (parsePolicy h (en_hook e) body) (\<lambda>policy.
     bindr (readState org s0) (\<lambda>_.
       let next = policy\<lparr>po_revision := en_policy e\<rparr> in
       Inr (appendAudit (audit p ''policy.update'' (Some (po_revision next)) org e) (s\<lparr>st_policy := next\<rparr>), next)))"

definition rescanSkill ::
    "jstring \<Rightarrow> jstring \<Rightarrow> principal \<Rightarrow> env \<Rightarrow> registry_state \<Rightarrow> registry_state \<Rightarrow> (registry_state \<times> job) api" where
  "rescanSkill org i p e s0 s =
     bindr (readState org s0) (\<lambda>st0.
     case find (\<lambda>k. sk_id k = i \<and> canReadNamespace p (sk_name k)) (st_skills st0) of
       None \<Rightarrow> Inl unavailable
     | Some skill \<Rightarrow>
         (let j = new_scan_job org e (sk_id skill) (sk_artifact skill) (st_policy st0) in
          case skill_by_id s i of
            None \<Rightarrow> Inl unavailable
          | Some current \<Rightarrow>
              (if \<not> canReadNamespace p (sk_name current) then Inl unavailable
               else Inr (appendAudit (audit p ''skill.rescan.queued'' (Some i) org e)
                      (s\<lparr>st_skills := update_first (\<lambda>k. sk_id k = i)
                            (\<lambda>k. if sk_state k \<noteq> Revoked then k\<lparr>sk_state := Pending\<rparr> else k) (st_skills s),
                         st_jobs := st_jobs s @ [j]\<rparr>), j))))"

definition revoke_pack :: "jstring \<Rightarrow> pack_version \<Rightarrow> pack_version" where
  "revoke_pack i k = (if \<exists>m \<in> set (pk_members k). pm_resourceId m = i then k\<lparr>pk_state := PackRevoked\<rparr> else k)"

definition revokeSkill ::
    "jstring \<Rightarrow> jstring \<Rightarrow> principal \<Rightarrow> env \<Rightarrow> registry_state \<Rightarrow> registry_state \<Rightarrow> (registry_state \<times> skill_version) api" where
  "revokeSkill org i p e s0 s =
     bindr (readState org s0) (\<lambda>st0.
     case skill_by_id st0 i of
       None \<Rightarrow> Inl unavailable
     | Some existing \<Rightarrow>
         (if \<not> canReadNamespace p (sk_name existing) then Inl unavailable
          else case skill_by_id s i of
            None \<Rightarrow> Inl unavailable
          | Some skill \<Rightarrow>
              (if \<not> canReadNamespace p (sk_name skill) then Inl unavailable
               else Inr (appendAudit (audit p ''skill.revoke'' (Some i) org e)
                      (s\<lparr>st_skills := update_first (\<lambda>k. sk_id k = i) (\<lambda>k. k\<lparr>sk_state := Revoked\<rparr>) (st_skills s),
                         st_packs := map (revoke_pack i) (st_packs s)\<rparr>),
                    skill\<lparr>sk_state := Revoked\<rparr>))))"

section \<open>What a successful handler commits\<close>

lemma readState_Inr_iff [result_simps]: "readState org st = Inr st' \<longleftrightarrow> state_ok org st \<and> st' = st"
  by (auto simp: readState_def validateStateStatuses_def)

lemma publishSkill_InrE:
  assumes "publishSkill h put bo org body p e s0 s = Inr (t, j)"
  obtains name version description metadata fileCount stored where
    "t = appendAudit (audit p ''skill.publish.queued'' (Some (en_skill e)) org e)
       (s\<lparr>st_skills := st_skills s @
            [publish_skill_record org e name version description metadata fileCount stored (st_policy s0)],
          st_jobs := st_jobs s @ [j]\<rparr>)"
    "j = new_scan_job org e (en_skill e) stored (st_policy s0)"
    "\<forall>k \<in> set (st_skills s). \<not> (sk_name k = name \<and> sk_version k = version)"
    "canPublishName p name" "requireSkillName (get_prop body ''name'') = Inr name"
    "requireVersion (get_prop body ''version'') = Inr version"
  using assms by (auto simp: publishSkill_def result_simps Let_def split: prod.splits)

lemma createPack_InrE:
  assumes "createPack h org body p e s0 s = Inr (t, k)"
  obtains raws where
    "t = appendAudit (audit p ''pack.publish'' (Some (en_pack e)) org e) (s\<lparr>st_packs := st_packs s @ [k]\<rparr>)"
    "pk_id k = en_pack e" "pk_organizationId k = org" "pk_state k = PackApproved"
    "pk_policyRevision k = po_revision (st_policy s0)" "state_ok org s0"
    "collect_members h (en_now0 e) s0 p [] raws = Inr (pk_members k)" "raws \<noteq> []" "length raws \<le> 500"
    "\<forall>m \<in> set (pk_members k). member_current s m"
    "\<forall>q \<in> set (st_packs s). \<not> (pk_name q = pk_name k \<and> pk_version q = pk_version k)"
    "canPublishName p (pk_name k)"
  using assms by (auto simp: createPack_def result_simps Let_def not_less split: option.splits)

lemma updatePolicy_InrE:
  assumes "updatePolicy h org body p e s0 s = Inr (t, po)"
  obtains parsed where "parsePolicy h (en_hook e) body = Inr parsed" "po = parsed\<lparr>po_revision := en_policy e\<rparr>"
    "t = appendAudit (audit p ''policy.update'' (Some (po_revision po)) org e) (s\<lparr>st_policy := po\<rparr>)"
  using assms by (auto simp: updatePolicy_def result_simps Let_def)

lemma rescanSkill_InrE:
  assumes "rescanSkill org i p e s0 s = Inr (t, j)"
  obtains skill where "find (\<lambda>k. sk_id k = i \<and> canReadNamespace p (sk_name k)) (st_skills s0) = Some skill"
    "j = new_scan_job org e (sk_id skill) (sk_artifact skill) (st_policy s0)"
    "skill_by_id s i \<noteq> None"
    "t = appendAudit (audit p ''skill.rescan.queued'' (Some i) org e)
       (s\<lparr>st_skills := update_first (\<lambda>k. sk_id k = i)
             (\<lambda>k. if sk_state k \<noteq> Revoked then k\<lparr>sk_state := Pending\<rparr> else k) (st_skills s),
          st_jobs := st_jobs s @ [j]\<rparr>)"
  using assms by (auto simp: rescanSkill_def result_simps Let_def split: option.splits)

lemma revokeSkill_InrE:
  assumes "revokeSkill org i p e s0 s = Inr (t, k)"
  obtains skill where "skill_by_id s i = Some skill" "k = skill\<lparr>sk_state := Revoked\<rparr>"
    "canReadNamespace p (sk_name skill)"
    "t = appendAudit (audit p ''skill.revoke'' (Some i) org e)
       (s\<lparr>st_skills := update_first (\<lambda>k. sk_id k = i) (\<lambda>k. k\<lparr>sk_state := Revoked\<rparr>) (st_skills s),
          st_packs := map (revoke_pack i) (st_packs s)\<rparr>)"
  using assms by (auto simp: revokeSkill_def result_simps split: option.splits)

section \<open>Resolution is sound\<close>

lemma list_all_findD: "list_all P xs \<Longrightarrow> find q xs = Some x \<Longrightarrow> P x"
  using find_in_set by (fastforce simp: list_all_iff)

lemma skill_by_idD: "skill_by_id st i = Some k \<Longrightarrow> k \<in> set (st_skills st) \<and> sk_id k = i"
  using find_in_set by (fastforce simp: skill_by_id_def)

lemma resolve_skill_ResolvedD:
  assumes "resolve_skill h now st p ref version = Resolved res r"
  obtains k where "k \<in> set (st_skills st)" "canReadNamespace p (sk_name k)" "skillCurrentlyApproved st k now"
    "res = SkillResource k" "r = skillResolution k" "sk_id k = ref \<or> sk_name k = ref \<or> sk_skillName k = ref"
  using assms
  by (auto simp: resolve_skill_def Let_def split: option.splits if_splits dest!: chooseVersion_in(1))

lemma pack_members_SomeD:
  "pack_members now st p ms = Some ks \<Longrightarrow>
   list_all2 (\<lambda>m k. skill_by_id st (pm_resourceId m) = Some k \<and> skillCurrentlyApproved st k now \<and>
     blob_digest (sk_artifact k) = pm_digest m \<and> canReadNamespace p (sk_name k)) ms ks"
  by (induction now st p ms arbitrary: ks rule: pack_members.induct) (auto split: option.splits if_splits)

lemma resolve_pack_ResolvedD:
  assumes "resolve_pack h now st p ref version = Resolved res r"
  obtains k ks where "k \<in> set (st_packs st)" "canReadNamespace p (pk_name k)" "pk_state k = PackApproved"
    "pk_policyRevision k = po_revision (st_policy st)" "pack_members now st p (pk_members k) = Some ks"
    "res = PackResource k" "rs_members r = ks" "rs_kind r = PackKind" "rs_resourceId r = pk_id k"
    "rs_organizationId r = pk_organizationId k" "rs_name r = pk_name k" "rs_version r = pk_version k"
    "rs_digest r = pk_manifestDigest k" "pk_id k = ref \<or> pk_name k = ref"
  using assms
  by (auto simp: resolve_pack_def Let_def split: option.splits if_splits dest!: chooseVersion_in(1))

lemma resolved_members:
  assumes "resolveResource h now st p kind ref version = Resolved res r" and "k \<in> set (rs_members r)"
  shows "k \<in> set (st_skills st) \<and> skillCurrentlyApproved st k now \<and> canReadNamespace p (sk_name k)"
proof (cases kind)
  case SkillKind
  then show ?thesis
    using assms by (auto simp: resolveResource_def skillResolution_def elim!: resolve_skill_ResolvedD)
next
  case PackKind
  with assms(1) have "resolve_pack h now st p ref version = Resolved res r"
    by (simp add: resolveResource_def)
  then obtain q :: pack_version and ks where "pack_members now st p (pk_members q) = Some ks" "rs_members r = ks"
    by (rule resolve_pack_ResolvedD) blast
  with pack_members_SomeD [of now st p "pk_members q" ks] assms(2)
  obtain m :: pack_member where "skill_by_id st (pm_resourceId m) = Some k \<and> skillCurrentlyApproved st k now \<and>
     blob_digest (sk_artifact k) = pm_digest m \<and> canReadNamespace p (sk_name k)"
    by (auto simp: list_all2_conv_all_nth in_set_conv_nth)
  then show ?thesis by (auto dest: skill_by_idD)
qed

lemma resolved_organization:
  assumes "resolveResource h now st p kind ref version = Resolved res r" and "state_ok org st"
  shows "rs_organizationId r = org"
  using assms
  by (auto simp: resolveResource_def state_ok_def list_all_iff skillResolution_def split: resource_kind.splits
      elim!: resolve_skill_ResolvedD resolve_pack_ResolvedD)

end
