(* ===== verification/Install.thy ===== *)
theory Install
  imports Registry
begin

text \<open>
  Install authorizations, download grants, transfers and install receipts of
  \<open>packages/core/src/index.ts\<close>. The conventions are those of the registry theory: \<open>s0\<close> is the
  snapshot a handler read, \<open>s\<close> the state its transaction sees.
\<close>

definition TRANSFER_TTL_SECONDS :: int where "TRANSFER_TTL_SECONDS = 60"
definition INSTALL_RECEIPT_TTL_SECONDS :: int where "INSTALL_RECEIPT_TTL_SECONDS = 24 * 60 * 60"
definition INSTALL_RECEIPT_RETENTION_SECONDS :: int where
  "INSTALL_RECEIPT_RETENTION_SECONDS = 90 * 24 * 60 * 60"
definition MAX_INSTALL_RECEIPTS :: nat where "MAX_INSTALL_RECEIPTS = 100000"
definition MAX_INSTALL_RECEIPT_TICKETS :: nat where "MAX_INSTALL_RECEIPT_TICKETS = 100000"
definition MAX_CLIENT_VERSION_LENGTH :: nat where "MAX_CLIENT_VERSION_LENGTH = 128"

section \<open>Authorizations\<close>

definition assertCurrentResolution ::
    "host \<Rightarrow> int \<Rightarrow> registry_state \<Rightarrow> principal \<Rightarrow> resolution \<Rightarrow> unit api" where
  "assertCurrentResolution h now st p r =
     (case resolveResource h now st p (rs_kind r) (rs_resourceId r) (Some (rs_version r)) of
        Resolved _ r' \<Rightarrow> if \<not> sameResolution r' r then Inl (policy_blocked False) else Inr ()
      | _ \<Rightarrow> Inl (policy_blocked False))"

definition invalid_resolution :: api_error where
  "invalid_resolution = RegistryApiError ''INVALID_RESOLUTION'' 400 False"

definition digest_mismatch :: api_error where
  "digest_mismatch = RegistryApiError ''DIGEST_MISMATCH'' 409 False"

definition supplied_digest :: "jsval \<Rightarrow> jstring option" where
  "supplied_digest raw =
     (if is_object (get_prop raw ''artifact'') then stringValue (get_prop (get_prop raw ''artifact'') ''digest'')
      else None)"

fun check_members :: "jsval list \<Rightarrow> skill_version list \<Rightarrow> unit api" where
  "check_members [] _ = Inr ()"
| "check_members (raw # raws) ms =
     (if \<not> is_object raw then Inl invalid_resolution
      else (case ms of
          [] \<Rightarrow> Inl digest_mismatch
        | m # ms' \<Rightarrow>
            (if stringValue (get_prop raw ''id'') \<noteq> Some (sk_id m)
                \<or> stringValue (get_prop raw ''name'') \<noteq> Some (sk_name m)
                \<or> stringValue (get_prop raw ''version'') \<noteq> Some (sk_version m)
                \<or> supplied_digest raw \<noteq> Some (blob_digest (sk_artifact m))
             then Inl digest_mismatch else check_members raws ms')))"

definition check_plan :: "jsval \<Rightarrow> resolution \<Rightarrow> unit api" where
  "check_plan requested r =
     (if get_prop requested ''digest'' \<noteq> JUndefined \<and> get_prop requested ''digest'' \<noteq> JStr (rs_digest r)
        then Inl digest_mismatch
      else if get_prop requested ''members'' = JUndefined then Inr ()
      else (case arr_of (get_prop requested ''members'') of
              None \<Rightarrow> Inl (policy_blocked False)
            | Some raws \<Rightarrow> if length raws \<noteq> length (rs_members r) then Inl (policy_blocked False)
                           else check_members raws (rs_members r)))"

definition resolveRequestedResolution ::
    "host \<Rightarrow> int \<Rightarrow> jsval \<Rightarrow> registry_state \<Rightarrow> principal \<Rightarrow> resolution api" where
  "resolveRequestedResolution h now requested st p =
     (case (if get_prop requested ''kind'' = JStr (js ''skill'') then Some SkillKind
            else if get_prop requested ''kind'' = JStr (js ''pack'') then Some PackKind else None) of
        None \<Rightarrow> Inl invalid_resolution
      | Some kind \<Rightarrow>
          (case (case stringValue (get_prop requested ''ref'') of
                   Some r \<Rightarrow> Some r | None \<Rightarrow> stringValue (get_prop requested ''resourceId'')) of
             None \<Rightarrow> Inl invalid_resolution
           | Some ref \<Rightarrow>
               bindr (if get_prop requested ''version'' = JUndefined then Inr None
                      else map_sum id Some (requireVersion (get_prop requested ''version'')))
                 (\<lambda>version. case resolveResource h now st p kind ref version of
                    PendingJob _ \<Rightarrow> Inl (RegistryApiError ''SCAN_PENDING'' 409 True)
                  | NotResolved \<Rightarrow> Inl unavailable
                  | Resolved _ r \<Rightarrow> bindr (check_plan requested r) (\<lambda>_. Inr r))))"

definition createInstallAuthorization ::
    "host \<Rightarrow> jstring \<Rightarrow> jsval \<Rightarrow> principal \<Rightarrow> env \<Rightarrow> registry_state \<Rightarrow> registry_state \<Rightarrow>
     (registry_state \<times> install_authorization \<times> install_receipt_ticket) api" where
  "createInstallAuthorization h org body p e s0 s =
     bindr (readState org s0) (\<lambda>st0.
     let requested = (if is_object (get_prop body ''resolution'') then get_prop body ''resolution'' else body) in
     bindr (resolveRequestedResolution h (en_now0 e) requested st0 p) (\<lambda>r.
     bindr (assertCurrentResolution h (en_now0 e) st0 p r) (\<lambda>_.
     let authorization =
           \<lparr>au_id = en_authz e, au_organizationId = org, au_subject = pr_subject p, au_resolution = r,
            au_expiresAt = Stamp (en_now0 e + TRANSFER_TTL_SECONDS * 1000)\<rparr>;
         ticket =
           \<lparr>ti_id = en_ticket e, ti_organizationId = org, ti_subject = pr_subject p,
            ti_authorizationId = en_authz e, ti_resolution = r, ti_issuedAt = Stamp (en_now0 e),
            ti_expiresAt = Stamp (en_now0 e + INSTALL_RECEIPT_TTL_SECONDS * 1000)\<rparr> in
     case resolveResource h (en_now e) s p (rs_kind r) (rs_resourceId r) (Some (rs_version r)) of
       Resolved _ r' \<Rightarrow>
         (if \<not> sameResolution r' r then Inl (policy_blocked True)
          else let tickets = filter (\<lambda>t. \<not> timestampExpired (Some (ti_expiresAt t)) (en_now e))
                               (st_installReceiptTickets s) in
            if length tickets \<ge> MAX_INSTALL_RECEIPT_TICKETS
              then Inl (RegistryApiError ''ANALYTICS_LIMIT'' 503 True)
            else Inr (appendAudit (audit p ''install.authorization.create'' (Some (en_authz e)) org e)
                   (s\<lparr>st_authorizations := st_authorizations s @ [authorization],
                      st_installReceiptTickets := tickets @ [ticket]\<rparr>), authorization, ticket))
     | _ \<Rightarrow> Inl (policy_blocked True))))"

definition find_authorization :: "registry_state \<Rightarrow> jstring \<Rightarrow> principal \<Rightarrow> install_authorization option" where
  "find_authorization st i p = find (\<lambda>a. au_id a = i \<and> au_subject a = pr_subject p) (st_authorizations st)"

text \<open>The checks both phases of a handler that uses an authorization make.\<close>

definition live_authorization ::
    "host \<Rightarrow> int \<Rightarrow> registry_state \<Rightarrow> jstring \<Rightarrow> principal \<Rightarrow> install_authorization api" where
  "live_authorization h now st i p =
     (case find_authorization st i p of
        None \<Rightarrow> Inl unavailable
      | Some a \<Rightarrow>
          (if timestampExpired (Some (au_expiresAt a)) now then Inl unavailable
           else bindr (assertCurrentResolution h now st p (au_resolution a)) (\<lambda>_. Inr a)))"

definition validateInstallAuthorization ::
    "host \<Rightarrow> jstring \<Rightarrow> jstring \<Rightarrow> principal \<Rightarrow> env \<Rightarrow> registry_state \<Rightarrow> registry_state \<Rightarrow>
     (registry_state \<times> install_authorization \<times> install_receipt_ticket option) api" where
  "validateInstallAuthorization h org i p e s0 s =
     bindr (readState org s0) (\<lambda>st0.
     bindr (live_authorization h (en_now0 e) st0 i p) (\<lambda>_.
     bindr (live_authorization h (en_now e) s i p) (\<lambda>current.
     let authorization = current\<lparr>au_expiresAt := Stamp (en_now e + TRANSFER_TTL_SECONDS * 1000)\<rparr> in
     Inr (appendAudit (audit p ''install.authorization.validate'' (Some i) org e)
            (s\<lparr>st_authorizations := update_first (\<lambda>a. au_id a = i \<and> au_subject a = pr_subject p)
                 (\<lambda>_. authorization) (st_authorizations s)\<rparr>),
          authorization,
          find (\<lambda>t. ti_authorizationId t = au_id authorization \<and> ti_subject t = pr_subject p)
            (st_installReceiptTickets s)))))"

section \<open>Grants and transfers\<close>

definition createDownloadGrant ::
    "host \<Rightarrow> jstring \<Rightarrow> jstring \<Rightarrow> jsval \<Rightarrow> principal \<Rightarrow> env \<Rightarrow> registry_state \<Rightarrow> registry_state \<Rightarrow>
     (registry_state \<times> transfer_grant \<times> nat) api" where
  "createDownloadGrant h org digest body p e s0 s =
     (if \<not> isDigest digest then Inl (RegistryApiError ''INVALID_DIGEST'' 400 False)
      else case (stringValue (get_prop body ''resourceId''), stringValue (get_prop body ''authorizationId'')) of
        (Some resourceId, Some authorizationId) \<Rightarrow>
          bindr (readState org s0) (\<lambda>st0.
          bindr (live_authorization h (en_now0 e) st0 authorizationId p) (\<lambda>_.
          bindr (live_authorization h (en_now e) s authorizationId p) (\<lambda>current.
          case find (\<lambda>m. sk_id m = resourceId \<and> blob_digest (sk_artifact m) = digest)
                 (rs_members (au_resolution current)) of
            None \<Rightarrow> Inl unavailable
          | Some m \<Rightarrow>
              (if sk_state m \<noteq> Approved then Inl unavailable
               else let grant =
                   \<lparr>gr_id = en_grant e, gr_organizationId = org, gr_subject = pr_subject p,
                    gr_resourceId = resourceId, gr_authorizationId = authorizationId,
                    gr_digest = blob_digest (sk_artifact m),
                    gr_expiresAt = Stamp (en_now e + TRANSFER_TTL_SECONDS * 1000)\<rparr> in
                 Inr (appendAudit (audit p ''artifact.download.grant'' (Some resourceId) org e)
                        (s\<lparr>st_grants := st_grants s @ [grant]\<rparr>), grant, blob_size (sk_artifact m))))))
      | _ \<Rightarrow> Inl (RegistryApiError ''INVALID_REQUEST'' 400 False))"

text \<open>The injected blob store: \<open>None\<close> when \<open>get\<close> throws.\<close>

type_synonym blob_get = "jstring \<Rightarrow> nat list option"

definition serveTransferGrant ::
    "host \<Rightarrow> blob_get \<Rightarrow> jstring \<Rightarrow> jstring \<Rightarrow> principal \<Rightarrow> int \<Rightarrow> registry_state \<Rightarrow> nat list api" where
  "serveTransferGrant h get org grantId p now s0 =
     bindr (readState org s0) (\<lambda>st.
     case find (\<lambda>g. gr_id g = grantId) (st_grants st) of
       None \<Rightarrow> Inl unavailable
     | Some grant \<Rightarrow>
         (if gr_organizationId grant \<noteq> org \<or> gr_subject grant \<noteq> pr_subject p
             \<or> timestampExpired (Some (gr_expiresAt grant)) now then Inl unavailable
          else case find (\<lambda>a. au_id a = gr_authorizationId grant \<and> au_subject a = gr_subject grant)
                      (st_authorizations st) of
            None \<Rightarrow> Inl unavailable
          | Some authorization \<Rightarrow>
              (if timestampExpired (Some (au_expiresAt authorization)) now then Inl unavailable
               else bindr (assertCurrentResolution h now st p (au_resolution authorization)) (\<lambda>_.
               case skill_by_id st (gr_resourceId grant) of
                 None \<Rightarrow> Inl unavailable
               | Some skill \<Rightarrow>
                   (if \<not> skillCurrentlyApproved st skill now
                       \<or> blob_digest (sk_artifact skill) \<noteq> gr_digest grant then Inl unavailable
                    else case get (blob_key (sk_artifact skill)) of
                      None \<Rightarrow> Inl (RegistryApiError ''ARTIFACT_UNAVAILABLE'' 503 True)
                    | Some bytes \<Rightarrow>
                        (if digestBytes h bytes \<noteq> gr_digest grant then Inl digest_mismatch
                         else Inr bytes))))))"

section \<open>Receipts\<close>

record receipt_input =
  ri_authorizationId :: jstring
  ri_changed :: bool
  ri_agent :: receipt_agent
  ri_platform :: receipt_platform
  ri_clientVersion :: jstring

definition invalid_receipt :: api_error where
  "invalid_receipt = RegistryApiError ''INVALID_RECEIPT'' 400 False"

definition parse_agent :: "jsval \<Rightarrow> receipt_agent option" where
  "parse_agent v =
     (if v = JStr (js ''codex'') then Some Codex else if v = JStr (js ''claude'') then Some Claude
      else if v = JStr (js ''universal'') then Some Universal else None)"

definition parse_platform :: "jsval \<Rightarrow> receipt_platform option" where
  "parse_platform v =
     (if v = JStr (js ''windows'') then Some Windows else if v = JStr (js ''macos'') then Some Macos
      else if v = JStr (js ''linux'') then Some Linux else if v = JStr (js ''other'') then Some OtherPlatform
      else None)"

definition parseInstallReceiptInput :: "jsval \<Rightarrow> receipt_input api" where
  "parseInstallReceiptInput body =
     (case map_option trim (stringValue (get_prop body ''authorizationId'')) of
        None \<Rightarrow> Inl invalid_receipt
      | Some authorizationId \<Rightarrow>
          (if authorizationId = [] \<or> length authorizationId > 256 then Inl invalid_receipt
           else case get_prop body ''changed'' of
             JBool changed \<Rightarrow>
               (case parse_agent (get_prop body ''agent'') of
                  None \<Rightarrow> Inl invalid_receipt
                | Some agent \<Rightarrow>
                    (case parse_platform (get_prop body ''platform'') of
                       None \<Rightarrow> Inl invalid_receipt
                     | Some platform \<Rightarrow>
                         (case map_option trim (stringValue (get_prop body ''clientVersion'')) of
                            None \<Rightarrow> Inl invalid_receipt
                          | Some v \<Rightarrow>
                              (if v = [] \<or> length v > MAX_CLIENT_VERSION_LENGTH \<or> (\<exists>c \<in> set v. is_control c)
                               then Inl invalid_receipt
                               else Inr \<lparr>ri_authorizationId = authorizationId, ri_changed = changed,
                                         ri_agent = agent, ri_platform = platform, ri_clientVersion = v\<rparr>))))
           | _ \<Rightarrow> Inl invalid_receipt))"

definition sameInstallReceiptInput :: "install_receipt \<Rightarrow> receipt_input \<Rightarrow> bool" where
  "sameInstallReceiptInput r i \<longleftrightarrow>
     re_changed r = ri_changed i \<and> re_agent r = ri_agent i \<and> re_platform r = ri_platform i \<and>
     re_clientVersion r = ri_clientVersion i"

definition retained_receipt :: "int \<Rightarrow> install_receipt \<Rightarrow> bool" where
  "retained_receipt now r =
     (case date_parse (re_createdAt r) of
        None \<Rightarrow> False
      | Some createdAt \<Rightarrow> createdAt \<ge> now - INSTALL_RECEIPT_RETENTION_SECONDS * 1000)"

definition new_receipt :: "jstring \<Rightarrow> principal \<Rightarrow> env \<Rightarrow> receipt_input \<Rightarrow> install_receipt_ticket \<Rightarrow> install_receipt" where
  "new_receipt org p e i t =
     \<lparr>re_id = en_receipt e, re_organizationId = org, re_subject = pr_subject p,
      re_authorizationId = ri_authorizationId i, re_ticketId = ti_id t, re_resolution = ti_resolution t,
      re_changed = ri_changed i, re_agent = ri_agent i, re_platform = ri_platform i,
      re_clientVersion = ri_clientVersion i, re_createdAt = Stamp (en_now e), re_expiresAt = ti_expiresAt t\<rparr>"

text \<open>The transaction of \<open>createInstallReceipt\<close>; the second component is the HTTP status.\<close>

definition commit_receipt ::
    "jstring \<Rightarrow> principal \<Rightarrow> env \<Rightarrow> receipt_input \<Rightarrow> registry_state \<Rightarrow> (registry_state \<times> install_receipt \<times> nat) api" where
  "commit_receipt org p e i s =
     (let receipts = filter (retained_receipt (en_now e)) (st_installReceipts s) in
      case find (\<lambda>r. re_authorizationId r = ri_authorizationId i) receipts of
        Some existing \<Rightarrow>
          (if re_organizationId existing \<noteq> org \<or> re_subject existing \<noteq> pr_subject p then Inl unavailable
           else if \<not> sameInstallReceiptInput existing i then Inl (RegistryApiError ''RECEIPT_CONFLICT'' 409 False)
           else Inr (s\<lparr>st_installReceipts := receipts\<rparr>, existing, 200))
      | None \<Rightarrow>
          (case find (\<lambda>t. ti_id t \<noteq> [] \<and> ti_authorizationId t = ri_authorizationId i
                        \<and> ti_organizationId t = org \<and> ti_subject t = pr_subject p)
                  (st_installReceiptTickets s) of
             None \<Rightarrow> Inl unavailable
           | Some t \<Rightarrow>
               (if timestampExpired (Some (ti_expiresAt t)) (en_now e) then Inl unavailable
                else if rs_organizationId (ti_resolution t) \<noteq> org then Inl internal_state_invalid
                else if length receipts \<ge> MAX_INSTALL_RECEIPTS then Inl (RegistryApiError ''ANALYTICS_LIMIT'' 503 True)
                else
                  (let receipt = new_receipt org p e i t;
                       live = filter (\<lambda>t. \<not> timestampExpired (Some (ti_expiresAt t)) (en_now e))
                                (st_installReceiptTickets s);
                       tickets = drop (length live - MAX_INSTALL_RECEIPT_TICKETS) live in
                   Inr (appendAudit (audit p ''install.receipt.create'' (Some (re_id receipt)) org e)
                          (s\<lparr>st_installReceipts := receipts @ [receipt], st_installReceiptTickets := tickets\<rparr>),
                        receipt, 201)))))"

definition createInstallReceipt ::
    "jstring \<Rightarrow> jsval \<Rightarrow> principal \<Rightarrow> env \<Rightarrow> registry_state \<Rightarrow> registry_state \<Rightarrow>
     (registry_state \<times> install_receipt \<times> nat) api" where
  "createInstallReceipt org body p e s0 s =
     bindr (parseInstallReceiptInput body) (\<lambda>i. bindr (readState org s0) (\<lambda>_. commit_receipt org p e i s))"

section \<open>What a successful handler commits\<close>

lemma assertCurrentResolution_InrD:
  assumes "assertCurrentResolution h now st p r = Inr u"
  obtains res r' where
    "resolveResource h now st p (rs_kind r) (rs_resourceId r) (Some (rs_version r)) = Resolved res r'"
    "sameResolution r' r"
  using assms by (auto simp: assertCurrentResolution_def split: resolve_result.splits if_splits)

lemma resolveRequestedResolution_InrD:
  assumes "resolveRequestedResolution h now requested st p = Inr r"
  obtains kind ref version res where "resolveResource h now st p kind ref version = Resolved res r"
  using assms
  by (auto simp: resolveRequestedResolution_def result_simps split: option.splits resolve_result.splits if_splits)

lemma createInstallAuthorization_InrE:
  assumes "createInstallAuthorization h org body p e s0 s = Inr (t, a, ti)"
  obtains r res r' kind ref version res0 where "state_ok org s0"
    "resolveResource h (en_now0 e) s0 p kind ref version = Resolved res0 r"
    "resolveResource h (en_now e) s p (rs_kind r) (rs_resourceId r) (Some (rs_version r)) = Resolved res r'"
    "sameResolution r' r"
    "a = \<lparr>au_id = en_authz e, au_organizationId = org, au_subject = pr_subject p, au_resolution = r,
          au_expiresAt = Stamp (en_now0 e + TRANSFER_TTL_SECONDS * 1000)\<rparr>"
    "ti = \<lparr>ti_id = en_ticket e, ti_organizationId = org, ti_subject = pr_subject p,
           ti_authorizationId = en_authz e, ti_resolution = r, ti_issuedAt = Stamp (en_now0 e),
           ti_expiresAt = Stamp (en_now0 e + INSTALL_RECEIPT_TTL_SECONDS * 1000)\<rparr>"
    "t = appendAudit (audit p ''install.authorization.create'' (Some (en_authz e)) org e)
       (s\<lparr>st_authorizations := st_authorizations s @ [a],
          st_installReceiptTickets :=
            filter (\<lambda>t. \<not> timestampExpired (Some (ti_expiresAt t)) (en_now e)) (st_installReceiptTickets s) @ [ti]\<rparr>)"
    "length (st_installReceiptTickets t) \<le> MAX_INSTALL_RECEIPT_TICKETS"
proof -
  have "\<exists>r. state_ok org s0 \<and> resolveRequestedResolution h (en_now0 e)
      (if is_object (get_prop body ''resolution'') then get_prop body ''resolution'' else body) s0 p = Inr r"
    using assms by (auto simp: createInstallAuthorization_def result_simps Let_def )
  then obtain r kind ref version res0 where r: "state_ok org s0"
    "resolveRequestedResolution h (en_now0 e)
      (if is_object (get_prop body ''resolution'') then get_prop body ''resolution'' else body) s0 p = Inr r"
    "resolveResource h (en_now0 e) s0 p kind ref version = Resolved res0 r"
    using resolveRequestedResolution_InrD by metis
  show ?thesis
    using assms r that [OF r(1,3)]
    by (cases "resolveResource h (en_now e) s p (rs_kind r) (rs_resourceId r) (Some (rs_version r))")
       (auto simp: createInstallAuthorization_def result_simps Let_def not_le appendAudit_def )
qed

lemma live_authorization_InrD:
  assumes "live_authorization h now st i p = Inr a"
  obtains res r where "a \<in> set (st_authorizations st)" "find_authorization st i p = Some a" "au_id a = i"
    "au_subject a = pr_subject p" "\<not> timestampExpired (Some (au_expiresAt a)) now"
    "resolveResource h now st p (rs_kind (au_resolution a)) (rs_resourceId (au_resolution a))
       (Some (rs_version (au_resolution a))) = Resolved res r"
    "sameResolution r (au_resolution a)"
  using assms
  by (auto simp: live_authorization_def find_authorization_def result_simps split: option.splits
      elim!: assertCurrentResolution_InrD dest: find_in_set)

lemma validateInstallAuthorization_InrE:
  assumes "validateInstallAuthorization h org i p e s0 s = Inr (t, a, ti)"
  obtains current where "live_authorization h (en_now e) s i p = Inr current"
    "a = current\<lparr>au_expiresAt := Stamp (en_now e + TRANSFER_TTL_SECONDS * 1000)\<rparr>"
    "t = appendAudit (audit p ''install.authorization.validate'' (Some i) org e)
       (s\<lparr>st_authorizations := update_first (\<lambda>a. au_id a = i \<and> au_subject a = pr_subject p)
            (\<lambda>_. a) (st_authorizations s)\<rparr>)"
  using assms by (auto simp: validateInstallAuthorization_def result_simps Let_def)

lemma createDownloadGrant_InrE:
  assumes "createDownloadGrant h org digest body p e s0 s = Inr (t, g, n)"
  obtains a m where "live_authorization h (en_now e) s (gr_authorizationId g) p = Inr a"
    "m \<in> set (rs_members (au_resolution a))" "sk_id m = gr_resourceId g" "blob_digest (sk_artifact m) = digest"
    "sk_state m = Approved" "gr_id g = en_grant e" "gr_organizationId g = org" "gr_subject g = pr_subject p"
    "gr_digest g = digest" "gr_expiresAt g = Stamp (en_now e + TRANSFER_TTL_SECONDS * 1000)"
    "t = appendAudit (audit p ''artifact.download.grant'' (Some (gr_resourceId g)) org e)
       (s\<lparr>st_grants := st_grants s @ [g]\<rparr>)"
proof -
  obtain a m where "live_authorization h (en_now e) s (gr_authorizationId g) p = Inr a"
    and m: "find (\<lambda>m. sk_id m = gr_resourceId g \<and> blob_digest (sk_artifact m) = digest)
        (rs_members (au_resolution a)) = Some m"
    and "sk_state m = Approved" "gr_id g = en_grant e" "gr_organizationId g = org" "gr_subject g = pr_subject p"
    "gr_digest g = blob_digest (sk_artifact m)" "gr_expiresAt g = Stamp (en_now e + TRANSFER_TTL_SECONDS * 1000)"
    "t = appendAudit (audit p ''artifact.download.grant'' (Some (gr_resourceId g)) org e)
       (s\<lparr>st_grants := st_grants s @ [g]\<rparr>)"
    using assms by (auto simp: createDownloadGrant_def result_simps Let_def split: option.splits)
  with find_in_set [OF m] show ?thesis by (intro that [of a m]) auto
qed

lemma commit_receipt_InrE:
  assumes "commit_receipt org p e i s = Inr (t, r, status)"
  obtains (replayed) "status = 200" "r \<in> set (st_installReceipts s)" "re_authorizationId r = ri_authorizationId i"
      "re_subject r = pr_subject p" "sameInstallReceiptInput r i"
      "t = s\<lparr>st_installReceipts := filter (retained_receipt (en_now e)) (st_installReceipts s)\<rparr>"
  | (created) ti where "status = 201" "ti \<in> set (st_installReceiptTickets s)" "ti_id ti \<noteq> []"
      "ti_authorizationId ti = ri_authorizationId i" "ti_organizationId ti = org" "ti_subject ti = pr_subject p"
      "\<not> timestampExpired (Some (ti_expiresAt ti)) (en_now e)" "rs_organizationId (ti_resolution ti) = org"
      "r = new_receipt org p e i ti"
      "\<forall>x \<in> set (filter (retained_receipt (en_now e)) (st_installReceipts s)). re_authorizationId x \<noteq> ri_authorizationId i"
      "length (filter (retained_receipt (en_now e)) (st_installReceipts s)) < MAX_INSTALL_RECEIPTS"
      "\<exists>tickets. set tickets \<subseteq> set (st_installReceiptTickets s) \<and> length tickets \<le> MAX_INSTALL_RECEIPT_TICKETS \<and>
         t = appendAudit (audit p ''install.receipt.create'' (Some (re_id r)) org e)
          (s\<lparr>st_installReceipts := filter (retained_receipt (en_now e)) (st_installReceipts s) @ [r],
             st_installReceiptTickets := tickets\<rparr>)"
proof (cases "find (\<lambda>r. re_authorizationId r = ri_authorizationId i) (filter (retained_receipt (en_now e)) (st_installReceipts s))")
  case (Some x)
  then show ?thesis
    using assms replayed find_in_set [OF Some] by (auto simp: commit_receipt_def result_simps Let_def)
next
  case None
  let ?live = "filter (\<lambda>t. \<not> timestampExpired (Some (ti_expiresAt t)) (en_now e)) (st_installReceiptTickets s)"
  have sub: "set (drop (length ?live - MAX_INSTALL_RECEIPT_TICKETS) ?live) \<subseteq> set (st_installReceiptTickets s)"
    by (auto dest: in_set_dropD)
  have len: "length (drop (length ?live - MAX_INSTALL_RECEIPT_TICKETS) ?live) \<le> MAX_INSTALL_RECEIPT_TICKETS"
    by simp
  from None assms obtain ti where
    "find (\<lambda>t. ti_id t \<noteq> [] \<and> ti_authorizationId t = ri_authorizationId i
                        \<and> ti_organizationId t = org \<and> ti_subject t = pr_subject p) (st_installReceiptTickets s) = Some ti"
    by (auto simp: commit_receipt_def Let_def split: option.splits)
  with None assms find_in_set [OF this] find_None_notin [OF None] sub len show ?thesis
    by (intro created [of ti]) (auto simp: commit_receipt_def result_simps Let_def not_le new_receipt_def simp del: length_drop)
qed

end
