(* ===== verification/Redaction.thy ===== *)
theory Redaction
  imports Versions
begin

text \<open>
  Removing credentials from error text: \<open>redactJobError\<close> of \<open>packages/core/src/index.ts\<close> and
  \<open>redactError\<close> of \<open>packages/upload-reviews/src/index.ts\<close>. The two apply the same two global
  replacements in opposite orders. The patterns are deterministic (each repeated class is disjoint
  from what follows it), so a leftmost greedy scan is their meaning.
\<close>

text \<open>Case folding of the \<open>iu\<close> flags, on the letters the patterns use.\<close>

definition fold_case :: "nat \<Rightarrow> nat" where
  "fold_case c = (if is_upper c then c + 32 else if c = 383 then 115 else if c = 8490 then 107 else c)"

definition prefix_ci :: "string \<Rightarrow> jstring \<Rightarrow> bool" where
  "prefix_ci kw s \<longleftrightarrow> map fold_case (take (length kw) s) = js kw"

definition find_keyword :: "string list \<Rightarrow> jstring \<Rightarrow> string option" where
  "find_keyword kws s = find (\<lambda>kw. prefix_ci kw s) kws"

definition value_char :: "nat \<Rightarrow> bool" where
  "value_char c \<longleftrightarrow> \<not> is_space c \<and> c \<noteq> 44 \<and> c \<noteq> 59"

text \<open>\<open>(kw1|kw2|...)\s*[:=]\s*[^\s,;]+\<close> at the front: the keyword as written and the rest.\<close>

definition match_assignment :: "string list \<Rightarrow> jstring \<Rightarrow> (jstring \<times> jstring) option" where
  "match_assignment kws s =
     (case find_keyword kws s of
        None \<Rightarrow> None
      | Some kw \<Rightarrow>
          (case dropWhile is_space (drop (length kw) s) of
             [] \<Rightarrow> None
           | c # r \<Rightarrow>
               (if c \<noteq> 58 \<and> c \<noteq> 61 then None
                else let v = dropWhile is_space r in
                  if takeWhile value_char v = [] then None
                  else Some (take (length kw) s, dropWhile value_char v))))"

lemma dropWhile_length_le: "length (dropWhile p xs) \<le> length xs"
  by (induction xs) auto

lemma match_assignment_shorter:
  assumes "match_assignment kws s = Some (k, r)"
  shows "length r < length s"
proof -
  obtain kw :: string and c t where t: "dropWhile is_space (drop (length kw) s) = c # t"
    and r: "r = dropWhile value_char (dropWhile is_space t)"
    using assms by (auto simp: match_assignment_def Let_def split: option.splits list.splits if_splits)
  have "length r \<le> length t"
    unfolding r by (meson dropWhile_length_le order_trans)
  also have "\<dots> < length (c # t)" by simp
  also have "\<dots> \<le> length s"
    using dropWhile_length_le [of is_space "drop (length kw) s"] t by simp
  finally show ?thesis .
qed

function redact_assignments :: "string list \<Rightarrow> jstring \<Rightarrow> jstring" where
  "redact_assignments kws s =
     (case s of
        [] \<Rightarrow> []
      | c # r \<Rightarrow>
          (case match_assignment kws s of
             Some (k, rest) \<Rightarrow> k @ js ''=[redacted]'' @ redact_assignments kws rest
           | None \<Rightarrow> c # redact_assignments kws r))"
  by pat_completeness auto
termination
  by (relation "measure (\<lambda>(kws, s). length s)") (auto dest: match_assignment_shorter)

declare redact_assignments.simps [simp del]

text \<open>\<open>Bearer\s+value+\<close>, with the test for \<open>Bearer\<close> and the value class of the caller.\<close>

definition match_bearer :: "(jstring \<Rightarrow> bool) \<Rightarrow> (nat \<Rightarrow> bool) \<Rightarrow> jstring \<Rightarrow> jstring option" where
  "match_bearer is_bearer val s =
     (if \<not> is_bearer s then None
      else let t = drop 6 s; v = dropWhile is_space t in
        if takeWhile is_space t = [] \<or> takeWhile val v = [] then None else Some (dropWhile val v))"

lemma match_bearer_shorter:
  assumes "match_bearer is_bearer val s = Some r"
  shows "length r < length s"
proof -
  let ?v = "dropWhile is_space (drop 6 s)"
  have r: "r = dropWhile val ?v" and ne: "takeWhile val ?v \<noteq> []"
    using assms by (auto simp: match_bearer_def Let_def split: if_splits)
  have "length r + length (takeWhile val ?v) = length ?v"
    using r takeWhile_dropWhile_id [of val ?v] by (metis add.commute length_append)
  moreover have "length (takeWhile val ?v) \<noteq> 0" using ne by simp
  ultimately have "length r < length ?v" by linarith
  also have "\<dots> \<le> length s"
    by (rule order_trans [OF dropWhile_length_le]) simp
  finally show ?thesis .
qed

function redact_bearer :: "(jstring \<Rightarrow> bool) \<Rightarrow> (nat \<Rightarrow> bool) \<Rightarrow> jstring \<Rightarrow> jstring" where
  "redact_bearer is_bearer val s =
     (case s of
        [] \<Rightarrow> []
      | c # r \<Rightarrow>
          (case match_bearer is_bearer val s of
             Some rest \<Rightarrow> js ''Bearer [redacted]'' @ redact_bearer is_bearer val rest
           | None \<Rightarrow> c # redact_bearer is_bearer val r))"
  by pat_completeness auto
termination
  by (relation "measure (\<lambda>(b, v, s). length s)") (auto dest: match_bearer_shorter)

declare redact_bearer.simps [simp del]

text \<open>\<open>[A-Za-z0-9._~+/=-]\<close>\<close>

definition token_char :: "nat \<Rightarrow> bool" where
  "token_char c \<longleftrightarrow> is_digit c \<or> is_upper c \<or> is_lower c \<or> c \<in> {46, 95, 126, 43, 47, 61, 45}"

definition redactJobError :: "jstring \<Rightarrow> jstring" where
  "redactJobError error =
     (let redacted = redact_bearer (starts_with (js ''Bearer'')) token_char
            (redact_assignments [''authorization'', ''token'', ''secret'', ''password'', ''credential''] error)
      in if length redacted > 500 then take 500 redacted else redacted)"

text \<open>\<open>replace(/\s+/gu, ' ')\<close>\<close>

function squeeze_spaces :: "jstring \<Rightarrow> jstring" where
  "squeeze_spaces [] = []"
| "squeeze_spaces (c # r) =
     (if is_space c then 32 # squeeze_spaces (dropWhile is_space r) else c # squeeze_spaces r)"
  by pat_completeness auto
termination
  by (relation "measure length") (auto simp: le_imp_less_Suc dropWhile_length_le)

definition redactError :: "jstring \<Rightarrow> jstring" where
  "redactError text =
     (let result = take 1000 (trim (squeeze_spaces
            (redact_assignments [''token'', ''secret'', ''password'', ''authorization'']
              (redact_bearer (prefix_ci ''bearer'') value_char text))))
      in if result = [] then js ''upload review failed'' else result)"

section \<open>Facts\<close>

lemma redactJobError_bounded: "length (redactJobError e) \<le> 500"
  by (auto simp: redactJobError_def Let_def)

lemma redactError_bounded: "length (redactError e) \<le> 1000 \<and> redactError e \<noteq> []"
  by (auto simp: redactError_def Let_def)

text \<open>
  The header rule runs first and takes the word \<open>Bearer\<close> for the credential, so the token itself stays.
\<close>

lemma redactJobError_keeps_bearer: "redactJobError (js ''Authorization: Bearer abc'') = js ''Authorization=[redacted] abc''"
  by code_simp

end
