(* ===== verification/Jobs.thy ===== *)
theory Jobs
  imports Install Redaction
begin

text \<open>
  The leased worker protocol of \<open>packages/core/src/index.ts\<close>: claiming a job, serving its artifact,
  checking the evidence a worker returns, and the fenced completion that moves a release to its next
  distribution state.

  Two checks of an import completion belong to other parts of the package and are arguments here:
  \<open>feedCheck\<close> is \<open>validateOpenClawJobFeed\<close> and \<open>provenanceCheck\<close> is \<open>normalizeProvenance\<close> (its
  result object is not part of the release record; the theory of provenance has it); \<open>Some err\<close> means that
  it throws.
\<close>

section \<open>Claiming\<close>

definition claimable :: "jstring \<Rightarrow> int \<Rightarrow> job \<Rightarrow> bool" where
  "claimable org now j =
     (if jb_organizationId j \<noteq> org then False
      else if jb_state j = Queued then True
      else jb_state j = Running \<and> timestampExpired (jb_leaseExpiresAt j) now)"

definition claim_record :: "int \<Rightarrow> env \<Rightarrow> job \<Rightarrow> job" where
  "claim_record leaseSeconds e j =
     j\<lparr>jb_state := Running, jb_attempts := jb_attempts j + 1, jb_leaseToken := Some (en_lease e),
       jb_leaseExpiresAt := Some (Stamp (en_now e + leaseSeconds * 1000)), jb_updatedAt := Stamp (en_now e)\<rparr>"

definition claimJob ::
    "jstring \<Rightarrow> int \<Rightarrow> principal \<Rightarrow> env \<Rightarrow> registry_state \<Rightarrow> registry_state \<times> job option" where
  "claimJob org leaseSeconds p e s =
     (case find (claimable org (en_now e)) (st_jobs s) of
        None \<Rightarrow> (s, None)
      | Some candidate \<Rightarrow>
          (appendAudit (audit p ''job.claim'' (Some (jb_id candidate)) org e)
             (s\<lparr>st_jobs := update_first (claimable org (en_now e)) (claim_record leaseSeconds e) (st_jobs s)\<rparr>),
           Some (claim_record leaseSeconds e candidate)))"

definition job_by_id :: "registry_state \<Rightarrow> jstring \<Rightarrow> job option" where
  "job_by_id st i = find (\<lambda>j. jb_id j = i) (st_jobs st)"

definition lease_fenced :: api_error where
  "lease_fenced = RegistryApiError ''LEASE_FENCED'' 409 False"

definition lease_expired :: api_error where
  "lease_expired = RegistryApiError ''LEASE_EXPIRED'' 409 True"

definition serveJobArtifact ::
    "host \<Rightarrow> blob_get \<Rightarrow> jstring \<Rightarrow> jstring \<Rightarrow> jstring option \<Rightarrow> jstring option \<Rightarrow> int \<Rightarrow> registry_state \<Rightarrow> nat list api" where
  "serveJobArtifact h get org i token requestedDigest now s0 =
     (case (token, requestedDigest) of
        (Some (t # ts), Some d) \<Rightarrow>
          (if \<not> isDigest d then Inl (RegistryApiError ''INVALID_LEASE'' 400 False)
           else bindr (readState org s0) (\<lambda>st.
             case job_by_id st i of
               None \<Rightarrow> Inl unavailable
             | Some j \<Rightarrow>
                 (if jb_state j \<noteq> Running \<or> jb_leaseToken j \<noteq> Some (t # ts) then Inl lease_fenced
                  else if timestampExpired (jb_leaseExpiresAt j) now then Inl lease_expired
                  else case jb_artifact j of
                    None \<Rightarrow> Inl digest_mismatch
                  | Some a \<Rightarrow>
                      (if blob_digest a \<noteq> d then Inl digest_mismatch
                       else case get (blob_key a) of
                         None \<Rightarrow> Inl (RegistryApiError ''ARTIFACT_UNAVAILABLE'' 503 True)
                       | Some bytes \<Rightarrow>
                           (if digestBytes h bytes \<noteq> blob_digest a \<or> length bytes \<noteq> blob_size a
                            then Inl digest_mismatch else Inr bytes)))))
      | _ \<Rightarrow> Inl (RegistryApiError ''INVALID_LEASE'' 400 False))"

section \<open>Evidence from a worker\<close>

definition invalid_scan_result :: api_error where
  "invalid_scan_result = RegistryApiError ''INVALID_SCAN_RESULT'' 400 False"

definition nonNegativeInteger :: "jsval \<Rightarrow> nat option" where
  "nonNegativeInteger v =
     (case v of JNum (Num r) \<Rightarrow> if 0 \<le> r \<and> rat_is_int r then Some (nat \<lfloor>r\<rfloor>) else None | _ \<Rightarrow> None)"

definition parse_status :: "jsval \<Rightarrow> scan_status option" where
  "parse_status v =
     (if v = JStr (js ''completed'') then Some Completed else if v = JStr (js ''degraded'') then Some Degraded
      else if v = JStr (js ''error'') then Some Error else if v = JStr (js ''timeout'') then Some Timeout
      else if v = JStr (js ''unsupported'') then Some Unsupported else None)"

text \<open>An array of non-empty strings of bounded length, or \<open>None\<close>.\<close>

definition bounded_strings :: "nat \<Rightarrow> nat \<Rightarrow> jsval \<Rightarrow> jstring list option" where
  "bounded_strings maxItems maxLength v =
     (case v of
        JArr vs \<Rightarrow>
          (if length vs > maxItems then None
           else those (map (\<lambda>x. case x of JStr s \<Rightarrow> if s = [] \<or> length s > maxLength then None else Some s
                                          | _ \<Rightarrow> None) vs))
      | _ \<Rightarrow> None)"

definition parse_coverage :: "jsval \<Rightarrow> coverage option" where
  "parse_coverage c =
     (case (nonNegativeInteger (get_prop c ''filesEnumerated''), nonNegativeInteger (get_prop c ''filesAnalyzed''),
            nonNegativeInteger (get_prop c ''filesSkipped''), nonNegativeInteger (get_prop c ''filesUnsupported''),
            bounded_strings 100 1024 (get_prop c ''limitations''),
            bounded_strings 100 255 (get_prop c ''externalDestinations'')) of
        (Some en, Some an, Some sk, Some un, Some ls, Some ds) \<Rightarrow>
          (if \<not> is_object c \<or> an + sk + un > en then None
           else Some \<lparr>filesEnumerated = en, filesAnalyzed = an, filesSkipped = sk, filesUnsupported = un,
                     limitations = ls, externalDestinations = ds\<rparr>)
      | _ \<Rightarrow> None)"

text \<open>An optional string field of bounded length: \<open>None\<close> is an invalid value.\<close>

definition optional_bounded :: "nat \<Rightarrow> nat \<Rightarrow> jsval \<Rightarrow> jstring option option" where
  "optional_bounded minLength maxLength v =
     (case v of
        JUndefined \<Rightarrow> Some None
      | JStr s \<Rightarrow> if length s < minLength \<or> length s > maxLength then None else Some (stringValue v)
      | _ \<Rightarrow> None)"

definition parse_line :: "jsval \<Rightarrow> rat option option" where
  "parse_line v =
     (case v of
        JUndefined \<Rightarrow> Some None
      | JNum (Num r) \<Rightarrow> if rat_is_int r \<and> 1 \<le> r then Some (Some r) else None
      | _ \<Rightarrow> None)"

definition parseFinding :: "jsval \<Rightarrow> finding api" where
  "parseFinding raw =
     (if \<not> is_object raw then Inl invalid_scan_result
      else case (parse_severity (get_prop raw ''severity''), stringValue (get_prop raw ''ruleId''),
                 stringValue (get_prop raw ''fingerprint''), stringValue (get_prop raw ''category''),
                 stringValue (get_prop raw ''message'')) of
        (Some severity, Some ruleId, Some fingerprint, Some category, Some message) \<Rightarrow>
          (if length ruleId > 128 \<or> length fingerprint > 256 \<or> length category > 128 \<or> length message > 4096
             then Inl invalid_scan_result
           else case (optional_bounded 1 1024 (get_prop raw ''file''),
                      optional_bounded 0 2048 (get_prop raw ''redactedEvidence''),
                      parse_line (get_prop raw ''line'')) of
             (Some file, Some evidence, Some line) \<Rightarrow>
               Inr \<lparr>fi_ruleId = ruleId, fi_fingerprint = fingerprint, fi_severity = severity,
                    fi_category = category, fi_message = redactJobError message, fi_file = file,
                    fi_line = line, fi_redactedEvidence = evidence\<rparr>
           | _ \<Rightarrow> Inl invalid_scan_result)
      | _ \<Rightarrow> Inl invalid_scan_result)"

definition parse_created :: "host \<Rightarrow> int \<Rightarrow> jsval \<Rightarrow> timestamp option" where
  "parse_created h now v =
     (case stringValue v of
        None \<Rightarrow> None
      | Some s \<Rightarrow> (case dateParse h s of None \<Rightarrow> None | Some ms \<Rightarrow> if ms > now then None else Some (Stamp ms)))"

definition parseScanResult ::
    "host \<Rightarrow> int \<Rightarrow> jsval \<Rightarrow> job \<Rightarrow> jstring \<Rightarrow> jstring \<Rightarrow> scan_result api" where
  "parseScanResult h now raw j org expectedDigest =
     (if \<not> is_object raw then Inl invalid_scan_result
      else case (parse_status (get_prop raw ''status''), parse_scanner (get_prop raw ''scannerId'')) of
        (Some status, Some scannerId) \<Rightarrow>
          (case stringValue (get_prop raw ''artifactDigest'') of
             None \<Rightarrow> Inl digest_mismatch
           | Some digest \<Rightarrow>
             (if digest \<noteq> expectedDigest \<or> \<not> isDigest digest then Inl digest_mismatch
              else if stringValue (get_prop raw ''organizationId'') \<noteq> Some org
                      \<or> stringValue (get_prop raw ''jobId'') \<noteq> Some (jb_id j) then Inl invalid_scan_result
              else case parse_coverage (get_prop raw ''coverage'') of
                None \<Rightarrow> Inl invalid_scan_result
              | Some cov \<Rightarrow>
                (case arr_of (get_prop raw ''findings'') of
                   None \<Rightarrow> Inl invalid_scan_result
                 | Some rawFindings \<Rightarrow>
                   (if length rawFindings > 10000 then Inl invalid_scan_result
                    else bindr (mapr parseFinding rawFindings) (\<lambda>findings.
                    case (stringValue (get_prop raw ''id''), stringValue (get_prop raw ''policyRevision''),
                          stringValue (get_prop raw ''engineVersion''), stringValue (get_prop raw ''rulesRevision''),
                          stringValue (get_prop raw ''configurationHash'')) of
                      (Some i, Some policyRevision, Some engineVersion, Some rulesRevision, Some configurationHash) \<Rightarrow>
                        (if \<exists>v \<in> set [i, policyRevision, engineVersion, rulesRevision, configurationHash]. length v > 256
                           then Inl invalid_scan_result
                         else case (parse_created h now (get_prop raw ''createdAt''),
                                    nonNegativeInteger (get_prop raw ''durationMs''),
                                    optional_bounded 0 2048 (get_prop raw ''error'')) of
                           (Some createdAt, Some durationMs, Some err) \<Rightarrow>
                             (if policyRevision \<noteq> jb_policyRevision j then Inl (policy_blocked False)
                              else Inr \<lparr>sr_id = i, sr_organizationId = org, sr_jobId = jb_id j,
                                sr_artifactDigest = digest, sr_policyRevision = policyRevision,
                                sr_scannerId = scannerId, sr_engineVersion = engineVersion,
                                sr_rulesRevision = rulesRevision, sr_configurationHash = configurationHash,
                                sr_status = status, sr_findings = findings, sr_coverage = cov,
                                sr_createdAt = createdAt, sr_durationMs = durationMs,
                                sr_error = map_option (\<lambda>s. take 2048 (redactJobError s)) err\<rparr>)
                         | _ \<Rightarrow> Inl invalid_scan_result)
                    | _ \<Rightarrow> Inl invalid_scan_result)))))
      | _ \<Rightarrow> Inl invalid_scan_result)"

section \<open>Completion\<close>

definition falsy_error :: "jsval \<Rightarrow> bool" where
  "falsy_error body \<longleftrightarrow> get_prop body ''error'' = JUndefined \<or> get_prop body ''error'' = JStr []"

record imported_bundle =
  ib_fileCount :: nat
  ib_stored :: stored_blob
  ib_digest :: jstring
  ib_metadata :: "jstring \<times> jstring"

definition check_opt :: "api_error option \<Rightarrow> unit api" where
  "check_opt r = (case r of Some err \<Rightarrow> Inl err | None \<Rightarrow> Inr ())"

definition import_bundle ::
    "host \<Rightarrow> blob_put \<Rightarrow> bundle_ops \<Rightarrow> jsval \<Rightarrow> job \<Rightarrow> imported_bundle option api" where
  "import_bundle h put bo body j =
     (if jb_kind j = ImportJob \<and> falsy_error body then
        (if \<not> is_object (get_prop body ''bundle'') then Inl (RegistryApiError ''INVALID_JOB_RESULT'' 400 False)
         else bindr (bo_encode bo (get_prop body ''bundle'')) (\<lambda>(bytes, fileCount).
           let digest = digestBytes h bytes in
           bindr (putVerifiedBlob put bytes digest) (\<lambda>stored.
           bindr (bo_metadata bo (get_prop body ''bundle'')) (\<lambda>metadata.
             case stringValue (get_prop body ''artifactDigest'') of
               Some d \<Rightarrow> if d \<noteq> digest then Inl digest_mismatch
                         else Inr (Some \<lparr>ib_fileCount = fileCount, ib_stored = stored, ib_digest = digest,
                                         ib_metadata = metadata\<rparr>)
             | None \<Rightarrow> Inr (Some \<lparr>ib_fileCount = fileCount, ib_stored = stored, ib_digest = digest,
                                 ib_metadata = metadata\<rparr>)))))
      else Inr None)"

text \<open>The operand of \<open>||\<close> and \<open>!\<close>: an empty string counts as absent.\<close>

definition truthy :: "jstring option \<Rightarrow> jstring option" where
  "truthy s = (if s = Some [] then None else s)"

definition scan_results_of ::
    "host \<Rightarrow> int \<Rightarrow> jstring \<Rightarrow> jsval \<Rightarrow> job \<Rightarrow> imported_bundle option \<Rightarrow> scan_result list api" where
  "scan_results_of h now org body j imported =
     (if falsy_error body \<and> get_prop body ''scanResults'' \<noteq> JUndefined then
        (case arr_of (get_prop body ''scanResults'') of
           None \<Rightarrow> Inl invalid_scan_result
         | Some raws \<Rightarrow>
             (case (case truthy (map_option ib_digest imported) of
                      Some d \<Rightarrow> Some d | None \<Rightarrow> truthy (map_option blob_digest (jb_artifact j))) of
                None \<Rightarrow> Inl invalid_scan_result
              | Some expected \<Rightarrow>
                  bindr (mapr (\<lambda>v. parseScanResult h now v j org expected) raws) (\<lambda>scans.
                    if length (unique (map sr_scannerId scans)) \<noteq> length scans then Inl invalid_scan_result
                    else if length (unique (map sr_id scans)) \<noteq> length scans then Inl invalid_scan_result
                    else Inr scans)))
      else Inr [])"

definition with_job :: "jstring \<Rightarrow> job \<Rightarrow> registry_state \<Rightarrow> registry_state" where
  "with_job i j st = st\<lparr>st_jobs := update_first (\<lambda>c. jb_id c = i) (\<lambda>_. j) (st_jobs st)\<rparr>"

definition with_skill :: "jstring \<Rightarrow> (skill_version \<Rightarrow> skill_version) \<Rightarrow> registry_state \<Rightarrow> registry_state" where
  "with_skill i f st = st\<lparr>st_skills := update_first (\<lambda>k. sk_id k = i) f (st_skills st)\<rparr>"

definition with_resource :: "jstring option \<Rightarrow> (skill_version \<Rightarrow> skill_version) \<Rightarrow> registry_state \<Rightarrow> registry_state" where
  "with_resource rid f st = (case rid of Some (c # cs) \<Rightarrow> with_skill (c # cs) f st | _ \<Rightarrow> st)"

definition unless_revoked :: "(skill_version \<Rightarrow> skill_version) \<Rightarrow> skill_version \<Rightarrow> skill_version" where
  "unless_revoked f k = (if sk_state k \<noteq> Revoked then f k else k)"

definition requeue_job :: "int \<Rightarrow> policy \<Rightarrow> job \<Rightarrow> job" where
  "requeue_job now po j =
     j\<lparr>jb_state := Queued, jb_policy := po, jb_policyRevision := po_revision po, jb_updatedAt := Stamp now,
       jb_leaseToken := None, jb_leaseExpiresAt := None\<rparr>"

definition finish_job :: "int \<Rightarrow> policy_evaluation \<Rightarrow> job \<Rightarrow> job" where
  "finish_job now ev j =
     j\<lparr>jb_state := JobCompleted, jb_updatedAt := Stamp now, jb_leaseToken := None, jb_leaseExpiresAt := None,
       jb_error := (case ev_error ev of Some m \<Rightarrow> Some (js m) | None \<Rightarrow> jb_error j)\<rparr>"

fun state_name :: "distribution_state \<Rightarrow> string" where
  "state_name Pending = ''pending''"
| "state_name Approved = ''approved''"
| "state_name Quarantined = ''quarantined''"
| "state_name ScanError = ''scan-error''"
| "state_name Revoked = ''revoked''"

text \<open>The policy changed while the worker ran: back to the queue under the new policy.\<close>

definition complete_requeue :: "jstring \<Rightarrow> principal \<Rightarrow> env \<Rightarrow> job \<Rightarrow> registry_state \<Rightarrow> registry_state \<times> job" where
  "complete_requeue org p e j s =
     (let j' = requeue_job (en_now e) (st_policy s) j in
      (appendAudit (audit p ''job.requeue.policy-changed'' (Some (jb_id j)) org e)
         (with_resource (jb_resourceId j)
            (unless_revoked (\<lambda>k. k\<lparr>sk_state := Pending, sk_policyRevision := po_revision (st_policy s)\<rparr>))
            (with_job (jb_id j) j' s)), j'))"

definition complete_failed :: "jstring \<Rightarrow> principal \<Rightarrow> env \<Rightarrow> jstring \<Rightarrow> job \<Rightarrow> registry_state \<Rightarrow> registry_state \<times> job" where
  "complete_failed org p e error j s =
     (let j' = j\<lparr>jb_state := JobFailed, jb_error := Some (redactJobError error), jb_updatedAt := Stamp (en_now e)\<rparr> in
      (appendAudit (audit p ''job.complete.failed'' (Some (jb_id j)) org e)
         (with_resource (jb_resourceId j) (unless_revoked (\<lambda>k. k\<lparr>sk_state := ScanError\<rparr>))
            (with_job (jb_id j) j' s)), j'))"

text \<open>The write-back of a scan to its release.\<close>

definition apply_scan :: "int \<Rightarrow> job \<Rightarrow> policy_evaluation \<Rightarrow> scan_result list \<Rightarrow> skill_version \<Rightarrow> skill_version" where
  "apply_scan now j ev scans k =
     k\<lparr>sk_scanIds := unique (sk_scanIds k @ map sr_id scans),
       sk_state := (if sk_state k \<noteq> Revoked then ev_state ev else sk_state k),
       sk_policyRevision := jb_policyRevision j,
       sk_approvedAt := (if ev_state ev = Approved then Some (Stamp now) else sk_approvedAt k)\<rparr>"

definition complete_scan ::
    "jstring \<Rightarrow> principal \<Rightarrow> env \<Rightarrow> scan_result list \<Rightarrow> job \<Rightarrow> registry_state \<Rightarrow> (registry_state \<times> job) api" where
  "complete_scan org p e scans j s =
     (case (case jb_resourceId j of Some (c # cs) \<Rightarrow> skill_by_id s (c # cs) | _ \<Rightarrow> None) of
        None \<Rightarrow> Inl unavailable
      | Some skill \<Rightarrow>
          (case jb_artifact j of
             None \<Rightarrow> Inl digest_mismatch
           | Some a \<Rightarrow>
               (if blob_digest (sk_artifact skill) \<noteq> blob_digest a then Inl digest_mismatch
                else
                  (let ev = evaluatePolicy (jb_policy j) scans (blob_digest a) (sk_fileCount skill) (en_now e);
                       j' = finish_job (en_now e) ev j;
                       s' = s\<lparr>st_scans := st_scans s @ scans\<rparr> in
                   Inr (appendAudit (audit p (''job.complete.'' @ state_name (ev_state ev)) (Some (jb_id j)) org e)
                          (with_skill (sk_id skill) (apply_scan (en_now e) j ev scans) (with_job (jb_id j) j' s')), j')))))"

definition import_skill_record ::
    "jstring \<Rightarrow> env \<Rightarrow> import_request \<Rightarrow> imported_bundle \<Rightarrow> job \<Rightarrow> policy_evaluation \<Rightarrow> scan_result list \<Rightarrow> skill_version" where
  "import_skill_record org e r ib j ev scans =
     \<lparr>sk_id = en_skill e, sk_organizationId = org, sk_name = im_name r,
      sk_skillName = (case normalizeSkillName (JStr (fst (ib_metadata ib))) of
                        Some n \<Rightarrow> n | None \<Rightarrow> slug_of_name (im_name r)),
      sk_version = im_version r, sk_description = snd (ib_metadata ib), sk_artifact = ib_stored ib,
      sk_state = ev_state ev, sk_policyRevision = jb_policyRevision j, sk_createdAt = Stamp (en_now e),
      sk_approvedAt = (if ev_state ev = Approved then Some (Stamp (en_now e)) else None),
      sk_fileCount = ib_fileCount ib, sk_scanIds = map sr_id scans\<rparr>"

definition complete_import ::
    "(import_request \<Rightarrow> jstring \<Rightarrow> upstream option \<Rightarrow> api_error option) \<Rightarrow> jstring \<Rightarrow> principal \<Rightarrow> env \<Rightarrow>
     imported_bundle option \<Rightarrow> scan_result list \<Rightarrow> job \<Rightarrow> registry_state \<Rightarrow> (registry_state \<times> job) api" where
  "complete_import provenanceCheck org p e imported scans j s =
     (case (jb_import j, imported) of
        (Some r, Some ib) \<Rightarrow>
          (if \<exists>k \<in> set (st_skills s). sk_name k = im_name r \<and> sk_version k = im_version r then Inl version_conflict
           else
             (let ev = evaluatePolicy (jb_policy j) scans (ib_digest ib) (ib_fileCount ib) (en_now e);
                  skill = import_skill_record org e r ib j ev scans;
                  j' = (finish_job (en_now e) ev j)\<lparr>jb_resourceId := Some (sk_id skill), jb_artifact := Some (ib_stored ib)\<rparr> in
              bindr (check_opt (provenanceCheck r (ib_digest ib) (jb_upstream j))) (\<lambda>_.
              Inr (appendAudit (audit p (''job.complete.'' @ state_name (ev_state ev)) (Some (jb_id j)) org e)
                     (with_job (jb_id j) j'
                        (s\<lparr>st_skills := st_skills s @ [skill], st_scans := st_scans s @ scans\<rparr>)), j'))))
      | _ \<Rightarrow> Inl (RegistryApiError ''INVALID_JOB_RESULT'' 400 False))"

text \<open>The transaction of \<open>completeJob\<close>.\<close>

definition commit_completion ::
    "(job \<Rightarrow> int \<Rightarrow> api_error option) \<Rightarrow> (import_request \<Rightarrow> jstring \<Rightarrow> upstream option \<Rightarrow> api_error option) \<Rightarrow>
     jstring \<Rightarrow> jstring \<Rightarrow> jstring \<Rightarrow> jsval \<Rightarrow> principal \<Rightarrow> env \<Rightarrow> imported_bundle option \<Rightarrow> scan_result list \<Rightarrow>
     registry_state \<Rightarrow> (registry_state \<times> job) api" where
  "commit_completion feedCheck provenanceCheck org i leaseToken body p e imported scans s =
     (case job_by_id s i of
        None \<Rightarrow> Inl lease_fenced
      | Some j \<Rightarrow>
          (if jb_state j \<noteq> Running \<or> jb_leaseToken j \<noteq> Some leaseToken \<or> timestampExpired (jb_leaseExpiresAt j) (en_now e)
             then Inl lease_fenced
           else if po_revision (st_policy s) \<noteq> jb_policyRevision j then Inr (complete_requeue org p e j s)
           else bindr (check_opt (if jb_kind j = ImportJob \<and> falsy_error body then feedCheck j (en_now e) else None)) (\<lambda>_.
             case get_prop body ''error'' of
               JStr (c # cs) \<Rightarrow> Inr (complete_failed org p e (c # cs) j s)
             | _ \<Rightarrow> (case jb_kind j of
                 ScanJob \<Rightarrow> complete_scan org p e scans j s
               | ImportJob \<Rightarrow> complete_import provenanceCheck org p e imported scans j s))))"

definition completeJob ::
    "host \<Rightarrow> blob_put \<Rightarrow> bundle_ops \<Rightarrow> (job \<Rightarrow> int \<Rightarrow> api_error option) \<Rightarrow>
     (import_request \<Rightarrow> jstring \<Rightarrow> upstream option \<Rightarrow> api_error option) \<Rightarrow>
     jstring \<Rightarrow> jstring \<Rightarrow> jsval \<Rightarrow> principal \<Rightarrow> env \<Rightarrow> registry_state \<Rightarrow> registry_state \<Rightarrow> (registry_state \<times> job) api" where
  "completeJob h put bo feedCheck provenanceCheck org i body p e s0 s =
     (case stringValue (get_prop body ''leaseToken'') of
        None \<Rightarrow> Inl (RegistryApiError ''INVALID_LEASE'' 400 False)
      | Some leaseToken \<Rightarrow>
          bindr (readState org s0) (\<lambda>st0.
          case job_by_id st0 i of
            None \<Rightarrow> Inl unavailable
          | Some j \<Rightarrow>
              (if (case (stringValue (get_prop body ''artifactDigest''), jb_artifact j) of
                     (Some d, Some a) \<Rightarrow> d \<noteq> blob_digest a | _ \<Rightarrow> False) then Inl digest_mismatch
               else if jb_state j \<noteq> Running \<or> jb_leaseToken j \<noteq> Some leaseToken then Inl lease_fenced
               else if timestampExpired (jb_leaseExpiresAt j) (en_now0 e) then Inl lease_expired
               else if get_prop body ''error'' \<noteq> JUndefined \<and> str_of (get_prop body ''error'') = None
                 then Inl (RegistryApiError ''INVALID_JOB_RESULT'' 400 False)
               else bindr (check_opt (if jb_kind j = ImportJob \<and> falsy_error body then feedCheck j (en_now0 e) else None)) (\<lambda>_.
               bindr (import_bundle h put bo body j) (\<lambda>imported.
               bindr (scan_results_of h (en_now0 e) org body j imported) (\<lambda>scans.
               commit_completion feedCheck provenanceCheck org i leaseToken body p e imported scans s))))))"

section \<open>What a successful completion commits\<close>

lemma complete_scan_InrE:
  assumes "complete_scan org p e scans j s = Inr (t, j')"
  obtains skill a ev where "skill_by_id s (sk_id skill) = Some skill" "jb_resourceId j = Some (sk_id skill)"
    "jb_artifact j = Some a" "blob_digest (sk_artifact skill) = blob_digest a"
    "ev = evaluatePolicy (jb_policy j) scans (blob_digest a) (sk_fileCount skill) (en_now e)"
    "j' = finish_job (en_now e) ev j"
    "t = appendAudit (audit p (''job.complete.'' @ state_name (ev_state ev)) (Some (jb_id j)) org e)
       (with_skill (sk_id skill) (apply_scan (en_now e) j ev scans)
          (with_job (jb_id j) j' (s\<lparr>st_scans := st_scans s @ scans\<rparr>)))"
proof -
  from assms obtain c cs skill where r: "jb_resourceId j = Some (c # cs)" "skill_by_id s (c # cs) = Some skill"
    by (auto simp: complete_scan_def split: option.splits list.splits)
  moreover have "sk_id skill = c # cs" using skill_by_idD [OF r(2)] by simp
  moreover obtain a where "jb_artifact j = Some a"
    using assms r by (auto simp: complete_scan_def split: option.splits)
  ultimately show ?thesis
    using assms by (intro that [of skill a]) (auto simp: complete_scan_def Let_def split: if_splits)
qed

lemma complete_import_InrE:
  assumes "complete_import provenanceCheck org p e imported scans j s = Inr (t, j')"
  obtains r ib ev skill where "jb_import j = Some r" "imported = Some ib"
    "\<forall>k \<in> set (st_skills s). \<not> (sk_name k = im_name r \<and> sk_version k = im_version r)"
    "ev = evaluatePolicy (jb_policy j) scans (ib_digest ib) (ib_fileCount ib) (en_now e)"
    "skill = import_skill_record org e r ib j ev scans"
    "j' = (finish_job (en_now e) ev j)\<lparr>jb_resourceId := Some (sk_id skill), jb_artifact := Some (ib_stored ib)\<rparr>"
    "t = appendAudit (audit p (''job.complete.'' @ state_name (ev_state ev)) (Some (jb_id j)) org e)
       (with_job (jb_id j) j' (s\<lparr>st_skills := st_skills s @ [skill], st_scans := st_scans s @ scans\<rparr>))"
  using assms by (auto simp: complete_import_def result_simps Let_def split: option.splits prod.splits)

lemma no_error_message:
  "\<forall>c cs. v \<noteq> JStr (c # cs) \<Longrightarrow> (case v of JStr (c # cs) \<Rightarrow> f c cs | _ \<Rightarrow> g) = g"
  by (auto split: jsval.splits list.splits)

lemma commit_completion_InrE:
  assumes "commit_completion feedCheck provenanceCheck org i leaseToken body p e imported scans s = Inr (t, j')"
  obtains j where "job_by_id s i = Some j" "jb_state j = Running" "jb_leaseToken j = Some leaseToken"
    "\<not> timestampExpired (jb_leaseExpiresAt j) (en_now e)"
    "po_revision (st_policy s) \<noteq> jb_policyRevision j \<and> (t, j') = complete_requeue org p e j s
     \<or> po_revision (st_policy s) = jb_policyRevision j \<and>
       ((\<exists>err. err \<noteq> [] \<and> (t, j') = complete_failed org p e err j s) \<or>
        jb_kind j = ScanJob \<and> complete_scan org p e scans j s = Inr (t, j') \<or>
        jb_kind j = ImportJob \<and> complete_import provenanceCheck org p e imported scans j s = Inr (t, j'))"
proof -
  obtain j where j: "job_by_id s i = Some j" "jb_state j = Running" "jb_leaseToken j = Some leaseToken"
    "\<not> timestampExpired (jb_leaseExpiresAt j) (en_now e)"
    using assms by (auto simp: commit_completion_def split: option.splits if_splits)
  show ?thesis
  proof (cases "po_revision (st_policy s) = jb_policyRevision j")
    case False
    with j assms show ?thesis by (intro that [OF j]) (auto simp: commit_completion_def)
  next
    case True
    show ?thesis
    proof (cases "\<exists>c cs. get_prop body ''error'' = JStr (c # cs)")
      case err: True
      then obtain c cs where "get_prop body ''error'' = JStr (c # cs)" by blast
      with True j assms have "(t, j') = complete_failed org p e (c # cs) j s"
        by (auto simp: commit_completion_def result_simps)
      with True show ?thesis by (intro that [OF j]) blast
    next
      case False
      with True j assms show ?thesis
        by (intro that [OF j]) (auto simp: commit_completion_def result_simps no_error_message split: job_kind.splits)
    qed
  qed
qed

lemma parseScanResult_InrD:
  assumes "parseScanResult h now raw j org digest = Inr r"
  shows "sr_organizationId r = org" "sr_jobId r = jb_id j" "sr_artifactDigest r = digest" "isDigest digest"
    "sr_policyRevision r = jb_policyRevision j"
    "\<exists>ms. sr_createdAt r = Stamp ms \<and> ms \<le> now"
    "filesAnalyzed (sr_coverage r) + filesSkipped (sr_coverage r) + filesUnsupported (sr_coverage r)
       \<le> filesEnumerated (sr_coverage r)"
    "length (sr_findings r) \<le> 10000"
proof -
  have cov: "parse_coverage c = Some cv \<Longrightarrow>
      filesAnalyzed cv + filesSkipped cv + filesUnsupported cv \<le> filesEnumerated cv" for c cv
    by (auto simp: parse_coverage_def split: option.splits if_splits)
  have created: "parse_created h now v = Some ts \<Longrightarrow> \<exists>ms. ts = Stamp ms \<and> ms \<le> now" for v ts
    by (auto simp: parse_created_def not_less split: option.splits if_splits)
  obtain status scannerId cv raws where parts: "parse_status (get_prop raw ''status'') = Some status"
    "parse_scanner (get_prop raw ''scannerId'') = Some scannerId" "is_object raw"
    "stringValue (get_prop raw ''artifactDigest'') = Some digest" "isDigest digest"
    "stringValue (get_prop raw ''organizationId'') = Some org" "stringValue (get_prop raw ''jobId'') = Some (jb_id j)"
    "parse_coverage (get_prop raw ''coverage'') = Some cv" "arr_of (get_prop raw ''findings'') = Some raws"
    "length raws \<le> 10000"
    using assms by (auto simp: parseScanResult_def split: option.splits if_splits)
  with assms obtain fs where fs: "mapr parseFinding raws = Inr fs"
    by (auto simp: parseScanResult_def bindr_Inr_iff)
  have "sr_organizationId r = org \<and> sr_jobId r = jb_id j \<and> sr_artifactDigest r = digest \<and>
    sr_policyRevision r = jb_policyRevision j \<and> sr_coverage r = cv \<and> sr_findings r = fs \<and>
    parse_created h now (get_prop raw ''createdAt'') = Some (sr_createdAt r)"
    using assms parts fs by (auto simp: parseScanResult_def split: option.splits if_splits)
  then show "sr_organizationId r = org" "sr_jobId r = jb_id j" "sr_artifactDigest r = digest" "isDigest digest"
    "sr_policyRevision r = jb_policyRevision j" "\<exists>ms. sr_createdAt r = Stamp ms \<and> ms \<le> now"
    "filesAnalyzed (sr_coverage r) + filesSkipped (sr_coverage r) + filesUnsupported (sr_coverage r)
       \<le> filesEnumerated (sr_coverage r)" "length (sr_findings r) \<le> 10000"
    using parts length_mapr [OF fs] cov created by auto
qed

lemma scan_results_of_InrE:
  assumes "scan_results_of h now org body j imported = Inr scans"
  obtains (none) "scans = []"
  | (some) raws expected where "mapr (\<lambda>v. parseScanResult h now v j org expected) raws = Inr scans"
      "distinct (map sr_scannerId scans)" "distinct (map sr_id scans)"
proof (cases "falsy_error body \<and> get_prop body ''scanResults'' \<noteq> JUndefined")
  case True
  with assms some show ?thesis
    by (auto simp: scan_results_of_def result_simps length_unique_map_eq_distinct)
next
  case False
  with assms none show ?thesis by (auto simp: scan_results_of_def split: if_splits)
qed

lemma scan_results_of_InrD:
  assumes "scan_results_of h now org body j imported = Inr scans"
  shows "list_all (\<lambda>r. sr_organizationId r = org) scans" "distinct (map sr_scannerId scans)" "distinct (map sr_id scans)"
    "\<forall>r \<in> set scans. sr_policyRevision r = jb_policyRevision j \<and> sr_jobId r = jb_id j"
  using assms
  by (auto elim!: scan_results_of_InrE simp: list_all_iff dest!: mapr_InrD dest: parseScanResult_InrD(1,2,5))

lemma completeJob_InrE:
  assumes "completeJob h put bo feedCheck provenanceCheck org i body p e s0 s = Inr (t, j')"
  obtains leaseToken j imported scans where "stringValue (get_prop body ''leaseToken'') = Some leaseToken"
    "state_ok org s0" "job_by_id s0 i = Some j" "jb_state j = Running" "jb_leaseToken j = Some leaseToken"
    "import_bundle h put bo body j = Inr imported" "scan_results_of h (en_now0 e) org body j imported = Inr scans"
    "commit_completion feedCheck provenanceCheck org i leaseToken body p e imported scans s = Inr (t, j')"
  using assms by (auto simp: completeJob_def result_simps)

end
