(* ===== verification/Json.thy ===== *)
theory Json
  imports Text_Encoding
begin

text \<open>
  \<open>JSON.parse\<close> and \<open>JSON.stringify\<close> on the values of the model. Number lexemes are cut out by the JSON
  grammar and converted by \<open>num\<close>, the conversion of the language (to the nearest double). A repeated
  key keeps its first position and its last value. The guards \<open>length _ < length _\<close> always hold, since
  every parser consumes; they make termination evident.
\<close>

section \<open>Strings\<close>

fun hex_value :: "nat \<Rightarrow> nat option" where
  "hex_value c =
     (if is_digit c then Some (c - 48) else if 97 \<le> c \<and> c \<le> 102 then Some (c - 87)
      else if 65 \<le> c \<and> c \<le> 70 then Some (c - 55) else None)"

fun escape_value :: "nat \<Rightarrow> nat option" where
  "escape_value c =
     (if c = 34 \<or> c = 92 \<or> c = 47 then Some c else if c = 98 then Some 8 else if c = 102 then Some 12
      else if c = 110 then Some 10 else if c = 114 then Some 13 else if c = 116 then Some 9 else None)"

definition cons_unit :: "nat \<Rightarrow> (jstring \<times> 'a) option \<Rightarrow> (jstring \<times> 'a) option" where
  "cons_unit c m = map_option (\<lambda>(s, r). (c # s, r)) m"

text \<open>The characters of a string literal after its opening quote, and the text after the closing one.\<close>

fun json_string :: "jstring \<Rightarrow> (jstring \<times> jstring) option" where
  "json_string [] = None"
| "json_string (c # r) =
     (if c = 34 then Some ([], r)
      else if c < 32 then None
      else if c \<noteq> 92 then cons_unit c (json_string r)
      else (case r of
          [] \<Rightarrow> None
        | x # r1 \<Rightarrow>
            if x = 117 then
              (case r1 of
                 h1 # h2 # h3 # h4 # r2 \<Rightarrow>
                   (case (hex_value h1, hex_value h2, hex_value h3, hex_value h4) of
                      (Some a, Some b, Some d, Some e) \<Rightarrow> cons_unit (a * 4096 + b * 256 + d * 16 + e) (json_string r2)
                    | _ \<Rightarrow> None)
               | _ \<Rightarrow> None)
            else (case escape_value x of None \<Rightarrow> None | Some v \<Rightarrow> cons_unit v (json_string r1))))"

section \<open>Numbers\<close>

definition json_digits :: "jstring \<Rightarrow> (jstring \<times> jstring) option" where
  "json_digits s = (let ds = takeWhile is_digit s in if ds = [] then None else Some (ds, dropWhile is_digit s))"

definition json_integer :: "jstring \<Rightarrow> (jstring \<times> jstring) option" where
  "json_integer s = (case s of [] \<Rightarrow> None | c # r \<Rightarrow> if c = 48 then Some ([48], r) else json_digits s)"

text \<open>An optional part of a number: absent unless it starts with one of the marks, and then complete.\<close>

definition json_fraction :: "jstring \<Rightarrow> (jstring \<times> jstring) option" where
  "json_fraction s = (case s of
      c # r \<Rightarrow> if c = 46 then map_option (\<lambda>(ds, r'). (46 # ds, r')) (json_digits r) else Some ([], s)
    | [] \<Rightarrow> Some ([], []))"

definition json_exponent :: "jstring \<Rightarrow> (jstring \<times> jstring) option" where
  "json_exponent s = (case s of
      c # r \<Rightarrow>
        if c = 101 \<or> c = 69 then
          (case r of
             x # r' \<Rightarrow> if x = 43 \<or> x = 45 then map_option (\<lambda>(ds, q). (c # x # ds, q)) (json_digits r')
                       else map_option (\<lambda>(ds, q). (c # ds, q)) (json_digits r)
           | [] \<Rightarrow> None)
        else Some ([], s)
    | [] \<Rightarrow> Some ([], []))"

definition json_number :: "jstring \<Rightarrow> (jstring \<times> jstring) option" where
  "json_number s =
     (let (sign, s0) = (case s of c # r \<Rightarrow> if c = 45 then ([45], r) else ([], s) | [] \<Rightarrow> ([], [])) in
      case json_integer s0 of
        None \<Rightarrow> None
      | Some (i, s1) \<Rightarrow>
          (case json_fraction s1 of
             None \<Rightarrow> None
           | Some (f, s2) \<Rightarrow>
               (case json_exponent s2 of None \<Rightarrow> None | Some (e, s3) \<Rightarrow> Some (sign @ i @ f @ e, s3))))"

section \<open>Values\<close>

definition json_space :: "nat \<Rightarrow> bool" where
  "json_space c \<longleftrightarrow> c = 32 \<or> c = 9 \<or> c = 10 \<or> c = 13"

abbreviation skip_space :: "jstring \<Rightarrow> jstring" where
  "skip_space s \<equiv> dropWhile json_space s"

fun set_prop :: "'a \<Rightarrow> 'b \<Rightarrow> ('a \<times> 'b) list \<Rightarrow> ('a \<times> 'b) list" where
  "set_prop k v [] = [(k, v)]"
| "set_prop k v ((x, y) # ps) = (if x = k then (k, v) # ps else (x, y) # set_prop k v ps)"

definition json_word :: "string \<Rightarrow> jsval \<Rightarrow> jstring \<Rightarrow> (jsval \<times> jstring) option" where
  "json_word w v s = (if starts_with (js w) s then Some (v, drop (length w) s) else None)"

text \<open>
  \<open>json_value\<close> reads a value that starts at the front; \<open>json_items\<close> the elements of an array from the
  first one, \<open>json_members\<close> those of an object, each up to and including the closing bracket.
\<close>

function json_value :: "(jstring \<Rightarrow> jnum) \<Rightarrow> jstring \<Rightarrow> (jsval \<times> jstring) option"
  and json_items :: "(jstring \<Rightarrow> jnum) \<Rightarrow> jstring \<Rightarrow> (jsval list \<times> jstring) option"
  and json_members :: "(jstring \<Rightarrow> jnum) \<Rightarrow> (jstring \<times> jsval) list \<Rightarrow> jstring \<Rightarrow> ((jstring \<times> jsval) list \<times> jstring) option" where
  "json_value num s =
     (case s of
        [] \<Rightarrow> None
      | c # r \<Rightarrow>
          if c = 34 then map_option (\<lambda>(t, q). (JStr t, q)) (json_string r)
          else if c = 91 then
            (case skip_space r of
               [] \<Rightarrow> None
             | d # r' \<Rightarrow> if d = 93 then Some (JArr [], r')
                         else if length (d # r') < length s then map_option (\<lambda>(vs, q). (JArr vs, q)) (json_items num (d # r')) else None)
          else if c = 123 then
            (case skip_space r of
               [] \<Rightarrow> None
             | d # r' \<Rightarrow> if d = 125 then Some (JObj [], r')
                         else if length (d # r') < length s then map_option (\<lambda>(ps, q). (JObj ps, q)) (json_members num [] (d # r')) else None)
          else if c = 116 then json_word ''true'' (JBool True) s
          else if c = 102 then json_word ''false'' (JBool False) s
          else if c = 110 then json_word ''null'' JNull s
          else map_option (\<lambda>(t, q). (JNum (num t), q)) (json_number s))"
| "json_items num s =
     (case json_value num s of
        None \<Rightarrow> None
      | Some (v, q) \<Rightarrow>
          (case skip_space q of
             [] \<Rightarrow> None
           | d # r \<Rightarrow>
               if d = 93 then Some ([v], r)
               else if d = 44 \<and> length (skip_space r) < length s
                 then map_option (\<lambda>(vs, q'). (v # vs, q')) (json_items num (skip_space r))
               else None))"
| "json_members num ps s =
     (case s of
        [] \<Rightarrow> None
      | c # r0 \<Rightarrow>
          if c \<noteq> 34 then None
          else (case json_string r0 of
              None \<Rightarrow> None
            | Some (k, r1) \<Rightarrow>
                (case skip_space r1 of
                   [] \<Rightarrow> None
                 | d # r2 \<Rightarrow>
                     if d \<noteq> 58 \<or> \<not> length (skip_space r2) < length s then None
                     else (case json_value num (skip_space r2) of
                         None \<Rightarrow> None
                       | Some (v, r3) \<Rightarrow>
                           (case skip_space r3 of
                              [] \<Rightarrow> None
                            | e # r4 \<Rightarrow>
                                if e = 125 then Some (set_prop k v ps, r4)
                                else if e = 44 \<and> length (skip_space r4) < length s
                                  then json_members num (set_prop k v ps) (skip_space r4)
                                else None)))))"
  by pat_completeness auto
termination
  by (relation "measure (\<lambda>x. case x of Inl (num, s) \<Rightarrow> 2 * length s
    | Inr (Inl (num, s)) \<Rightarrow> 2 * length s + 1 | Inr (Inr (num, ps, s)) \<Rightarrow> 2 * length s + 1)") auto

declare json_value.simps [simp del] json_items.simps [simp del] json_members.simps [simp del]

definition json_parse :: "(jstring \<Rightarrow> jnum) \<Rightarrow> jstring \<Rightarrow> jsval option" where
  "json_parse num s =
     (case json_value num (skip_space s) of
        None \<Rightarrow> None
      | Some (v, r) \<Rightarrow> if skip_space r = [] then Some v else None)"

section \<open>Printing\<close>

text \<open>\<open>JSON.stringify\<close> of strings, booleans, \<open>null\<close>, natural numbers, arrays and objects.\<close>

fun json_text :: "jsval \<Rightarrow> jstring" where
  "json_text (JStr s) = json_quote s"
| "json_text (JBool b) = js (if b then ''true'' else ''false'')"
| "json_text JNull = js ''null''"
| "json_text (JNum (Num q)) = decimal (nat \<lfloor>q\<rfloor>)"
| "json_text (JArr vs) = [91] @ join [44] (map json_text vs) @ [93]"
| "json_text (JObj ps) = [123] @ join [44] (map (\<lambda>(k, v). json_quote k @ [58] @ json_text v) ps) @ [125]"
| "json_text _ = []"

text \<open>The values that survive: code units, distinct keys, and numbers that the conversion reads back.\<close>

fun json_faithful :: "(jstring \<Rightarrow> jnum) \<Rightarrow> jsval \<Rightarrow> bool" where
  "json_faithful num (JStr s) \<longleftrightarrow> (\<forall>c \<in> set s. c < 65536)"
| "json_faithful num (JBool b) \<longleftrightarrow> True"
| "json_faithful num JNull \<longleftrightarrow> True"
| "json_faithful num (JNum n) \<longleftrightarrow> (\<exists>k :: nat. n = Num (of_nat k) \<and> num (decimal k) = n)"
| "json_faithful num (JArr vs) \<longleftrightarrow> (\<forall>v \<in> set vs. json_faithful num v)"
| "json_faithful num (JObj ps) \<longleftrightarrow> distinct (map fst ps) \<and> (\<forall>(k, v) \<in> set ps. (\<forall>c \<in> set k. c < 65536) \<and> json_faithful num v)"
| "json_faithful num JUndefined \<longleftrightarrow> False"

section \<open>Parsing undoes printing\<close>

lemma cons_unit_Some [simp]: "cons_unit c (Some (s, r)) = Some (c # s, r)"
  by (simp add: cons_unit_def)

lemma hex_value_digit: "n < 16 \<Longrightarrow> hex_value (hex_digit n) = Some n"
  by (auto simp: hex_digit_def is_digit_def)

lemma hex_digits_value:
  fixes c :: nat
  shows "c div 4096 * 4096 + c div 256 mod 16 * 256 + c div 16 mod 16 * 16 + c mod 16 = c"
proof -
  have "c div 16 * 16 + c mod 16 = c" "c div 256 * 16 + c div 16 mod 16 = c div 16" "c div 4096 * 16 + c div 256 mod 16 = c div 256"
    using div_mult_mod_eq [of c 16] div_mult_mod_eq [of "c div 16" 16] div_mult_mod_eq [of "c div 256" 16]
    by (simp_all flip: div_mult2_eq)
  then show ?thesis by linarith
qed

lemma json_string_u_escape: "c < 65536 \<Longrightarrow> json_string (u_escape c @ t) = cons_unit c (json_string t)"
proof -
  assume "c < 65536"
  then have "c div 4096 < 16" by auto
  then show ?thesis
    using hex_digits_value [of c] by (simp add: u_escape_def hex_value_digit del: hex_value.simps)
qed

lemma json_string_quote_unit: "c < 65536 \<Longrightarrow> json_string (quote_unit c @ t) = cons_unit c (json_string t)"
  using json_string_u_escape by (auto simp: quote_unit_def)

lemma json_string_quote: "\<forall>c \<in> set s. c < 65536 \<Longrightarrow> json_string (quote_units s @ 34 # r) = Some (s, r)"
proof (induction s rule: quote_units.induct)
  case (2 c s)
  have c: "c < 65536" using "2.prems" by simp
  show ?case
  proof (cases s)
    case Nil
    then show ?thesis using json_string_quote_unit [OF c] by simp
  next
    case (Cons l s')
    show ?thesis
    proof (cases "is_high c \<and> is_low l")
      case True
      then have raw: "32 \<le> c" "c \<noteq> 34" "c \<noteq> 92" "32 \<le> l" "l \<noteq> 34" "l \<noteq> 92" by (auto simp: is_high_def is_low_def)
      have "json_string (quote_units s' @ 34 # r) = Some (s', r)" using "2.IH"(1) [OF Cons True] "2.prems" Cons by simp
      then show ?thesis using True Cons raw by simp
    next
      case False
      then have "json_string (quote_units s @ 34 # r) = Some (s, r)" using "2.IH"(2) [OF Cons False] "2.prems" by simp
      moreover have "quote_units (c # s) = quote_unit c @ quote_units s" using False Cons by auto
      ultimately show ?thesis using json_string_quote_unit [OF c] by simp
    qed
  qed
qed simp

lemma json_quote_inj:
  assumes "json_quote s @ r = json_quote t @ r'" and "\<forall>c \<in> set s. c < 65536" and "\<forall>c \<in> set t. c < 65536"
  shows "s = t \<and> r = r'"
proof -
  have "quote_units s @ 34 # r = quote_units t @ 34 # r'" using assms(1) by (simp add: json_quote_def)
  then have "json_string (quote_units s @ 34 # r) = json_string (quote_units t @ 34 # r')" by simp
  then show ?thesis by (simp add: json_string_quote assms(2,3))
qed

text \<open>What follows a value: nothing, a comma or a closing bracket.\<close>

definition value_end :: "jstring \<Rightarrow> bool" where
  "value_end r \<longleftrightarrow> (case r of [] \<Rightarrow> True | c # _ \<Rightarrow> c = 44 \<or> c = 93 \<or> c = 125)"

lemma decimal_head: "0 < k \<Longrightarrow> \<exists>d ds. decimal k = d # ds \<and> d \<noteq> 48"
proof (induction k rule: decimal.induct)
  case (1 n)
  show ?case
  proof (cases "n < 10")
    case True
    then show ?thesis using "1.prems" by (simp add: decimal.simps)
  next
    case False
    then have "0 < n div 10" by auto
    then obtain d ds where "decimal (n div 10) = d # ds" "d \<noteq> 48" using "1.IH" [OF False] by blast
    then show ?thesis using False by (simp add: decimal.simps [of n])
  qed
qed

lemma decimal_digit_head: "\<exists>d ds. decimal k = d # ds \<and> is_digit d"
proof -
  have "decimal k \<noteq> []" by (subst decimal.simps) simp
  then show ?thesis using decimal_digits [of k] by (cases "decimal k") auto
qed

lemma json_number_decimal:
  assumes "value_end r"
  shows "json_number (decimal k @ r) = Some (decimal k, r)"
proof -
  obtain d ds where d: "decimal k = d # ds" "is_digit d" using decimal_digit_head by blast
  have r: "takeWhile is_digit r = []" "dropWhile is_digit r = r" "json_fraction r = Some ([], r)" "json_exponent r = Some ([], r)"
    using assms by (auto simp: value_end_def is_digit_def json_fraction_def json_exponent_def split: list.splits)
  have "json_integer (decimal k @ r) = Some (decimal k, r)"
  proof (cases "k = 0")
    case True
    then have "decimal k = [48]" by (simp add: decimal.simps)
    then show ?thesis by (simp add: json_integer_def)
  next
    case False
    then have "d \<noteq> 48" using decimal_head [of k] d(1) by auto
    moreover have "takeWhile is_digit (decimal k @ r) = decimal k" "dropWhile is_digit (decimal k @ r) = r"
      using decimal_digits [of k] r(1,2) by (simp_all add: list_all_iff takeWhile_append2 dropWhile_append2)
    ultimately show ?thesis using d by (simp add: json_integer_def json_digits_def)
  qed
  moreover have "d \<noteq> 45" using d(2) by (auto simp: is_digit_def)
  ultimately show ?thesis using r(3,4) d(1) by (simp add: json_number_def)
qed

text \<open>The first unit of the text of a value: no space and no closing bracket.\<close>

lemma json_text_head:
  assumes "json_faithful num v"
  obtains c r where "json_text v = c # r" and "\<not> json_space c" and "c \<noteq> 93" and "c \<noteq> 125"
proof (cases v)
  case (JNum n)
  then obtain k where "json_text v = decimal k" using assms by auto
  then show thesis using that decimal_digit_head [of k] by (auto simp: is_digit_def json_space_def)
next
  case (JBool b)
  then show thesis using that by (cases b) (auto simp: js_def json_space_def)
qed (use assms that in \<open>auto simp: json_quote_def js_def json_space_def\<close>)

lemma skip_space_text: "json_faithful num v \<Longrightarrow> skip_space (json_text v @ r) = json_text v @ r"
  by (erule json_text_head) simp

lemma json_items_text:
  assumes "vs \<noteq> []" and "\<forall>v \<in> set vs. json_faithful num v"
    and read: "\<And>v r. v \<in> set vs \<Longrightarrow> value_end r \<Longrightarrow> json_value num (json_text v @ r) = Some (v, r)"
  shows "json_items num (join [44] (map json_text vs) @ 93 # r) = Some (vs, r)"
  using assms
proof (induction vs)
  case (Cons v vs)
  show ?case
  proof (cases vs)
    case Nil
    have "json_value num (json_text v @ 93 # r) = Some (v, 93 # r)" by (rule Cons.prems(3)) (simp_all add: value_end_def)
    then show ?thesis using Nil by (simp add: join_def json_items.simps json_space_def)
  next
    case (Cons w ws)
    let ?rest = "join [44] (map json_text vs) @ 93 # r"
    have rest: "json_items num ?rest = Some (vs, r)" using Cons.IH Cons.prems Cons by simp
    have head: "skip_space ?rest = ?rest"
      using skip_space_text [of num w] Cons.prems(2) Cons by (simp add: join_def)
    have "json_value num (json_text v @ 44 # ?rest) = Some (v, 44 # ?rest)" by (rule Cons.prems(3)) (simp_all add: value_end_def)
    moreover have "join [44] (map json_text (v # vs)) @ 93 # r = json_text v @ 44 # ?rest" using Cons by (simp add: join_def)
    ultimately show ?thesis using rest head by (simp add: json_items.simps [of num "json_text v @ 44 # ?rest"] json_space_def)
  qed
qed simp

lemma set_prop_new: "k \<notin> fst ` set ps \<Longrightarrow> set_prop k v ps = ps @ [(k, v)]"
  by (induction ps) auto

lemma json_members_text:
  assumes "qs \<noteq> []" and "distinct (map fst (ps @ qs))" and "\<forall>(k, v) \<in> set qs. (\<forall>c \<in> set k. c < 65536) \<and> json_faithful num v"
    and read: "\<And>k v r. (k, v) \<in> set qs \<Longrightarrow> value_end r \<Longrightarrow> json_value num (json_text v @ r) = Some (v, r)"
  shows "json_members num ps (join [44] (map (\<lambda>(k, v). json_quote k @ [58] @ json_text v) qs) @ 125 # r) = Some (ps @ qs, r)"
  using assms
proof (induction qs arbitrary: ps)
  case (Cons q qs)
  obtain k v where q: "q = (k, v)" by (cases q)
  have units: "\<forall>c \<in> set k. c < 65536" and faithful: "json_faithful num v" using Cons.prems(3) q by auto
  have fresh: "set_prop k v ps = ps @ [(k, v)]" using Cons.prems(2) q by (intro set_prop_new) auto
  let ?member = "\<lambda>t. json_quote k @ [58] @ json_text v @ t"
  have step: "json_members num ps (?member (c # t)) =
      (if c = 125 then Some (set_prop k v ps, t)
       else if c = 44 \<and> length (skip_space t) < length (?member (c # t)) then json_members num (set_prop k v ps) (skip_space t) else None)"
    if "c = 44 \<or> c = 125" for c t
  proof -
    have "json_value num (json_text v @ c # t) = Some (v, c # t)"
      by (rule Cons.prems(4) [of k]) (use that q in \<open>auto simp: value_end_def\<close>)
    moreover have "\<not> json_space c" "\<not> json_space 58" using that by (auto simp: json_space_def)
    ultimately show ?thesis
      using that json_string_quote [OF units] skip_space_text [OF faithful]
      by (subst json_members.simps) (simp add: json_quote_def)
  qed
  show ?case
  proof (cases qs)
    case Nil
    then show ?thesis using step [of 125 r] fresh by (simp add: q join_def)
  next
    case (Cons q' qs')
    let ?rest = "join [44] (map (\<lambda>(k, v). json_quote k @ [58] @ json_text v) qs) @ 125 # r"
    have rest: "json_members num (ps @ [(k, v)]) ?rest = Some ((ps @ [(k, v)]) @ qs, r)"
      using Cons.prems q Cons by (intro Cons.IH) auto
    have head: "skip_space ?rest = ?rest" using Cons by (cases q') (simp add: join_def json_quote_def json_space_def)
    have "join [44] (map (\<lambda>(k, v). json_quote k @ [58] @ json_text v) (q # qs)) @ 125 # r = ?member (44 # ?rest)"
      using Cons q by (simp add: join_def)
    then show ?thesis using step [of 44 ?rest] rest head fresh q by simp
  qed
qed simp

lemma json_value_text: "json_faithful num v \<Longrightarrow> value_end r \<Longrightarrow> json_value num (json_text v @ r) = Some (v, r)"
proof (induction v arbitrary: r)
  case (JNum n)
  then obtain k where k: "n = Num (of_nat k)" "num (decimal k) = n" by auto
  obtain d ds where d: "decimal k = d # ds" "is_digit d" using decimal_digit_head by blast
  have "json_number (decimal k @ r) = Some (decimal k, r)" using JNum.prems(2) by (rule json_number_decimal)
  then show ?case using k d by (subst json_value.simps) (auto simp: is_digit_def)
next
  case (JArr vs)
  show ?case
  proof (cases "vs = []")
    case True
    then show ?thesis by (simp add: json_value.simps join_def json_space_def)
  next
    case False
    obtain w ws where vs: "vs = w # ws" using False by (cases vs) auto
    let ?t = "join [44] (map json_text vs) @ 93 # r"
    have "json_items num ?t = Some (vs, r)" using JArr False by (intro json_items_text) auto
    moreover obtain c q where "json_text w = c # q" "\<not> json_space c" "c \<noteq> 93" "c \<noteq> 125"
      using json_text_head [of num w] JArr.prems(1) vs by auto
    then have "\<exists>q. ?t = c # q \<and> \<not> json_space c \<and> c \<noteq> 93" by (simp add: vs join_def)
    ultimately show ?thesis by (subst json_value.simps) (auto simp: json_space_def)
  qed
next
  case (JObj ps)
  show ?case
  proof (cases "ps = []")
    case True
    then show ?thesis by (simp add: json_value.simps join_def json_space_def)
  next
    case False
    let ?t = "join [44] (map (\<lambda>(k, v). json_quote k @ [58] @ json_text v) ps) @ 125 # r"
    have "json_members num [] ?t = Some ([] @ ps, r)"
    proof (rule json_members_text [OF False])
      fix k v r assume kv: "(k, v) \<in> set ps" "value_end r"
      then have "json_faithful num v" using JObj.prems(1) by auto
      then show "json_value num (json_text v @ r) = Some (v, r)" using JObj.IH [of "(k, v)" v] kv by auto
    qed (use JObj.prems(1) in auto)
    moreover have "\<exists>q. ?t = 34 # q" using False by (cases ps) (auto simp: join_def json_quote_def)
    ultimately show ?thesis by (subst json_value.simps) (auto simp: json_space_def)
  qed
next
  case (JStr s)
  then show ?case using json_string_quote [of s r] by (simp add: json_value.simps json_quote_def)
next
  case (JBool b)
  then show ?case by (cases b) (simp_all add: json_value.simps json_word_def starts_with_def js_def)
next
  case JNull
  then show ?case by (simp add: json_value.simps json_word_def starts_with_def js_def)
qed simp

theorem json_parse_text: "json_faithful num v \<Longrightarrow> json_parse num (json_text v) = Some v"
  using json_value_text [of num v "[]"] skip_space_text [of num v "[]"] by (simp add: json_parse_def value_end_def)

end
