(* ===== verification/Imports.thy ===== *)
theory Imports
  imports Registry Redaction Json
begin

text \<open>
  Pull-through imports and upstreams of \<open>packages/core/src/index.ts\<close>: the administration of upstreams
  (\<open>createUpstream\<close>), the validation of an import request, the identity a request is cached under, and
  \<open>resolveOrQueueImport\<close>, which joins an import under way, answers from an imported release or queues a
  new import in one transaction.

  The provenance of a release is written when the release is created and never changed. The releases of
  this development do not carry it; it is a function \<open>prov\<close> of the release's identifier.
\<close>

section \<open>Provenance\<close>

datatype provenance_kind = NativeProvenance | UpstreamProvenance upstream_kind

text \<open>The optional evidence of a source, which a provenance and its external part both carry.\<close>

record source_evidence =
  sv_sourceUrl :: "jstring option"
  sv_sourceProviderOrigin :: "jstring option"
  sv_sourceResolutionKind :: "jstring option"
  sv_fetchedAt :: "jstring option"
  sv_pageUrl :: "jstring option"
  sv_artifactUrl :: "jstring option"
  sv_skillPath :: "jstring option"
  sv_requestedRef :: "jstring option"
  sv_resolvedCommit :: "jstring option"
  sv_resolvedTree :: "jstring option"
  sv_wellKnownIndexUrl :: "jstring option"
  sv_wellKnownEntryName :: "jstring option"
  sv_frontmatterName :: "jstring option"
  sv_frontmatterDescription :: "jstring option"
  sv_externalDigest :: "jstring option"

definition no_evidence :: source_evidence where
  "no_evidence = \<lparr>sv_sourceUrl = None, sv_sourceProviderOrigin = None, sv_sourceResolutionKind = None, sv_fetchedAt = None,
     sv_pageUrl = None, sv_artifactUrl = None, sv_skillPath = None, sv_requestedRef = None, sv_resolvedCommit = None,
     sv_resolvedTree = None, sv_wellKnownIndexUrl = None, sv_wellKnownEntryName = None, sv_frontmatterName = None,
     sv_frontmatterDescription = None, sv_externalDigest = None\<rparr>"

record external_provenance =
  xp_provider :: jstring
  xp_externalId :: jstring
  xp_source :: jstring
  xp_slug :: jstring
  xp_sourceType :: jstring
  xp_externalSnapshotHash :: "jstring option"
  xp_evidence :: source_evidence

record provenance =
  pv_kind :: provenance_kind
  pv_upstreamId :: "jstring option"
  pv_repository :: "jstring option"
  pv_path :: "jstring option"
  pv_revision :: "jstring option"
  pv_sourceDigest :: "jstring option"
  pv_externalId :: "jstring option"
  pv_externalSourceType :: "jstring option"
  pv_externalSnapshotHash :: "jstring option option"
  pv_feedId :: "jstring option"
  pv_feedName :: "jstring option"
  pv_feedConfigRevision :: "jstring option"
  pv_sourceReference :: "jstring option"
  pv_externalSource :: "jstring option"
  pv_external :: "external_provenance option"
  pv_evidence :: source_evidence

abbreviation provenance_conflict :: api_error where
  "provenance_conflict \<equiv> RegistryApiError ''PROVENANCE_CONFLICT'' 409 False"

abbreviation invalid_import :: api_error where
  "invalid_import \<equiv> RegistryApiError ''INVALID_IMPORT'' 400 False"

abbreviation invalid_upstream :: api_error where
  "invalid_upstream \<equiv> RegistryApiError ''INVALID_UPSTREAM'' 400 False"

text \<open>A string that is there: \<open>!value\<close> is false.\<close>

definition truthy :: "jstring option \<Rightarrow> bool" where
  "truthy v \<longleftrightarrow> (case v of None \<Rightarrow> False | Some s \<Rightarrow> s \<noteq> [])"

section \<open>Upstreams\<close>

definition isLoopbackHost :: "host \<Rightarrow> jstring \<Rightarrow> bool" where
  "isLoopbackHost h hostname =
     (let host = toLowerCase h hostname in
      host = js ''localhost'' \<or> host = js ''::1'' \<or> host = js ''127.0.0.1'' \<or> starts_with (js ''127.'') host)"

fun upstream_kind_of :: "jsval \<Rightarrow> upstream_kind option" where
  "upstream_kind_of (JStr s) =
     (if s = js ''github'' then Some GithubUpstream else if s = js ''registry'' then Some RegistryUpstream
      else if s = js ''skills-sh'' then Some SkillsShUpstream else None)"
| "upstream_kind_of _ = None"

text \<open>\<open>/^@[a-z0-9][a-z0-9._-]{0,63}$/\<close> and \<open>/^[A-Z_][A-Z0-9_]{0,127}$/\<close>\<close>

fun namespace_ok :: "jstring \<Rightarrow> bool" where
  "namespace_ok [] = False"
| "namespace_ok (c # r) \<longleftrightarrow> c = 64 \<and> slug_ok 63 r"

fun env_name_ok :: "jstring \<Rightarrow> bool" where
  "env_name_ok [] = False"
| "env_name_ok (c # r) \<longleftrightarrow> (is_upper c \<or> c = 95) \<and> length r \<le> 127 \<and> list_all (\<lambda>d. is_upper d \<or> is_digit d \<or> d = 95) r"

definition base_url_ok :: "host \<Rightarrow> bool \<Rightarrow> jstring \<Rightarrow> bool" where
  "base_url_ok h allowLoopbackUpstreams baseUrl \<longleftrightarrow>
     (case parseUrl h baseUrl of
        None \<Rightarrow> False
      | Some parsed \<Rightarrow>
          url_username parsed = [] \<and> url_password parsed = [] \<and>
          (url_protocol parsed = js ''https:'' \<or>
           allowLoopbackUpstreams \<and> isLoopbackHost h (url_hostname parsed) \<and> url_protocol parsed = js ''http:'') \<and>
          \<not> (isLoopbackHost h (url_hostname parsed) \<and> \<not> allowLoopbackUpstreams))"

definition repository_ok :: "jstring \<Rightarrow> bool" where
  "repository_ok repository \<longleftrightarrow> repository \<noteq> [] \<and> length repository \<le> 2048 \<and> \<not> list_ex is_control repository"

definition createUpstream ::
    "host \<Rightarrow> bool \<Rightarrow> jstring \<Rightarrow> jsval \<Rightarrow> principal \<Rightarrow> env \<Rightarrow> registry_state \<Rightarrow> (registry_state \<times> upstream) api" where
  "createUpstream h allowLoopbackUpstreams org body p e s =
     (case stringValue (get_prop body ''name'') of
        None \<Rightarrow> Inl invalid_upstream
      | Some name \<Rightarrow>
     if normalizeSkillName (JStr name) = None then Inl invalid_upstream
     else (case upstream_kind_of (get_prop body ''kind'') of
        None \<Rightarrow> Inl invalid_upstream
      | Some kind \<Rightarrow>
     (case stringValue (get_prop body ''namespace'') of
        None \<Rightarrow> Inl invalid_upstream
      | Some namespace \<Rightarrow>
     if \<not> namespace_ok namespace then Inl invalid_upstream
     else if \<not> canReadNamespace p namespace then Inl forbidden
     else if \<not> (case stringValue (get_prop body ''baseUrl'') of None \<Rightarrow> True | Some u \<Rightarrow> base_url_ok h allowLoopbackUpstreams u)
       then Inl invalid_upstream
     else if \<not> (case stringValue (get_prop body ''credentialEnv'') of None \<Rightarrow> True | Some c \<Rightarrow> env_name_ok c) then Inl invalid_upstream
     else
       (let input = arr_of (get_prop body ''repositories'');
            repositories = map_option (List.map_filter str_of) input in
        if map_option length repositories \<noteq> map_option length input then Inl invalid_upstream
        else if kind = SkillsShUpstream \<and> (repositories = None \<or> repositories = Some []) then Inl invalid_upstream
        else if (case repositories of None \<Rightarrow> False | Some rs \<Rightarrow> list_ex (\<lambda>r. \<not> repository_ok r) rs) then Inl invalid_upstream
        else
          bindr (case get_prop body ''enabled'' of JUndefined \<Rightarrow> Inr True | JBool b \<Rightarrow> Inr b | _ \<Rightarrow> Inl invalid_upstream) (\<lambda>enabled.
          let upstream = \<lparr>up_id = en_upstream e, up_organizationId = org, up_name = name, up_kind = kind, up_enabled = enabled,
                up_repositories = repositories, up_baseUrl = stringValue (get_prop body ''baseUrl''),
                up_credentialEnv = stringValue (get_prop body ''credentialEnv''), up_namespace = namespace, up_configRevision = None\<rparr> in
          if \<exists>candidate \<in> set (st_upstreams s). up_name candidate = name then Inl version_conflict
          else Inr (appendAudit (audit p ''upstream.create'' (Some (en_upstream e)) org e)
                 (s\<lparr>st_upstreams := st_upstreams s @ [upstream]\<rparr>), upstream))))))"

section \<open>Import requests\<close>

definition parseExternalSnapshotHash :: "jsval \<Rightarrow> jstring option option api" where
  "parseExternalSnapshotHash v =
     (case v of
        JUndefined \<Rightarrow> Inr None
      | JNull \<Rightarrow> Inr (Some None)
      | JStr s \<Rightarrow> if s = [] \<or> length s > 256 \<or> list_ex is_control s then Inl invalid_import else Inr (Some (Some s))
      | _ \<Rightarrow> Inl invalid_import)"

definition optionalImportField :: "jsval \<Rightarrow> jstring option api" where
  "optionalImportField v =
     (case v of
        JUndefined \<Rightarrow> Inr None
      | JNull \<Rightarrow> Inr None
      | JStr s \<Rightarrow> if s = [] then Inr None else if length s > 4096 \<or> list_ex is_control s then Inl invalid_import else Inr (Some s)
      | _ \<Rightarrow> Inl invalid_import)"

definition import_path_ok :: "jstring \<Rightarrow> bool" where
  "import_path_ok path \<longleftrightarrow> length path \<le> 4096 \<and> \<not> starts_with (js ''/'') path \<and> \<not> ends_with (js ''/'') path \<and> 92 \<notin> set path \<and>
     \<not> list_ex is_control path \<and> list_all (\<lambda>part. part \<noteq> [] \<and> part \<noteq> js ''..'' \<and> part \<noteq> js ''.'') (split_on 47 path)"

definition source_type_of :: "jsval \<Rightarrow> jstring option api" where
  "source_type_of v =
     (case v of
        JUndefined \<Rightarrow> Inr None
      | JNull \<Rightarrow> Inr None
      | JStr s \<Rightarrow> if s = [] then Inr None else if s = js ''github'' \<or> s = js ''well-known'' then Inr (Some s) else Inl invalid_import
      | _ \<Rightarrow> Inl invalid_import)"

definition parseImportRequest :: "jsval \<Rightarrow> import_request api" where
  "parseImportRequest body =
     bindr (requireSkillName (get_prop body ''name'')) (\<lambda>name.
     bindr (requireVersion (get_prop body ''version'')) (\<lambda>version.
     case stringValue (get_prop body ''upstreamId'') of
       None \<Rightarrow> Inl invalid_import
     | Some upstreamId \<Rightarrow>
         (case stringValue (get_prop body ''path'') of
            None \<Rightarrow> Inl invalid_import
          | Some path \<Rightarrow>
              if \<not> import_path_ok path then Inl invalid_import
              else
                bindr (optionalImportField (get_prop body ''repository'')) (\<lambda>repository.
                bindr (optionalImportField (get_prop body ''ref'')) (\<lambda>ref.
                bindr (optionalImportField (get_prop body ''externalId'')) (\<lambda>externalId.
                bindr (source_type_of (get_prop body ''externalSourceType'')) (\<lambda>externalSourceType.
                bindr (parseExternalSnapshotHash (get_prop body ''externalSnapshotHash'')) (\<lambda>externalSnapshotHash.
                if externalId \<noteq> None \<and> externalId \<noteq> Some path then Inl invalid_import
                else Inr \<lparr>im_upstreamId = upstreamId, im_repository = repository, im_path = path, im_ref = ref, im_name = name,
                  im_version = version, im_externalId = externalId, im_externalSourceType = externalSourceType,
                  im_externalSnapshotHash = externalSnapshotHash, im_feedId = None, im_feedName = None,
                  im_feedConfigRevision = None, im_sourceReference = None, im_sourceCatalogId = None,
                  im_sourceCatalogConfigRevision = None, im_sourceCatalogProviderVersion = None\<rparr>))))))))"

section \<open>What an upstream allows\<close>

definition strip_prefix :: "string list \<Rightarrow> jstring \<Rightarrow> jstring" where
  "strip_prefix prefixes s = (case find (\<lambda>q. starts_with (js q) s) prefixes of None \<Rightarrow> s | Some q \<Rightarrow> drop (length q) s)"

text \<open>\<open>replace(/^\/+|\/+$/gu, '')\<close> and \<open>replace(/\.git$/iu, '')\<close>\<close>

definition strip_slashes :: "jstring \<Rightarrow> jstring" where
  "strip_slashes s = rev (dropWhile (\<lambda>c. c = 47) (rev (dropWhile (\<lambda>c. c = 47) s)))"

definition strip_git :: "jstring \<Rightarrow> jstring" where
  "strip_git s = (if length s \<ge> 4 \<and> prefix_ci ''.git'' (drop (length s - 4) s) then take (length s - 4) s else s)"

definition normalize_github :: "host \<Rightarrow> jstring \<Rightarrow> jstring" where
  "normalize_github h s =
     strip_git (strip_slashes (strip_prefix [''github.com/''] (strip_prefix [''https://github.com/'', ''http://github.com/'']
       (toLowerCase h (trim s)))))"

definition normalizeSkillsDirectorySource :: "host \<Rightarrow> jstring \<Rightarrow> jstring" where
  "normalizeSkillsDirectorySource h s =
     strip_git (strip_slashes (strip_prefix [''github.com/'']
       (strip_prefix [''https://github.com/'', ''http://github.com/'', ''https://www.github.com/'', ''http://www.github.com/'']
         (strip_prefix [''https://skills.sh/'', ''http://skills.sh/'', ''https://www.skills.sh/'', ''http://www.skills.sh/'']
           (toLowerCase h (trim s))))))"

definition upstreamAllowsImport :: "host \<Rightarrow> upstream \<Rightarrow> jstring option \<Rightarrow> bool" where
  "upstreamAllowsImport h upstream repository =
     (case up_kind upstream of
        RegistryUpstream \<Rightarrow> True
      | SkillsShUpstream \<Rightarrow>
          (case up_repositories upstream of
             None \<Rightarrow> False
           | Some allowlist \<Rightarrow>
               allowlist \<noteq> [] \<and>
               (case repository of
                  None \<Rightarrow> length allowlist = 1
                | Some r \<Rightarrow> list_ex (\<lambda>candidate. candidate = js ''*'' \<or>
                    normalizeSkillsDirectorySource h candidate = normalizeSkillsDirectorySource h r) allowlist))
      | GithubUpstream \<Rightarrow>
          (case up_repositories upstream of
             None \<Rightarrow> False
           | Some allowlist \<Rightarrow>
               allowlist \<noteq> [] \<and>
               (case repository of
                  None \<Rightarrow> length allowlist = 1
                | Some r \<Rightarrow> list_ex (\<lambda>candidate. normalize_github h candidate = normalize_github h r) allowlist)))"

definition findImportUpstream :: "host \<Rightarrow> registry_state \<Rightarrow> import_request \<Rightarrow> principal \<Rightarrow> upstream api" where
  "findImportUpstream h s request p =
     (case find (\<lambda>c. up_organizationId c = pr_organizationId p \<and> up_id c = im_upstreamId request \<and> up_enabled c) (st_upstreams s) of
        None \<Rightarrow> Inl unavailable
      | Some selected \<Rightarrow>
          if \<not> canReadNamespace p (up_namespace selected) \<or> \<not> upstreamAllowsImport h selected (im_repository request)
             \<or> (up_kind selected = SkillsShUpstream \<and> (\<not> truthy (im_externalId request) \<or> im_externalId request \<noteq> Some (im_path request)))
          then Inl unavailable else Inr selected)"

section \<open>Identities\<close>

fun optional_value :: "jstring option \<Rightarrow> manifest_value" where
  "optional_value None = MNull"
| "optional_value (Some s) = MStr s"

fun kind_name :: "upstream_kind \<Rightarrow> string" where
  "kind_name GithubUpstream = ''github''"
| "kind_name RegistryUpstream = ''registry''"
| "kind_name SkillsShUpstream = ''skills-sh''"

definition cache_key_value :: "jstring \<Rightarrow> import_request \<Rightarrow> manifest_value" where
  "cache_key_value org r =
     MObj [(js ''organizationId'', MStr org), (js ''upstreamId'', MStr (im_upstreamId r)), (js ''path'', MStr (im_path r)),
       (js ''ref'', optional_value (im_ref r)), (js ''name'', MStr (im_name r)), (js ''version'', MStr (im_version r)),
       (js ''repository'', optional_value (im_repository r)), (js ''externalId'', optional_value (im_externalId r)),
       (js ''externalSourceType'', optional_value (im_externalSourceType r)),
       (js ''externalSnapshotHash'', optional_value (Option.bind (im_externalSnapshotHash r) id)),
       (js ''feedId'', optional_value (im_feedId r)), (js ''feedName'', optional_value (im_feedName r)),
       (js ''feedConfigRevision'', optional_value (im_feedConfigRevision r)),
       (js ''sourceReference'', optional_value (im_sourceReference r)),
       (js ''sourceCatalogId'', optional_value (im_sourceCatalogId r)),
       (js ''sourceCatalogConfigRevision'', optional_value (im_sourceCatalogConfigRevision r))]"

definition importCacheKey :: "jstring \<Rightarrow> import_request \<Rightarrow> jstring" where
  "importCacheKey org r = stableStringify (cache_key_value org r)"

definition importRequestsMatch :: "import_request \<Rightarrow> import_request \<Rightarrow> bool" where
  "importRequestsMatch l r \<longleftrightarrow> importCacheKey (js ''__request__'') l = importCacheKey (js ''__request__'') r"

definition origin_value :: "upstream \<Rightarrow> manifest_value" where
  "origin_value u =
     MObj [(js ''id'', MStr (up_id u)), (js ''name'', MStr (up_name u)), (js ''kind'', MStr (js (kind_name (up_kind u)))),
       (js ''namespace'', MStr (up_namespace u)), (js ''baseUrl'', optional_value (up_baseUrl u)),
       (js ''credentialEnv'', optional_value (up_credentialEnv u)),
       (js ''repositories'', MArr (map MStr (sort_by jstr_cmp (case up_repositories u of None \<Rightarrow> [] | Some rs \<Rightarrow> rs)))),
       (js ''configRevision'', optional_value (up_configRevision u))]"

definition sameUpstreamOrigin :: "upstream \<Rightarrow> upstream \<Rightarrow> bool" where
  "sameUpstreamOrigin l r \<longleftrightarrow> stableStringify (origin_value l) = stableStringify (origin_value r)"

section \<open>Revisions and provenance\<close>

text \<open>\<open>[0-9a-f]\<close> under the \<open>i\<close> flag.\<close>

definition is_hex_ci :: "nat \<Rightarrow> bool" where
  "is_hex_ci c \<longleftrightarrow> is_hex c \<or> (65 \<le> c \<and> c \<le> 70)"

definition isValidSkillsShRevision :: "jstring option \<Rightarrow> jstring option option \<Rightarrow> bool" where
  "isValidSkillsShRevision revision expectedSnapshotHash =
     (case revision of
        None \<Rightarrow> False
      | Some v \<Rightarrow>
          if v = [] \<or> length v > 256 \<or> list_ex (\<lambda>c. is_control c \<or> is_space c) v then False
          else (case expectedSnapshotHash of
              Some (Some expected) \<Rightarrow> v = expected
            | _ \<Rightarrow> isDigest v \<or> (40 \<le> length v \<and> length v \<le> 128 \<and> list_all is_hex_ci v)))"

definition isValidImportRevision :: "upstream \<Rightarrow> jstring option \<Rightarrow> jstring option option \<Rightarrow> bool" where
  "isValidImportRevision upstream revision expectedSnapshotHash =
     (case revision of
        None \<Rightarrow> False
      | Some v \<Rightarrow>
          if v = [] \<or> length v > 256 then False
          else (case up_kind upstream of
              GithubUpstream \<Rightarrow> length v = 40 \<and> list_all is_hex_ci v
            | SkillsShUpstream \<Rightarrow> isValidSkillsShRevision revision expectedSnapshotHash
            | RegistryUpstream \<Rightarrow> isDigest v \<or> version_ok v))"

definition provenanceRepositoryMatches :: "host \<Rightarrow> upstream \<Rightarrow> jstring \<Rightarrow> bool" where
  "provenanceRepositoryMatches h upstream repository =
     (if up_kind upstream = GithubUpstream \<or> up_kind upstream = SkillsShUpstream
      then upstreamAllowsImport h upstream (Some repository)
      else (case up_baseUrl upstream of
          None \<Rightarrow> False
        | Some base \<Rightarrow> base \<noteq> [] \<and>
            (case (parseUrl h repository, parseUrl h base) of (Some r, Some b) \<Rightarrow> url_origin r = url_origin b | _ \<Rightarrow> False)))"

definition external_matches :: "provenance \<Rightarrow> import_request \<Rightarrow> bool" where
  "external_matches pv request =
     (case pv_external pv of
        None \<Rightarrow> True
      | Some x \<Rightarrow>
          xp_provider x = js ''skills.sh'' \<and> Some (xp_externalId x) = im_externalId request \<and> Some (xp_source x) = pv_repository pv \<and>
          xp_externalId x = xp_source x @ js ''/'' @ xp_slug x \<and>
          xp_externalSnapshotHash x = Option.bind (pv_externalSnapshotHash pv) id \<and>
          \<not> (pv_externalSourceType pv \<noteq> None \<and> Some (xp_sourceType x) \<noteq> pv_externalSourceType pv))"

definition importProvenanceMatches :: "host \<Rightarrow> provenance \<Rightarrow> skill_version \<Rightarrow> import_request \<Rightarrow> upstream \<Rightarrow> bool" where
  "importProvenanceMatches h pv k request upstream =
     (if pv_kind pv \<noteq> UpstreamProvenance (up_kind upstream) \<or> pv_upstreamId pv \<noteq> Some (up_id upstream)
         \<or> pv_upstreamId pv \<noteq> Some (im_upstreamId request) \<or> pv_path pv \<noteq> Some (im_path request) \<or> \<not> truthy (pv_repository pv)
         \<or> \<not> isValidImportRevision upstream (pv_revision pv) (im_externalSnapshotHash request) then False
      else if im_repository request \<noteq> None \<and> pv_repository pv \<noteq> im_repository request then False
      else if \<not> provenanceRepositoryMatches h upstream (the (pv_repository pv)) then False
      else if im_feedId request \<noteq> None \<and> pv_feedId pv \<noteq> im_feedId request then False
      else if im_feedName request \<noteq> None \<and> pv_feedName pv \<noteq> im_feedName request then False
      else if im_feedConfigRevision request \<noteq> None \<and> pv_feedConfigRevision pv \<noteq> im_feedConfigRevision request then False
      else if im_sourceReference request \<noteq> None \<and> pv_sourceReference pv \<noteq> im_sourceReference request then False
      else if im_sourceCatalogId request \<noteq> None \<and>
              (pv_externalSource pv \<noteq> im_sourceCatalogId request \<or> pv_externalId pv \<noteq> im_externalId request) then False
      else if up_kind upstream = SkillsShUpstream \<and>
              (\<not> truthy (im_externalId request) \<or> pv_externalId pv \<noteq> im_externalId request \<or> pv_path pv \<noteq> im_externalId request
               \<or> im_externalSourceType request \<noteq> None \<and> pv_externalSourceType pv \<noteq> im_externalSourceType request
               \<or> im_externalSnapshotHash request \<noteq> None \<and> pv_externalSnapshotHash pv \<noteq> im_externalSnapshotHash request
               \<or> \<not> isValidSkillsShRevision (pv_revision pv) (im_externalSnapshotHash request)
               \<or> \<not> external_matches pv request) then False
      else (case pv_sourceDigest pv of
          None \<Rightarrow> True
        | Some d \<Rightarrow> isDigest d \<and> d = blob_digest (sk_artifact k)))"

section \<open>Directory identifiers\<close>

fun isWellFormedUnicodeString :: "jstring \<Rightarrow> bool" where
  "isWellFormedUnicodeString [] = True"
| "isWellFormedUnicodeString (c # r) =
     (if is_high c then (case r of [] \<Rightarrow> False | n # r' \<Rightarrow> is_low n \<and> isWellFormedUnicodeString r')
      else if is_low c then False else isWellFormedUnicodeString r)"

definition isSafeDirectorySegment :: "jstring \<Rightarrow> bool" where
  "isSafeDirectorySegment s \<longleftrightarrow> isWellFormedUnicodeString s \<and> s \<noteq> [] \<and> s \<noteq> js ''.'' \<and> s \<noteq> js ''..'' \<and> length (utf8_encode s) \<le> 512"

definition requireDirectoryId :: "jstring \<Rightarrow> jstring api" where
  "requireDirectoryId s =
     (if s = [] \<or> \<not> isWellFormedUnicodeString s \<or> length (utf8_encode s) > 2048 \<or> trim s \<noteq> s
         \<or> list_ex (\<lambda>c. is_control c \<or> c \<in> {63, 35, 37, 92}) s
      then Inl (RegistryApiError ''INVALID_REQUEST'' 400 False)
      else (let parts = split_on 47 s in
        if length parts < 2 \<or> length parts > 64 \<or> list_ex (\<lambda>part. \<not> isSafeDirectorySegment part) parts
        then Inl (RegistryApiError ''INVALID_REQUEST'' 400 False) else Inr s))"

section \<open>Resolving or queueing an import\<close>

definition queued_import :: "jstring \<Rightarrow> env \<Rightarrow> policy \<Rightarrow> import_request \<Rightarrow> upstream option \<Rightarrow> job" where
  "queued_import org e po r u =
     \<lparr>jb_id = en_job e, jb_organizationId = org, jb_kind = ImportJob, jb_state = Queued, jb_resourceId = None,
      jb_artifact = None, jb_policyRevision = po_revision po, jb_policy = po, jb_import = Some r, jb_upstream = u,
      jb_createdAt = Stamp (en_now e), jb_updatedAt = Stamp (en_now e), jb_attempts = 0, jb_leaseToken = None,
      jb_leaseExpiresAt = None, jb_error = None\<rparr>"

lemma jb_policy_queued_import [simp]: "jb_policy (queued_import org e po r u) = po"
  by (simp add: queued_import_def)

datatype import_result = ImportPending job | ImportResolved job resolution

definition same_job_source :: "jstring \<Rightarrow> import_request \<Rightarrow> upstream \<Rightarrow> job \<Rightarrow> bool" where
  "same_job_source org request upstream j \<longleftrightarrow>
     jb_organizationId j = org \<and> jb_kind j = ImportJob \<and>
     (case jb_import j of None \<Rightarrow> False | Some r \<Rightarrow> importRequestsMatch r request) \<and>
     (case jb_upstream j of None \<Rightarrow> False | Some u \<Rightarrow> sameUpstreamOrigin u upstream)"

definition active_target :: "import_request \<Rightarrow> job \<Rightarrow> bool" where
  "active_target request j \<longleftrightarrow>
     (jb_state j = Queued \<or> jb_state j = Running) \<and> jb_kind j = ImportJob \<and>
     (case jb_import j of None \<Rightarrow> False | Some r \<Rightarrow> im_name r = im_name request \<and> im_version r = im_version request)"

definition import_transaction ::
    "host \<Rightarrow> (jstring \<Rightarrow> provenance) \<Rightarrow> jstring \<Rightarrow> import_request \<Rightarrow> upstream \<Rightarrow> principal \<Rightarrow> env \<Rightarrow> registry_state \<Rightarrow>
     (registry_state \<times> import_result) api" where
  "import_transaction h prov org request currentUpstream p e s =
     (let same = same_job_source org request currentUpstream; activeTargets = filter (active_target request) (st_jobs s) in
      if activeTargets \<noteq> [] then
        (case find same activeTargets of
           None \<Rightarrow> Inl provenance_conflict
         | Some activeTarget \<Rightarrow>
             if list_all same activeTargets
             then Inr (appendAudit (audit p ''skill.import.joined'' (Some (jb_id activeTarget)) org e) s, ImportPending activeTarget)
             else Inl provenance_conflict)
      else (case find (\<lambda>k. sk_organizationId k = org \<and> sk_name k = im_name request \<and> sk_version k = im_version request) (st_skills s) of
          Some existingSkill \<Rightarrow>
            (case find (\<lambda>j. jb_state j = JobCompleted \<and> same j \<and> jb_resourceId j = Some (sk_id existingSkill)) (st_jobs s) of
               None \<Rightarrow> Inl provenance_conflict
             | Some completedTarget \<Rightarrow>
                 if importProvenanceMatches h (prov (sk_id existingSkill)) existingSkill request currentUpstream
                    \<and> skillCurrentlyApproved s existingSkill (en_now e)
                 then Inr (appendAudit (audit p ''skill.import.cache-hit'' (Some (jb_id completedTarget)) org e) s,
                           ImportResolved completedTarget (skillResolution existingSkill))
                 else Inl provenance_conflict)
        | None \<Rightarrow>
            if list_ex (\<lambda>j. jb_state j = JobCompleted \<and> same j \<and> \<not> truthy (jb_resourceId j)) (st_jobs s) then Inl provenance_conflict
            else (let j = queued_import org e (st_policy s) request (Some currentUpstream) in
              Inr (appendAudit (audit p ''skill.import.queued'' (Some (en_job e)) org e) (s\<lparr>st_jobs := st_jobs s @ [j]\<rparr>), ImportPending j))))"

definition resolveOrQueueImport ::
    "host \<Rightarrow> (jstring \<Rightarrow> provenance) \<Rightarrow> jstring \<Rightarrow> jsval \<Rightarrow> principal \<Rightarrow> env \<Rightarrow> registry_state \<Rightarrow> registry_state \<Rightarrow>
     (registry_state \<times> import_result) api" where
  "resolveOrQueueImport h prov org body p e s0 s =
     bindr (parseImportRequest body) (\<lambda>request.
     if \<not> canPublishName p (im_name request) then Inl forbidden
     else
       bindr (readState org s0) (\<lambda>st0.
       bindr (findImportUpstream h st0 request p) (\<lambda>upstream.
       bindr (if up_kind upstream = SkillsShUpstream then requireDirectoryId (im_path request) else Inr (im_path request)) (\<lambda>_.
       bindr (findImportUpstream h s request p) (\<lambda>currentUpstream.
       if \<not> sameUpstreamOrigin currentUpstream upstream then Inl provenance_conflict
       else import_transaction h prov org request currentUpstream p e s)))))"

section \<open>Identities are exact\<close>

text \<open>A canonical string is the JSON text of a value, so two of them are equal only for equal values.\<close>

fun canonical :: "manifest_value \<Rightarrow> jsval" where
  "canonical MNull = JNull"
| "canonical (MStr s) = JStr s"
| "canonical (MArr vs) = JArr (map canonical vs)"
| "canonical (MObj ps) = JObj (sort_by (\<lambda>a b. jstr_cmp (fst a) (fst b)) (map (\<lambda>(k, v). (k, canonical v)) ps))"

lemma insert_by_map: "insert_by cmp' (f x) (map f xs) = map f (insert_by cmp x xs)" if "\<And>a b. cmp' (f a) (f b) = cmp a b"
  by (induction xs) (simp_all add: that)

lemma sort_by_map: "sort_by cmp' (map f xs) = map f (sort_by cmp xs)" if "\<And>a b. cmp' (f a) (f b) = cmp a b"
  by (induction xs) (simp_all add: that insert_by_map [of cmp' f cmp])

lemma stableStringify_canonical: "stableStringify v = json_text (canonical v)"
proof (induction v rule: stableStringify.induct)
  case (4 ps)
  let ?c = "\<lambda>a b. jstr_cmp (fst a) (fst b)"
  have "sort_by ?c (map (\<lambda>(k, v). (k, canonical v)) ps) = map (\<lambda>(k, v). (k, canonical v)) (sort_by ?c ps)"
    by (rule sort_by_map) auto
  moreover have "stableStringify v = json_text (canonical v)" if "(k, v) \<in> set ps" for k v using 4 that by auto
  ultimately show ?case by (auto simp: comp_def case_prod_unfold intro!: arg_cong [of _ _ "join [44]"])
qed (auto simp: comp_def cong: map_cong)

lemma stableStringify_inj:
  assumes "json_faithful (\<lambda>_. NaN) (canonical v)" and "json_faithful (\<lambda>_. NaN) (canonical w)" and "stableStringify v = stableStringify w"
  shows "canonical v = canonical w"
proof -
  have "json_text (canonical v) = json_text (canonical w)" using assms(3) unfolding stableStringify_canonical .
  then show ?thesis using json_parse_text [OF assms(1)] json_parse_text [OF assms(2)] by (metis option.inject)
qed

lemma canonical_object_lookup:
  assumes "canonical (MObj ps) = canonical (MObj qs)" and "distinct (map fst ps)" and "distinct (map fst qs)"
  shows "map_option canonical (map_of ps k) = map_option canonical (map_of qs k)"
proof -
  let ?f = "\<lambda>(k, v). (k, canonical v)"
  let ?sort = "sort_by (\<lambda>a b. jstr_cmp (fst a) (fst b))"
  have "?sort (map ?f ps) = ?sort (map ?f qs)" using assms(1) by simp
  then have "mset (?sort (map ?f ps)) = mset (?sort (map ?f qs))" by (rule arg_cong)
  then have "mset (map ?f ps) = mset (map ?f qs)" unfolding mset_sort_by .
  then have "set (map ?f ps) = set (map ?f qs)" by (rule mset_eq_setD)
  moreover have "distinct (map fst (map ?f ps))" "distinct (map fst (map ?f qs))"
    using assms(2,3) by (simp_all add: comp_def case_prod_unfold)
  ultimately have "map_of (map ?f ps) = map_of (map ?f qs)" by (simp add: map_of_inject_set)
  then show ?thesis by (simp add: map_of_map fun_eq_iff)
qed

definition units :: "jstring \<Rightarrow> bool" where
  "units s \<longleftrightarrow> list_all (\<lambda>c. c < 65536) s"

definition opt_units :: "jstring option \<Rightarrow> bool" where
  "opt_units v \<longleftrightarrow> (case v of None \<Rightarrow> True | Some s \<Rightarrow> units s)"

definition request_units :: "import_request \<Rightarrow> bool" where
  "request_units r \<longleftrightarrow> units (im_upstreamId r) \<and> units (im_path r) \<and> units (im_name r) \<and> units (im_version r) \<and>
     opt_units (im_ref r) \<and> opt_units (im_repository r) \<and> opt_units (im_externalId r) \<and> opt_units (im_externalSourceType r) \<and>
     opt_units (Option.bind (im_externalSnapshotHash r) id) \<and> opt_units (im_feedId r) \<and> opt_units (im_feedName r) \<and>
     opt_units (im_feedConfigRevision r) \<and> opt_units (im_sourceReference r) \<and> opt_units (im_sourceCatalogId r) \<and>
     opt_units (im_sourceCatalogConfigRevision r)"

definition upstream_units :: "upstream \<Rightarrow> bool" where
  "upstream_units u \<longleftrightarrow> units (up_id u) \<and> units (up_name u) \<and> units (up_namespace u) \<and> opt_units (up_baseUrl u) \<and>
     opt_units (up_credentialEnv u) \<and> opt_units (up_configRevision u) \<and> list_all units (case up_repositories u of None \<Rightarrow> [] | Some rs \<Rightarrow> rs)"

lemma units_js: "units (js s)"
proof -
  have "of_char c < (65536 :: nat)" for c :: char
  proof -
    have "of_char c < (256 :: nat)" by (simp add: of_char_def)
    then show ?thesis by linarith
  qed
  then show ?thesis by (auto simp: units_def js_def list_all_iff)
qed

lemma canonical_optional: "canonical (optional_value v) = (case v of None \<Rightarrow> JNull | Some s \<Rightarrow> JStr s)"
  by (cases v) auto

lemma canonical_optional_inj: "canonical (optional_value v) = canonical (optional_value w) \<longleftrightarrow> v = w"
  by (cases v; cases w) auto

lemma faithful_object:
  assumes "distinct (map fst ps)" and "list_all (\<lambda>(k, v). units k \<and> json_faithful num (canonical v)) ps"
  shows "json_faithful num (canonical (MObj ps))"
proof -
  let ?f = "\<lambda>(k, v). (k, canonical v)" and ?sort = "sort_by (\<lambda>a b. jstr_cmp (fst a) (fst b))"
  have "mset (map fst (?sort (map ?f ps))) = mset (map fst ps)" by (simp add: image_mset.compositionality comp_def case_prod_unfold)
  then have "distinct (map fst (?sort (map ?f ps)))" using assms(1) by (metis mset_eq_imp_distinct_iff)
  then show ?thesis using assms(2) by (auto simp: list_all_iff units_def)
qed

lemma faithful_optional: "opt_units v \<Longrightarrow> json_faithful num (canonical (optional_value v))"
  by (cases v) (auto simp: opt_units_def units_def list_all_iff)

lemma faithful_string: "units s \<Longrightarrow> json_faithful num (canonical (MStr s))"
  by (simp add: units_def list_all_iff)

lemma cache_key_faithful: "units org \<Longrightarrow> request_units r \<Longrightarrow> json_faithful num (canonical (cache_key_value org r))"
  unfolding cache_key_value_def
  by (rule faithful_object) (simp, simp add: units_js faithful_string faithful_optional request_units_def del: canonical.simps)

lemma cache_key_distinct: "\<exists>ps. cache_key_value org r = MObj ps \<and> distinct (map fst ps)"
  by (simp add: cache_key_value_def)

lemma faithful_array: "list_all units ss \<Longrightarrow> json_faithful num (canonical (MArr (map MStr (sort_by cmp ss))))"
  by (auto simp: list_all_iff units_def)

lemma origin_faithful: "upstream_units u \<Longrightarrow> json_faithful num (canonical (origin_value u))"
  unfolding origin_value_def
  by (rule faithful_object)
     (simp, simp add: units_js faithful_string faithful_optional faithful_array upstream_units_def del: canonical.simps)

text \<open>
  What a request is cached under: every field the caller or the server chose, except the provider's own
  version label. An explicit \<open>null\<close> snapshot counts as none.
\<close>

definition same_source :: "import_request \<Rightarrow> import_request \<Rightarrow> bool" where
  "same_source l r \<longleftrightarrow> im_upstreamId l = im_upstreamId r \<and> im_path l = im_path r \<and> im_ref l = im_ref r \<and> im_name l = im_name r \<and>
     im_version l = im_version r \<and> im_repository l = im_repository r \<and> im_externalId l = im_externalId r \<and>
     im_externalSourceType l = im_externalSourceType r \<and>
     Option.bind (im_externalSnapshotHash l) id = Option.bind (im_externalSnapshotHash r) id \<and>
     im_feedId l = im_feedId r \<and> im_feedName l = im_feedName r \<and> im_feedConfigRevision l = im_feedConfigRevision r \<and>
     im_sourceReference l = im_sourceReference r \<and> im_sourceCatalogId l = im_sourceCatalogId r \<and>
     im_sourceCatalogConfigRevision l = im_sourceCatalogConfigRevision r"

definition same_origin :: "upstream \<Rightarrow> upstream \<Rightarrow> bool" where
  "same_origin l r \<longleftrightarrow> up_id l = up_id r \<and> up_name l = up_name r \<and> up_kind l = up_kind r \<and> up_namespace l = up_namespace r \<and>
     up_baseUrl l = up_baseUrl r \<and> up_credentialEnv l = up_credentialEnv r \<and> up_configRevision l = up_configRevision r \<and>
     mset (case up_repositories l of None \<Rightarrow> [] | Some rs \<Rightarrow> rs) = mset (case up_repositories r of None \<Rightarrow> [] | Some rs \<Rightarrow> rs)"

lemma kind_name_inj: "kind_name k = kind_name k' \<longleftrightarrow> k = k'"
  by (cases k; cases k') auto

lemma importRequestsMatch_iff:
  assumes "request_units l" and "request_units r"
  shows "importRequestsMatch l r \<longleftrightarrow> same_source l r"
proof
  assume "same_source l r"
  then have "cache_key_value org l = cache_key_value org r" for org by (simp add: cache_key_value_def same_source_def)
  then show "importRequestsMatch l r" by (simp add: importRequestsMatch_def importCacheKey_def)
next
  let ?v = "cache_key_value (js ''__request__'')"
  assume "importRequestsMatch l r"
  then have eq: "canonical (?v l) = canonical (?v r)"
    unfolding importRequestsMatch_def importCacheKey_def
    by (intro stableStringify_inj [OF cache_key_faithful [OF units_js assms(1)] cache_key_faithful [OF units_js assms(2)]])
  define ps where "ps = (\<lambda>x. case ?v x of MObj qs \<Rightarrow> qs | _ \<Rightarrow> [])"
  have ps: "?v x = MObj (ps x)" "distinct (map fst (ps x))" for x by (simp_all add: ps_def cache_key_value_def)
  have look: "map_option canonical (map_of (ps l) (js k)) = map_option canonical (map_of (ps r) (js k))" for k
    using canonical_object_lookup [OF eq [unfolded ps(1)] ps(2) ps(2)] .
  show "same_source l r"
    unfolding same_source_def
    using look [of "''upstreamId''"] look [of "''path''"] look [of "''ref''"] look [of "''name''"] look [of "''version''"]
      look [of "''repository''"] look [of "''externalId''"] look [of "''externalSourceType''"] look [of "''externalSnapshotHash''"]
      look [of "''feedId''"] look [of "''feedName''"] look [of "''feedConfigRevision''"] look [of "''sourceReference''"]
      look [of "''sourceCatalogId''"] look [of "''sourceCatalogConfigRevision''"]
    by (simp add: ps_def cache_key_value_def canonical_optional_inj)
qed

lemma sorted_strings_iff: "sort_by jstr_cmp xs = sort_by jstr_cmp ys \<longleftrightarrow> mset xs = mset ys"
proof
  assume "sort_by jstr_cmp xs = sort_by jstr_cmp ys"
  then show "mset xs = mset ys" by (metis mset_sort_by)
next
  have anti: "jstr_cmp s t \<le> 0 \<Longrightarrow> jstr_cmp t s \<le> 0 \<Longrightarrow> s = t" for s t
    by (metis jstr_cmp_le_iff jstr_less_trans jstr_less_irrefl)
  assume "mset xs = mset ys"
  then show "sort_by jstr_cmp xs = sort_by jstr_cmp ys"
    by (rule jstr_order.sort_by_perm) (use anti in auto)
qed

lemma sameUpstreamOrigin_iff:
  assumes "upstream_units l" and "upstream_units r"
  shows "sameUpstreamOrigin l r \<longleftrightarrow> same_origin l r"
proof
  assume same: "same_origin l r"
  then have "sort_by jstr_cmp (case up_repositories l of None \<Rightarrow> [] | Some rs \<Rightarrow> rs)
      = sort_by jstr_cmp (case up_repositories r of None \<Rightarrow> [] | Some rs \<Rightarrow> rs)"
    unfolding sorted_strings_iff same_origin_def by blast
  with same have "origin_value l = origin_value r" unfolding origin_value_def same_origin_def by (simp only:)
  then show "sameUpstreamOrigin l r" by (simp add: sameUpstreamOrigin_def)
next
  assume "sameUpstreamOrigin l r"
  then have eq: "canonical (origin_value l) = canonical (origin_value r)"
    unfolding sameUpstreamOrigin_def by (intro stableStringify_inj [OF origin_faithful [OF assms(1)] origin_faithful [OF assms(2)]])
  define ps where "ps = (\<lambda>x. case origin_value x of MObj qs \<Rightarrow> qs | _ \<Rightarrow> [])"
  have ps: "origin_value x = MObj (ps x)" "distinct (map fst (ps x))" for x by (simp_all add: ps_def origin_value_def)
  have look: "map_option canonical (map_of (ps l) (js k)) = map_option canonical (map_of (ps r) (js k))" for k
    using canonical_object_lookup [OF eq [unfolded ps(1)] ps(2) ps(2)] .
  have "map JStr (sort_by jstr_cmp (case up_repositories l of None \<Rightarrow> [] | Some rs \<Rightarrow> rs))
      = map JStr (sort_by jstr_cmp (case up_repositories r of None \<Rightarrow> [] | Some rs \<Rightarrow> rs))"
    using look [of "''repositories''"] by (simp add: ps_def origin_value_def comp_def)
  then have "sort_by jstr_cmp (case up_repositories l of None \<Rightarrow> [] | Some rs \<Rightarrow> rs)
      = sort_by jstr_cmp (case up_repositories r of None \<Rightarrow> [] | Some rs \<Rightarrow> rs)"
    by (rule map_injective) (simp add: inj_def)
  then show "same_origin l r"
    unfolding same_origin_def
    using look [of "''id''"] look [of "''name''"] look [of "''kind''"] look [of "''namespace''"] look [of "''baseUrl''"]
      look [of "''credentialEnv''"] look [of "''configRevision''"]
    by (simp add: ps_def origin_value_def canonical_optional_inj kind_name_inj sorted_strings_iff)
qed

section \<open>What an import does\<close>

lemma findImportUpstream_InrD:
  "findImportUpstream h s r p = Inr u \<Longrightarrow> u \<in> set (st_upstreams s) \<and> up_organizationId u = pr_organizationId p \<and>
   up_id u = im_upstreamId r \<and> up_enabled u \<and> canReadNamespace p (up_namespace u) \<and> upstreamAllowsImport h u (im_repository r)"
  unfolding findImportUpstream_def by (auto simp: result_simps dest: find_in_set)

lemma resolveOrQueueImport_InrE:
  assumes "resolveOrQueueImport h prov org body p e s0 s = Inr (t, res)"
  obtains r up u where "parseImportRequest body = Inr r" and "canPublishName p (im_name r)" and "readState org s0 = Inr s0"
    and "findImportUpstream h s0 r p = Inr up" and "findImportUpstream h s r p = Inr u" and "sameUpstreamOrigin u up"
    and "import_transaction h prov org r u p e s = Inr (t, res)"
  using assms by (auto simp: resolveOrQueueImport_def result_simps)

lemma import_transaction_cases:
  assumes "import_transaction h prov org r u p e s = Inr (t, res)"
  obtains
    (joined) j where "t = appendAudit (audit p ''skill.import.joined'' (Some (jb_id j)) org e) s" and "res = ImportPending j"
      and "j \<in> set (st_jobs s)" and "active_target r j" and "list_all (same_job_source org r u) (filter (active_target r) (st_jobs s))"
  | (hit) k j where "t = appendAudit (audit p ''skill.import.cache-hit'' (Some (jb_id j)) org e) s"
      and "res = ImportResolved j (skillResolution k)" and "k \<in> set (st_skills s)" and "sk_organizationId k = org"
      and "sk_name k = im_name r" and "sk_version k = im_version r" and "j \<in> set (st_jobs s)" and "jb_state j = JobCompleted"
      and "same_job_source org r u j" and "jb_resourceId j = Some (sk_id k)"
      and "importProvenanceMatches h (prov (sk_id k)) k r u" and "skillCurrentlyApproved s k (en_now e)"
      and "filter (active_target r) (st_jobs s) = []"
  | (queued) j where "j = queued_import org e (st_policy s) r (Some u)" and "res = ImportPending j"
      and "t = appendAudit (audit p ''skill.import.queued'' (Some (en_job e)) org e) (s\<lparr>st_jobs := st_jobs s @ [j]\<rparr>)"
      and "filter (active_target r) (st_jobs s) = []"
      and "list_all (\<lambda>k. \<not> (sk_organizationId k = org \<and> sk_name k = im_name r \<and> sk_version k = im_version r)) (st_skills s)"
proof (cases "filter (active_target r) (st_jobs s) = []")
  case False
  then obtain j where j: "find (same_job_source org r u) (filter (active_target r) (st_jobs s)) = Some j"
      "list_all (same_job_source org r u) (filter (active_target r) (st_jobs s))"
      "t = appendAudit (audit p ''skill.import.joined'' (Some (jb_id j)) org e) s" "res = ImportPending j"
    using assms by (auto simp: import_transaction_def Let_def result_simps)
  show thesis by (rule joined [OF j(3,4)]) (use find_in_set [OF j(1)] j(2) in auto)
next
  case True
  let ?q = "\<lambda>k. sk_organizationId k = org \<and> sk_name k = im_name r \<and> sk_version k = im_version r"
  show thesis
  proof (cases "find ?q (st_skills s)")
    case (Some k)
    then obtain j where j: "find (\<lambda>j. jb_state j = JobCompleted \<and> same_job_source org r u j \<and> jb_resourceId j = Some (sk_id k)) (st_jobs s) = Some j"
        "importProvenanceMatches h (prov (sk_id k)) k r u" "skillCurrentlyApproved s k (en_now e)"
        "t = appendAudit (audit p ''skill.import.cache-hit'' (Some (jb_id j)) org e) s" "res = ImportResolved j (skillResolution k)"
      using assms True by (auto simp: import_transaction_def Let_def result_simps)
    show thesis by (rule hit [OF j(4,5)]) (use find_in_set [OF Some] find_in_set [OF j(1)] j(2,3) True in auto)
  next
    case None
    then have "list_all (\<lambda>k. \<not> ?q k) (st_skills s)" by (auto simp: find_None_iff list_all_iff)
    moreover have "res = ImportPending (queued_import org e (st_policy s) r (Some u))"
      "t = appendAudit (audit p ''skill.import.queued'' (Some (en_job e)) org e)
         (s\<lparr>st_jobs := st_jobs s @ [queued_import org e (st_policy s) r (Some u)]\<rparr>)"
      using assms True None by (auto simp: import_transaction_def Let_def result_simps)
    ultimately show thesis using queued True by blast
  qed
qed

lemma createUpstream_InrE:
  assumes "createUpstream h loopback org body p e s = Inr (t, u)"
  obtains "t = appendAudit (audit p ''upstream.create'' (Some (up_id u)) org e) (s\<lparr>st_upstreams := st_upstreams s @ [u]\<rparr>)"
    and "up_organizationId u = org" and "up_id u = en_upstream e" and "\<forall>c \<in> set (st_upstreams s). up_name c \<noteq> up_name u"
    and "canReadNamespace p (up_namespace u)" and "namespace_ok (up_namespace u)"
    and "\<forall>b. up_baseUrl u = Some b \<longrightarrow> base_url_ok h loopback b"
    and "\<forall>rs. up_repositories u = Some rs \<longrightarrow> list_all repository_ok rs"
    and "up_kind u = SkillsShUpstream \<Longrightarrow> up_repositories u \<noteq> None \<and> up_repositories u \<noteq> Some []"
  using assms
  by (auto simp: createUpstream_def Let_def result_simps list_all_iff list_ex_iff split: option.splits)

end
