(* ===== verification/Lifecycle.thy ===== *)
theory Lifecycle
  imports Jobs Imports
begin

text \<open>
  The registry as a transition system: every request handler of the previous theories as a step of
  one relation, its invariant, and what holds of every history of the registry.

  A configuration is the history of the committed states of one organization, the newest first. A
  handler reads its snapshot from any state of the history and commits against the newest one, which
  is what the repository's serialised transactions allow.
\<close>

section \<open>Growing lists\<close>

text \<open>\<open>grows P xs ys\<close>: \<open>ys\<close> extends \<open>xs\<close> at the end, old elements changing only along \<open>P\<close>.\<close>

fun grows :: "('a \<Rightarrow> 'a \<Rightarrow> bool) \<Rightarrow> 'a list \<Rightarrow> 'a list \<Rightarrow> bool" where
  "grows P [] ys = True"
| "grows P (x # xs) [] = False"
| "grows P (x # xs) (y # ys) = (P x y \<and> grows P xs ys)"

lemma grows_refl: "(\<And>x. P x x) \<Longrightarrow> grows P xs xs"
  by (induction xs) auto

lemma grows_trans:
  "grows P xs ys \<Longrightarrow> grows P ys zs \<Longrightarrow> (\<And>x y z. P x y \<Longrightarrow> P y z \<Longrightarrow> P x z) \<Longrightarrow> grows P xs zs"
proof (induction P xs ys arbitrary: zs rule: grows.induct)
  case (3 P x xs y ys)
  then show ?case by (cases zs) auto
qed simp_all

lemma grows_append: "grows P xs ys \<Longrightarrow> grows P xs (ys @ zs)"
  by (induction P xs ys rule: grows.induct) auto

lemma grows_update_first: "(\<And>x. P x x) \<Longrightarrow> (\<And>x. P x (f x)) \<Longrightarrow> grows P xs (update_first p f xs)"
  by (induction xs) (auto intro: grows_refl)

lemma grows_map: "(\<And>x. P x (f x)) \<Longrightarrow> grows P xs (map f xs)"
  by (induction xs) auto

lemma grows_in: "grows P xs ys \<Longrightarrow> x \<in> set xs \<Longrightarrow> \<exists>y \<in> set ys. P x y"
  by (induction P xs ys rule: grows.induct) auto

lemma grows_find:
  assumes "grows P xs ys" and "find q xs = Some x" and "\<And>x y. P x y \<Longrightarrow> q x = q y"
  shows "\<exists>y. find q ys = Some y \<and> P x y"
  using assms by (induction P xs ys rule: grows.induct) (auto split: if_splits)

section \<open>How a state may evolve\<close>

text \<open>The fields of a release that no operation changes.\<close>

definition release_identity ::
    "skill_version \<Rightarrow> jstring \<times> jstring \<times> jstring \<times> jstring \<times> jstring \<times> jstring \<times> stored_blob \<times> timestamp \<times> nat" where
  "release_identity k =
     (sk_id k, sk_organizationId k, sk_name k, sk_skillName k, sk_version k, sk_description k, sk_artifact k,
      sk_createdAt k, sk_fileCount k)"

definition skill_evolves :: "skill_version \<Rightarrow> skill_version \<Rightarrow> bool" where
  "skill_evolves old new \<longleftrightarrow>
     release_identity new = release_identity old \<and> (sk_state old = Revoked \<longrightarrow> sk_state new = Revoked) \<and>
     set (sk_scanIds old) \<subseteq> set (sk_scanIds new)"

definition pack_evolves :: "pack_version \<Rightarrow> pack_version \<Rightarrow> bool" where
  "pack_evolves old new \<longleftrightarrow> new = old \<or> new = old\<lparr>pk_state := PackRevoked\<rparr>"

definition evolves :: "registry_state \<Rightarrow> registry_state \<Rightarrow> bool" where
  "evolves s t \<longleftrightarrow>
     grows skill_evolves (st_skills s) (st_skills t) \<and> grows pack_evolves (st_packs s) (st_packs t) \<and>
     grows (=) (st_scans s) (st_scans t) \<and> grows (=) (st_audit s) (st_audit t)"

lemma skill_evolves_refl [simp, intro]: "skill_evolves k k"
  by (simp add: skill_evolves_def)

lemma skill_evolves_trans: "skill_evolves a b \<Longrightarrow> skill_evolves b c \<Longrightarrow> skill_evolves a c"
  by (auto simp: skill_evolves_def)

lemma pack_evolves_refl [simp, intro]: "pack_evolves k k"
  by (simp add: pack_evolves_def)

lemma pack_evolves_trans: "pack_evolves a b \<Longrightarrow> pack_evolves b c \<Longrightarrow> pack_evolves a c"
  by (auto simp: pack_evolves_def)

lemma evolves_refl [simp, intro]: "evolves s s"
  by (auto simp: evolves_def intro!: grows_refl)

lemma evolves_trans: "evolves s t \<Longrightarrow> evolves t u \<Longrightarrow> evolves s u"
  unfolding evolves_def by (blast intro: grows_trans skill_evolves_trans pack_evolves_trans)

lemma grows_eq_append [simp]: "grows (=) xs (xs @ ys)"
  by (intro grows_append grows_refl) simp

lemma evolvesI:
  assumes "grows skill_evolves (st_skills s) (st_skills t)" and "grows pack_evolves (st_packs s) (st_packs t)"
    and "\<exists>ys. st_scans t = st_scans s @ ys" and "\<exists>ys. st_audit t = st_audit s @ ys"
  shows "evolves s t"
  using assms by (auto simp: evolves_def)

section \<open>The invariant of a state\<close>

definition member_available :: "registry_state \<Rightarrow> pack_member \<Rightarrow> bool" where
  "member_available st m \<longleftrightarrow>
     (\<exists>k \<in> set (st_skills st). sk_id k = pm_resourceId m \<and> sk_name k = pm_name m \<and> sk_version k = pm_version m \<and>
        blob_digest (sk_artifact k) = pm_digest m \<and> sk_state k \<noteq> Revoked)"

definition pack_ok :: "registry_state \<Rightarrow> pack_version \<Rightarrow> bool" where
  "pack_ok st k \<longleftrightarrow> (pk_state k = PackApproved \<longrightarrow> (\<forall>m \<in> set (pk_members k). member_available st m))"

definition lease_ok :: "job \<Rightarrow> bool" where
  "lease_ok j \<longleftrightarrow>
     (jb_state j = Running \<longrightarrow> jb_leaseToken j \<noteq> None \<and> jb_leaseExpiresAt j \<noteq> None) \<and>
     (jb_state j = Queued \<longrightarrow> jb_leaseToken j = None \<and> jb_leaseExpiresAt j = None) \<and>
     (jb_state j = JobCompleted \<longrightarrow> jb_leaseToken j = None) \<and>
     jb_policyRevision j = po_revision (jb_policy j)"

definition scan_job_bound :: "registry_state \<Rightarrow> job \<Rightarrow> bool" where
  "scan_job_bound st j \<longleftrightarrow>
     (jb_kind j = ScanJob \<longrightarrow>
        (\<exists>k \<in> set (st_skills st). jb_resourceId j = Some (sk_id k) \<and> jb_artifact j = Some (sk_artifact k)))"

definition registry_inv :: "jstring \<Rightarrow> registry_state \<Rightarrow> bool" where
  "registry_inv org st \<longleftrightarrow>
     state_ok org st \<and> distinct (map sk_id (st_skills st)) \<and>
     distinct (map (\<lambda>k. (sk_name k, sk_version k)) (st_skills st)) \<and>
     distinct (map (\<lambda>k. (pk_name k, pk_version k)) (st_packs st)) \<and>
     (\<forall>k \<in> set (st_packs st). pack_ok st k) \<and>
     distinct (map jb_id (st_jobs st)) \<and> (\<forall>j \<in> set (st_jobs st). lease_ok j \<and> scan_job_bound st j) \<and>
     distinct (map re_authorizationId (st_installReceipts st)) \<and>
     length (st_installReceipts st) \<le> MAX_INSTALL_RECEIPTS \<and>
     length (st_installReceiptTickets st) \<le> MAX_INSTALL_RECEIPT_TICKETS"

lemma member_available_evolves:
  assumes "member_available s m" and "grows skill_evolves (st_skills s) (st_skills t)"
    and "\<And>k. k \<in> set (st_skills t) \<Longrightarrow> sk_id k = pm_resourceId m \<Longrightarrow> sk_state k \<noteq> Revoked"
  shows "member_available t m"
proof -
  obtain k where k: "k \<in> set (st_skills s)" "sk_id k = pm_resourceId m" "sk_name k = pm_name m"
    "sk_version k = pm_version m" "blob_digest (sk_artifact k) = pm_digest m"
    using assms(1) by (auto simp: member_available_def)
  obtain k' where "k' \<in> set (st_skills t)" "skill_evolves k k'"
    using grows_in [OF assms(2) k(1)] by blast
  then show ?thesis
    using k assms(3) [of k'] by (auto simp: member_available_def skill_evolves_def release_identity_def intro!: bexI [of _ k'])
qed

lemma scan_job_bound_evolves:
  assumes "scan_job_bound s j" and "grows skill_evolves (st_skills s) (st_skills t)"
  shows "scan_job_bound t j"
  unfolding scan_job_bound_def
proof
  assume "jb_kind j = ScanJob"
  then obtain k where k: "k \<in> set (st_skills s)" "jb_resourceId j = Some (sk_id k)" "jb_artifact j = Some (sk_artifact k)"
    using assms(1) by (auto simp: scan_job_bound_def)
  obtain k' where "k' \<in> set (st_skills t)" "skill_evolves k k'"
    using grows_in [OF assms(2) k(1)] by blast
  then show "\<exists>k \<in> set (st_skills t). jb_resourceId j = Some (sk_id k) \<and> jb_artifact j = Some (sk_artifact k)"
    using k by (auto simp: skill_evolves_def release_identity_def intro!: bexI [of _ k'])
qed

section \<open>The invariant and the elementary writes\<close>

text \<open>
  A handler's commit is a sequence of writes to single collections; each write keeps the invariant
  under its own condition.
\<close>

named_theorems keeps \<open>the invariant is kept by a write\<close>

lemma keeps_audit [keeps]:
  "registry_inv org s \<Longrightarrow> ae_organizationId ev = org \<Longrightarrow> registry_inv org (appendAudit ev s)"
  by (simp add: registry_inv_def appendAudit_def state_ok_def pack_ok_def member_available_def scan_job_bound_def)

lemma audit_org [simp]: "ae_organizationId (audit p a r org e) = org"
  by (simp add: audit_def)

lemma keeps_policy [keeps]:
  "registry_inv org s \<Longrightarrow> policy_runtime_ok po \<Longrightarrow> registry_inv org (s\<lparr>st_policy := po\<rparr>)"
  by (simp add: registry_inv_def state_ok_def pack_ok_def member_available_def scan_job_bound_def)

lemma keeps_upstreams [keeps]:
  "registry_inv org s \<Longrightarrow> list_all (\<lambda>u. up_organizationId u = org) us \<Longrightarrow> registry_inv org (s\<lparr>st_upstreams := us\<rparr>)"
  by (simp add: registry_inv_def state_ok_def pack_ok_def member_available_def scan_job_bound_def)

lemma keeps_scans [keeps]:
  "registry_inv org s \<Longrightarrow> list_all (\<lambda>r. sr_organizationId r = org) rs \<Longrightarrow> rs' = st_scans s @ rs \<Longrightarrow>
   registry_inv org (s\<lparr>st_scans := rs'\<rparr>)"
  by (simp add: registry_inv_def state_ok_def pack_ok_def member_available_def scan_job_bound_def)

lemma keeps_grants [keeps]:
  "registry_inv org s \<Longrightarrow> list_all (\<lambda>g. gr_organizationId g = org) gs \<Longrightarrow> registry_inv org (s\<lparr>st_grants := gs\<rparr>)"
  by (simp add: registry_inv_def state_ok_def pack_ok_def member_available_def scan_job_bound_def)

lemma keeps_authorizations [keeps]:
  "registry_inv org s \<Longrightarrow> list_all (authorization_state_ok org) as \<Longrightarrow> registry_inv org (s\<lparr>st_authorizations := as\<rparr>)"
  by (simp add: registry_inv_def state_ok_def pack_ok_def member_available_def scan_job_bound_def)

lemma keeps_tickets [keeps]:
  "registry_inv org s \<Longrightarrow> list_all (ticket_state_ok org) ts \<Longrightarrow> length ts \<le> MAX_INSTALL_RECEIPT_TICKETS \<Longrightarrow>
   registry_inv org (s\<lparr>st_installReceiptTickets := ts\<rparr>)"
  by (simp add: registry_inv_def state_ok_def pack_ok_def member_available_def scan_job_bound_def)

lemma keeps_receipts [keeps]:
  "registry_inv org s \<Longrightarrow> list_all (receipt_state_ok org) rs \<Longrightarrow> distinct (map re_authorizationId rs) \<Longrightarrow>
   length rs \<le> MAX_INSTALL_RECEIPTS \<Longrightarrow> registry_inv org (s\<lparr>st_installReceipts := rs\<rparr>)"
  by (simp add: registry_inv_def state_ok_def pack_ok_def member_available_def scan_job_bound_def)

lemma keeps_packs [keeps]:
  "registry_inv org s \<Longrightarrow> list_all (\<lambda>k. pk_organizationId k = org) ks \<Longrightarrow>
   distinct (map (\<lambda>k. (pk_name k, pk_version k)) ks) \<Longrightarrow> \<forall>k \<in> set ks. pack_ok s k \<Longrightarrow>
   registry_inv org (s\<lparr>st_packs := ks\<rparr>)"
  by (simp add: registry_inv_def state_ok_def pack_ok_def member_available_def scan_job_bound_def)

lemma keeps_jobs [keeps]:
  "registry_inv org s \<Longrightarrow> list_all (job_state_ok org) queue \<Longrightarrow> distinct (map jb_id queue) \<Longrightarrow>
   \<forall>j \<in> set queue. lease_ok j \<and> scan_job_bound s j \<Longrightarrow> registry_inv org (s\<lparr>st_jobs := queue\<rparr>)"
  by (simp add: registry_inv_def state_ok_def pack_ok_def member_available_def scan_job_bound_def)

text \<open>Writes to the releases: the packs that stay approved must keep their members.\<close>

lemma keeps_skills [keeps]:
  assumes "registry_inv org s" and "grows skill_evolves (st_skills s) ks"
    and "list_all (\<lambda>k. sk_organizationId k = org) ks" and "distinct (map sk_id ks)"
    and "distinct (map (\<lambda>k. (sk_name k, sk_version k)) ks)"
    and "\<And>k p m. k \<in> set ks \<Longrightarrow> p \<in> set (st_packs s) \<Longrightarrow> pk_state p = PackApproved \<Longrightarrow> m \<in> set (pk_members p) \<Longrightarrow>
           sk_id k = pm_resourceId m \<Longrightarrow> sk_state k \<noteq> Revoked"
  shows "registry_inv org (s\<lparr>st_skills := ks\<rparr>)"
proof -
  let ?t = "s\<lparr>st_skills := ks\<rparr>"
  have "\<forall>p \<in> set (st_packs s). pack_ok ?t p"
  proof
    fix p assume p: "p \<in> set (st_packs s)"
    then have "pack_ok s p" using assms(1) by (simp add: registry_inv_def)
    then show "pack_ok ?t p"
      unfolding pack_ok_def using assms(2,6) p by (auto intro!: member_available_evolves [of s _ ?t])
  qed
  moreover have "\<forall>j \<in> set (st_jobs s). scan_job_bound ?t j"
    using assms(1,2) by (auto simp: registry_inv_def intro!: scan_job_bound_evolves [of s _ ?t])
  ultimately show ?thesis
    using assms by (simp add: registry_inv_def state_ok_def)
qed

lemma distinct_map_eq: "distinct (map f xs) \<Longrightarrow> x \<in> set xs \<Longrightarrow> y \<in> set xs \<Longrightarrow> f x = f y \<Longrightarrow> x = y"
  by (auto simp: distinct_map inj_on_def)

lemma approved_member_not_revoked:
  assumes "registry_inv org s" and "p \<in> set (st_packs s)" and "pk_state p = PackApproved"
    and "m \<in> set (pk_members p)" and "k \<in> set (st_skills s)" and "sk_id k = pm_resourceId m"
  shows "sk_state k \<noteq> Revoked"
proof -
  have "member_available s m"
    using assms by (auto simp: registry_inv_def pack_ok_def)
  then obtain k' where "k' \<in> set (st_skills s)" "sk_id k' = pm_resourceId m" "sk_state k' \<noteq> Revoked"
    by (auto simp: member_available_def)
  then show ?thesis
    using distinct_map_eq [of sk_id "st_skills s" k k'] assms by (auto simp: registry_inv_def)
qed

lemma skill_evolves_fields:
  assumes "skill_evolves k k'"
  shows "sk_id k' = sk_id k" "sk_organizationId k' = sk_organizationId k" "sk_name k' = sk_name k"
    "sk_version k' = sk_version k" "sk_artifact k' = sk_artifact k" "sk_fileCount k' = sk_fileCount k"
  using assms by (auto simp: skill_evolves_def release_identity_def)

lemma grows_release:
  assumes "grows skill_evolves xs ys" and "x \<in> set xs"
  shows "\<exists>y \<in> set ys. sk_id y = sk_id x \<and> sk_artifact y = sk_artifact x"
  using grows_in [OF assms] skill_evolves_fields by blast

lemma keeps_skill_update:
  assumes inv: "registry_inv org s" and ev: "\<And>k. skill_evolves k (f k)"
    and live: "\<And>k. sk_state k \<noteq> Revoked \<Longrightarrow> sk_state (f k) \<noteq> Revoked"
  shows "registry_inv org (s\<lparr>st_skills := update_first p f (st_skills s)\<rparr>)"
proof (rule keeps_skills [OF inv])
  note fields = skill_evolves_fields [OF ev]
  have maps: "map g (update_first p f (st_skills s)) = map g (st_skills s)"
    if "\<And>k. g (f k) = g k" for g :: "skill_version \<Rightarrow> 'a"
    using that by (rule map_update_first)
  show "grows skill_evolves (st_skills s) (update_first p f (st_skills s))"
    by (rule grows_update_first) (simp_all add: ev)
  show "list_all (\<lambda>k. sk_organizationId k = org) (update_first p f (st_skills s))"
    using inv by (auto simp: registry_inv_def state_ok_def list_all_iff fields dest!: update_first_in find_in_set)
  show "distinct (map sk_id (update_first p f (st_skills s)))"
    using inv by (simp add: registry_inv_def map_update_first fields)
  show "distinct (map (\<lambda>k. (sk_name k, sk_version k)) (update_first p f (st_skills s)))"
    using inv by (simp add: registry_inv_def map_update_first fields)
  fix k q m
  assume "k \<in> set (update_first p f (st_skills s))" and pack: "q \<in> set (st_packs s)"
    "pk_state q = PackApproved" "m \<in> set (pk_members q)" "sk_id k = pm_resourceId m"
  then consider "k \<in> set (st_skills s)" | x where "x \<in> set (st_skills s)" "k = f x"
    by (auto dest!: update_first_in find_in_set)
  then show "sk_state k \<noteq> Revoked"
  proof cases
    case 1
    then show ?thesis by (rule approved_member_not_revoked [OF inv pack(1-3) _ pack(4)])
  next
    case 2
    then have "sk_state x \<noteq> Revoked"
      by (intro approved_member_not_revoked [OF inv pack(1-3)]) (use pack(4) in \<open>simp_all add: fields\<close>)
    with 2 show ?thesis by (simp add: live)
  qed
qed

lemma keeps_skill_append:
  assumes inv: "registry_inv org s" and new: "sk_organizationId k = org" "sk_id k \<notin> sk_id ` set (st_skills s)"
    "\<And>x. x \<in> set (st_skills s) \<Longrightarrow> \<not> (sk_name x = sk_name k \<and> sk_version x = sk_version k)"
  shows "registry_inv org (s\<lparr>st_skills := st_skills s @ [k]\<rparr>)"
proof (rule keeps_skills [OF inv])
  show "grows skill_evolves (st_skills s) (st_skills s @ [k])"
    by (intro grows_append grows_refl) simp
  show "list_all (\<lambda>k. sk_organizationId k = org) (st_skills s @ [k])"
    using inv new by (simp add: registry_inv_def state_ok_def)
  show "distinct (map sk_id (st_skills s @ [k]))"
    using inv new by (simp add: registry_inv_def)
  show "distinct (map (\<lambda>k. (sk_name k, sk_version k)) (st_skills s @ [k]))"
    using inv new(3) by (fastforce simp: registry_inv_def)
  show "sk_state x \<noteq> Revoked" if x: "x \<in> set (st_skills s @ [k])" and q: "q \<in> set (st_packs s)"
    "pk_state q = PackApproved" "m \<in> set (pk_members q)" "sk_id x = pm_resourceId m" for x q m
  proof -
    have "member_available s m" using inv q by (auto simp: registry_inv_def pack_ok_def)
    with new(2) q(4) x have "x \<in> set (st_skills s)" by (force simp: member_available_def image_iff)
    then show ?thesis by (rule approved_member_not_revoked [OF inv q(1-3) _ q(4)])
  qed
qed

lemma keeps_job_append:
  assumes inv: "registry_inv org s" and new: "job_state_ok org j" "jb_id j \<notin> jb_id ` set (st_jobs s)" "lease_ok j" "scan_job_bound s j"
  shows "registry_inv org (s\<lparr>st_jobs := st_jobs s @ [j]\<rparr>)"
  by (rule keeps_jobs [OF inv]) (use inv new in \<open>auto simp: registry_inv_def state_ok_def\<close>)

lemma map_update_found:
  "find p xs = Some x \<Longrightarrow> g (f x) = g x \<Longrightarrow> map g (update_first p f xs) = map g xs"
  by (induction xs) (auto split: if_splits)

lemma keeps_job_update:
  assumes inv: "registry_inv org s"
    and f: "\<And>j. p j \<Longrightarrow> find p (st_jobs s) = Some j \<Longrightarrow> job_state_ok org j \<Longrightarrow> lease_ok j \<Longrightarrow> scan_job_bound s j \<Longrightarrow>
      jb_id (f j) = jb_id j \<and> job_state_ok org (f j) \<and> lease_ok (f j) \<and> scan_job_bound s (f j)"
  shows "registry_inv org (s\<lparr>st_jobs := update_first p f (st_jobs s)\<rparr>)"
proof (cases "find p (st_jobs s)")
  case None
  then show ?thesis using inv by (simp add: update_first_none)
next
  case (Some j)
  have j: "j \<in> set (st_jobs s)" "p j" using find_in_set [OF Some] by auto
  have old: "job_state_ok org x \<and> lease_ok x \<and> scan_job_bound s x" if "x \<in> set (st_jobs s)" for x
    using that inv by (simp add: registry_inv_def state_ok_def list_all_iff)
  note new = f [OF j(2) Some]
  have "map jb_id (update_first p f (st_jobs s)) = map jb_id (st_jobs s)"
    by (rule map_update_found [OF Some]) (use new old [OF j(1)] in simp)
  with inv have "distinct (map jb_id (update_first p f (st_jobs s)))" by (simp add: registry_inv_def)
  moreover have "job_state_ok org x \<and> lease_ok x \<and> scan_job_bound s x" if "x \<in> set (update_first p f (st_jobs s))" for x
    using update_first_in [OF that] old new j(1) Some by auto
  ultimately show ?thesis
    by (intro keeps_jobs [OF inv]) (auto simp: list_all_iff)
qed

section \<open>Every handler keeps the invariant\<close>

text \<open>Identifiers are drawn with \<open>crypto.randomUUID\<close>: not empty and not in use.\<close>

definition fresh_ids :: "env \<Rightarrow> registry_state \<Rightarrow> bool" where
  "fresh_ids e s \<longleftrightarrow>
     en_skill e \<noteq> [] \<and> en_policy e \<noteq> [] \<and> en_authz e \<noteq> [] \<and> en_ticket e \<noteq> [] \<and> en_receipt e \<noteq> [] \<and>
     en_skill e \<notin> sk_id ` set (st_skills s) \<and> en_job e \<notin> jb_id ` set (st_jobs s) \<and>
     (\<forall>j \<in> set (st_jobs s). jb_leaseToken j \<noteq> Some (en_lease e))"

lemma state_ok_authorizationsD: "registry_inv org s \<Longrightarrow> list_all (authorization_state_ok org) (st_authorizations s)"
  by (simp add: registry_inv_def state_ok_def)

lemma registry_invD:
  assumes "registry_inv org s"
  shows "list_all (\<lambda>k. pk_organizationId k = org) (st_packs s)"
    "list_all (ticket_state_ok org) (st_installReceiptTickets s)"
    "list_all (receipt_state_ok org) (st_installReceipts s)" "list_all (\<lambda>g. gr_organizationId g = org) (st_grants s)"
    "distinct (map re_authorizationId (st_installReceipts s))" "distinct (map sk_id (st_skills s))"
    "distinct (map (\<lambda>k. (pk_name k, pk_version k)) (st_packs s))" "\<forall>k \<in> set (st_packs s). pack_ok s k"
    "list_all (job_state_ok org) (st_jobs s)" "\<forall>j \<in> set (st_jobs s). lease_ok j \<and> scan_job_bound s j"
    "policy_runtime_ok (st_policy s)" "state_ok org s" "length (st_installReceipts s) \<le> MAX_INSTALL_RECEIPTS"
    "length (st_installReceiptTickets s) \<le> MAX_INSTALL_RECEIPT_TICKETS"
  using assms by (simp_all add: registry_inv_def state_ok_def)

lemma new_scan_job_simps [simp]:
  "lease_ok (new_scan_job org e i a po)" "job_state_ok org (new_scan_job org e i a po)"
  "jb_id (new_scan_job org e i a po) = en_job e"
  "scan_job_bound st (new_scan_job org e i a po) \<longleftrightarrow> (\<exists>k \<in> set (st_skills st). sk_id k = i \<and> sk_artifact k = a)"
  by (auto simp: lease_ok_def job_state_ok_def new_scan_job_def scan_job_bound_def)

lemma publish_skill_record_simps [simp]:
  "sk_id (publish_skill_record org e n v d md c b po) = en_skill e"
  "sk_organizationId (publish_skill_record org e n v d md c b po) = org"
  "sk_name (publish_skill_record org e n v d md c b po) = n"
  "sk_version (publish_skill_record org e n v d md c b po) = v"
  "sk_artifact (publish_skill_record org e n v d md c b po) = b"
  "sk_state (publish_skill_record org e n v d md c b po) = Pending"
  by (simp_all add: publish_skill_record_def)

lemma publishSkill_keeps:
  assumes "publishSkill h put bo org body p e s0 s = Inr (t, j)" and inv: "registry_inv org s" and fresh: "fresh_ids e s"
  shows "registry_inv org t" and "evolves s t"
proof -
  obtain name version description metadata fileCount stored skill where
    skill: "skill = publish_skill_record org e name version description metadata fileCount stored (st_policy s0)"
    and t: "t = appendAudit (audit p ''skill.publish.queued'' (Some (en_skill e)) org e)
       (s\<lparr>st_skills := st_skills s @ [skill], st_jobs := st_jobs s @ [j]\<rparr>)"
    and j: "j = new_scan_job org e (en_skill e) stored (st_policy s0)"
    and new: "\<forall>k \<in> set (st_skills s). \<not> (sk_name k = name \<and> sk_version k = version)"
    by (rule publishSkill_InrE [OF assms(1)]) blast
  have "registry_inv org (s\<lparr>st_skills := st_skills s @ [skill]\<rparr>)"
    by (rule keeps_skill_append [OF inv])
       (use new fresh in \<open>auto simp: skill fresh_ids_def\<close>)
  from keeps_job_append [OF this, of j] fresh
  have "registry_inv org (s\<lparr>st_skills := st_skills s @ [skill], st_jobs := st_jobs s @ [j]\<rparr>)"
    by (simp add: j fresh_ids_def skill)
  then show "registry_inv org t" unfolding t by (rule keeps_audit) simp
  show "evolves s t"
    by (rule evolvesI) (auto simp: t appendAudit_def intro: grows_append grows_refl)
qed

lemma evolves_skills_find:
  assumes "evolves s t" and "skill_by_id s i = Some k"
  shows "\<exists>k'. skill_by_id t i = Some k' \<and> skill_evolves k k'"
  unfolding skill_by_id_def
  by (rule grows_find) (use assms in \<open>auto simp: evolves_def skill_by_id_def dest: skill_evolves_fields\<close>)

lemma collect_members_InrD:
  assumes "collect_members h now st p ids raws = Inr ms" and "m \<in> set ms"
  shows "\<exists>k \<in> set (st_skills st). skillCurrentlyApproved st k now \<and> canReadNamespace p (sk_name k) \<and>
    pm_resourceId m = sk_id k \<and> pm_name m = sk_name k \<and> pm_version m = sk_version k \<and>
    pm_digest m = blob_digest (sk_artifact k)"
  using assms
proof (induction raws arbitrary: ids ms)
  case (Cons raw raws)
  obtain v ref sk r rest where
    res: "resolveResource h now st p SkillKind ref (Some v) = Resolved (SkillResource sk) r"
    and rest: "collect_members h now st p (ids @ [sk_id sk]) raws = Inr rest"
    and ms: "ms = \<lparr>pm_resourceId = sk_id sk, pm_name = sk_name sk, pm_version = sk_version sk,
                   pm_digest = blob_digest (sk_artifact sk)\<rparr> # rest"
    using Cons.prems(1) by (auto simp: result_simps)
  have "sk \<in> set (st_skills st) \<and> skillCurrentlyApproved st sk now \<and> canReadNamespace p (sk_name sk)"
    using res by (auto simp: resolveResource_def elim!: resolve_skill_ResolvedD)
  with Cons.IH [OF rest] Cons.prems(2) ms show ?case by auto
qed simp

lemma member_current_availableI:
  assumes "member_current s m" and "evolves s0 s" and "registry_inv org s"
    and "k \<in> set (st_skills s0)" "pm_resourceId m = sk_id k" "pm_name m = sk_name k" "pm_version m = sk_version k"
  shows "member_available s m"
proof -
  obtain c where c: "skill_by_id s (pm_resourceId m) = Some c" "sk_state c = Approved"
      "blob_digest (sk_artifact c) = pm_digest m"
    using assms(1) by (auto simp: member_current_def split: option.splits)
  obtain k' where k': "k' \<in> set (st_skills s)" "skill_evolves k k'"
    using grows_in [of skill_evolves "st_skills s0"] assms(2,4) by (auto simp: evolves_def)
  have "c = k'"
    using distinct_map_eq [OF registry_invD(6) [OF assms(3)], of c k'] skill_by_idD [OF c(1)] k' assms(5)
    by (simp add: skill_evolves_fields)
  with c k' assms show ?thesis
    by (auto simp: member_available_def skill_evolves_fields intro!: bexI [of _ k'])
qed

lemma createPack_keeps:
  assumes "createPack h org body p e s0 s = Inr (t, k)" and inv: "registry_inv org s" and "evolves s0 s"
  shows "registry_inv org t" and "evolves s t"
proof -
  obtain raws where
    t: "t = appendAudit (audit p ''pack.publish'' (Some (en_pack e)) org e) (s\<lparr>st_packs := st_packs s @ [k]\<rparr>)"
    and k: "pk_organizationId k = org" "collect_members h (en_now0 e) s0 p [] raws = Inr (pk_members k)"
    "\<forall>m \<in> set (pk_members k). member_current s m"
    "\<forall>q \<in> set (st_packs s). \<not> (pk_name q = pk_name k \<and> pk_version q = pk_version k)"
    by (rule createPack_InrE [OF assms(1)]) blast
  have "member_available s m" if "m \<in> set (pk_members k)" for m
    using collect_members_InrD [OF k(2) that] member_current_availableI [OF _ assms(3) inv, of m] k(3) that by auto
  then have "pack_ok s k" by (simp add: pack_ok_def)
  with inv k have "registry_inv org (s\<lparr>st_packs := st_packs s @ [k]\<rparr>)"
    by (intro keeps_packs) (fastforce dest: registry_invD)+
  then show "registry_inv org t" unfolding t by (rule keeps_audit) simp
  show "evolves s t"
    by (rule evolvesI) (auto simp: t appendAudit_def intro: grows_append grows_refl)
qed

lemma updatePolicy_keeps:
  assumes "updatePolicy h org body p e s0 s = Inr (t, po)" and "registry_inv org s" and "fresh_ids e s"
  shows "registry_inv org t" and "evolves s t"
  using assms
  by (auto elim!: updatePolicy_InrE intro!: keeps_audit keeps_policy evolvesI grows_refl
      simp: appendAudit_def fresh_ids_def dest: parsePolicy_runtime_ok)

lemma rescanSkill_keeps:
  assumes "rescanSkill org i p e s0 s = Inr (t, j)" and inv: "registry_inv org s" and "evolves s0 s" and "fresh_ids e s"
  shows "registry_inv org t" and "evolves s t"
proof -
  let ?f = "\<lambda>k. if sk_state k \<noteq> Revoked then k\<lparr>sk_state := Pending\<rparr> else k"
  obtain skill where skill: "find (\<lambda>k. sk_id k = i \<and> canReadNamespace p (sk_name k)) (st_skills s0) = Some skill"
    and j: "j = new_scan_job org e (sk_id skill) (sk_artifact skill) (st_policy s0)"
    and t: "t = appendAudit (audit p ''skill.rescan.queued'' (Some i) org e)
       (s\<lparr>st_skills := update_first (\<lambda>k. sk_id k = i) ?f (st_skills s), st_jobs := st_jobs s @ [j]\<rparr>)"
    by (rule rescanSkill_InrE [OF assms(1)]) blast
  have f: "skill_evolves k (?f k)" for k by (simp add: skill_evolves_def release_identity_def)
  let ?s1 = "s\<lparr>st_skills := update_first (\<lambda>k. sk_id k = i) ?f (st_skills s)\<rparr>"
  have s1: "registry_inv org ?s1"
    by (rule keeps_skill_update [OF inv f]) simp
  have ev: "grows skill_evolves (st_skills s) (st_skills ?s1)"
    by (simp add: grows_update_first f)
  have "grows skill_evolves (st_skills s0) (st_skills ?s1)"
    by (rule grows_trans [OF _ ev skill_evolves_trans]) (use assms(3) in \<open>simp add: evolves_def\<close>)
  with skill have "\<exists>k \<in> set (st_skills ?s1). sk_id k = sk_id skill \<and> sk_artifact k = sk_artifact skill"
    by (intro grows_release [of "st_skills s0"]) (auto dest: find_in_set)
  then have "registry_inv org (?s1\<lparr>st_jobs := st_jobs ?s1 @ [j]\<rparr>)"
    by (intro keeps_job_append [OF s1]) (use assms(4) in \<open>auto simp: j fresh_ids_def\<close>)
  then show "registry_inv org t" unfolding t by (intro keeps_audit) simp_all
  show "evolves s t"
    by (rule evolvesI) (use ev in \<open>auto simp: t appendAudit_def intro: grows_refl\<close>)
qed

lemma revoke_pack_simps [simp]:
  "pk_name (revoke_pack i k) = pk_name k" "pk_version (revoke_pack i k) = pk_version k"
  "pk_organizationId (revoke_pack i k) = pk_organizationId k" "pk_members (revoke_pack i k) = pk_members k"
  "pk_state (revoke_pack i k) = PackApproved \<longleftrightarrow>
     pk_state k = PackApproved \<and> (\<forall>m \<in> set (pk_members k). pm_resourceId m \<noteq> i)"
  by (auto simp: revoke_pack_def)

lemma revokeSkill_keeps:
  assumes "revokeSkill org i p e s0 s = Inr (t, k)" and inv: "registry_inv org s"
  shows "registry_inv org t" and "evolves s t"
proof -
  let ?f = "\<lambda>k :: skill_version. k\<lparr>sk_state := Revoked\<rparr>"
  let ?skills = "update_first (\<lambda>k. sk_id k = i) ?f (st_skills s)"
  have t: "t = appendAudit (audit p ''skill.revoke'' (Some i) org e)
       (s\<lparr>st_skills := ?skills, st_packs := map (revoke_pack i) (st_packs s)\<rparr>)"
    by (rule revokeSkill_InrE [OF assms(1)]) blast
  have f: "skill_evolves k (?f k)" for k by (simp add: skill_evolves_def release_identity_def)
  have ev: "grows skill_evolves (st_skills s) ?skills" by (simp add: grows_update_first f)
  let ?s1 = "s\<lparr>st_packs := map (revoke_pack i) (st_packs s)\<rparr>"
  have "distinct (map (\<lambda>k. (pk_name k, pk_version k)) (map (revoke_pack i) (st_packs s)))"
    using registry_invD(7) [OF inv] by (simp add: comp_def)
  then have s1: "registry_inv org ?s1"
    by (intro keeps_packs [OF inv]) (use registry_invD(1,8) [OF inv] in \<open>auto simp: list_all_iff pack_ok_def\<close>)
  have "registry_inv org (?s1\<lparr>st_skills := ?skills\<rparr>)"
  proof (rule keeps_skills [OF s1])
    show "grows skill_evolves (st_skills ?s1) ?skills" using ev by simp
    show "list_all (\<lambda>k. sk_organizationId k = org) ?skills"
      using registry_invD(12) [OF inv] by (auto simp: state_ok_def list_all_iff dest!: update_first_in find_in_set)
    show "distinct (map sk_id ?skills)" using registry_invD(6) [OF inv] by (simp add: map_update_first)
    show "distinct (map (\<lambda>k. (sk_name k, sk_version k)) ?skills)"
      using inv by (simp add: registry_inv_def map_update_first)
    fix x q m
    assume x: "x \<in> set ?skills" and "q \<in> set (st_packs ?s1)" and q: "pk_state q = PackApproved"
      "m \<in> set (pk_members q)" "sk_id x = pm_resourceId m"
    then obtain q0 where q0: "q0 \<in> set (st_packs s)" "q = revoke_pack i q0" by auto
    with q have other: "sk_id x \<noteq> i" by auto
    with x have "x \<in> set (st_skills s)" by (auto dest!: update_first_in find_in_set)
    with q q0 show "sk_state x \<noteq> Revoked"
      by (intro approved_member_not_revoked [OF inv, of q0 m]) auto
  qed
  moreover have "?s1\<lparr>st_skills := ?skills\<rparr> = s\<lparr>st_skills := ?skills, st_packs := map (revoke_pack i) (st_packs s)\<rparr>"
    by (cases s) simp
  ultimately show "registry_inv org t" unfolding t by (intro keeps_audit) simp_all
  show "evolves s t"
    by (rule evolvesI) (use ev in \<open>auto simp: t appendAudit_def pack_evolves_def revoke_pack_def intro!: grows_map\<close>)
qed

lemma evolves_same:
  "st_skills t = st_skills s \<Longrightarrow> st_packs t = st_packs s \<Longrightarrow> st_scans t = st_scans s \<Longrightarrow>
   \<exists>ys. st_audit t = st_audit s @ ys \<Longrightarrow> evolves s t"
  by (rule evolvesI) (auto intro: grows_refl)

lemma createInstallAuthorization_keeps:
  assumes "createInstallAuthorization h org body p e s0 s = Inr (t, a, ti)" and inv: "registry_inv org s"
    and "fresh_ids e s" and "assertPrincipal p org = Inr ()"
  shows "registry_inv org t" and "evolves s t"
proof -
  obtain r kind ref version res0 where "state_ok org s0"
    "resolveResource h (en_now0 e) s0 p kind ref version = Resolved res0 r"
    and a: "a = \<lparr>au_id = en_authz e, au_organizationId = org, au_subject = pr_subject p, au_resolution = r,
          au_expiresAt = Stamp (en_now0 e + TRANSFER_TTL_SECONDS * 1000)\<rparr>"
    and ti: "ti = \<lparr>ti_id = en_ticket e, ti_organizationId = org, ti_subject = pr_subject p,
           ti_authorizationId = en_authz e, ti_resolution = r, ti_issuedAt = Stamp (en_now0 e),
           ti_expiresAt = Stamp (en_now0 e + INSTALL_RECEIPT_TTL_SECONDS * 1000)\<rparr>"
    and t: "t = appendAudit (audit p ''install.authorization.create'' (Some (en_authz e)) org e)
       (s\<lparr>st_authorizations := st_authorizations s @ [a],
          st_installReceiptTickets :=
            filter (\<lambda>t. \<not> timestampExpired (Some (ti_expiresAt t)) (en_now e)) (st_installReceiptTickets s) @ [ti]\<rparr>)"
    and len: "length (st_installReceiptTickets t) \<le> MAX_INSTALL_RECEIPT_TICKETS"
    by (rule createInstallAuthorization_InrE [OF assms(1)]) blast
  then have "rs_organizationId r = org" by (intro resolved_organization)
  then have "authorization_state_ok org a" "ticket_state_ok org ti"
    using assms(3) assertPrincipal_InrD [OF assms(4)]
    by (auto simp: a ti authorization_state_ok_def ticket_state_ok_def fresh_ids_def stamp_present_def)
  then show "registry_inv org t"
    unfolding t using registry_invD(2) [OF inv] state_ok_authorizationsD [OF inv] len [unfolded t]
    by (intro keeps_audit keeps_tickets keeps_authorizations inv) (auto simp: list_all_iff appendAudit_def)
  show "evolves s t" by (rule evolves_same) (simp_all add: t appendAudit_def)
qed

lemma validateInstallAuthorization_keeps:
  assumes "validateInstallAuthorization h org i p e s0 s = Inr (t, a, ti)" and inv: "registry_inv org s"
  shows "registry_inv org t" and "evolves s t"
proof -
  obtain current where cur: "live_authorization h (en_now e) s i p = Inr current"
    and a: "a = current\<lparr>au_expiresAt := Stamp (en_now e + TRANSFER_TTL_SECONDS * 1000)\<rparr>"
    and t: "t = appendAudit (audit p ''install.authorization.validate'' (Some i) org e)
       (s\<lparr>st_authorizations := update_first (\<lambda>a. au_id a = i \<and> au_subject a = pr_subject p)
            (\<lambda>_. a) (st_authorizations s)\<rparr>)"
    by (rule validateInstallAuthorization_InrE [OF assms(1)]) blast
  have "current \<in> set (st_authorizations s)" by (rule live_authorization_InrD [OF cur])
  with state_ok_authorizationsD [OF inv] have "authorization_state_ok org a"
    by (auto simp: a list_all_iff authorization_state_ok_def)
  then show "registry_inv org t"
    unfolding t using state_ok_authorizationsD [OF inv]
    by (intro keeps_audit keeps_authorizations inv) (auto simp: list_all_iff dest!: update_first_in)
  show "evolves s t" by (rule evolves_same) (simp_all add: t appendAudit_def)
qed

lemma createDownloadGrant_keeps:
  assumes "createDownloadGrant h org digest body p e s0 s = Inr (t, g, n)" and inv: "registry_inv org s"
  shows "registry_inv org t" and "evolves s t"
  using assms registry_invD(4) [OF inv]
  by (auto elim!: createDownloadGrant_InrE intro!: keeps_audit keeps_grants evolves_same simp: appendAudit_def)

lemma commit_receipt_keeps:
  assumes "commit_receipt org p e i s = Inr (t, r, status)" and inv: "registry_inv org s" and "fresh_ids e s"
    and "assertPrincipal p org = Inr ()" and "ri_authorizationId i \<noteq> []"
  shows "registry_inv org t" and "evolves s t"
proof -
  let ?kept = "filter (retained_receipt (en_now e)) (st_installReceipts s)"
  have kept: "list_all (receipt_state_ok org) ?kept" "distinct (map re_authorizationId ?kept)"
    "length ?kept \<le> MAX_INSTALL_RECEIPTS"
    using registry_invD(3,5,13) [OF inv] order_trans [OF length_filter_le [of _ "st_installReceipts s"]]
    by (auto simp: list_all_iff distinct_map_filter)
  from assms(1) have "registry_inv org t \<and> evolves s t"
  proof (cases rule: commit_receipt_InrE)
    case replayed
    then show ?thesis by (auto intro!: keeps_receipts inv kept evolves_same)
  next
    case (created ti)
    then obtain tickets where tickets: "set tickets \<subseteq> set (st_installReceiptTickets s)"
      "length tickets \<le> MAX_INSTALL_RECEIPT_TICKETS"
      and t: "t = appendAudit (audit p ''install.receipt.create'' (Some (re_id r)) org e)
          (s\<lparr>st_installReceipts := ?kept @ [r], st_installReceiptTickets := tickets\<rparr>)" by blast
    have "ticket_state_ok org ti" using created registry_invD(2) [OF inv] by (auto simp: list_all_iff)
    then have "receipt_state_ok org r"
      using created assms(3,5) assertPrincipal_InrD [OF assms(4)]
      by (auto simp: receipt_state_ok_def ticket_state_ok_def new_receipt_def stamp_present_def fresh_ids_def)
    moreover have "distinct (map re_authorizationId (?kept @ [r]))"
      using kept(2) created by (auto simp: new_receipt_def)
    moreover have "list_all (ticket_state_ok org) tickets"
      using tickets registry_invD(2) [OF inv] by (auto simp: list_all_iff)
    ultimately show ?thesis
      using kept(1) tickets(2) created(11) unfolding t
      by (intro conjI keeps_audit keeps_tickets keeps_receipts inv evolves_same) (auto simp: appendAudit_def)
  qed
  then show "registry_inv org t" "evolves s t" by auto
qed

lemma job_by_idD: "job_by_id st i = Some j \<Longrightarrow> j \<in> set (st_jobs st) \<and> jb_id j = i"
  using find_in_set by (fastforce simp: job_by_id_def)

lemma claimJob_keeps:
  assumes inv: "registry_inv org s"
  shows "registry_inv org (fst (claimJob org leaseSeconds p e s))" and "evolves s (fst (claimJob org leaseSeconds p e s))"
proof -
  have "registry_inv org (s\<lparr>st_jobs := update_first (claimable org (en_now e)) (claim_record leaseSeconds e) (st_jobs s)\<rparr>)"
    by (rule keeps_job_update [OF inv])
       (auto simp: claim_record_def job_state_ok_def lease_ok_def scan_job_bound_def)
  then show "registry_inv org (fst (claimJob org leaseSeconds p e s))"
    using inv by (auto simp: claimJob_def intro: keeps_audit split: option.split)
  show "evolves s (fst (claimJob org leaseSeconds p e s))"
    by (auto simp: claimJob_def appendAudit_def intro!: evolves_same split: option.split)
qed

lemma keeps_with_job:
  assumes "registry_inv org s" and "job_by_id s i = Some j" and "jb_id j' = jb_id j"
    and "job_state_ok org j \<Longrightarrow> job_state_ok org j'" and "lease_ok j'" and "scan_job_bound s j \<Longrightarrow> scan_job_bound s j'"
  shows "registry_inv org (with_job i j' s)"
  unfolding with_job_def
  by (rule keeps_job_update [OF assms(1)]) (use assms in \<open>auto simp: job_by_id_def\<close>)

lemma keeps_with_resource:
  assumes "registry_inv org s" and "\<And>k. skill_evolves k (f k)" and "\<And>k. sk_state k \<noteq> Revoked \<Longrightarrow> sk_state (f k) \<noteq> Revoked"
  shows "registry_inv org (with_resource rid f s)"
  using keeps_skill_update [OF assms] assms(1)
  by (auto simp: with_resource_def with_skill_def split: option.split list.split)

lemma evolves_with_skill:
  "evolves s t \<Longrightarrow> (\<And>k. skill_evolves k (f k)) \<Longrightarrow> evolves s (with_skill i f t)"
  by (erule evolves_trans) (auto simp: with_skill_def intro!: evolvesI grows_update_first grows_refl)

lemma evolves_with_resource:
  "evolves s t \<Longrightarrow> (\<And>k. skill_evolves k (f k)) \<Longrightarrow> evolves s (with_resource rid f t)"
  by (auto simp: with_resource_def intro: evolves_with_skill split: option.split list.split)

lemma evolves_with_job: "evolves s t \<Longrightarrow> evolves s (with_job i j t)"
  by (erule evolves_trans) (auto simp: with_job_def intro!: evolves_same)

lemma evolves_appendAudit: "evolves s t \<Longrightarrow> evolves s (appendAudit ev t)"
  by (erule evolves_trans) (auto simp: appendAudit_def intro!: evolves_same)

lemmas evolves_writes = evolves_appendAudit evolves_with_resource evolves_with_skill evolves_with_job evolves_refl

lemma skill_evolves_unless_revoked:
  "(\<And>k. release_identity (f k) = release_identity k \<and> sk_scanIds (f k) = sk_scanIds k) \<Longrightarrow>
   skill_evolves k (unless_revoked f k)"
  by (simp add: skill_evolves_def unless_revoked_def)

lemma complete_requeue_keeps:
  assumes inv: "registry_inv org s" and j: "job_by_id s i = Some j"
  shows "registry_inv org (fst (complete_requeue org p e j s))" and "evolves s (fst (complete_requeue org p e j s))"
proof -
  let ?f = "unless_revoked (\<lambda>k. k\<lparr>sk_state := Pending, sk_policyRevision := po_revision (st_policy s)\<rparr>)"
  let ?j = "requeue_job (en_now e) (st_policy s) j"
  have ev: "skill_evolves k (?f k)" for k
    by (rule skill_evolves_unless_revoked) (simp add: release_identity_def)
  have id: "jb_id j = i" using job_by_idD [OF j] by simp
  have "registry_inv org (with_job i ?j s)"
    by (rule keeps_with_job [OF inv j]) (auto simp: requeue_job_def job_state_ok_def lease_ok_def scan_job_bound_def)
  then show "registry_inv org (fst (complete_requeue org p e j s))"
    using ev id by (auto simp: complete_requeue_def Let_def unless_revoked_def [of _ "_ :: skill_version"]
        intro!: keeps_audit keeps_with_resource)
  show "evolves s (fst (complete_requeue org p e j s))"
    by (auto simp: complete_requeue_def Let_def intro!: evolves_writes ev)
qed

lemma complete_failed_keeps:
  assumes inv: "registry_inv org s" and j: "job_by_id s i = Some j"
  shows "registry_inv org (fst (complete_failed org p e err j s))" and "evolves s (fst (complete_failed org p e err j s))"
proof -
  let ?f = "unless_revoked (\<lambda>k. k\<lparr>sk_state := ScanError\<rparr>)"
  let ?j = "j\<lparr>jb_state := JobFailed, jb_error := Some (redactJobError err), jb_updatedAt := Stamp (en_now e)\<rparr>"
  have ev: "skill_evolves k (?f k)" for k
    by (rule skill_evolves_unless_revoked) (simp add: release_identity_def)
  have id: "jb_id j = i" using job_by_idD [OF j] by simp
  have "lease_ok j" using registry_invD(10) [OF inv] job_by_idD [OF j] by simp
  then have "registry_inv org (with_job i ?j s)"
    by (intro keeps_with_job [OF inv j]) (auto simp: job_state_ok_def lease_ok_def scan_job_bound_def)
  then show "registry_inv org (fst (complete_failed org p e err j s))"
    using ev id by (auto simp: complete_failed_def Let_def unless_revoked_def [of _ "_ :: skill_version"]
        intro!: keeps_audit keeps_with_resource)
  show "evolves s (fst (complete_failed org p e err j s))"
    by (auto simp: complete_failed_def Let_def intro!: evolves_writes ev)
qed

lemma skill_evolves_apply_scan: "skill_evolves k (apply_scan now j ev scans k)"
  by (auto simp: skill_evolves_def apply_scan_def release_identity_def)

lemma ev_state_not_revoked: "ev_state (evaluatePolicy po scans digest n now) \<noteq> Revoked"
  using eval_required_denial [of po "relevant_evidence po scans digest" n now None "required_scanners po"]
  by (cases "eval_required po (relevant_evidence po scans digest) n now None (required_scanners po)")
     (auto simp: evaluatePolicy_def Let_def split: option.split)

lemma lease_ok_finish_job: "lease_ok j \<Longrightarrow> lease_ok (finish_job now ev j)"
  by (simp add: lease_ok_def finish_job_def)

lemma finish_job_simps [simp]:
  "jb_id (finish_job now ev j) = jb_id j" "job_state_ok org (finish_job now ev j) = job_state_ok org j"
  "scan_job_bound st (finish_job now ev j) = scan_job_bound st j"
  by (simp_all add: finish_job_def job_state_ok_def scan_job_bound_def)

lemma complete_scan_keeps:
  assumes "complete_scan org p e scans j s = Inr (t, j')" and inv: "registry_inv org s" and j: "job_by_id s i = Some j"
    and "list_all (\<lambda>r. sr_organizationId r = org) scans"
  shows "registry_inv org t" and "evolves s t"
proof -
  obtain skill :: skill_version and a :: stored_blob and ev where ev: "ev = evaluatePolicy (jb_policy j) scans (blob_digest a) (sk_fileCount skill) (en_now e)"
    and j': "j' = finish_job (en_now e) ev j"
    and t: "t = appendAudit (audit p (''job.complete.'' @ state_name (ev_state ev)) (Some (jb_id j)) org e)
       (with_skill (sk_id skill) (apply_scan (en_now e) j ev scans)
          (with_job (jb_id j) j' (s\<lparr>st_scans := st_scans s @ scans\<rparr>)))"
    by (rule complete_scan_InrE [OF assms(1)]) blast
  let ?s1 = "s\<lparr>st_scans := st_scans s @ scans\<rparr>"
  have s1: "registry_inv org ?s1" by (rule keeps_scans [OF inv assms(4)]) simp
  have "lease_ok j" using registry_invD(10) [OF inv] job_by_idD [OF j] by simp
  then have s2: "registry_inv org (with_job (jb_id j) j' ?s1)"
    using j job_by_idD [OF j]
    by (intro keeps_with_job [OF s1, of _ j])
       (simp_all add: j' lease_ok_finish_job job_by_id_def)
  have "registry_inv org (with_skill (sk_id skill) (apply_scan (en_now e) j ev scans) (with_job (jb_id j) j' ?s1))"
    unfolding with_skill_def
    by (rule keeps_skill_update [OF s2 skill_evolves_apply_scan]) (simp add: apply_scan_def ev ev_state_not_revoked)
  then show "registry_inv org t" unfolding t by (rule keeps_audit) simp
  have "evolves s ?s1" by (rule evolvesI) (auto intro: grows_refl)
  then show "evolves s t" unfolding t by (intro evolves_writes skill_evolves_apply_scan)
qed

lemma complete_import_keeps:
  assumes "complete_import pc org p e imported scans j s = Inr (t, j')" and inv: "registry_inv org s"
    and j: "job_by_id s i = Some j" "jb_kind j = ImportJob" and "list_all (\<lambda>r. sr_organizationId r = org) scans"
    and fresh: "fresh_ids e s"
  shows "registry_inv org t" and "evolves s t"
proof -
  obtain r :: import_request and ib ev skill where new: "\<forall>k \<in> set (st_skills s). \<not> (sk_name k = im_name r \<and> sk_version k = im_version r)"
    and skill: "skill = import_skill_record org e r ib j ev scans"
    and j': "j' = (finish_job (en_now e) ev j)\<lparr>jb_resourceId := Some (sk_id skill), jb_artifact := Some (ib_stored ib)\<rparr>"
    and t: "t = appendAudit (audit p (''job.complete.'' @ state_name (ev_state ev)) (Some (jb_id j)) org e)
       (with_job (jb_id j) j' (s\<lparr>st_skills := st_skills s @ [skill], st_scans := st_scans s @ scans\<rparr>))"
    by (rule complete_import_InrE [OF assms(1)]) blast
  let ?s1 = "s\<lparr>st_skills := st_skills s @ [skill]\<rparr>"
  let ?s2 = "?s1\<lparr>st_scans := st_scans s @ scans\<rparr>"
  have "registry_inv org ?s1"
    by (rule keeps_skill_append [OF inv]) (use new fresh in \<open>auto simp: skill import_skill_record_def fresh_ids_def\<close>)
  from keeps_scans [OF this assms(5)] have s2: "registry_inv org ?s2" by simp
  have "lease_ok j" using registry_invD(10) [OF inv] job_by_idD [OF j(1)] by simp
  then have "lease_ok j'" using lease_ok_finish_job [of j "en_now e" ev] by (simp add: j' lease_ok_def)
  then have "registry_inv org (with_job (jb_id j) j' ?s2)"
    using j job_by_idD [OF j(1)]
    by (intro keeps_with_job [OF s2, of _ j])
       (auto simp: j' job_by_id_def finish_job_def job_state_ok_def scan_job_bound_def)
  then show "registry_inv org t" unfolding t by (rule keeps_audit) simp
  have "evolves s ?s2" by (rule evolvesI) (auto intro: grows_refl grows_append)
  then show "evolves s t" unfolding t by (intro evolves_writes)
qed

lemma completeJob_keeps:
  assumes "completeJob h put bo fc pc org i body p e s0 s = Inr (t, j)" and inv: "registry_inv org s" and "fresh_ids e s"
  shows "registry_inv org t" and "evolves s t"
proof -
  obtain leaseToken imported scans j0 where scans: "scan_results_of h (en_now0 e) org body j0 imported = Inr scans"
    and "commit_completion fc pc org i leaseToken body p e imported scans s = Inr (t, j)"
    by (rule completeJob_InrE [OF assms(1)]) blast
  note org = scan_results_of_InrD(1) [OF scans]
  from \<open>commit_completion fc pc org i leaseToken body p e imported scans s = Inr (t, j)\<close>
  obtain c where c: "job_by_id s i = Some c"
    and "(t, j) = complete_requeue org p e c s \<or> (\<exists>err. (t, j) = complete_failed org p e err c s) \<or>
      complete_scan org p e scans c s = Inr (t, j) \<or>
      jb_kind c = ImportJob \<and> complete_import pc org p e imported scans c s = Inr (t, j)"
    by (rule commit_completion_InrE) blast
  then have "registry_inv org t \<and> evolves s t"
    using complete_requeue_keeps [OF inv c, of p e] complete_failed_keeps [OF inv c, of p e]
      complete_scan_keeps [OF _ inv c org, of p e t j] complete_import_keeps [OF _ inv c _ org assms(3), of pc p imported t j]
    by (metis fst_conv)
  then show "registry_inv org t" "evolves s t" by auto
qed

section \<open>The transition system\<close>

text \<open>What the handlers of one organization are given (\<open>RegistryDependencies\<close>).\<close>

record deps =
  dp_host :: host
  dp_put :: blob_put
  dp_bundle :: bundle_ops
  dp_feed :: "job \<Rightarrow> int \<Rightarrow> api_error option"
  dp_provenance :: "import_request \<Rightarrow> jstring \<Rightarrow> upstream option \<Rightarrow> api_error option"
  dp_org :: jstring

text \<open>
  One rule per handler that commits. The last rule stands for the routes that queue an import on behalf
  of a directory, a feed or a source catalog, which are not modelled beyond the job they queue.
\<close>

inductive registry_step :: "deps \<Rightarrow> registry_state list \<Rightarrow> registry_state list \<Rightarrow> bool" for d where
  publish: "s0 \<in> set (s # past) \<Longrightarrow> fresh_ids e s \<Longrightarrow>
    publishSkill (dp_host d) (dp_put d) (dp_bundle d) (dp_org d) body p e s0 s = Inr (t, j) \<Longrightarrow>
    registry_step d (s # past) (t # s # past)"
| pack: "s0 \<in> set (s # past) \<Longrightarrow> createPack (dp_host d) (dp_org d) body p e s0 s = Inr (t, k) \<Longrightarrow>
    registry_step d (s # past) (t # s # past)"
| policy: "s0 \<in> set (s # past) \<Longrightarrow> fresh_ids e s \<Longrightarrow>
    \<forall>s' \<in> set (s # past). po_revision (st_policy s') \<noteq> en_policy e \<Longrightarrow>
    updatePolicy (dp_host d) (dp_org d) body p e s0 s = Inr (t, po) \<Longrightarrow>
    registry_step d (s # past) (t # s # past)"
| rescan: "s0 \<in> set (s # past) \<Longrightarrow> fresh_ids e s \<Longrightarrow> rescanSkill (dp_org d) i p e s0 s = Inr (t, j) \<Longrightarrow>
    registry_step d (s # past) (t # s # past)"
| revoke: "s0 \<in> set (s # past) \<Longrightarrow> revokeSkill (dp_org d) i p e s0 s = Inr (t, k) \<Longrightarrow>
    registry_step d (s # past) (t # s # past)"
| authorize: "s0 \<in> set (s # past) \<Longrightarrow> fresh_ids e s \<Longrightarrow> assertPrincipal p (dp_org d) = Inr () \<Longrightarrow>
    createInstallAuthorization (dp_host d) (dp_org d) body p e s0 s = Inr (t, a, ti) \<Longrightarrow>
    registry_step d (s # past) (t # s # past)"
| validate: "s0 \<in> set (s # past) \<Longrightarrow>
    validateInstallAuthorization (dp_host d) (dp_org d) i p e s0 s = Inr (t, a, tio) \<Longrightarrow>
    registry_step d (s # past) (t # s # past)"
| grant: "s0 \<in> set (s # past) \<Longrightarrow>
    createDownloadGrant (dp_host d) (dp_org d) digest body p e s0 s = Inr (t, g, n) \<Longrightarrow>
    registry_step d (s # past) (t # s # past)"
| receipt: "s0 \<in> set (s # past) \<Longrightarrow> fresh_ids e s \<Longrightarrow> assertPrincipal p (dp_org d) = Inr () \<Longrightarrow>
    createInstallReceipt (dp_org d) body p e s0 s = Inr (t, r, status) \<Longrightarrow>
    registry_step d (s # past) (t # s # past)"
| claim: "fresh_ids e s \<Longrightarrow> registry_step d (s # past) (fst (claimJob (dp_org d) leaseSeconds p e s) # s # past)"
| complete: "s0 \<in> set (s # past) \<Longrightarrow> fresh_ids e s \<Longrightarrow>
    completeJob (dp_host d) (dp_put d) (dp_bundle d) (dp_feed d) (dp_provenance d) (dp_org d) i body p e s0 s = Inr (t, j) \<Longrightarrow>
    registry_step d (s # past) (t # s # past)"
| pull_through: "s0 \<in> set (s # past) \<Longrightarrow> fresh_ids e s \<Longrightarrow> assertPrincipal p (dp_org d) = Inr () \<Longrightarrow>
    resolveOrQueueImport (dp_host d) prov (dp_org d) body p e s0 s = Inr (t, res) \<Longrightarrow>
    registry_step d (s # past) (t # s # past)"
| upstream: "createUpstream (dp_host d) loopback (dp_org d) body p e s = Inr (t, u) \<Longrightarrow>
    registry_step d (s # past) (t # s # past)"
| import_queued: "fresh_ids e s \<Longrightarrow> (case u of None \<Rightarrow> True | Some up \<Rightarrow> up_organizationId up = dp_org d) \<Longrightarrow>
    registry_step d (s # past)
      (appendAudit (audit p ''skill.import.queued'' (Some (en_job e)) (dp_org d) e)
         (s\<lparr>st_jobs := st_jobs s @ [queued_import (dp_org d) e (st_policy s) r u]\<rparr>) # s # past)"

definition initial_history :: "registry_state list \<Rightarrow> bool" where
  "initial_history hist \<longleftrightarrow> (\<exists>po. policy_runtime_ok po \<and> hist = [createEmptyRegistryState po])"

definition job_policies :: "registry_state \<Rightarrow> policy set" where
  "job_policies s = jb_policy ` set (st_jobs s)"

definition history_ok :: "jstring \<Rightarrow> registry_state list \<Rightarrow> bool" where
  "history_ok org hist \<longleftrightarrow>
     hist \<noteq> [] \<and> (\<forall>s \<in> set hist. registry_inv org s) \<and> sorted_wrt (\<lambda>new old. evolves old new) hist \<and>
     (\<forall>s \<in> set hist. job_policies s \<subseteq> st_policy ` set hist) \<and> inj_on po_revision (st_policy ` set hist)"

lemma history_okD:
  assumes "history_ok org (s # past)" and "s0 \<in> set (s # past)"
  shows "registry_inv org s" and "evolves s0 s"
  using assms by (auto simp: history_ok_def)

lemma history_ok_step:
  assumes "history_ok org (s # past)" and "registry_inv org t" and "evolves s t" and "st_policy t = st_policy s"
    and "job_policies t \<subseteq> job_policies s \<union> st_policy ` set (s # past)"
  shows "history_ok org (t # s # past)"
  using assms by (auto simp: history_ok_def intro: evolves_trans)

lemma history_ok_policy_step:
  assumes "history_ok org (s # past)" and "registry_inv org t" and "evolves s t"
    and "\<forall>s' \<in> set (s # past). po_revision (st_policy s') \<noteq> po_revision (st_policy t)" and "job_policies t = job_policies s"
  shows "history_ok org (t # s # past)"
  using assms by (auto simp: history_ok_def intro: evolves_trans)

text \<open>Only a policy update changes the policy, and a job's policy is the policy of some state.\<close>

lemma job_policies_append: "st_jobs t = st_jobs s @ [j] \<Longrightarrow> job_policies t = insert (jb_policy j) (job_policies s)"
  by (auto simp: job_policies_def)

lemma job_policies_same: "st_jobs t = st_jobs s \<Longrightarrow> job_policies t = job_policies s"
  by (simp add: job_policies_def)

lemma job_policies_update:
  "st_jobs t = update_first p f (st_jobs s) \<Longrightarrow> (\<And>j. j \<in> set (st_jobs s) \<Longrightarrow> p j \<Longrightarrow> jb_policy (f j) \<in> job_policies s \<union> P) \<Longrightarrow>
   job_policies t \<subseteq> job_policies s \<union> P"
  unfolding job_policies_def by (auto dest!: update_first_in find_in_set)

lemma jb_policy_new_scan_job [simp]: "jb_policy (new_scan_job org e i a po) = po"
  by (simp add: new_scan_job_def)

lemma publishSkill_policies:
  "publishSkill h put bo org body p e s0 s = Inr (t, j) \<Longrightarrow>
   st_policy t = st_policy s \<and> job_policies t = insert (st_policy s0) (job_policies s)"
  by (erule publishSkill_InrE) (simp add: appendAudit_def job_policies_append)

lemma rescanSkill_policies:
  "rescanSkill org i p e s0 s = Inr (t, j) \<Longrightarrow>
   st_policy t = st_policy s \<and> job_policies t = insert (st_policy s0) (job_policies s)"
  by (erule rescanSkill_InrE) (simp add: appendAudit_def job_policies_append)

lemma other_policies:
  "createPack h org body p e s0 s = Inr (t, k) \<Longrightarrow> st_policy t = st_policy s \<and> st_jobs t = st_jobs s"
  "revokeSkill org i p e s0 s = Inr (t, sk) \<Longrightarrow> st_policy t = st_policy s \<and> st_jobs t = st_jobs s"
  "createInstallAuthorization h org body p e s0 s = Inr (t, a, ti) \<Longrightarrow> st_policy t = st_policy s \<and> st_jobs t = st_jobs s"
  "validateInstallAuthorization h org i p e s0 s = Inr (t, a, tio) \<Longrightarrow> st_policy t = st_policy s \<and> st_jobs t = st_jobs s"
  "createDownloadGrant h org digest body p e s0 s = Inr (t, g, n) \<Longrightarrow> st_policy t = st_policy s \<and> st_jobs t = st_jobs s"
  by (auto elim!: createPack_InrE revokeSkill_InrE createInstallAuthorization_InrE validateInstallAuthorization_InrE
      createDownloadGrant_InrE simp: appendAudit_def)

lemma createInstallReceipt_policies:
  "createInstallReceipt org body p e s0 s = Inr (t, r, status) \<Longrightarrow> st_policy t = st_policy s \<and> st_jobs t = st_jobs s"
  by (auto simp: createInstallReceipt_def result_simps appendAudit_def elim!: commit_receipt_InrE)

lemma claimJob_policies:
  "st_policy (fst (claimJob org ls p e s)) = st_policy s \<and> job_policies (fst (claimJob org ls p e s)) \<subseteq> job_policies s"
proof -
  have "job_policies (s\<lparr>st_jobs := update_first (claimable org (en_now e)) (claim_record ls e) (st_jobs s)\<rparr>) \<subseteq> job_policies s \<union> {}"
    by (rule job_policies_update [of _ "claimable org (en_now e)" "claim_record ls e"])
       (auto simp: claim_record_def job_policies_def)
  then show ?thesis
    by (auto simp: claimJob_def appendAudit_def job_policies_def split: option.split)
qed

lemma with_simps [simp]:
  "st_policy (with_job i j s) = st_policy s" "st_policy (with_resource rid f s) = st_policy s"
  "st_policy (with_skill i f s) = st_policy s" "st_jobs (with_resource rid f s) = st_jobs s"
  "st_jobs (with_skill i f s) = st_jobs s" "st_policy (appendAudit ev s) = st_policy s"
  "st_jobs (appendAudit ev s) = st_jobs s"
  by (simp_all add: with_job_def with_resource_def with_skill_def appendAudit_def split: option.split list.split)

lemma job_policies_with_job:
  "job_policies (with_job i j s) \<subseteq> insert (jb_policy j) (job_policies s)"
  using job_policies_update [of "with_job i j s" "\<lambda>c. jb_id c = i" "\<lambda>_. j" s "{jb_policy j}"]
  by (auto simp: with_job_def)

lemma job_policies_writes [simp]:
  "job_policies (with_resource rid f s) = job_policies s" "job_policies (with_skill i f s) = job_policies s"
  "job_policies (appendAudit ev s) = job_policies s" "job_policies (s\<lparr>st_scans := x\<rparr>) = job_policies s"
  "job_policies (s\<lparr>st_skills := y\<rparr>) = job_policies s"
  by (simp_all add: job_policies_def)

lemma completeJob_policies:
  assumes "completeJob h put bo fc pc org i body p e s0 s = Inr (t, j)"
  shows "st_policy t = st_policy s \<and> job_policies t \<subseteq> job_policies s \<union> {st_policy s}"
proof -
  obtain leaseToken imported scans where
    "commit_completion fc pc org i leaseToken body p e imported scans s = Inr (t, j)"
    by (rule completeJob_InrE [OF assms])
  then obtain c where c: "job_by_id s i = Some c"
    and outcome: "(t, j) = complete_requeue org p e c s \<or> (\<exists>err. (t, j) = complete_failed org p e err c s) \<or>
      complete_scan org p e scans c s = Inr (t, j) \<or> complete_import pc org p e imported scans c s = Inr (t, j)"
    by (rule commit_completion_InrE) blast
  have "jb_policy c \<in> job_policies s" using job_by_idD [OF c] by (auto simp: job_policies_def)
  then have *: "job_policies (with_job k j' s') \<subseteq> job_policies s \<union> {st_policy s}"
    if "jb_policy j' = jb_policy c \<or> jb_policy j' = st_policy s" and "job_policies s' = job_policies s" for k j' s'
    using that job_policies_with_job [of k j' s'] by auto
  from outcome show ?thesis
  proof (elim disjE exE)
    assume "(t, j) = complete_requeue org p e c s"
    then show ?thesis using * by (auto simp: complete_requeue_def Let_def requeue_job_def)
  next
    fix err assume "(t, j) = complete_failed org p e err c s"
    then show ?thesis using * by (auto simp: complete_failed_def Let_def)
  next
    assume "complete_scan org p e scans c s = Inr (t, j)"
    then show ?thesis by (rule complete_scan_InrE) (use * in \<open>auto simp: finish_job_def\<close>)
  next
    assume "complete_import pc org p e imported scans c s = Inr (t, j)"
    then show ?thesis by (rule complete_import_InrE) (use * in \<open>auto simp: finish_job_def\<close>)
  qed
qed

lemma createInstallReceipt_keeps:
  assumes "createInstallReceipt org body p e s0 s = Inr (t, r, status)" and "registry_inv org s" and "fresh_ids e s"
    and "assertPrincipal p org = Inr ()"
  shows "registry_inv org t" and "evolves s t"
proof -
  obtain i where i: "parseInstallReceiptInput body = Inr i" "commit_receipt org p e i s = Inr (t, r, status)"
    using assms(1) by (auto simp: createInstallReceipt_def result_simps)
  then have "ri_authorizationId i \<noteq> []"
    by (auto simp: parseInstallReceiptInput_def result_simps)
  from commit_receipt_keeps [OF i(2) assms(2-4) this] show "registry_inv org t" "evolves s t" .
qed

lemma queued_import_keeps:
  assumes "registry_inv org s" and "fresh_ids e s" and "case u of None \<Rightarrow> True | Some up \<Rightarrow> up_organizationId up = org"
  shows "registry_inv org (s\<lparr>st_jobs := st_jobs s @ [queued_import org e (st_policy s) r u]\<rparr>)"
  by (rule keeps_job_append [OF assms(1)])
     (use assms in \<open>auto simp: queued_import_def job_state_ok_def lease_ok_def scan_job_bound_def fresh_ids_def\<close>)

lemma resolveOrQueueImport_keeps:
  assumes "resolveOrQueueImport h prov org body p e s0 s = Inr (t, res)" and inv: "registry_inv org s" and "fresh_ids e s"
    and "assertPrincipal p org = Inr ()"
  shows "registry_inv org t" and "evolves s t" and "st_policy t = st_policy s" and "job_policies t \<subseteq> insert (st_policy s) (job_policies s)"
proof -
  obtain r u where u: "findImportUpstream h s r p = Inr u" and commit: "import_transaction h prov org r u p e s = Inr (t, res)"
    using assms(1) by (rule resolveOrQueueImport_InrE)
  have "up_organizationId u = org"
    using findImportUpstream_InrD [OF u] assms(4) by (auto simp: assertPrincipal_def split: if_splits)
  moreover have fields: "st_policy (appendAudit ev x) = st_policy x" "st_jobs (appendAudit ev x) = st_jobs x" for ev x
    by (simp_all add: appendAudit_def)
  ultimately have "registry_inv org t \<and> evolves s t \<and> st_policy t = st_policy s \<and>
      job_policies t \<subseteq> insert (st_policy s) (job_policies s)"
    using commit assms(2,3)
    by (cases rule: import_transaction_cases [consumes 1, OF commit])
       (auto intro!: keeps_audit queued_import_keeps evolves_appendAudit evolves_same evolves_refl simp: job_policies_def fields)
  then show "registry_inv org t" "evolves s t" "st_policy t = st_policy s" "job_policies t \<subseteq> insert (st_policy s) (job_policies s)"
    by auto
qed

lemma createUpstream_keeps:
  assumes "createUpstream h loopback org body p e s = Inr (t, u)" and "registry_inv org s"
  shows "registry_inv org t" and "evolves s t" and "st_policy t = st_policy s" and "job_policies t = job_policies s"
proof -
  have t: "t = appendAudit (audit p ''upstream.create'' (Some (up_id u)) org e) (s\<lparr>st_upstreams := st_upstreams s @ [u]\<rparr>)"
    and org: "up_organizationId u = org"
    using assms(1) by (auto elim!: createUpstream_InrE)
  have "list_all (\<lambda>u. up_organizationId u = org) (st_upstreams s @ [u])"
    using assms(2) org by (auto simp: registry_inv_def state_ok_def)
  then show "registry_inv org t" unfolding t using assms(2) by (intro keeps_audit keeps_upstreams) auto
  show "evolves s t" unfolding t by (intro evolves_appendAudit evolves_same) auto
  show "st_policy t = st_policy s" "job_policies t = job_policies s" by (simp_all add: t appendAudit_def job_policies_def)
qed

lemma registry_step_keeps:
  assumes "registry_step d hist hist'" and "history_ok (dp_org d) hist"
  shows "history_ok (dp_org d) hist'"
  using assms
proof (cases rule: registry_step.cases)
  case (publish s0 s past e body p t j)
  note inv = history_okD [OF assms(2) [unfolded publish(1)] publish(3)]
  show ?thesis
    unfolding publish(2) by (rule history_ok_step [OF assms(2) [unfolded publish(1)]])
      (use publishSkill_keeps [OF publish(5) inv(1) publish(4)] publishSkill_policies [OF publish(5)] publish(3) in auto)
next
  case (pack s0 s past body p e t k)
  note inv = history_okD [OF assms(2) [unfolded pack(1)] pack(3)]
  show ?thesis
    unfolding pack(2) by (rule history_ok_step [OF assms(2) [unfolded pack(1)]])
      (use createPack_keeps [OF pack(4) inv] other_policies(1) [OF pack(4)] in \<open>auto simp: job_policies_def\<close>)
next
  case (policy s0 s past e body p t po)
  note inv = history_okD [OF assms(2) [unfolded policy(1)] policy(3)]
  have "st_policy t = po \<and> po_revision po = en_policy e \<and> st_jobs t = st_jobs s"
    using policy(6) by (auto elim!: updatePolicy_InrE simp: appendAudit_def)
  then show ?thesis
    unfolding policy(2)
    by (intro history_ok_policy_step [OF assms(2) [unfolded policy(1)]] updatePolicy_keeps [OF policy(6) inv(1) policy(4)])
       (use policy(5) in \<open>auto simp: job_policies_def\<close>)
next
  case (rescan s0 s past e i p t j)
  note inv = history_okD [OF assms(2) [unfolded rescan(1)] rescan(3)]
  show ?thesis
    unfolding rescan(2) by (rule history_ok_step [OF assms(2) [unfolded rescan(1)]])
      (use rescanSkill_keeps [OF rescan(5) inv rescan(4)] rescanSkill_policies [OF rescan(5)] rescan(3) in auto)
next
  case (revoke s0 s past i p e t k)
  note inv = history_okD [OF assms(2) [unfolded revoke(1)] revoke(3)]
  show ?thesis
    unfolding revoke(2) by (rule history_ok_step [OF assms(2) [unfolded revoke(1)]])
      (use revokeSkill_keeps [OF revoke(4) inv(1)] other_policies(2) [OF revoke(4)] in \<open>auto simp: job_policies_def\<close>)
next
  case (authorize s0 s past e p body t a ti)
  note inv = history_okD [OF assms(2) [unfolded authorize(1)] authorize(3)]
  show ?thesis
    unfolding authorize(2) by (rule history_ok_step [OF assms(2) [unfolded authorize(1)]])
      (use createInstallAuthorization_keeps [OF authorize(6) inv(1) authorize(4,5)] other_policies(3) [OF authorize(6)]
       in \<open>auto simp: job_policies_def\<close>)
next
  case (validate s0 s past i p e t a tio)
  note inv = history_okD [OF assms(2) [unfolded validate(1)] validate(3)]
  show ?thesis
    unfolding validate(2) by (rule history_ok_step [OF assms(2) [unfolded validate(1)]])
      (use validateInstallAuthorization_keeps [OF validate(4) inv(1)] other_policies(4) [OF validate(4)]
       in \<open>auto simp: job_policies_def\<close>)
next
  case (grant s0 s past digest body p e t g n)
  note inv = history_okD [OF assms(2) [unfolded grant(1)] grant(3)]
  show ?thesis
    unfolding grant(2) by (rule history_ok_step [OF assms(2) [unfolded grant(1)]])
      (use createDownloadGrant_keeps [OF grant(4) inv(1)] other_policies(5) [OF grant(4)] in \<open>auto simp: job_policies_def\<close>)
next
  case (receipt s0 s past e p body t r status)
  note inv = history_okD [OF assms(2) [unfolded receipt(1)] receipt(3)]
  show ?thesis
    unfolding receipt(2) by (rule history_ok_step [OF assms(2) [unfolded receipt(1)]])
      (use createInstallReceipt_keeps [OF receipt(6) inv(1) receipt(4,5)] createInstallReceipt_policies [OF receipt(6)]
       in \<open>auto simp: job_policies_def\<close>)
next
  case (claim e s past leaseSeconds p)
  note inv = history_okD(1) [OF assms(2) [unfolded claim(1)] list.set_intros(1)]
  show ?thesis
    unfolding claim(2) by (rule history_ok_step [OF assms(2) [unfolded claim(1)]])
      (use claimJob_keeps [OF inv] claimJob_policies [of "dp_org d" leaseSeconds p e s] in auto)
next
  case (complete s0 s past e i body p t j)
  note inv = history_okD [OF assms(2) [unfolded complete(1)] complete(3)]
  show ?thesis
    unfolding complete(2) by (rule history_ok_step [OF assms(2) [unfolded complete(1)]])
      (use completeJob_keeps [OF complete(5) inv(1) complete(4)] completeJob_policies [OF complete(5)] in auto)
next
  case (import_queued e s u past p r)
  note inv = history_okD(1) [OF assms(2) [unfolded import_queued(1)] list.set_intros(1)]
  show ?thesis
    unfolding import_queued(2) by (rule history_ok_step [OF assms(2) [unfolded import_queued(1)]])
      (use inv import_queued in \<open>auto intro!: keeps_audit queued_import_keeps evolves_appendAudit evolves_same
        simp: job_policies_def\<close>)
next
  case (pull_through s0 s past e p prov body t res)
  note inv = history_okD [OF assms(2) [unfolded pull_through(1)] pull_through(3)]
  show ?thesis
    unfolding pull_through(2) by (rule history_ok_step [OF assms(2) [unfolded pull_through(1)]])
      (use resolveOrQueueImport_keeps [OF pull_through(6) inv(1) pull_through(4,5)] in auto)
next
  case (upstream loopback body p e s t u past)
  note inv = history_okD(1) [OF assms(2) [unfolded upstream(1)] list.set_intros(1)]
  show ?thesis
    unfolding upstream(2) by (rule history_ok_step [OF assms(2) [unfolded upstream(1)]])
      (use createUpstream_keeps [OF upstream(3) inv] in auto)
qed

lemma initial_history_ok: "initial_history hist \<Longrightarrow> history_ok org hist"
  by (auto simp: initial_history_def history_ok_def registry_inv_def state_ok_def createEmptyRegistryState_def
      job_policies_def)

interpretation registry: transition_system initial_history "registry_step d" "history_ok (dp_org d)" for d
  by unfold_locales (auto intro: initial_history_ok registry_step_keeps)

lemma history_older:
  assumes "reach initial_history (registry_step d) hist" and "i \<le> j" and "j < length hist"
  shows "evolves (hist ! j) (hist ! i)"
proof (cases "i = j")
  case False
  then show ?thesis
    using registry.reach_inv [OF assms(1)] assms(2,3) by (auto simp: history_ok_def sorted_wrt_iff_nth_less)
qed simp

lemma history_state:
  assumes "reach initial_history (registry_step d) hist" and "s \<in> set hist"
  shows "registry_inv (dp_org d) s" and "evolves s (hd hist)"
proof -
  note inv = registry.reach_inv [OF assms(1)]
  show "registry_inv (dp_org d) s" using inv assms(2) by (simp add: history_ok_def)
  from inv obtain t past where "hist = t # past" by (cases hist) (auto simp: history_ok_def)
  with history_okD(2) [of "dp_org d" t past s] inv assms(2) show "evolves s (hd hist)" by simp
qed

lemma grows_eq_prefix: "grows (=) xs ys \<Longrightarrow> \<exists>zs. ys = xs @ zs"
  by (induction "(=) :: 'a \<Rightarrow> 'a \<Rightarrow> bool" xs ys rule: grows.induct) auto

section \<open>A sample history\<close>

text \<open>
  A release is published, scanned, put in a pack and revoked. The host is concrete: digests are one
  fixed SHA-256 spelling, so every blob of the sample has the same one.
\<close>

definition sample_digest :: jstring where
  "sample_digest = js ''d''"

text \<open>No scanner is configured and unscanned distribution is allowed.\<close>

definition open_policy :: policy where
  "open_policy =
     \<lparr>po_revision = js ''policy_1'', po_scanners = [], po_allowUnscanned = True,
      po_evidenceMaxAgeSeconds = 60, po_hooks = []\<rparr>"

definition sample_host :: host where
  "sample_host =
     \<lparr>localeCompare = jstr_cmp, digestBytes = (\<lambda>bytes. sample_digest), dateParse = (\<lambda>_. Some 1000),
      stringToNumber = (\<lambda>_. NaN), parseUrl = (\<lambda>_. None), toLowerCase = (\<lambda>s. s), toISOString = (\<lambda>_. [])\<rparr>"

definition sample_deps :: deps where
  "sample_deps =
     \<lparr>dp_host = sample_host,
      dp_put = (\<lambda>bytes. Some \<lparr>blob_key = js ''key'', blob_digest = sample_digest, blob_size = length bytes\<rparr>),
      dp_bundle = \<lparr>bo_encode = (\<lambda>_. Inr ([1, 2, 3], 1)), bo_metadata = (\<lambda>_. Inr (js ''b'', js ''demo''))\<rparr>,
      dp_feed = (\<lambda>_ _. None), dp_provenance = (\<lambda>_ _ _. None), dp_org = js ''org''\<rparr>"

definition sample_admin :: principal where
  "sample_admin =
     \<lparr>pr_organizationId = js ''org'', pr_subject = js ''ada'', pr_roles = [Admin], pr_namespaces = None,
      pr_scopes = None, pr_identity = None\<rparr>"

definition sample_env :: env where
  "sample_env =
     \<lparr>en_now0 = 2000, en_now = 2000, en_skill = js ''skill_1'', en_job = js ''job_1'', en_pack = js ''pack_1'',
      en_policy = js ''policy_2'', en_hook = (\<lambda>_. []), en_authz = js ''auth_1'', en_ticket = js ''ticket_1'',
      en_grant = js ''grant_1'', en_receipt = js ''receipt_1'', en_lease = js ''lease_1'', en_audit = js ''audit_1'',
      en_upstream = js ''upstream_1''\<rparr>"

text \<open>The identifiers a second and a third request draw.\<close>

definition sample_env2 :: env where
  "sample_env2 = sample_env\<lparr>en_skill := js ''skill_2'', en_job := js ''job_2''\<rparr>"

definition sample_env3 :: env where
  "sample_env3 = sample_env2\<lparr>en_lease := js ''lease_3''\<rparr>"

definition sample_publication :: jsval where
  "sample_publication =
     JObj [(js ''name'', JStr (js ''@a/b'')), (js ''version'', JStr (js ''1.0.0'')), (js ''bundle'', JObj [])]"

definition sample_completion :: jsval where
  "sample_completion =
     JObj [(js ''leaseToken'', JStr (js ''lease_1''))]"

definition sample_pack :: jsval where
  "sample_pack =
     JObj [(js ''name'', JStr (js ''@a/p'')), (js ''version'', JStr (js ''1.0.0'')),
       (js ''skills'', JArr [JObj [(js ''ref'', JStr (js ''@a/b'')), (js ''version'', JStr (js ''1.0.0''))]])]"

definition s_empty :: registry_state where
  "s_empty = createEmptyRegistryState open_policy"

abbreviation "do_publish \<equiv> publishSkill sample_host (dp_put sample_deps) (dp_bundle sample_deps) (js ''org'')
  sample_publication sample_admin sample_env s_empty s_empty"

definition s_published :: registry_state where
  "s_published = fst (projr do_publish)"

definition s_claimed :: registry_state where
  "s_claimed = fst (claimJob (js ''org'') 600 sample_admin sample_env2 s_published)"

abbreviation "do_complete \<equiv> completeJob sample_host (dp_put sample_deps) (dp_bundle sample_deps) (dp_feed sample_deps)
  (dp_provenance sample_deps) (js ''org'') (js ''job_1'') sample_completion sample_admin sample_env3 s_claimed s_claimed"

definition s_approved :: registry_state where
  "s_approved = fst (projr do_complete)"

abbreviation "do_pack \<equiv> createPack sample_host (js ''org'') sample_pack sample_admin sample_env2 s_approved s_approved"

definition s_packed :: registry_state where
  "s_packed = fst (projr do_pack)"

abbreviation "do_revoke \<equiv> revokeSkill (js ''org'') (js ''skill_1'') sample_admin sample_env2 s_packed s_packed"

definition s_revoked :: registry_state where
  "s_revoked = fst (projr do_revoke)"

lemma isl_False: "\<not> isl r \<Longrightarrow> r = Inr (fst (projr r), snd (projr r))"
  by (cases r) auto

lemma sample_publish: "\<not> isl do_publish"
  by code_simp

lemma sample_complete: "\<not> isl do_complete"
  by code_simp


lemma sample_packed: "\<not> isl do_pack"
  by code_simp

lemma sample_revoke: "\<not> isl do_revoke"
  by code_simp

lemma sample_fresh: "fresh_ids sample_env s_empty" "fresh_ids sample_env2 s_published" "fresh_ids sample_env3 s_claimed"
  by code_simp+

definition sample_history :: "registry_state list" where
  "sample_history = [s_revoked, s_packed, s_approved, s_claimed, s_published, s_empty]"

lemma sample_deps_simps: "dp_org sample_deps = js ''org''" "dp_host sample_deps = sample_host"
  by (simp_all add: sample_deps_def)

lemma sample_reach_claimed: "reach initial_history (registry_step sample_deps) [s_claimed, s_published, s_empty]"
proof -
  note org = sample_deps_simps(1) and host = sample_deps_simps(2)
  have "reach initial_history (registry_step sample_deps) [s_empty]"
    by (rule reach_init) (auto simp: initial_history_def s_empty_def policy_runtime_ok_def open_policy_def
        intro!: exI [of _ open_policy])
  then have "reach initial_history (registry_step sample_deps) [s_published, s_empty]"
    by (rule reach_step) (rule registry_step.publish [OF _ sample_fresh(1)],
      rule list.set_intros(1), unfold org host s_published_def, rule isl_False, rule sample_publish)
  then show ?thesis
    by (rule reach_step) (use registry_step.claim [OF sample_fresh(2), of sample_deps "[s_empty]" 600 sample_admin] in
      \<open>simp add: org s_claimed_def\<close>)
qed

lemma sample_reach: "reach initial_history (registry_step sample_deps) sample_history"
proof -
  note org = sample_deps_simps(1) and host = sample_deps_simps(2)
  from sample_reach_claimed
  have "reach initial_history (registry_step sample_deps) [s_approved, s_claimed, s_published, s_empty]"
    by (rule reach_step) (rule registry_step.complete [OF _ sample_fresh(3)],
      rule list.set_intros(1), unfold org host s_approved_def, rule isl_False, rule sample_complete)
  then have "reach initial_history (registry_step sample_deps) [s_packed, s_approved, s_claimed, s_published, s_empty]"
    by (rule reach_step) (rule registry_step.pack,
      rule list.set_intros(1), unfold org host s_packed_def, rule isl_False, rule sample_packed)
  then show ?thesis
    unfolding sample_history_def
    by (rule reach_step) (rule registry_step.revoke,
      rule list.set_intros(1), unfold org host s_revoked_def, rule isl_False, rule sample_revoke)
qed

section \<open>Properties\<close>

text \<open>
  C13. No sequence of requests wedges the registry: every state that any interleaving of publications,
  packs, policy updates, rescans, revocations, installs, claims and completions commits passes the
  validation that the next request makes when it reads it.
\<close>

theorem committed_states_stay_readable:
  assumes "reach initial_history (registry_step d) hist" and "s \<in> set hist"
  shows "readState (dp_org d) s = Inr s"
  using history_state(1) [OF assms] by (auto simp: readState_Inr_iff registry_inv_def)

theorem committed_states_stay_readable_witness: "readState (js ''org'') s_packed = Inr s_packed"
  using committed_states_stay_readable [OF sample_reach, of s_packed]
  by (simp add: sample_history_def sample_deps_def)

text \<open>
  C14. A published release is immutable: in every later state of a history it is still there, with the
  same identifier, organization, name, version, description, artifact, creation time and file count,
  it keeps its evidence, and once it is revoked it stays revoked.
\<close>

theorem releases_are_immutable:
  assumes "reach initial_history (registry_step d) hist" and "i \<le> j" and "j < length hist"
    and "k \<in> set (st_skills (hist ! j))"
  shows "\<exists>k' \<in> set (st_skills (hist ! i)). release_identity k' = release_identity k \<and>
    (sk_state k = Revoked \<longrightarrow> sk_state k' = Revoked) \<and> set (sk_scanIds k) \<subseteq> set (sk_scanIds k')"
  using history_older [OF assms(1-3)] grows_in [OF _ assms(4)]
  by (fastforce simp: evolves_def skill_evolves_def)

theorem releases_are_immutable_witness:
  "\<exists>k' \<in> set (st_skills (sample_history ! 0)).
     release_identity k' = release_identity (hd (st_skills (sample_history ! 4)))"
proof -
  have "hd (st_skills (sample_history ! 4)) \<in> set (st_skills (sample_history ! 4))"
    by code_simp
  with releases_are_immutable [OF sample_reach, of 0 4] show ?thesis
    by (force simp: sample_history_def)
qed

text \<open>
  C16. The audit log and the evidence are append-only: what an earlier state of a history holds is a
  prefix of what every later one holds.
\<close>

theorem audit_and_evidence_append_only:
  assumes "reach initial_history (registry_step d) hist" and "i \<le> j" and "j < length hist"
  shows "(\<exists>events. st_audit (hist ! i) = st_audit (hist ! j) @ events) \<and>
    (\<exists>scans. st_scans (hist ! i) = st_scans (hist ! j) @ scans)"
  using history_older [OF assms] by (auto simp: evolves_def dest!: grows_eq_prefix)

theorem audit_and_evidence_append_only_witness:
  "\<exists>events. st_audit s_revoked = st_audit s_approved @ events"
  using audit_and_evidence_append_only [OF sample_reach, of 0 2] by (simp add: sample_history_def)

text \<open>
  A name and version names at most one release, and at most one pack, of a committed state, and
  an identifier at most one release.
\<close>

theorem name_and_version_identify:
  assumes "reach initial_history (registry_step d) hist" and "s \<in> set hist"
  shows "distinct (map (\<lambda>k. (sk_name k, sk_version k)) (st_skills s)) \<and>
    distinct (map (\<lambda>k. (pk_name k, pk_version k)) (st_packs s)) \<and> distinct (map sk_id (st_skills s))"
  using history_state(1) [OF assms] by (simp add: registry_inv_def)

theorem name_and_version_identify_witness:
  "distinct (map (\<lambda>k. (sk_name k, sk_version k)) (st_skills s_packed))"
  using name_and_version_identify [OF sample_reach, of s_packed] by (simp add: sample_history_def)

text \<open>
  C15. A pack that is still approved has no revoked member: each member is a release of the same state
  with the identifier, name, version and digest that the pack pinned, and it is not revoked.
\<close>

theorem approved_packs_have_no_revoked_member:
  assumes "reach initial_history (registry_step d) hist" and "s \<in> set hist"
    and "q \<in> set (st_packs s)" and "pk_state q = PackApproved" and "m \<in> set (pk_members q)"
  shows "\<exists>k \<in> set (st_skills s). sk_id k = pm_resourceId m \<and> sk_name k = pm_name m \<and>
    sk_version k = pm_version m \<and> blob_digest (sk_artifact k) = pm_digest m \<and> sk_state k \<noteq> Revoked"
  using history_state(1) [OF assms(1,2)] assms(3-5)
  by (auto simp: registry_inv_def pack_ok_def member_available_def)

theorem approved_packs_have_no_revoked_member_witness:
  "\<exists>k \<in> set (st_skills s_packed). sk_id k = pm_resourceId (hd (pk_members (hd (st_packs s_packed)))) \<and> sk_state k \<noteq> Revoked"
proof -
  have "hd (st_packs s_packed) \<in> set (st_packs s_packed)" "pk_state (hd (st_packs s_packed)) = PackApproved"
    "hd (pk_members (hd (st_packs s_packed))) \<in> set (pk_members (hd (st_packs s_packed)))"
    by code_simp+
  with approved_packs_have_no_revoked_member [OF sample_reach, of s_packed] show ?thesis
    by (force simp: sample_history_def)
qed

text \<open>
  C5. Revocation is final for every client: when a release was revoked in any state of the history,
  no resolution made against the newest state, of a skill or of a pack, by whatever reference and at
  whatever time, contains it.
\<close>

theorem revoked_release_never_resolves:
  assumes "reach initial_history (registry_step d) hist" and "s \<in> set hist"
    and "k \<in> set (st_skills s)" and "sk_state k = Revoked"
  shows "case resolveResource h now (hd hist) p kind ref version of
      Resolved res r \<Rightarrow> sk_id k \<notin> sk_id ` set (rs_members r) | _ \<Rightarrow> True"
proof -
  have "sk_id k \<notin> sk_id ` set (rs_members r)"
    if res: "resolveResource h now (hd hist) p kind ref version = Resolved res r" for res r
  proof
    assume "sk_id k \<in> sk_id ` set (rs_members r)"
    then obtain m where m: "m \<in> set (rs_members r)" "sk_id m = sk_id k" by auto
    note now = resolved_members [OF res m(1)]
    have "evolves s (hd hist)" by (rule history_state(2) [OF assms(1,2)])
    then obtain k' where k': "k' \<in> set (st_skills (hd hist))" "skill_evolves k k'"
      using grows_in [of skill_evolves "st_skills s"] assms(3) by (auto simp: evolves_def)
    have "hd hist \<in> set hist" using assms(2) by (cases hist) auto
    from history_state(1) [OF assms(1) this] have "distinct (map sk_id (st_skills (hd hist)))"
      by (simp add: registry_inv_def)
    then have "m = k'"
      using distinct_map_eq [of sk_id _ m k'] now k' m(2) skill_evolves_fields(1) [OF k'(2)] by simp
    with k'(2) assms(4) now show False by (simp add: skill_evolves_def skillCurrentlyApproved_def)
  qed
  then show ?thesis by (simp split: resolve_result.split)
qed

theorem revoked_release_never_resolves_witness:
  "(case resolveResource sample_host 2000 s_packed sample_admin PackKind (js ''@a/p'') None of
      Resolved res r \<Rightarrow> js ''skill_1'' \<in> sk_id ` set (rs_members r) | _ \<Rightarrow> False) \<and>
   (case resolveResource sample_host 2000 s_revoked sample_admin PackKind (js ''@a/p'') None of
      Resolved res r \<Rightarrow> js ''skill_1'' \<notin> sk_id ` set (rs_members r) | _ \<Rightarrow> True)"
proof
  show "case resolveResource sample_host 2000 s_packed sample_admin PackKind (js ''@a/p'') None of
      Resolved res r \<Rightarrow> js ''skill_1'' \<in> sk_id ` set (rs_members r) | _ \<Rightarrow> False"
    by code_simp
  have k: "hd (st_skills s_revoked) \<in> set (st_skills s_revoked)" "sk_state (hd (st_skills s_revoked)) = Revoked"
    "sk_id (hd (st_skills s_revoked)) = js ''skill_1''"
    by code_simp+
  then show "case resolveResource sample_host 2000 s_revoked sample_admin PackKind (js ''@a/p'') None of
      Resolved res r \<Rightarrow> js ''skill_1'' \<notin> sk_id ` set (rs_members r) | _ \<Rightarrow> True"
    using revoked_release_never_resolves [OF sample_reach _ k(1,2), of sample_host 2000 sample_admin PackKind "js ''@a/p''" None]
    unfolding k(3) by (simp add: sample_history_def)
qed

end
