(* ===== verification/Guarantees.thy ===== *)
theory Guarantees
  imports Lifecycle
begin

text \<open>
  What the registry promises to the people who use it: resolution and transfer serve only admitted
  bytes, a revocation or a policy change closes them at once, an approval written by a worker is one
  the gate agrees with, leases fence stale workers, and receipts are idempotent.
\<close>

section \<open>Resolution and transfer\<close>

lemma resolved_pack_pins:
  assumes "resolve_pack h now st p ref version = Resolved (PackResource q) r"
  shows "pk_state q = PackApproved \<and> map pm_resourceId (pk_members q) = map sk_id (rs_members r) \<and>
    map pm_digest (pk_members q) = map (\<lambda>k. blob_digest (sk_artifact k)) (rs_members r)"
proof -
  from assms obtain ks where q: "pk_state q = PackApproved" "pack_members now st p (pk_members q) = Some ks" "rs_members r = ks"
    by (rule resolve_pack_ResolvedD) auto
  have "list_all2 (\<lambda>m k. pm_resourceId m = sk_id k \<and> pm_digest m = blob_digest (sk_artifact k)) (pk_members q) ks"
    using pack_members_SomeD [OF q(2)] by (rule list_all2_mono) (auto dest: skill_by_idD)
  then have "map pm_resourceId (pk_members q) = map sk_id ks" "map pm_digest (pk_members q) = map (\<lambda>k. blob_digest (sk_artifact k)) ks"
    by (induction rule: list_all2_induct) auto
  with q show ?thesis by simp
qed

text \<open>
  C17. Resolution is sound: every member of a resolution is a release of the state, admitted by the
  gate at that instant and in a namespace the principal may read. A skill resolves to itself with the
  digest of its artifact; a pack resolves, only while it is approved, to exactly the releases it
  pinned, in order and with the pinned digests.
\<close>

theorem resolution_is_sound:
  assumes "resolveResource h now st p kind ref version = Resolved res r"
  shows "list_all (\<lambda>k. k \<in> set (st_skills st) \<and> skillCurrentlyApproved st k now \<and> canReadNamespace p (sk_name k))
      (rs_members r) \<and>
    (case res of
       SkillResource k \<Rightarrow> rs_members r = [k] \<and> rs_digest r = blob_digest (sk_artifact k) \<and> rs_resourceId r = sk_id k
     | PackResource q \<Rightarrow> pk_state q = PackApproved \<and> map pm_resourceId (pk_members q) = map sk_id (rs_members r) \<and>
         map pm_digest (pk_members q) = map (\<lambda>k. blob_digest (sk_artifact k)) (rs_members r))"
proof -
  have "list_all (\<lambda>k. k \<in> set (st_skills st) \<and> skillCurrentlyApproved st k now \<and> canReadNamespace p (sk_name k)) (rs_members r)"
    using resolved_members [OF assms] by (simp add: list_all_iff)
  moreover have "case res of
       SkillResource k \<Rightarrow> rs_members r = [k] \<and> rs_digest r = blob_digest (sk_artifact k) \<and> rs_resourceId r = sk_id k
     | PackResource q \<Rightarrow> pk_state q = PackApproved \<and> map pm_resourceId (pk_members q) = map sk_id (rs_members r) \<and>
         map pm_digest (pk_members q) = map (\<lambda>k. blob_digest (sk_artifact k)) (rs_members r)"
  proof (cases kind)
    case SkillKind
    then have "resolve_skill h now st p ref version = Resolved res r" using assms by (simp add: resolveResource_def)
    then show ?thesis by (rule resolve_skill_ResolvedD) (auto simp: skillResolution_def)
  next
    case PackKind
    then have pack: "resolve_pack h now st p ref version = Resolved res r" using assms by (simp add: resolveResource_def)
    then obtain q where "res = PackResource q" by (rule resolve_pack_ResolvedD) auto
    with resolved_pack_pins pack show ?thesis by auto
  qed
  ultimately show ?thesis ..
qed

abbreviation "sample_resolution \<equiv> resolveResource sample_host 2000 s_packed sample_admin PackKind (js ''@a/p'') None"

lemma sample_resolved: "\<exists>res r. sample_resolution = Resolved res r \<and> length (rs_members r) = 1"
proof -
  have "case sample_resolution of Resolved res r \<Rightarrow> length (rs_members r) = 1 | _ \<Rightarrow> False"
    by code_simp
  then show ?thesis by (cases sample_resolution) auto
qed

theorem resolution_is_sound_witness:
  "\<exists>res r. sample_resolution = Resolved res r \<and> length (rs_members r) = 1 \<and>
     list_all (\<lambda>k. skillCurrentlyApproved s_packed k 2000) (rs_members r)"
  using sample_resolved resolution_is_sound [of sample_host 2000 s_packed sample_admin PackKind "js ''@a/p''" None]
  by (fastforce simp: list_all_iff)

lemma serveTransferGrant_InrD:
  assumes "serveTransferGrant h get org grantId p now st = Inr bytes"
  obtains g a k where "find (\<lambda>g. gr_id g = grantId) (st_grants st) = Some g" "a \<in> set (st_authorizations st)"
    "gr_subject g = pr_subject p" "\<not> timestampExpired (Some (gr_expiresAt g)) now" "gr_organizationId g = org"
    "au_id a = gr_authorizationId g" "au_subject a = pr_subject p" "\<not> timestampExpired (Some (au_expiresAt a)) now"
    "assertCurrentResolution h now st p (au_resolution a) = Inr ()"
    "skill_by_id st (gr_resourceId g) = Some k" "skillCurrentlyApproved st k now"
    "blob_digest (sk_artifact k) = gr_digest g" "digestBytes h bytes = gr_digest g" "get (blob_key (sk_artifact k)) = Some bytes"
proof -
  obtain g a k where "find (\<lambda>g. gr_id g = grantId) (st_grants st) = Some g"
    and a: "find (\<lambda>a. au_id a = gr_authorizationId g \<and> au_subject a = gr_subject g) (st_authorizations st) = Some a"
    and "gr_subject g = pr_subject p" "\<not> timestampExpired (Some (gr_expiresAt g)) now" "gr_organizationId g = org"
    "\<not> timestampExpired (Some (au_expiresAt a)) now"
    "assertCurrentResolution h now st p (au_resolution a) = Inr ()"
    "skill_by_id st (gr_resourceId g) = Some k" "skillCurrentlyApproved st k now"
    "blob_digest (sk_artifact k) = gr_digest g" "digestBytes h bytes = gr_digest g" "get (blob_key (sk_artifact k)) = Some bytes"
    using assms by (auto simp: serveTransferGrant_def result_simps)
  with find_in_set [OF a] show ?thesis by (intro that [of g a k]) auto
qed

text \<open>
  C2. A transfer serves only admitted bytes: whatever the store returns, the bytes that leave the
  registry hash to the digest of a release of the state that the gate admits at that instant, under
  an unexpired grant and an unexpired authorization of the same subject whose resolution still holds.
\<close>

theorem transfer_serves_only_admitted_bytes:
  assumes "serveTransferGrant h get org grantId p now st = Inr bytes"
  shows "\<exists>g \<in> set (st_grants st). \<exists>a \<in> set (st_authorizations st). \<exists>k \<in> set (st_skills st).
    gr_id g = grantId \<and> gr_subject g = pr_subject p \<and> \<not> timestampExpired (Some (gr_expiresAt g)) now \<and>
    au_id a = gr_authorizationId g \<and> au_subject a = pr_subject p \<and> \<not> timestampExpired (Some (au_expiresAt a)) now \<and>
    assertCurrentResolution h now st p (au_resolution a) = Inr () \<and>
    sk_id k = gr_resourceId g \<and> skillCurrentlyApproved st k now \<and> digestBytes h bytes = blob_digest (sk_artifact k)"
proof -
  from assms obtain g a k where g: "find (\<lambda>g. gr_id g = grantId) (st_grants st) = Some g"
    and a: "a \<in> set (st_authorizations st)" and k: "skill_by_id st (gr_resourceId g) = Some k"
    and rest: "gr_subject g = pr_subject p" "\<not> timestampExpired (Some (gr_expiresAt g)) now"
    "au_id a = gr_authorizationId g" "au_subject a = pr_subject p" "\<not> timestampExpired (Some (au_expiresAt a)) now"
    "assertCurrentResolution h now st p (au_resolution a) = Inr ()" "skillCurrentlyApproved st k now"
    "digestBytes h bytes = blob_digest (sk_artifact k)"
    by (rule serveTransferGrant_InrD) auto
  show ?thesis
    using find_in_set [OF g] skill_by_idD [OF k] rest
    by (intro bexI [of _ g] bexI [OF _ a] bexI [of _ k]) auto
qed

section \<open>A sample install\<close>

text \<open>A registry with one admitted release, whose digest is spelled as the download route wants it.\<close>

definition ready_digest :: jstring where
  "ready_digest = js ''sha256:'' @ replicate 64 48"

definition ready_host :: host where
  "ready_host = sample_host\<lparr>digestBytes := (\<lambda>_. ready_digest)\<rparr>"

definition ready_release :: skill_version where
  "ready_release =
     \<lparr>sk_id = js ''skill_1'', sk_organizationId = js ''org'', sk_name = js ''@a/b'', sk_skillName = js ''b'',
      sk_version = js ''1.0.0'', sk_description = js ''demo'',
      sk_artifact = \<lparr>blob_key = js ''key'', blob_digest = ready_digest, blob_size = 3\<rparr>,
      sk_state = Approved, sk_policyRevision = js ''policy_1'', sk_createdAt = Stamp 1000,
      sk_approvedAt = Some (Stamp 1000), sk_fileCount = 1, sk_scanIds = []\<rparr>"

definition s_ready :: registry_state where
  "s_ready = s_empty\<lparr>st_skills := [ready_release]\<rparr>"

definition sample_request :: jsval where
  "sample_request = JObj [(js ''kind'', JStr (js ''skill'')), (js ''ref'', JStr (js ''@a/b''))]"

abbreviation "do_authorize \<equiv>
  createInstallAuthorization ready_host (js ''org'') sample_request sample_admin sample_env2 s_ready s_ready"

definition s_authorized :: registry_state where
  "s_authorized = fst (projr do_authorize)"

definition sample_download :: jsval where
  "sample_download = JObj [(js ''resourceId'', JStr (js ''skill_1'')), (js ''authorizationId'', JStr (js ''auth_1''))]"

abbreviation "do_grant \<equiv>
  createDownloadGrant ready_host (js ''org'') ready_digest sample_download sample_admin sample_env2 s_authorized s_authorized"

definition s_granted :: registry_state where
  "s_granted = fst (projr do_grant)"

lemma sample_grant: "\<not> isl do_grant"
  by code_simp

lemma sample_transfer:
  "serveTransferGrant ready_host (\<lambda>_. Some [1, 2, 3]) (js ''org'') (js ''grant_1'') sample_admin 3000 s_granted = Inr [1, 2, 3]"
  by code_simp

theorem transfer_serves_only_admitted_bytes_witness:
  "\<exists>g \<in> set (st_grants s_granted). \<exists>k \<in> set (st_skills s_granted).
     sk_id k = gr_resourceId g \<and> skillCurrentlyApproved s_granted k 3000 \<and>
     digestBytes ready_host [1, 2, 3] = blob_digest (sk_artifact k)"
  using transfer_serves_only_admitted_bytes [OF sample_transfer] by blast

section \<open>Closing the gate\<close>

lemma not_admitted_no_transfer:
  assumes "\<And>k. skill_by_id st (gr_resourceId g) = Some k \<Longrightarrow> \<not> skillCurrentlyApproved st k now"
    and "find (\<lambda>g. gr_id g = grantId) (st_grants st) = Some g"
  shows "isl (serveTransferGrant h get org grantId p now st)"
proof (cases "serveTransferGrant h get org grantId p now st")
  case (Inr bytes)
  then show ?thesis by (rule serveTransferGrant_InrD) (use assms in auto)
qed simp


definition sample_policy_document :: jsval where
  "sample_policy_document =
     JObj [(js ''scanners'', JArr []), (js ''allowUnscanned'', JBool True), (js ''evidenceMaxAgeSeconds'', JNum (Num 60))]"

abbreviation "do_policy \<equiv> updatePolicy ready_host (js ''org'') sample_policy_document sample_admin sample_env s_granted s_granted"

lemma sample_policy_update: "\<not> isl do_policy"
  by code_simp


lemma revoked_skill_by_id:
  assumes "revokeSkill org i p e s0 s = Inr (t, k)"
  shows "skill_by_id t i = Some k" and "sk_state k = Revoked"
proof -
  obtain skill where skill: "skill_by_id s i = Some skill" "k = skill\<lparr>sk_state := Revoked\<rparr>"
    and t: "t = appendAudit (audit p ''skill.revoke'' (Some i) org e)
       (s\<lparr>st_skills := update_first (\<lambda>k. sk_id k = i) (\<lambda>k. k\<lparr>sk_state := Revoked\<rparr>) (st_skills s),
          st_packs := map (revoke_pack i) (st_packs s)\<rparr>)"
    by (rule revokeSkill_InrE [OF assms]) blast
  have "sk_id skill = i" using skill_by_idD [OF skill(1)] by simp
  with skill show "skill_by_id t i = Some k"
    using find_update_first [of "\<lambda>k. sk_id k = i" "st_skills s" skill "\<lambda>k. k\<lparr>sk_state := Revoked\<rparr>"]
    by (simp add: t skill_by_id_def appendAudit_def)
  show "sk_state k = Revoked" by (simp add: skill)
qed

text \<open>
  C3. Revocation takes effect at once: in the state a revocation commits, the release is revoked,
  every pack that contains it is revoked, no resolution contains it and no outstanding grant for it
  is served.
\<close>

theorem revocation_takes_effect_at_once:
  assumes "revokeSkill org i p e s0 s = Inr (t, k)" and "distinct (map sk_id (st_skills s))"
  shows "skill_by_id t i = Some k \<and> sk_state k = Revoked \<and>
    (\<forall>q \<in> set (st_packs t). (\<exists>m \<in> set (pk_members q). pm_resourceId m = i) \<longrightarrow> pk_state q = PackRevoked) \<and>
    (case resolveResource h now t u kind ref version of Resolved res r \<Rightarrow> i \<notin> sk_id ` set (rs_members r) | _ \<Rightarrow> True) \<and>
    (case find (\<lambda>g. gr_id g = grantId) (st_grants t) of
       Some g \<Rightarrow> gr_resourceId g = i \<longrightarrow> isl (serveTransferGrant h get org' grantId u now t) | None \<Rightarrow> True)"
proof -
  note k = revoked_skill_by_id [OF assms(1)]
  have t: "st_packs t = map (revoke_pack i) (st_packs s)"
    "map sk_id (st_skills t) = map sk_id (st_skills s)"
    by (rule revokeSkill_InrE [OF assms(1)]; simp add: appendAudit_def map_update_first)+
  have closed: "\<not> skillCurrentlyApproved t k now" using k(2) by (simp add: skillCurrentlyApproved_def)
  have "i \<notin> sk_id ` set (rs_members r)" if "resolveResource h now t u kind ref version = Resolved res r" for res r
  proof
    assume "i \<in> sk_id ` set (rs_members r)"
    then obtain m where m: "m \<in> set (rs_members r)" "sk_id m = i" by auto
    note now = resolved_members [OF that m(1)]
    have "m = k"
      using distinct_map_eq [of sk_id "st_skills t" m k] assms(2) t(2) now m(2) skill_by_idD [OF k(1)] by simp
    with now closed show False by simp
  qed
  moreover have "isl (serveTransferGrant h get org' grantId u now t)"
    if "find (\<lambda>g. gr_id g = grantId) (st_grants t) = Some g" "gr_resourceId g = i" for g
    by (rule not_admitted_no_transfer [OF _ that(1)]) (use that(2) k(1) closed in simp)
  ultimately show ?thesis
    using k t(1) by (auto simp: revoke_pack_def split: resolve_result.split option.split)
qed

abbreviation "do_revoke_granted \<equiv> revokeSkill (js ''org'') (js ''skill_1'') sample_admin sample_env2 s_granted s_granted"

lemma sample_revoke_granted: "\<not> isl do_revoke_granted"
  by code_simp

theorem revocation_takes_effect_at_once_witness:
  "isl (serveTransferGrant ready_host (\<lambda>_. Some [1, 2, 3]) (js ''org'') (js ''grant_1'') sample_admin 3000
     (fst (projr do_revoke_granted)))"
proof -
  have ids: "distinct (map sk_id (st_skills s_granted))"
    by code_simp
  have "case find (\<lambda>g. gr_id g = js ''grant_1'') (st_grants (fst (projr do_revoke_granted))) of
      Some g \<Rightarrow> gr_resourceId g = js ''skill_1'' | None \<Rightarrow> False"
    by code_simp
  with revocation_takes_effect_at_once [OF isl_False [OF sample_revoke_granted] ids,
      where h = ready_host and now = 3000 and u = sample_admin and grantId = "js ''grant_1''"
        and get = "\<lambda>_. Some [1, 2, 3]" and org' = "js ''org''"]
  show ?thesis by (auto split: option.splits)
qed

text \<open>
  C19. A download grant is never issued on a stale plan: it is issued only for a member of a live
  authorization of the same subject, unexpired and with a resolution that still holds in the state
  the transaction sees, for that member's digest, and it expires one minute later.
\<close>

theorem grant_needs_live_authorization:
  assumes "createDownloadGrant h org digest body p e s0 s = Inr (t, g, n)"
  shows "\<exists>a \<in> set (st_authorizations s). au_id a = gr_authorizationId g \<and> au_subject a = pr_subject p \<and>
    \<not> timestampExpired (Some (au_expiresAt a)) (en_now e) \<and>
    assertCurrentResolution h (en_now e) s p (au_resolution a) = Inr () \<and>
    (\<exists>m \<in> set (rs_members (au_resolution a)). sk_id m = gr_resourceId g \<and> blob_digest (sk_artifact m) = gr_digest g) \<and>
    gr_digest g = digest \<and> gr_subject g = pr_subject p \<and> gr_expiresAt g = Stamp (en_now e + 60000) \<and>
    st_grants t = st_grants s @ [g]"
proof -
  from assms obtain a m where a: "live_authorization h (en_now e) s (gr_authorizationId g) p = Inr a"
    and m: "m \<in> set (rs_members (au_resolution a))" "sk_id m = gr_resourceId g" "blob_digest (sk_artifact m) = digest"
    and g: "gr_subject g = pr_subject p" "gr_digest g = digest"
      "gr_expiresAt g = Stamp (en_now e + TRANSFER_TTL_SECONDS * 1000)"
      "t = appendAudit (audit p ''artifact.download.grant'' (Some (gr_resourceId g)) org e)
       (s\<lparr>st_grants := st_grants s @ [g]\<rparr>)"
    by (rule createDownloadGrant_InrE)
  have "assertCurrentResolution h (en_now e) s p (au_resolution a) = Inr ()"
    using a by (auto simp: live_authorization_def result_simps)
  with live_authorization_InrD [OF a] m g show ?thesis
    by (intro bexI [of _ a] conjI bexI [of _ m]) (auto simp: TRANSFER_TTL_SECONDS_def appendAudit_def)
qed

theorem grant_needs_live_authorization_witness:
  "\<exists>g. st_grants s_granted = [g] \<and> gr_expiresAt g = Stamp 62000 \<and> gr_digest g = ready_digest"
proof -
  obtain g n where g: "do_grant = Inr (s_granted, g, n)"
    using isl_False [OF sample_grant] by (metis s_granted_def prod.collapse)
  have "st_grants s_authorized = []" "en_now sample_env2 = 2000"
    by code_simp+
  with grant_needs_live_authorization [OF g] show ?thesis by auto
qed

section \<open>Receipts\<close>

lemma find_filter_append_last:
  "\<forall>x \<in> set xs. \<not> P x \<Longrightarrow> P y \<Longrightarrow> R y \<Longrightarrow> find P (filter R (xs @ [y])) = Some y"
  by (induction xs) auto

text \<open>
  Reporting an install is idempotent: repeating an accepted report while the receipt is retained
  returns the stored receipt and creates nothing; a different report for the same authorization is a
  conflict; and another subject learns nothing about it.
\<close>

theorem receipt_report_is_idempotent:
  assumes "commit_receipt org p e i s = Inr (t, r, 201)"
    and "en_now e' \<le> en_now e + INSTALL_RECEIPT_RETENTION_SECONDS * 1000"
  shows "commit_receipt org p e' i t =
      Inr (t\<lparr>st_installReceipts := filter (retained_receipt (en_now e')) (st_installReceipts t)\<rparr>, r, 200) \<and>
    (ri_authorizationId i' = ri_authorizationId i \<longrightarrow> \<not> sameInstallReceiptInput r i' \<longrightarrow>
      commit_receipt org p e' i' t = Inl (RegistryApiError ''RECEIPT_CONFLICT'' 409 False)) \<and>
    (pr_subject q \<noteq> pr_subject p \<longrightarrow> commit_receipt org q e' i t = Inl unavailable)"
  using assms(1)
proof (cases rule: commit_receipt_InrE)
  case (created ti)
  then have t: "st_installReceipts t = filter (retained_receipt (en_now e)) (st_installReceipts s) @ [r]"
    by (auto simp: appendAudit_def)
  have r: "re_authorizationId r = ri_authorizationId i" "re_organizationId r = org" "re_subject r = pr_subject p"
    "sameInstallReceiptInput r i" "retained_receipt (en_now e') r"
    using created(9) assms(2) by (auto simp: new_receipt_def sameInstallReceiptInput_def retained_receipt_def)
  have found: "find (\<lambda>x. re_authorizationId x = ri_authorizationId i) (filter (retained_receipt (en_now e')) (st_installReceipts t)) = Some r"
    unfolding t by (rule find_filter_append_last) (use created(10) r in auto)
  show ?thesis
    using found r by (auto simp: commit_receipt_def Let_def)
qed simp

definition sample_receipt_input :: receipt_input where
  "sample_receipt_input =
     \<lparr>ri_authorizationId = js ''auth_1'', ri_changed = True, ri_agent = Codex, ri_platform = Linux,
      ri_clientVersion = js ''1''\<rparr>"

abbreviation "do_receipt \<equiv> commit_receipt (js ''org'') sample_admin sample_env2 sample_receipt_input s_authorized"

lemma sample_receipt: "\<exists>t r. do_receipt = Inr (t, r, 201)"
proof -
  have "case do_receipt of Inr (t, r, n) \<Rightarrow> n = 201 | Inl _ \<Rightarrow> False"
    by code_simp
  then show ?thesis by (auto split: sum.splits)
qed

theorem receipt_report_is_idempotent_witness:
  "\<exists>t r t'. do_receipt = Inr (t, r, 201) \<and>
     commit_receipt (js ''org'') sample_admin sample_env3 sample_receipt_input t = Inr (t', r, 200)"
proof -
  obtain t r where t: "do_receipt = Inr (t, r, 201)" using sample_receipt by blast
  have "en_now sample_env3 \<le> en_now sample_env2 + INSTALL_RECEIPT_RETENTION_SECONDS * 1000"
    by code_simp
  from receipt_report_is_idempotent [OF t this] t show ?thesis by blast
qed

text \<open>
  C20. Receipts and their tickets stay within the retention limits, and no authorization is ever
  counted twice: in every committed state at most one receipt exists per authorization.
\<close>

theorem receipts_unique_and_bounded:
  assumes "reach initial_history (registry_step d) hist" and "s \<in> set hist"
  shows "distinct (map re_authorizationId (st_installReceipts s)) \<and>
    length (st_installReceipts s) \<le> 100000 \<and> length (st_installReceiptTickets s) \<le> 100000"
  using history_state(1) [OF assms]
  by (simp add: registry_inv_def MAX_INSTALL_RECEIPTS_def MAX_INSTALL_RECEIPT_TICKETS_def)

theorem receipts_unique_and_bounded_witness: "length (st_installReceipts s_revoked) \<le> 100000"
  using receipts_unique_and_bounded [OF sample_reach, of s_revoked] by (simp add: sample_history_def)

end
