(* ===== verification/Worker_Protocol.thy ===== *)
theory Worker_Protocol
  imports Lifecycle
begin

text \<open>
  Guarantees of the leased worker protocol: an approval that a completion writes is one the gate
  agrees with, a policy change sends the job back to the queue, a lease fences every other worker,
  and what a worker reports is bound to its job.
\<close>

section \<open>Approvals\<close>

lemma find_append: "find P (xs @ ys) = (case find P xs of Some x \<Rightarrow> Some x | None \<Rightarrow> find P ys)"
  by (induction xs) auto

lemma latestScan_append:
  "latestScanForScanner (xs @ ys) sid =
     (case latestScanForScanner ys sid of Some r \<Rightarrow> Some r | None \<Rightarrow> latestScanForScanner xs sid)"
  by (simp add: latestScanForScanner_def find_append split: option.split)

lemma relevant_evidence_append:
  "relevant_evidence po (xs @ ys) digest = relevant_evidence po xs digest @ relevant_evidence po ys digest"
  by (simp add: relevant_evidence_def)

text \<open>Evidence that is appended is the latest, so older results do not change an approval.\<close>

lemma policy_admits_append:
  assumes "policy_admits po ys digest n now"
  shows "policy_admits po (xs @ ys) digest n now"
proof -
  have "evidence_complete po (relevant_evidence po (xs @ ys) digest) n now sc"
    if "evidence_complete po (relevant_evidence po ys digest) n now sc" for sc
    using that by (auto simp: evidence_complete_def relevant_evidence_append latestScan_append)
  with assms show ?thesis
    by (auto simp: policy_admits_def Let_def relevant_evidence_append split: if_splits)
qed

lemma approved_by_gate:
  assumes "ev_state (evaluatePolicy (st_policy t) scans (blob_digest (sk_artifact k)) (sk_fileCount k) now) = Approved"
    and "sk_state k = Approved" and "sk_policyRevision k = po_revision (st_policy t)"
    and "st_scans t = old @ scans" and "set (map sr_id scans) \<subseteq> set (sk_scanIds k)"
  shows "skillCurrentlyApproved t k now"
proof -
  have "filter (\<lambda>r. sr_id r \<in> set (sk_scanIds k)) scans = scans"
    using assms(5) by (auto simp: filter_id_conv)
  then have scans: "skill_scans t k = filter (\<lambda>r. sr_id r \<in> set (sk_scanIds k)) old @ scans"
    by (simp add: skill_scans_def assms(4))
  have "policy_admits (st_policy t) scans (blob_digest (sk_artifact k)) (sk_fileCount k) now"
    using assms(1) by (simp add: evaluatePolicy_approved_iff)
  then show ?thesis
    using assms(2,3) by (simp add: skillCurrentlyApproved_def evaluatePolicy_approved_iff scans policy_admits_append)
qed

lemma import_bundle_InrD:
  "import_bundle h put bo body j = Inr (Some ib) \<Longrightarrow> blob_digest (ib_stored ib) = ib_digest ib"
  by (auto simp: import_bundle_def putVerifiedBlob_def result_simps Let_def split: if_splits option.splits)

lemma job_policy_current:
  assumes "reach initial_history (registry_step d) hist" and "s \<in> set hist" and "j \<in> set (st_jobs s)"
    and "jb_policyRevision j = po_revision (st_policy s)"
  shows "jb_policy j = st_policy s"
proof -
  note inv = registry.reach_inv [OF assms(1)]
  have "jb_policy j \<in> st_policy ` set hist"
    using inv assms(2,3) unfolding history_ok_def job_policies_def by blast
  moreover have "po_revision (jb_policy j) = po_revision (st_policy s)"
    using history_state(1) [OF assms(1,2)] assms(3,4) by (auto simp: registry_inv_def lease_ok_def)
  ultimately show ?thesis
    using inv assms(2) by (auto simp: history_ok_def dest: inj_onD)
qed

text \<open>The effect of a scan completion on its release.\<close>

lemma complete_scan_effect:
  assumes "complete_scan org p e scans j s = Inr (t, j')"
  obtains skill :: skill_version and k and a :: stored_blob and ev
    where "skill_by_id s (sk_id skill) = Some skill" "jb_resourceId j' = Some (sk_id skill)"
    "skill_by_id t (sk_id skill) = Some k" "k = apply_scan (en_now e) j ev scans skill"
    "ev = evaluatePolicy (jb_policy j) scans (blob_digest a) (sk_fileCount skill) (en_now e)"
    "blob_digest (sk_artifact skill) = blob_digest a" "st_scans t = st_scans s @ scans" "st_policy t = st_policy s"
proof -
  obtain skill :: skill_version and a :: stored_blob and ev
    where r: "skill_by_id s (sk_id skill) = Some skill" "jb_resourceId j = Some (sk_id skill)"
      "blob_digest (sk_artifact skill) = blob_digest a"
      "ev = evaluatePolicy (jb_policy j) scans (blob_digest a) (sk_fileCount skill) (en_now e)"
      "j' = finish_job (en_now e) ev j"
      "t = appendAudit (audit p (''job.complete.'' @ state_name (ev_state ev)) (Some (jb_id j)) org e)
         (with_skill (sk_id skill) (apply_scan (en_now e) j ev scans)
            (with_job (jb_id j) j' (s\<lparr>st_scans := st_scans s @ scans\<rparr>)))"
    by (rule complete_scan_InrE [OF assms]) blast
  have skills: "st_skills t = update_first (\<lambda>k. sk_id k = sk_id skill) (apply_scan (en_now e) j ev scans) (st_skills s)"
    by (simp add: r(6) appendAudit_def with_skill_def with_job_def)
  have "skill_by_id t (sk_id skill) = Some (apply_scan (en_now e) j ev scans skill)"
    unfolding skill_by_id_def skills
    by (rule find_update_first) (use r(1) in \<open>simp_all add: skill_by_id_def apply_scan_def\<close>)
  with r show ?thesis
    by (intro that [of skill _ ev a]) (simp_all add: finish_job_def appendAudit_def with_skill_def with_job_def)
qed

text \<open>
  C4. An approval that a worker's completion writes is one the gate agrees with: when a completion
  committed on the newest state of a history finishes a job and its release is approved, the gate
  admits that release in the committed state at that instant.
\<close>

theorem completion_approves_only_what_the_gate_admits:
  assumes "reach initial_history (registry_step d) (s # past)" and "fresh_ids e s"
    and "completeJob h put bo fc pc (dp_org d) i body p e s0 s = Inr (t, j')"
    and "jb_state j' = JobCompleted" and "jb_resourceId j' = Some rid" and "skill_by_id t rid = Some k"
    and "sk_state k = Approved"
  shows "skillCurrentlyApproved t k (en_now e)"
proof -
  obtain leaseToken imported scans j0 where imp: "import_bundle h put bo body j0 = Inr imported"
    and "commit_completion fc pc (dp_org d) i leaseToken body p e imported scans s = Inr (t, j')"
    by (rule completeJob_InrE [OF assms(3)])
  then obtain c where c: "job_by_id s i = Some c"
    and outcome: "po_revision (st_policy s) \<noteq> jb_policyRevision c \<and> (t, j') = complete_requeue (dp_org d) p e c s \<or>
      po_revision (st_policy s) = jb_policyRevision c \<and>
       ((\<exists>err. err \<noteq> [] \<and> (t, j') = complete_failed (dp_org d) p e err c s) \<or>
        jb_kind c = ScanJob \<and> complete_scan (dp_org d) p e scans c s = Inr (t, j') \<or>
        jb_kind c = ImportJob \<and> complete_import pc (dp_org d) p e imported scans c s = Inr (t, j'))"
    by (elim commit_completion_InrE)
  have "jb_state (snd (complete_requeue (dp_org d) p e c s)) \<noteq> JobCompleted"
    "jb_state (snd (complete_failed (dp_org d) p e err c s)) \<noteq> JobCompleted" for err
    by (simp_all add: complete_requeue_def complete_failed_def requeue_job_def Let_def)
  with outcome assms(4) have rev: "jb_policyRevision c = po_revision (st_policy s)"
    and "complete_scan (dp_org d) p e scans c s = Inr (t, j') \<or>
      complete_import pc (dp_org d) p e imported scans c s = Inr (t, j')"
    by (metis snd_conv)+
  have pol: "jb_policy c = st_policy s"
    by (rule job_policy_current [OF assms(1) _ _ rev]) (use job_by_idD [OF c] in simp_all)
  from \<open>complete_scan (dp_org d) p e scans c s = Inr (t, j') \<or>
      complete_import pc (dp_org d) p e imported scans c s = Inr (t, j')\<close>
  show ?thesis
  proof
    assume "complete_scan (dp_org d) p e scans c s = Inr (t, j')"
    then obtain skill :: skill_version and k' and a :: stored_blob and ev where r: "jb_resourceId j' = Some (sk_id skill)"
      "skill_by_id t (sk_id skill) = Some k'" "k' = apply_scan (en_now e) c ev scans skill"
      "ev = evaluatePolicy (jb_policy c) scans (blob_digest a) (sk_fileCount skill) (en_now e)"
      "blob_digest (sk_artifact skill) = blob_digest a" "st_scans t = st_scans s @ scans"
      "st_policy t = st_policy s"
      by (rule complete_scan_effect)
    have k: "k = k'" using r(1,2) assms(5,6) by simp
    have "ev_state ev = Approved" using assms(7) by (auto simp: k r(3) apply_scan_def split: if_splits)
    then show ?thesis
      using assms(7) r rev pol by (intro approved_by_gate [of t scans]) (auto simp: k apply_scan_def)
  next
    assume "complete_import pc (dp_org d) p e imported scans c s = Inr (t, j')"
    then obtain rq ib ev skill where r: "imported = Some ib"
      "ev = evaluatePolicy (jb_policy c) scans (ib_digest ib) (ib_fileCount ib) (en_now e)"
      "skill = import_skill_record (dp_org d) e rq ib c ev scans"
      "j' = (finish_job (en_now e) ev c)\<lparr>jb_resourceId := Some (sk_id skill), jb_artifact := Some (ib_stored ib)\<rparr>"
      "t = appendAudit (audit p (''job.complete.'' @ state_name (ev_state ev)) (Some (jb_id c)) (dp_org d) e)
       (with_job (jb_id c) j' (s\<lparr>st_skills := st_skills s @ [skill], st_scans := st_scans s @ scans\<rparr>))"
      by (rule complete_import_InrE)
    have "find (\<lambda>k. sk_id k = en_skill e) (st_skills s) = None"
      using assms(2) by (force simp: fresh_ids_def find_None_iff)
    then have "k = skill"
      using assms(5,6) by (simp add: r(3-5) skill_by_id_def appendAudit_def with_job_def find_append import_skill_record_def)
    moreover have "blob_digest (sk_artifact skill) = ib_digest ib"
      using import_bundle_InrD imp r(1,3) by (simp add: import_skill_record_def)
    ultimately show ?thesis
      using assms(7) rev pol r
      by (intro approved_by_gate [of t scans]) (auto simp: import_skill_record_def appendAudit_def with_job_def)
  qed
qed

theorem completion_approves_only_what_the_gate_admits_witness:
  "skillCurrentlyApproved s_approved (hd (st_skills s_approved)) 2000"
proof -
  have prefix: "reach initial_history (registry_step sample_deps) [s_claimed, s_published, s_empty]"
    by (rule sample_reach_claimed)
  have "case do_complete of
      Inr (t, j) \<Rightarrow> jb_state j = JobCompleted \<and> jb_resourceId j = Some (js ''skill_1'') \<and>
        (case skill_by_id t (js ''skill_1'') of Some k \<Rightarrow> k = hd (st_skills t) \<and> sk_state k = Approved | None \<Rightarrow> False)
    | Inl _ \<Rightarrow> False"
    by code_simp
  then obtain j where j: "do_complete = Inr (s_approved, j)" "jb_state j = JobCompleted"
      "jb_resourceId j = Some (js ''skill_1'')" "skill_by_id s_approved (js ''skill_1'') = Some (hd (st_skills s_approved))"
      "sk_state (hd (st_skills s_approved)) = Approved"
    by (auto simp: s_approved_def split: sum.splits option.splits)
  have "en_now sample_env3 = 2000" "dp_org sample_deps = js ''org''"
    by (simp_all add: sample_env3_def sample_env2_def sample_env_def sample_deps_def)
  with completion_approves_only_what_the_gate_admits [OF prefix sample_fresh(3), of sample_host "dp_put sample_deps"
      "dp_bundle sample_deps" "dp_feed sample_deps" "dp_provenance sample_deps" "js ''job_1''" sample_completion
      sample_admin s_claimed s_approved j "js ''skill_1''" "hd (st_skills s_approved)"] j
  show ?thesis by simp
qed

section \<open>Leases\<close>

definition lease_valid :: "registry_state \<Rightarrow> jstring \<Rightarrow> jstring \<Rightarrow> int \<Rightarrow> bool" where
  "lease_valid s i tok now =
     (case job_by_id s i of
        None \<Rightarrow> False
      | Some j \<Rightarrow> jb_state j = Running \<and> jb_leaseToken j = Some tok \<and> \<not> timestampExpired (jb_leaseExpiresAt j) now)"

definition claim_with :: "jstring \<Rightarrow> int \<Rightarrow> principal \<Rightarrow> env \<Rightarrow> int \<Rightarrow> jstring \<Rightarrow> registry_state \<Rightarrow> (registry_state \<times> jstring) option" where
  "claim_with org leaseSeconds p e now tok s =
     (case claimJob org leaseSeconds p (e\<lparr>en_now := now, en_lease := tok\<rparr>) s of
        (t, Some j) \<Rightarrow> Some (t, jb_id j)
      | (_, None) \<Rightarrow> None)"

lemma find_distinct:
  assumes "find P xs = Some x" and "distinct (map f xs)"
  shows "find (\<lambda>y. f y = f x) xs = Some x"
  using assms
proof (induction xs)
  case (Cons a xs)
  then have "P a \<or> f a \<noteq> f x" using find_in_set [of P xs x] by (auto split: if_splits)
  with Cons show ?case by (auto split: if_splits)
qed simp

lemma find_key_update:
  assumes "find P xs = Some x" and "distinct (map f xs)" and "f (g x) = f x"
  shows "find (\<lambda>y. f y = k) (update_first P g xs) = (if k = f x then Some (g x) else find (\<lambda>y. f y = k) xs)"
  using assms
proof (induction xs)
  case (Cons a xs)
  show ?case
  proof (cases "P a")
    case False
    then have "x \<in> set xs" using Cons.prems(1) find_in_set [of P xs x] by simp
    then have "f x \<noteq> f a" using Cons.prems(2) by (metis distinct.simps(2) image_eqI list.simps(9) set_map)
    with False Cons show ?thesis by auto
  qed (use Cons.prems in auto)
qed simp

lemma claim_with_SomeD:
  assumes "claim_with org leaseSeconds p e now tok s = Some (t, i)"
  obtains c where "find (claimable org now) (st_jobs s) = Some c" "jb_id c = i"
    "st_jobs t = update_first (claimable org now) (claim_record leaseSeconds (e\<lparr>en_now := now, en_lease := tok\<rparr>)) (st_jobs s)"
  using assms
  by (auto simp: claim_with_def claimJob_def appendAudit_def claim_record_def split: option.splits)

lemma claim_with_job_by_id:
  assumes "claim_with org leaseSeconds p e now tok s = Some (t, i)" and "distinct (map jb_id (st_jobs s))"
  obtains c where "job_by_id s i = Some c" "claimable org now c"
    "\<And>i'. job_by_id t i' =
      (if i' = i then Some (claim_record leaseSeconds (e\<lparr>en_now := now, en_lease := tok\<rparr>) c) else job_by_id s i')"
proof -
  from assms(1) obtain c where c: "find (claimable org now) (st_jobs s) = Some c" "jb_id c = i"
    "st_jobs t = update_first (claimable org now) (claim_record leaseSeconds (e\<lparr>en_now := now, en_lease := tok\<rparr>)) (st_jobs s)"
    by (rule claim_with_SomeD)
  show ?thesis
  proof (rule that)
    show "job_by_id s i = Some c" using find_distinct [OF c(1) assms(2)] c(2) by (simp add: job_by_id_def)
    show "claimable org now c" using find_in_set [OF c(1)] by simp
    show "job_by_id t i' =
      (if i' = i then Some (claim_record leaseSeconds (e\<lparr>en_now := now, en_lease := tok\<rparr>) c) else job_by_id s i')" for i'
      using find_key_update [OF c(1) assms(2), of "claim_record leaseSeconds (e\<lparr>en_now := now, en_lease := tok\<rparr>)" i'] c(2)
      by (simp add: job_by_id_def c(3) claim_record_def)
  qed
qed

interpretation core_queue: leased_queue "\<lambda>s. distinct (map jb_id (st_jobs s))" "claim_with org leaseSeconds p e" lease_valid
  "\<lambda>now. now + leaseSeconds * 1000" for org leaseSeconds p e
proof unfold_locales
  fix s t :: registry_state and now now' :: int and tok tok' i i'
  assume inv: "distinct (map jb_id (st_jobs s))" and claim: "claim_with org leaseSeconds p e now tok s = Some (t, i)"
  from claim obtain c where c: "find (claimable org now) (st_jobs s) = Some c" "jb_id c = i"
    "st_jobs t = update_first (claimable org now) (claim_record leaseSeconds (e\<lparr>en_now := now, en_lease := tok\<rparr>)) (st_jobs s)"
    by (rule claim_with_SomeD)
  show "distinct (map jb_id (st_jobs t))"
    using inv by (simp add: c(3) map_update_found [OF c(1)] claim_record_def)
  obtain c' where c': "job_by_id s i = Some c'" "claimable org now c'"
    "\<And>i'. job_by_id t i' =
      (if i' = i then Some (claim_record leaseSeconds (e\<lparr>en_now := now, en_lease := tok\<rparr>) c') else job_by_id s i')"
    using claim_with_job_by_id [OF claim inv] by metis
  show "lease_valid t i tok' now' \<longleftrightarrow> tok' = tok \<and> now' < now + leaseSeconds * 1000"
    by (auto simp: lease_valid_def c'(3) claim_record_def timestampExpired_def)
  show "\<not> lease_valid s i tok' now"
    using c'(2) by (auto simp: lease_valid_def c'(1) claimable_def split: if_splits)
  show "i' \<noteq> i \<Longrightarrow> lease_valid t i' tok' now' \<longleftrightarrow> lease_valid s i' tok' now'"
    by (simp add: lease_valid_def c'(3))
next
  show "lease_valid s i tok now \<Longrightarrow> now' \<le> now \<Longrightarrow> lease_valid s i tok now'" for s i tok now now'
    by (auto simp: lease_valid_def timestampExpired_def split: option.splits)
qed

lemma commit_needs_lease:
  assumes "\<not> lease_valid s i tok (en_now e)"
  shows "commit_completion fc pc org i tok body p e imported scans s = Inl lease_fenced"
  using assms by (auto simp: commit_completion_def lease_valid_def split: option.split)

lemma completeJob_needs_lease:
  assumes "stringValue (get_prop body ''leaseToken'') = Some tok" and "\<not> lease_valid s i tok (en_now e)"
  shows "isl (completeJob h put bo fc pc org i body p e s0 s)"
proof (cases "completeJob h put bo fc pc org i body p e s0 s")
  case (Inr r)
  then obtain imported scans where
    "commit_completion fc pc org i tok body p e imported scans s = Inr r"
    using assms(1) by (cases r) (auto elim!: completeJob_InrE)
  with commit_needs_lease [OF assms(2)] show ?thesis by simp
qed simp

text \<open>
  C12. Leases fence stale workers: once a job has been claimed, a completion of that job with any
  other token fails, at any later instant and whatever snapshot it had read, and so does one with the
  right token after the lease has run out.
\<close>

theorem stale_worker_is_fenced:
  assumes "claim_with org leaseSeconds p e now tok s = Some (t, i)" and "distinct (map jb_id (st_jobs s))"
    and "stringValue (get_prop body ''leaseToken'') = Some tok'" and "tok' \<noteq> tok \<or> now + leaseSeconds * 1000 \<le> en_now e'"
  shows "isl (completeJob h put bo fc pc org i body p' e' s0 t)"
  by (rule completeJob_needs_lease [OF assms(3)]) (use core_queue.claim_valid [OF assms(2,1)] assms(4) in auto)

theorem stale_worker_is_fenced_witness:
  "\<exists>t. claim_with (js ''org'') 600 sample_admin sample_env 2000 (js ''lease_9'') s_published = Some (t, js ''job_1'') \<and>
     isl (completeJob sample_host (dp_put sample_deps) (dp_bundle sample_deps) (dp_feed sample_deps) (dp_provenance sample_deps)
       (js ''org'') (js ''job_1'') sample_completion sample_admin sample_env3 s_claimed t)"
proof -
  have "case claim_with (js ''org'') 600 sample_admin sample_env 2000 (js ''lease_9'') s_published of
      Some (t, i) \<Rightarrow> i = js ''job_1'' | None \<Rightarrow> False"
    by code_simp
  then obtain t where t: "claim_with (js ''org'') 600 sample_admin sample_env 2000 (js ''lease_9'') s_published = Some (t, js ''job_1'')"
    by (auto split: option.splits)
  have "distinct (map jb_id (st_jobs s_published))" and tok: "stringValue (get_prop sample_completion ''leaseToken'') = Some (js ''lease_1'')"
    by code_simp+
  from stale_worker_is_fenced [OF t this] t show ?thesis by auto
qed

fun claim_sequence :: "jstring \<Rightarrow> int \<Rightarrow> principal \<Rightarrow> env \<Rightarrow> (int \<times> jstring) list \<Rightarrow> registry_state \<Rightarrow> registry_state" where
  "claim_sequence org leaseSeconds p e [] s = s"
| "claim_sequence org leaseSeconds p e ((now, tok) # cs) s =
     claim_sequence org leaseSeconds p e cs (fst (claimJob org leaseSeconds p (e\<lparr>en_now := now, en_lease := tok\<rparr>) s))"

lemma claimJob_state:
  "fst (claimJob org ls p (e\<lparr>en_now := now, en_lease := tok\<rparr>) s) =
     (case claim_with org ls p e now tok s of None \<Rightarrow> s | Some (t, _) \<Rightarrow> t)"
  by (auto simp: claim_with_def claimJob_def split: option.split)

lemma claim_sequence_eq: "claim_sequence org ls p e cs s = core_queue.claims org ls p e cs s"
  by (induction cs arbitrary: s) (auto simp: claimJob_state)

text \<open>
  A live lease is exclusive and survives contention: while a worker's lease is valid, no sequence
  of other claims made before it runs out takes the job from it; its token stays the valid one, and
  no claim hands the job out a second time.
\<close>

theorem live_lease_survives_contention:
  assumes "distinct (map jb_id (st_jobs s))" and "lease_valid s i tok now" and "\<forall>(n, _) \<in> set cs. n \<le> now"
  shows "lease_valid (claim_sequence org leaseSeconds p e cs s) i tok now"
  unfolding claim_sequence_eq by (rule core_queue.lease_survives [OF assms])

theorem live_lease_survives_contention_witness:
  "lease_valid (claim_sequence (js ''org'') 600 sample_admin sample_env [(3000, js ''x''), (601999, js ''y'')] s_claimed)
     (js ''job_1'') (js ''lease_1'') 601999"
proof -
  have "distinct (map jb_id (st_jobs s_claimed))" "lease_valid s_claimed (js ''job_1'') (js ''lease_1'') 601999"
    by code_simp+
  then show ?thesis by (rule live_lease_survives_contention) simp
qed

lemma claim_record_simps:
  "jb_id (claim_record ls e c) = jb_id c" "jb_attempts (claim_record ls e c) = Suc (jb_attempts c)"
  "jb_state (claim_record ls e c) = Running" "jb_leaseToken (claim_record ls e c) = Some (en_lease e)"
  by (simp_all add: claim_record_def)


section \<open>Policy changes and evidence\<close>

text \<open>
  A completion that raced with a policy change approves nothing: when the policy of the committed
  state is not the one the job was claimed under, the job goes back to the queue under the new policy
  without a lease, no evidence is stored, and every approved release was approved before.
\<close>

theorem policy_race_requeues:
  assumes "completeJob h put bo fc pc org i body p e s0 s = Inr (t, j')" and "job_by_id s i = Some j"
    and "jb_policyRevision j \<noteq> po_revision (st_policy s)"
  shows "jb_state j' = Queued \<and> jb_leaseToken j' = None \<and> jb_policy j' = st_policy s \<and> st_scans t = st_scans s \<and>
    (\<forall>k \<in> set (st_skills t). sk_state k = Approved \<longrightarrow> k \<in> set (st_skills s))"
proof -
  obtain leaseToken imported scans where
    "commit_completion fc pc org i leaseToken body p e imported scans s = Inr (t, j')"
    by (rule completeJob_InrE [OF assms(1)])
  then have r: "(t, j') = complete_requeue org p e j s"
    using assms(2,3) by (auto elim!: commit_completion_InrE)
  have "k \<in> set (st_skills s)" if "k \<in> set (st_skills t)" "sk_state k = Approved" for k
    using that r
    by (auto simp: complete_requeue_def Let_def with_resource_def with_skill_def with_job_def appendAudit_def
        unless_revoked_def split: option.splits list.splits if_splits dest!: update_first_in)
  with r show ?thesis
    by (auto simp: complete_requeue_def requeue_job_def Let_def with_resource_def with_skill_def with_job_def
        appendAudit_def split: option.splits list.splits)
qed

definition s_raced :: registry_state where
  "s_raced = s_claimed\<lparr>st_policy := open_policy\<lparr>po_revision := js ''policy_2''\<rparr>\<rparr>"

abbreviation "do_raced \<equiv> completeJob sample_host (dp_put sample_deps) (dp_bundle sample_deps) (dp_feed sample_deps)
  (dp_provenance sample_deps) (js ''org'') (js ''job_1'') sample_completion sample_admin sample_env3 s_claimed s_raced"

lemma sample_raced: "\<not> isl do_raced"
  by code_simp

theorem policy_race_requeues_witness: "jb_state (snd (projr do_raced)) = Queued"
proof -
  have "case job_by_id s_raced (js ''job_1'') of
      Some j \<Rightarrow> jb_policyRevision j \<noteq> po_revision (st_policy s_raced) | None \<Rightarrow> False"
    by code_simp
  then obtain j where "job_by_id s_raced (js ''job_1'') = Some j" "jb_policyRevision j \<noteq> po_revision (st_policy s_raced)"
    by (auto split: option.splits)
  from policy_race_requeues [OF isl_False [OF sample_raced] this] show ?thesis by blast
qed


definition sample_scan_digest :: jstring where
  "sample_scan_digest = js ''sha256:'' @ replicate 64 48"

definition sample_result :: jsval where
  "sample_result =
     JObj [(js ''status'', JStr (js ''completed'')), (js ''scannerId'', JStr (js ''cisco-skill-scanner'')),
       (js ''artifactDigest'', JStr sample_scan_digest), (js ''organizationId'', JStr (js ''org'')),
       (js ''jobId'', JStr (js ''job_1'')), (js ''id'', JStr (js ''scan_1'')),
       (js ''policyRevision'', JStr (js ''policy_1'')), (js ''engineVersion'', JStr (js ''1'')),
       (js ''rulesRevision'', JStr (js ''1'')), (js ''configurationHash'', JStr (js ''c'')),
       (js ''findings'', JArr []), (js ''createdAt'', JStr (js ''then'')), (js ''durationMs'', JNum (Num 5)),
       (js ''coverage'', JObj [(js ''filesEnumerated'', JNum (Num 2)), (js ''filesAnalyzed'', JNum (Num 1)),
          (js ''filesSkipped'', JNum (Num 0)), (js ''filesUnsupported'', JNum (Num 1)),
          (js ''limitations'', JArr []), (js ''externalDestinations'', JArr [])])]"

definition sample_job :: job where
  "sample_job = new_scan_job (js ''org'') sample_env (js ''skill_1'') \<lparr>blob_key = [], blob_digest = sample_scan_digest, blob_size = 0\<rparr> open_policy"


end
