(* ===== verification/Scanner_Policy.thy ===== *)
theory Scanner_Policy
  imports Admission
begin

text \<open>
  The scanner side of admission, \<open>packages/scanners/src/policy.ts\<close> with the result builders of
  \<open>packages/scanners/src/util.ts\<close>: the worker runs the configured scanners over an artifact, decides
  for each required one whether its result satisfies the policy, and summarises the runs. The
  scanners themselves are adapters the caller injects: their \<open>scan\<close> is a field of the model's
  adapter record, and \<open>Inl\<close> means that it rejected.
\<close>

section \<open>Text and coverage\<close>

definition report_control :: "nat \<Rightarrow> bool" where
  "report_control c \<longleftrightarrow> c \<le> 8 \<or> c = 11 \<or> c = 12 \<or> (14 \<le> c \<and> c \<le> 31) \<or> c = 127"

definition boundedText :: "jstring \<Rightarrow> nat \<Rightarrow> jstring" where
  "boundedText text maxLength =
     (let clean = filter (\<lambda>c. \<not> report_control c) text in
      if length clean > maxLength then take (maxLength - 1) clean @ [8230] else clean)"

fun collect_limitations :: "jstring list \<Rightarrow> jstring list \<Rightarrow> jstring list" where
  "collect_limitations seen [] = seen"
| "collect_limitations seen (v # vs) =
     (let item = trim (boundedText v 1024) in
      if item \<noteq> [] \<and> item \<notin> set seen then collect_limitations (seen @ [item]) vs
      else collect_limitations seen vs)"

definition uniqueLimitations :: "jstring list \<Rightarrow> jstring list" where
  "uniqueLimitations vs = take 100 (collect_limitations [] vs)"

definition emptyCoverage :: "nat \<Rightarrow> jstring list \<Rightarrow> coverage" where
  "emptyCoverage enumerated ls =
     \<lparr>filesEnumerated = enumerated, filesAnalyzed = 0, filesSkipped = 0, filesUnsupported = 0,
      limitations = uniqueLimitations ls, externalDestinations = []\<rparr>"

text \<open>The path a report may name: relative, without empty, dot or parent segments.\<close>

definition slash_path :: "jstring \<Rightarrow> jstring" where
  "slash_path v =
     (let w = map (\<lambda>c. if c = 92 then 47 else c) v in if starts_with (js ''./'') w then drop 2 w else w)"

definition drive_path :: "jstring \<Rightarrow> bool" where
  "drive_path s \<longleftrightarrow> 3 \<le> length s \<and> (is_lower (s ! 0) \<or> is_upper (s ! 0)) \<and> s ! 1 = 58 \<and> s ! 2 = 47"

definition report_segment_ok :: "jstring \<Rightarrow> bool" where
  "report_segment_ok part \<longleftrightarrow> part \<noteq> [] \<and> part \<noteq> js ''.'' \<and> part \<noteq> js ''..'' \<and> 0 \<notin> set part"

definition normalizeFilePath :: "jstring \<Rightarrow> jstring option" where
  "normalizeFilePath value =
     (let candidate = slash_path value in
      if candidate = [] \<or> length candidate > 1024 \<or> starts_with (js ''/'') candidate \<or> drive_path candidate then None
      else if list_all report_segment_ok (split_on 47 candidate) then Some candidate else None)"

section \<open>Requests, results and adapters\<close>

record adapter_metadata =
  am_id :: scanner_id
  am_version :: jstring
  am_engineVersion :: jstring
  am_rulesRevision :: jstring
  am_configurationHash :: jstring

record scan_request =
  rq_organizationId :: jstring
  rq_jobId :: jstring
  rq_invocationId :: "jstring option"
  rq_artifactDigest :: jstring
  rq_policyRevision :: jstring
  rq_mode :: "scanner_mode option"
  rq_configuration :: "jsval option"
  rq_image :: "jstring option"
  rq_timeoutMs :: "rat option"

record scanner_result =
  sn_organizationId :: jstring
  sn_jobId :: jstring
  sn_invocationId :: jstring
  sn_artifactDigest :: jstring
  sn_policyRevision :: jstring
  sn_adapter :: adapter_metadata
  sn_status :: scan_status
  sn_durationMs :: int
  sn_coverage :: coverage
  sn_findings :: "finding list"
  sn_error :: "jstring option"

record scanner_adapter =
  ad_version :: jstring
  ad_engineVersion :: jstring
  ad_rulesRevision :: jstring
  ad_scan :: "scan_request \<Rightarrow> jstring + scanner_result"

text \<open>\<open>uuid\<close> is the invocation identifier drawn when the request has none.\<close>

definition resultBase ::
    "jstring \<Rightarrow> scan_request \<Rightarrow> scanner_id \<Rightarrow> adapter_metadata \<Rightarrow> scan_status \<Rightarrow> rat \<Rightarrow> coverage \<Rightarrow> finding list \<Rightarrow>
     jstring option \<Rightarrow> scanner_result" where
  "resultBase uuid rq sid metadata status durationMs cov fs err =
     \<lparr>sn_organizationId = boundedText (rq_organizationId rq) 128, sn_jobId = boundedText (rq_jobId rq) 128,
      sn_invocationId = (case rq_invocationId rq of Some i \<Rightarrow> i | None \<Rightarrow> uuid),
      sn_artifactDigest = rq_artifactDigest rq, sn_policyRevision = boundedText (rq_policyRevision rq) 128,
      sn_adapter = metadata\<lparr>am_id := sid\<rparr>, sn_status = status, sn_durationMs = max 0 \<lfloor>durationMs\<rfloor>,
      sn_coverage = cov, sn_findings = fs,
      sn_error = (case err of Some (c # cs) \<Rightarrow> Some (boundedText (c # cs) 2048) | _ \<Rightarrow> None)\<rparr>"

definition zero_hash :: jstring where
  "zero_hash = js ''sha256:'' @ replicate 64 48"

definition disabledResult ::
    "jstring \<Rightarrow> scan_request \<Rightarrow> scanner_policy \<Rightarrow> scanner_adapter option \<Rightarrow> scanner_result" where
  "disabledResult uuid rq po adapter =
     resultBase uuid rq (sp_id po)
       (case adapter of
          Some a \<Rightarrow> \<lparr>am_id = sp_id po, am_version = ad_version a, am_engineVersion = ad_engineVersion a,
                     am_rulesRevision = ad_rulesRevision a, am_configurationHash = zero_hash\<rparr>
        | None \<Rightarrow> \<lparr>am_id = sp_id po, am_version = js ''unavailable'', am_engineVersion = js ''unavailable'',
                   am_rulesRevision = js ''unavailable'', am_configurationHash = zero_hash\<rparr>)
       Unsupported 0 (emptyCoverage 0 [js ''scanner disabled by policy'']) [] (Some (js ''scanner disabled by policy''))"

definition unavailableResult :: "jstring \<Rightarrow> scan_request \<Rightarrow> scanner_policy \<Rightarrow> scanner_result" where
  "unavailableResult uuid rq po =
     resultBase uuid rq (sp_id po)
       \<lparr>am_id = sp_id po, am_version = js ''unavailable'', am_engineVersion = js ''not-installed'',
        am_rulesRevision = js ''unavailable'', am_configurationHash = zero_hash\<rparr>
       Unsupported 0 (emptyCoverage 0 [js ''scanner adapter is not installed'']) []
       (Some (js ''engine not installed: '' @ js (scanner_name (sp_id po))))"

section \<open>Running and judging\<close>

definition accepted_limitations :: "scanner_policy \<Rightarrow> jstring list" where
  "accepted_limitations po =
     (case sp_configuration po of
        None \<Rightarrow> []
      | Some c \<Rightarrow> (case arr_of (get_prop c ''acceptedCoverageLimitations'') of
          None \<Rightarrow> []
        | Some vs \<Rightarrow> List.map_filter str_of vs))"

definition requiredResultSatisfies :: "scanner_result \<Rightarrow> scanner_policy \<Rightarrow> bool" where
  "requiredResultSatisfies r po =
     (if sn_status r \<noteq> Completed then False
      else if filesAnalyzed (sn_coverage r) = 0 then False
      else if (filesSkipped (sn_coverage r) > 0 \<or> filesUnsupported (sn_coverage r) > 0) \<and>
              (\<exists>l \<in> set (limitations (sn_coverage r)). l \<notin> set (accepted_limitations po)) then False
      else \<not> (\<exists>f \<in> set (sn_findings r). fi_severity f \<in> set (sp_blockSeverities po)))"

datatype gate = Satisfied | Blocked | AdvisoryGate | DisabledGate

record scanner_run =
  ru_policy :: scanner_policy
  ru_result :: scanner_result
  ru_gate :: gate

definition gate_of :: "scanner_result \<Rightarrow> scanner_policy \<Rightarrow> gate" where
  "gate_of r po =
     (if sp_mode po = Required \<and> \<not> requiredResultSatisfies r po then Blocked
      else if sp_mode po = Required then Satisfied else AdvisoryGate)"

definition adapter_request :: "(scanner_id \<Rightarrow> jstring option) \<Rightarrow> scan_request \<Rightarrow> scanner_policy \<Rightarrow> scan_request" where
  "adapter_request imageForScanner rq po =
     rq\<lparr>rq_mode := Some (sp_mode po), rq_configuration := sp_configuration po,
        rq_image := imageForScanner (sp_id po), rq_timeoutMs := Some (max 1 (sp_timeoutSeconds po) * 1000)\<rparr>"

definition run_scanner ::
    "jstring \<Rightarrow> scan_request \<Rightarrow> (scanner_id \<Rightarrow> scanner_adapter option) \<Rightarrow> (scanner_id \<Rightarrow> jstring option) \<Rightarrow> scanner_policy \<Rightarrow>
     jstring + scanner_run" where
  "run_scanner uuid rq lookup imageForScanner po =
     (if sp_mode po = Disabled then
        Inr \<lparr>ru_policy = po, ru_result = disabledResult uuid rq po (lookup (sp_id po)), ru_gate = DisabledGate\<rparr>
      else case lookup (sp_id po) of
        None \<Rightarrow> Inr \<lparr>ru_policy = po, ru_result = unavailableResult uuid rq po,
                     ru_gate = (if sp_mode po = Required then Blocked else AdvisoryGate)\<rparr>
      | Some adapter \<Rightarrow>
          bindr (ad_scan adapter (adapter_request imageForScanner rq po)) (\<lambda>r.
            Inr \<lparr>ru_policy = po, ru_result = r, ru_gate = gate_of r po\<rparr>))"

definition runConfiguredScanners ::
    "jstring \<Rightarrow> scan_request \<Rightarrow> scanner_policy list \<Rightarrow> (scanner_id \<Rightarrow> scanner_adapter option) \<Rightarrow>
     (scanner_id \<Rightarrow> jstring option) \<Rightarrow> jstring + scanner_run list" where
  "runConfiguredScanners uuid rq policies lookup imageForScanner =
     mapr (run_scanner uuid rq lookup imageForScanner) policies"

record runs_evaluation =
  re_allow :: bool
  re_unscanned :: bool
  re_blockedBy :: "scanner_id list"
  re_warnings :: "jstring list"

definition joined_limitations :: "scanner_result \<Rightarrow> jstring" where
  "joined_limitations r =
     (case limitations (sn_coverage r) of [] \<Rightarrow> [] | l # ls \<Rightarrow> l @ concat (map (\<lambda>x. js ''; '' @ x) ls))"

definition run_warnings :: "scanner_run \<Rightarrow> jstring list" where
  "run_warnings run =
     (let name = js (scanner_name (sp_id (ru_policy run))); r = ru_result run in
      if sp_mode (ru_policy run) = Disabled then [name @ js '' disabled by policy'']
      else (if sp_mode (ru_policy run) = Advisory \<and> sn_status r \<noteq> Completed
            then [name @ js '' '' @ js (status_name (sn_status r)) @ js '': '' @
                  (case sn_error r of Some e \<Rightarrow> e | None \<Rightarrow> joined_limitations r)] else []) @
           (if limitations (sn_coverage r) \<noteq> []
            then [name @ js '' coverage limitation: '' @ joined_limitations r] else []))"

definition enabled_run :: "scanner_run \<Rightarrow> bool" where
  "enabled_run run \<longleftrightarrow> sp_mode (ru_policy run) \<noteq> Disabled"

definition evaluateRuns :: "scanner_run list \<Rightarrow> bool \<Rightarrow> runs_evaluation" where
  "evaluateRuns runs allowUnscanned =
     (let blocked = map (\<lambda>r. sp_id (ru_policy r))
            (filter (\<lambda>r. sp_mode (ru_policy r) = Required \<and> ru_gate r = Blocked) runs);
          blockedBy = blocked @
            (if \<not> (\<exists>r \<in> set runs. enabled_run r) \<and> \<not> allowUnscanned
             then map (\<lambda>r. sp_id (ru_policy r)) (filter (\<lambda>r. \<not> enabled_run r) runs) else []) in
      \<lparr>re_allow = (blockedBy = []), re_unscanned = (\<exists>r \<in> set runs. \<not> enabled_run r),
       re_blockedBy = unique blockedBy, re_warnings = unique (concat (map run_warnings runs))\<rparr>)"

section \<open>Facts\<close>

lemma length_boundedText: "0 < n \<Longrightarrow> length (boundedText s n) \<le> n"
  by (auto simp: boundedText_def Let_def)

lemma unavailable_never_satisfies:
  "\<not> requiredResultSatisfies (unavailableResult uuid rq po) po'" "\<not> requiredResultSatisfies (disabledResult uuid rq po a) po'"
  by (simp_all add: requiredResultSatisfies_def unavailableResult_def disabledResult_def resultBase_def)

lemma run_scanner_Inr:
  assumes "run_scanner uuid rq lookup img po = Inr run"
  shows "ru_policy run = po"
    and "sp_mode po = Required \<Longrightarrow> ru_gate run = (if requiredResultSatisfies (ru_result run) po then Satisfied else Blocked)"
  using assms unavailable_never_satisfies(1) [of uuid rq po po]
  by (auto simp: run_scanner_def result_simps gate_of_def split: if_splits option.splits)

lemma runs_policies:
  "runConfiguredScanners uuid rq policies lookup img = Inr runs \<Longrightarrow> map ru_policy runs = policies"
  unfolding runConfiguredScanners_def mapr_Inr_iff
  by (induction policies runs rule: list_all2_induct) (auto dest: run_scanner_Inr)

lemma runs_gate:
  assumes "runConfiguredScanners uuid rq policies lookup img = Inr runs" and "run \<in> set runs"
    and "sp_mode (ru_policy run) = Required"
  shows "ru_gate run = (if requiredResultSatisfies (ru_result run) (ru_policy run) then Satisfied else Blocked)"
proof -
  obtain po where "run_scanner uuid rq lookup img po = Inr run"
    using assms(1,2) unfolding runConfiguredScanners_def by (blast dest: mapr_InrD)
  with run_scanner_Inr [OF this] assms(3) show ?thesis by simp
qed

section \<open>Properties\<close>


definition sample_scan_request :: scan_request where
  "sample_scan_request =
     \<lparr>rq_organizationId = js ''org'', rq_jobId = js ''job_1'', rq_invocationId = None, rq_artifactDigest = js ''d'',
      rq_policyRevision = js ''policy_1'', rq_mode = None, rq_configuration = None, rq_image = None, rq_timeoutMs = None\<rparr>"


text \<open>
  The worker never blocks what the registry would admit: a result whose status, coverage and
  findings are complete evidence for the registry satisfies the worker's requirement for the same
  scanner policy.
\<close>

theorem registry_evidence_satisfies_worker:
  assumes "evidence_complete po relevant fileCount now sc" and "latestScanForScanner relevant (sp_id sc) = Some r"
    and "sn_status wr = sr_status r" and "sn_coverage wr = sr_coverage r" and "sn_findings wr = sr_findings r"
  shows "requiredResultSatisfies wr sc"
  using assms by (auto simp: evidence_complete_def requiredResultSatisfies_def has_blocking_def)

definition sample_wire_result :: scanner_result where
  "sample_wire_result =
     (unavailableResult (js ''u'') sample_scan_request sample_scanner)
       \<lparr>sn_status := Completed, sn_coverage := sr_coverage sample_scan, sn_findings := []\<rparr>"

theorem registry_evidence_satisfies_worker_witness: "requiredResultSatisfies sample_wire_result sample_scanner"
proof (rule registry_evidence_satisfies_worker)
  show "evidence_complete sample_policy [sample_scan] 1 2000 sample_scanner"
    by (simp add: evidence_complete_def latestScanForScanner_def evidenceExpired_def has_blocking_def sample_scan_def
        sample_scanner_def sample_policy_def)
  show "latestScanForScanner [sample_scan] (sp_id sample_scanner) = Some sample_scan"
    by (simp add: latestScanForScanner_def sample_scan_def sample_scanner_def)
qed (simp_all add: sample_wire_result_def sample_scan_def)

text \<open>
  The converse fails: a completed result that skipped files but names no limitation satisfies the
  worker's requirement although no administrator accepted anything, while the registry refuses it;
  and with no scanner configured the worker allows an artifact even when unscanned artifacts are not
  allowed, which the registry refuses too.
\<close>

theorem worker_and_registry_disagree:
  "(let wr = sample_wire_result\<lparr>sn_coverage := \<lparr>filesEnumerated = 9, filesAnalyzed = 1, filesSkipped = 8,
        filesUnsupported = 0, limitations = [], externalDestinations = []\<rparr>\<rparr>;
       r = sample_scan\<lparr>sr_coverage := sn_coverage wr\<rparr> in
     requiredResultSatisfies wr sample_scanner \<and>
     ev_state (evaluatePolicy sample_policy [r] (js ''digest'') 9 2000) = ScanError) \<and>
   re_allow (evaluateRuns [] False) \<and>
   ev_state (evaluatePolicy (sample_policy\<lparr>po_scanners := [], po_allowUnscanned := False\<rparr>) [] digest n now) = ScanError"
  by (simp add: requiredResultSatisfies_def sample_wire_result_def unavailableResult_def resultBase_def
      evaluatePolicy_def sample_policy_def sample_scanner_def sample_scan_def required_scanners_def enabled_scanners_def
      relevant_evidence_def check_required_def latestScanForScanner_def evidenceExpired_def deny_def evaluateRuns_def Let_def)

lemma split_on_join:
  "concat (map (\<lambda>w. w @ [c]) (split_on c s)) = s @ [c]"
proof (induction s)
  case (Cons x xs)
  then show ?case by (cases "split_on c xs") auto
qed simp

text \<open>
  A file name a scanner reports cannot leave the artifact: an accepted path is relative, at most
  1024 code units, has no backslash, no NUL and no empty, dot or parent segment, and normalising it
  again changes nothing.
\<close>

theorem reported_path_stays_inside:
  assumes "normalizeFilePath value = Some path"
  shows "\<not> starts_with (js ''/'') path \<and> 92 \<notin> set path \<and> 0 < length path \<and> length path \<le> 1024 \<and>
    (\<forall>part \<in> set (split_on 47 path). report_segment_ok part) \<and> normalizeFilePath path = Some path"
proof -
  have p: "path = slash_path value" "path \<noteq> []" "length path \<le> 1024" "\<not> starts_with (js ''/'') path"
    "\<not> drive_path path" "list_all report_segment_ok (split_on 47 path)"
    using assms by (auto simp: normalizeFilePath_def Let_def split: if_splits)
  have "92 \<notin> set (map (\<lambda>c. if c = 92 then 47 else c) value)" by auto
  then have no_back: "92 \<notin> set path"
    unfolding p(1) slash_path_def by (auto simp: Let_def split: if_splits dest!: in_set_dropD simp del: set_map)
  have "\<not> starts_with (js ''./'') path"
  proof
    assume "starts_with (js ''./'') path"
    then obtain rest where "path = 46 # 47 # rest"
      by (cases path; cases "tl path") (auto simp: starts_with_def js_def)
    then have "[46] \<in> set (split_on 47 path)" by simp
    with p(6) show False by (auto simp: list_all_iff report_segment_ok_def js_def)
  qed
  moreover have "map (\<lambda>c. if c = 92 then 47 else c) path = path"
    using no_back by (auto intro!: map_idI)
  ultimately have "slash_path path = path" by (simp add: slash_path_def)
  with p no_back show ?thesis by (auto simp: normalizeFilePath_def list_all_iff)
qed

theorem reported_path_stays_inside_witness: "normalizeFilePath (js ''a/b.md'') = Some (js ''a/b.md'')"
proof -
  have "normalizeFilePath (js ''./a'' @ [92] @ js ''b.md'') = Some (js ''a/b.md'')"
    by code_simp
  from reported_path_stays_inside [OF this] show ?thesis by simp
qed

end
