(* ===== verification/Review_Input.thy ===== *)
theory Review_Input
  imports Text_Encoding Redaction
begin

text \<open>
  The data model and the input validation of \<open>packages/upload-reviews/src/index.ts\<close>: bindings,
  snapshots, findings, jobs and results as records, the validators over the \<open>unknown\<close> values that
  reach them, the clock, and the default idempotency key. All validation errors carry one code, so
  the order of the checks inside a validator does not show; the texts of the messages are left out.
\<close>

section \<open>Errors\<close>

text \<open>
  \<open>UploadReviewError\<close> with its code and retry flag, and the \<open>RangeError\<close> that
  \<open>Date.prototype.toISOString\<close> throws outside the range of dates.
\<close>

datatype review_error = UploadReviewError (review_code: string) (review_retryable: bool) | RangeError

type_synonym 'a review = "review_error + 'a"

definition review_invalid :: review_error where
  "review_invalid = UploadReviewError ''INVALID_UPLOAD_REVIEW_INPUT'' False"

definition review_not_found :: review_error where
  "review_not_found = UploadReviewError ''UPLOAD_REVIEW_NOT_FOUND'' False"

definition review_conflict :: review_error where
  "review_conflict = UploadReviewError ''UPLOAD_REVIEW_CONFLICT'' False"

definition review_binding_stale :: review_error where
  "review_binding_stale = UploadReviewError ''UPLOAD_REVIEW_BINDING_STALE'' False"

definition review_fenced :: review_error where
  "review_fenced = UploadReviewError ''UPLOAD_REVIEW_LEASE_FENCED'' False"

definition review_lease_expired :: review_error where
  "review_lease_expired = UploadReviewError ''UPLOAD_REVIEW_LEASE_EXPIRED'' True"

definition review_retention :: review_error where
  "review_retention = UploadReviewError ''UPLOAD_REVIEW_RETENTION_LIMIT'' False"

lemmas review_errors = review_invalid_def review_not_found_def review_conflict_def
  review_binding_stale_def review_fenced_def review_lease_expired_def review_retention_def

section \<open>Data\<close>

datatype review_state = RPending | RRunning | RPassed | RFailed | RStale

datatype file_kind = TextFile | BinaryFile | OversizeFile

datatype finding_decision = Open | Acknowledged | Dismissed

record binding =
  bi_draftId :: jstring
  bi_draftRevision :: nat
  bi_contentDigest :: jstring
  bi_baseReleaseId :: "jstring option"
  bi_baseReleaseVersion :: "jstring option"
  bi_baseDigest :: "jstring option"
  bi_policyRevision :: jstring

record snapshot_file =
  sf_path :: jstring
  sf_kind :: file_kind
  sf_size :: nat
  sf_digest :: jstring
  sf_text :: "jstring option"

text \<open>A snapshot has \<open>files\<close> as its only field.\<close>

type_synonym snapshot = "snapshot_file list"

record review_finding =
  rf_id :: jstring
  rf_severity :: severity
  rf_category :: jstring
  rf_title :: jstring
  rf_summary :: jstring
  rf_evidence :: "jstring option"
  rf_recommendation :: "jstring option"
  rf_path :: "jstring option"
  rf_line :: "nat option"
  rf_decision :: finding_decision
  rf_decisionReason :: "jstring option"

record review_job =
  rj_id :: jstring
  rj_organizationId :: jstring
  rj_idempotencyKey :: jstring
  rj_binding :: binding
  rj_snapshot :: snapshot
  rj_model :: jstring
  rj_reviewerRevision :: jstring
  rj_state :: review_state
  rj_createdAt :: timestamp
  rj_updatedAt :: timestamp
  rj_startedAt :: "timestamp option"
  rj_finishedAt :: "timestamp option"
  rj_error :: "jstring option"
  rj_staleReason :: "jstring option"
  rj_resultId :: "jstring option"
  rj_eveSessionId :: "jstring option"
  rj_leaseToken :: "jstring option"
  rj_leaseExpiresAt :: "timestamp option"

record review_result =
  rr_id :: jstring
  rr_jobId :: jstring
  rr_organizationId :: jstring
  rr_binding :: binding
  rr_model :: jstring
  rr_reviewerRevision :: jstring
  rr_state :: review_state
  rr_findings :: "review_finding list"
  rr_createdAt :: timestamp
  rr_finishedAt :: timestamp
  rr_error :: "jstring option"
  rr_staleReason :: "jstring option"

section \<open>Bounded strings\<close>

definition boundedString :: "jsval \<Rightarrow> nat \<Rightarrow> jstring review" where
  "boundedString v maximum =
     (case str_of v of
        None \<Rightarrow> Inl review_invalid
      | Some s \<Rightarrow>
          let result = trim s in
          if result = [] then Inl review_invalid
          else if length result > maximum then Inl review_invalid
          else if list_ex is_control result then Inl review_invalid
          else Inr result)"

text \<open>\<open>[...value].length\<close>: code points, a lone surrogate counting as one.\<close>

fun code_points :: "jstring \<Rightarrow> nat" where
  "code_points [] = 0"
| "code_points (c # r) =
     (case r of
        [] \<Rightarrow> 1
      | l # r' \<Rightarrow> if is_high c \<and> is_low l then Suc (code_points r') else Suc (code_points r))"

definition text_control :: "nat \<Rightarrow> bool" where
  "text_control c \<longleftrightarrow> is_control c \<and> c \<noteq> 9 \<and> c \<noteq> 10 \<and> c \<noteq> 13"

definition bounded_text :: "jsval \<Rightarrow> nat \<Rightarrow> bool \<Rightarrow> jstring review" where
  "bounded_text v maximum allowEmpty =
     (case str_of v of
        None \<Rightarrow> Inl review_invalid
      | Some s \<Rightarrow>
          if \<not> allowEmpty \<and> trim s = [] then Inl review_invalid
          else if code_points s > maximum then Inl review_invalid
          else if list_ex text_control s then Inl review_invalid
          else Inr s)"

text \<open>A field that may be absent.\<close>

definition optional :: "(jsval \<Rightarrow> 'a review) \<Rightarrow> jsval \<Rightarrow> 'a option review" where
  "optional f v = (if v = JUndefined then Inr None else bindr (f v) (\<lambda>x. Inr (Some x)))"

definition optionalString :: "jsval \<Rightarrow> nat \<Rightarrow> jstring option review" where
  "optionalString v maximum = optional (\<lambda>v. boundedString v maximum) v"

definition validateDigest :: "jsval \<Rightarrow> jstring review" where
  "validateDigest v =
     bindr (boundedString v 80) (\<lambda>result. if isDigest result then Inr result else Inl review_invalid)"

text \<open>A number that is a safe integer between two bounds.\<close>

definition bounded_integer :: "int \<Rightarrow> int \<Rightarrow> jsval \<Rightarrow> nat review" where
  "bounded_integer lo hi v =
     (case v of
        JNum n \<Rightarrow>
          if \<not> is_safe_integer n \<or> n < Num (of_int lo) \<or> Num (of_int hi) < n then Inl review_invalid
          else (case n of Num r \<Rightarrow> Inr (nat \<lfloor>r\<rfloor>) | _ \<Rightarrow> Inl review_invalid)
      | _ \<Rightarrow> Inl review_invalid)"

definition validateRevision :: "jsval \<Rightarrow> nat review" where
  "validateRevision = bounded_integer 1 2147483647"

section \<open>The clock\<close>

text \<open>
  \<open>ReviewNow | undefined\<close>; a \<open>Date\<close> carries its time value. \<open>wall\<close> stands for \<open>Date.now()\<close>.
\<close>

datatype review_now = NowUndefined | NowDate jnum | NowNumber jnum | NowString jstring

record clock =
  milliseconds :: rat
  iso :: timestamp

definition to_iso :: "rat \<Rightarrow> timestamp review" where
  "to_iso ms = (case iso_string ms of None \<Rightarrow> Inl RangeError | Some t \<Rightarrow> Inr t)"

definition now_value :: "host \<Rightarrow> int \<Rightarrow> review_now \<Rightarrow> jnum" where
  "now_value h wall v =
     (case v of
        NowUndefined \<Rightarrow> Num (of_int wall)
      | NowDate n \<Rightarrow> n
      | NowNumber n \<Rightarrow> n
      | NowString s \<Rightarrow> (case dateParse h s of None \<Rightarrow> NaN | Some ms \<Rightarrow> Num (of_int ms)))"

definition parseClock :: "host \<Rightarrow> int \<Rightarrow> review_now \<Rightarrow> clock review" where
  "parseClock h wall v =
     (case now_value h wall v of
        Num ms \<Rightarrow> bindr (to_iso ms) (\<lambda>t. Inr \<lparr>milliseconds = ms, iso = t\<rparr>)
      | _ \<Rightarrow> Inl review_invalid)"

section \<open>Bindings and snapshots\<close>

definition validateBinding :: "jsval \<Rightarrow> binding review" where
  "validateBinding v =
     (if \<not> is_object v then Inl review_invalid
      else
        bindr (optionalString (get_prop v ''baseReleaseId'') 256) (\<lambda>baseReleaseId.
        bindr (optionalString (get_prop v ''baseReleaseVersion'') 128) (\<lambda>baseReleaseVersion.
        bindr (optional validateDigest (get_prop v ''baseDigest'')) (\<lambda>baseDigest.
        bindr (boundedString (get_prop v ''draftId'') 256) (\<lambda>draftId.
        bindr (validateRevision (get_prop v ''draftRevision'')) (\<lambda>draftRevision.
        bindr (validateDigest (get_prop v ''contentDigest'')) (\<lambda>contentDigest.
        bindr (boundedString (get_prop v ''policyRevision'') 256) (\<lambda>policyRevision.
        Inr \<lparr>bi_draftId = draftId, bi_draftRevision = draftRevision, bi_contentDigest = contentDigest,
             bi_baseReleaseId = baseReleaseId, bi_baseReleaseVersion = baseReleaseVersion,
             bi_baseDigest = baseDigest, bi_policyRevision = policyRevision\<rparr>))))))))"

text \<open>A binding as the object it is; an absent field is an absent property.\<close>

definition number_value :: "nat \<Rightarrow> jsval" where
  "number_value n = JNum (Num (of_nat n))"

definition optional_property :: "string \<Rightarrow> jstring option \<Rightarrow> (jstring \<times> jsval) list" where
  "optional_property k v = (case v of None \<Rightarrow> [] | Some s \<Rightarrow> [(js k, JStr s)])"

definition binding_value :: "binding \<Rightarrow> jsval" where
  "binding_value b = JObj
     ([(js ''draftId'', JStr (bi_draftId b)), (js ''draftRevision'', number_value (bi_draftRevision b)),
       (js ''contentDigest'', JStr (bi_contentDigest b))]
      @ optional_property ''baseReleaseId'' (bi_baseReleaseId b)
      @ optional_property ''baseReleaseVersion'' (bi_baseReleaseVersion b)
      @ optional_property ''baseDigest'' (bi_baseDigest b)
      @ [(js ''policyRevision'', JStr (bi_policyRevision b))])"

definition path_unsafe :: "jstring \<Rightarrow> bool" where
  "path_unsafe path \<longleftrightarrow>
     starts_with (js ''/'') path \<or> ends_with (js ''/'') path \<or> 92 \<in> set path
     \<or> list_ex (\<lambda>segment. segment = [] \<or> segment = js ''.'' \<or> segment = js ''..'') (split_on 47 path)"

definition parse_kind :: "jsval \<Rightarrow> file_kind option" where
  "parse_kind v =
     (if v = JStr (js ''text'') then Some TextFile
      else if v = JStr (js ''binary'') then Some BinaryFile
      else if v = JStr (js ''oversize'') then Some OversizeFile
      else None)"

definition validateSnapshotFile :: "jsval \<Rightarrow> snapshot_file review" where
  "validateSnapshotFile v =
     (if \<not> is_object v then Inl review_invalid
      else
        bindr (boundedString (get_prop v ''path'') 4096) (\<lambda>path.
        if path_unsafe path then Inl review_invalid
        else (case parse_kind (get_prop v ''kind'') of
          None \<Rightarrow> Inl review_invalid
        | Some kind \<Rightarrow>
            bindr (bounded_integer 0 10485760 (get_prop v ''size'')) (\<lambda>bytes.
            bindr (validateDigest (get_prop v ''digest'')) (\<lambda>digest.
            if kind = TextFile then
              bindr (bounded_text (get_prop v ''text'') 16000 True) (\<lambda>text.
              if length (utf8_encode text) > bytes then Inl review_invalid
              else Inr \<lparr>sf_path = path, sf_kind = kind, sf_size = bytes, sf_digest = digest, sf_text = Some text\<rparr>)
            else if get_prop v ''text'' \<noteq> JUndefined then Inl review_invalid
            else Inr \<lparr>sf_path = path, sf_kind = kind, sf_size = bytes, sf_digest = digest, sf_text = None\<rparr>)))))"

definition compareSnapshotFiles :: "snapshot_file \<Rightarrow> snapshot_file \<Rightarrow> int" where
  "compareSnapshotFiles l r = jstr_cmp (sf_path l) (sf_path r)"

text \<open>
  \<open>nfc_lower\<close> stands for \<open>s.normalize('NFC').toLowerCase()\<close>, the Unicode tables of the runtime.
\<close>

definition text_characters :: "snapshot \<Rightarrow> nat" where
  "text_characters files = sum_list (map (\<lambda>f. case sf_text f of None \<Rightarrow> 0 | Some t \<Rightarrow> code_points t) files)"

definition validateSnapshot :: "(jstring \<Rightarrow> jstring) \<Rightarrow> jsval \<Rightarrow> snapshot review" where
  "validateSnapshot nfc_lower v =
     (if \<not> is_object v then Inl review_invalid
      else (case arr_of (get_prop v ''files'') of
        None \<Rightarrow> Inl review_invalid
      | Some vs \<Rightarrow>
          if length vs > 2000 then Inl review_invalid
          else bindr (mapr validateSnapshotFile vs) (\<lambda>files.
            if \<not> distinct (map (\<lambda>f. nfc_lower (sf_path f)) files) then Inl review_invalid
            else if text_characters files > 160000 then Inl review_invalid
            else Inr (sort_by compareSnapshotFiles files))))"

text \<open>
  Both sides were built by \<open>validateBinding\<close>, with one order of keys, so equal JSON texts are equal
  bindings; and likewise for the files of canonically sorted snapshots.
\<close>

definition sameBinding :: "binding \<Rightarrow> binding \<Rightarrow> bool" where
  "sameBinding l r \<longleftrightarrow> l = r"

definition sameSnapshot :: "snapshot \<Rightarrow> snapshot \<Rightarrow> bool" where
  "sameSnapshot l r \<longleftrightarrow> sort_by compareSnapshotFiles l = sort_by compareSnapshotFiles r"

section \<open>Enqueue input\<close>

definition key_text :: "binding \<Rightarrow> jstring \<Rightarrow> jstring option \<Rightarrow> jstring" where
  "key_text b revision model =
     join (js '':'')
       [js ''upload-edit-review'', bi_draftId b, decimal (bi_draftRevision b), bi_contentDigest b,
        (case bi_baseReleaseId b of None \<Rightarrow> js ''-'' | Some x \<Rightarrow> x),
        (case bi_baseDigest b of None \<Rightarrow> js ''-'' | Some x \<Rightarrow> x),
        bi_policyRevision b, revision, (case model of None \<Rightarrow> js ''-'' | Some m \<Rightarrow> m)]"

definition uploadReviewIdempotencyKey :: "jsval \<Rightarrow> jsval \<Rightarrow> jsval \<Rightarrow> jstring review" where
  "uploadReviewIdempotencyKey b reviewerRevision model =
     bindr (validateBinding b) (\<lambda>normalized.
     bindr (boundedString reviewerRevision 128) (\<lambda>revision.
     bindr (optionalString model 256) (\<lambda>normalizedModel.
     Inr (key_text normalized revision normalizedModel))))"

record enqueue_input =
  ei_idempotencyKey :: jsval
  ei_binding :: jsval
  ei_snapshot :: jsval
  ei_model :: jsval
  ei_reviewerRevision :: jsval
  ei_now :: review_now

record review_request =
  rq_idempotencyKey :: jstring
  rq_binding :: binding
  rq_snapshot :: snapshot
  rq_model :: jstring
  rq_reviewerRevision :: jstring
  rq_clock :: clock

text \<open>
  The runtime: the host functions, Unicode folding, the wall clock, and the random part of the
  \<open>n\<close>-th identifier a call draws.
\<close>

record review_env =
  rv_host :: host
  rv_nfc_lower :: "jstring \<Rightarrow> jstring"
  rv_wall :: int
  rv_random :: "nat \<Rightarrow> jstring"

definition randomId :: "review_env \<Rightarrow> nat \<Rightarrow> string \<Rightarrow> jstring" where
  "randomId e n prefix = js prefix @ js ''_'' @ rv_random e n"

definition normalizeEnqueueInput :: "review_env \<Rightarrow> enqueue_input \<Rightarrow> review_request review" where
  "normalizeEnqueueInput e input =
     bindr (validateBinding (ei_binding input)) (\<lambda>b.
     bindr (validateSnapshot (rv_nfc_lower e) (ei_snapshot input)) (\<lambda>snap.
     bindr (boundedString (ei_model input) 256) (\<lambda>model.
     bindr (boundedString (ei_reviewerRevision input) 128) (\<lambda>reviewerRevision.
     bindr (if ei_idempotencyKey input = JUndefined
            then uploadReviewIdempotencyKey (binding_value b) (JStr reviewerRevision) (JStr model)
            else boundedString (ei_idempotencyKey input) 2048) (\<lambda>key.
     bindr (parseClock (rv_host e) (rv_wall e) (ei_now input)) (\<lambda>ck.
     Inr \<lparr>rq_idempotencyKey = key, rq_binding = b, rq_snapshot = snap, rq_model = model,
          rq_reviewerRevision = reviewerRevision, rq_clock = ck\<rparr>))))))"

section \<open>Facts\<close>

lemma boundedString_Inr:
  "boundedString v n = Inr s \<longleftrightarrow>
     (\<exists>u. v = JStr u \<and> s = trim u \<and> s \<noteq> [] \<and> length s \<le> n \<and> \<not> list_ex is_control s)"
  by (cases v) (auto simp: boundedString_def Let_def)

lemma boundedString_again: "boundedString v n = Inr s \<Longrightarrow> boundedString (JStr s) n = Inr s"
  by (auto simp: boundedString_Inr)

lemma boundedString_error: "boundedString v n = Inl e \<Longrightarrow> e = review_invalid"
  by (auto simp: boundedString_def Let_def split: option.splits if_splits)

lemma validateDigest_Inr: "validateDigest v = Inr s \<longleftrightarrow> boundedString v 80 = Inr s \<and> isDigest s"
  by (auto simp: validateDigest_def result_simps)

lemma validateDigest_again: "validateDigest v = Inr s \<Longrightarrow> validateDigest (JStr s) = Inr s"
  by (auto simp: validateDigest_Inr boundedString_again)

lemma rat_is_int_of_nat [simp]: "rat_is_int (of_nat n)"
  by (simp add: rat_is_int_def)

lemma validateRevision_Inr:
  "validateRevision v = Inr n \<Longrightarrow> 1 \<le> n \<and> n \<le> 2147483647"
  by (auto simp: validateRevision_def bounded_integer_def less_eq_jnum_def le_nat_iff nat_le_iff not_less
      split: jsval.splits if_splits jnum.splits)

lemma validateRevision_again:
  assumes "1 \<le> n" and "n \<le> 2147483647"
  shows "validateRevision (number_value n) = Inr n"
proof -
  have "(of_nat n :: rat) \<le> 2147483647" and "(1::rat) \<le> of_nat n"
    using assms of_nat_mono [of n 2147483647, where 'a = rat] of_nat_mono [of 1 n, where 'a = rat] by simp_all
  then show ?thesis
    by (simp add: validateRevision_def bounded_integer_def number_value_def MAX_SAFE_INTEGER_def)
qed

lemma optional_Inr:
  "optional f v = Inr x \<longleftrightarrow> (v = JUndefined \<and> x = None) \<or> (v \<noteq> JUndefined \<and> (\<exists>y. f v = Inr y \<and> x = Some y))"
  by (auto simp: optional_def result_simps)

lemma optional_again:
  assumes "optional f v = Inr x" and "\<And>y. f v = Inr y \<Longrightarrow> f (JStr y) = Inr y"
  shows "optional f (case x of None \<Rightarrow> JUndefined | Some y \<Rightarrow> JStr y) = Inr x"
  using assms by (auto simp: optional_Inr)

lemma optional_property_get:
  "map_of (optional_property k v) x = (if x = js k then map_option JStr v else None)"
  by (auto simp: optional_property_def split: option.splits)

lemma binding_value_get:
  "get_prop (binding_value b) ''draftId'' = JStr (bi_draftId b)"
  "get_prop (binding_value b) ''draftRevision'' = number_value (bi_draftRevision b)"
  "get_prop (binding_value b) ''contentDigest'' = JStr (bi_contentDigest b)"
  "get_prop (binding_value b) ''baseReleaseId'' = (case bi_baseReleaseId b of None \<Rightarrow> JUndefined | Some y \<Rightarrow> JStr y)"
  "get_prop (binding_value b) ''baseReleaseVersion'' = (case bi_baseReleaseVersion b of None \<Rightarrow> JUndefined | Some y \<Rightarrow> JStr y)"
  "get_prop (binding_value b) ''baseDigest'' = (case bi_baseDigest b of None \<Rightarrow> JUndefined | Some y \<Rightarrow> JStr y)"
  "get_prop (binding_value b) ''policyRevision'' = JStr (bi_policyRevision b)"
  by (simp_all add: binding_value_def map_add_def optional_property_get split: option.splits)

text \<open>A validated binding passes validation again, unchanged.\<close>

lemma validateBinding_again:
  assumes "validateBinding v = Inr b"
  shows "validateBinding (binding_value b) = Inr b"
proof -
  from assms have parts:
    "optionalString (get_prop v ''baseReleaseId'') 256 = Inr (bi_baseReleaseId b)"
    "optionalString (get_prop v ''baseReleaseVersion'') 128 = Inr (bi_baseReleaseVersion b)"
    "optional validateDigest (get_prop v ''baseDigest'') = Inr (bi_baseDigest b)"
    "boundedString (get_prop v ''draftId'') 256 = Inr (bi_draftId b)"
    "validateRevision (get_prop v ''draftRevision'') = Inr (bi_draftRevision b)"
    "validateDigest (get_prop v ''contentDigest'') = Inr (bi_contentDigest b)"
    "boundedString (get_prop v ''policyRevision'') 256 = Inr (bi_policyRevision b)"
    by (auto simp: validateBinding_def result_simps)
  have opt: "optionalString (case x of None \<Rightarrow> JUndefined | Some y \<Rightarrow> JStr y) n = Inr x"
    if "optionalString w n = Inr x" for w n x
    using optional_again [OF that [unfolded optionalString_def] boundedString_again] by (simp add: optionalString_def)
  have "is_object (binding_value b)" by (simp add: binding_value_def)
  then show ?thesis
    using opt [OF parts(1)] opt [OF parts(2)] optional_again [OF parts(3) validateDigest_again]
      boundedString_again [OF parts(4)] validateRevision_again [of "bi_draftRevision b"]
      validateRevision_Inr [OF parts(5)] validateDigest_again [OF parts(6)] boundedString_again [OF parts(7)]
    by (simp add: validateBinding_def binding_value_get)
qed

interpretation snapshot_order: comparator compareSnapshotFiles
proof unfold_locales
  show "compareSnapshotFiles x y \<le> 0 \<or> compareSnapshotFiles y x \<le> 0" for x y
    unfolding compareSnapshotFiles_def by (rule jstr_order.cmp_total)
  show "compareSnapshotFiles x y \<le> 0 \<Longrightarrow> compareSnapshotFiles y z \<le> 0 \<Longrightarrow> compareSnapshotFiles x z \<le> 0" for x y z
    unfolding compareSnapshotFiles_def by (rule jstr_order.cmp_trans)
qed

end
