(* ===== verification/Upload_Review.thy ===== *)
theory Upload_Review
  imports Review_Input
begin

text \<open>
  The upload review queue of \<open>packages/upload-reviews/src/index.ts\<close>
  (\<open>DefaultUploadReviewPersistenceService\<close>). A method validates its arguments and runs a callback in
  \<open>repository.transaction\<close>: here each method is one function of the committed state, \<open>Inl\<close> when it
  throws (the transaction is rolled back) and \<open>Inr\<close> of the new state and the returned value
  otherwise. The optional collections of the state are plain lists.
\<close>

record review_store =
  ws_registry :: registry_state
  ws_jobs :: "review_job list"
  ws_results :: "review_result list"

record review_contract =
  rc_model :: jstring
  rc_reviewerRevision :: jstring

text \<open>
  \<open>UploadReviewPersistenceOptions\<close>: the binding resolver returns an unvalidated value
  (\<open>JUndefined\<close> when the draft is gone); the contract is what \<open>resolveCurrentContract()\<close> returns
  during the call.
\<close>

record review_service =
  sv_leaseSeconds :: nat
  sv_resolveCurrentBinding :: "(review_store \<Rightarrow> jstring \<Rightarrow> jsval) option"
  sv_currentContract :: "review_contract option"

definition create_service ::
    "jsval \<Rightarrow> (review_store \<Rightarrow> jstring \<Rightarrow> jsval) option \<Rightarrow> review_contract option \<Rightarrow> review_service review" where
  "create_service leaseSeconds resolver contract =
     bindr (if leaseSeconds = JUndefined then Inr 900 else bounded_integer 1 86400 leaseSeconds) (\<lambda>seconds.
     Inr \<lparr>sv_leaseSeconds = seconds, sv_resolveCurrentBinding = resolver, sv_currentContract = contract\<rparr>)"

section \<open>Leases\<close>

definition leaseExpired :: "review_job \<Rightarrow> rat \<Rightarrow> bool" where
  "leaseExpired job ms \<longleftrightarrow>
     (case rj_leaseExpiresAt job of
        None \<Rightarrow> True
      | Some t \<Rightarrow> t = BadStamp [] \<or> (case date_parse t of None \<Rightarrow> False | Some e \<Rightarrow> of_int e \<le> ms))"

definition clearLease :: "review_job \<Rightarrow> review_job" where
  "clearLease job = job\<lparr>rj_leaseToken := None, rj_leaseExpiresAt := None\<rparr>"

definition requireLease :: "review_job \<Rightarrow> jstring \<Rightarrow> rat \<Rightarrow> unit review" where
  "requireLease job leaseToken ms =
     bindr (boundedString (JStr leaseToken) 256) (\<lambda>cleanToken.
     if rj_state job \<noteq> RRunning \<or> rj_leaseToken job \<noteq> Some cleanToken then Inl review_fenced
     else if leaseExpired job ms then Inl review_lease_expired
     else Inr ())"

section \<open>Collections\<close>

definition assertOrganizationId :: "jstring \<Rightarrow> unit review" where
  "assertOrganizationId org = bindr (boundedString (JStr org) 256) (\<lambda>_. Inr ())"

definition active :: "review_job \<Rightarrow> bool" where
  "active job \<longleftrightarrow> rj_state job = RPending \<or> rj_state job = RRunning"

definition terminal :: "review_job \<Rightarrow> bool" where
  "terminal job \<longleftrightarrow> rj_state job = RPassed \<or> rj_state job = RFailed \<or> rj_state job = RStale"

definition assertRetentionAvailable :: "review_job list \<Rightarrow> nat \<Rightarrow> unit review" where
  "assertRetentionAvailable jobs additional =
     (if length jobs + additional \<le> 100 then Inr ()
      else if length (filter active jobs) \<ge> 100 then Inl review_retention
      else Inr ())"

text \<open>
  The comparator \<open>Date.parse(l) - Date.parse(r)\<close>; \<open>NaN\<close> counts as equal.
\<close>

definition stamp_cmp :: "timestamp \<Rightarrow> timestamp \<Rightarrow> int" where
  "stamp_cmp l r = (case (date_parse l, date_parse r) of (Some a, Some b) \<Rightarrow> a - b | _ \<Rightarrow> 0)"

definition oldest_first :: "review_job list \<Rightarrow> review_job list" where
  "oldest_first jobs = sort_by (\<lambda>l r. stamp_cmp (rj_updatedAt l) (rj_updatedAt r)) (filter (\<lambda>j. \<not> active j) jobs)"

lemma oldest_first_in: "oldest_first jobs = j # r \<Longrightarrow> j \<in> set jobs \<and> \<not> active j"
  unfolding oldest_first_def using set_sort_by [of _ "filter (\<lambda>j. \<not> active j) jobs"]
  by (metis (mono_tags, lifting) filter_set list.set_intros(1) mem_Collect_eq set_filter)

text \<open>
  The two loops of \<open>pruneCollections\<close>. Removing the object that \<open>indexOf\<close> finds is \<open>remove1\<close>: the
  sort is stable, so of several equal entries the first one is picked.
\<close>

function prune_jobs :: "review_job list \<Rightarrow> review_result list \<Rightarrow> (review_job list \<times> review_result list) review" where
  "prune_jobs jobs results =
     (if length jobs \<le> 100 then Inr (jobs, results)
      else (case oldest_first jobs of
              [] \<Rightarrow> Inl review_retention
            | removable # _ \<Rightarrow>
                prune_jobs (remove1 removable jobs) (filter (\<lambda>r. rr_jobId r \<noteq> rj_id removable) results)))"
  by pat_completeness auto
termination
  by (relation "measure (\<lambda>(jobs, results). length jobs)")
    (auto simp: length_remove1 dest!: oldest_first_in)

declare prune_jobs.simps [simp del]

function prune_results :: "review_result list \<Rightarrow> review_result list" where
  "prune_results results =
     (if length results \<le> 100 then results
      else prune_results (tl (sort_by (\<lambda>l r. stamp_cmp (rr_finishedAt l) (rr_finishedAt r)) results)))"
  by pat_completeness auto
termination
  by (relation "measure length") auto

declare prune_results.simps [simp del]

definition pruneCollections :: "review_store \<Rightarrow> review_store review" where
  "pruneCollections s =
     bindr (prune_jobs (ws_jobs s) (ws_results s)) (\<lambda>(jobs, results).
     Inr (s\<lparr>ws_jobs := jobs, ws_results := prune_results results\<rparr>))"

definition is_job :: "jstring \<Rightarrow> jstring \<Rightarrow> review_job \<Rightarrow> bool" where
  "is_job org jobId job \<longleftrightarrow> rj_organizationId job = org \<and> rj_id job = jobId"

definition findJob :: "review_job list \<Rightarrow> jstring \<Rightarrow> jstring \<Rightarrow> review_job review" where
  "findJob jobs org jobId = (case find (is_job org jobId) jobs of None \<Rightarrow> Inl review_not_found | Some job \<Rightarrow> Inr job)"

text \<open>Writing the fields of the job that \<open>findJob\<close> returned.\<close>

definition put_job :: "jstring \<Rightarrow> jstring \<Rightarrow> review_job \<Rightarrow> review_store \<Rightarrow> review_store" where
  "put_job org jobId job s = s\<lparr>ws_jobs := update_first (is_job org jobId) (\<lambda>_. job) (ws_jobs s)\<rparr>"

section \<open>Findings\<close>

definition parse_finding_severity :: "jsval \<Rightarrow> severity option" where
  "parse_finding_severity v =
     (if v = JStr (js ''info'') then Some Info else if v = JStr (js ''low'') then Some Low
      else if v = JStr (js ''medium'') then Some Medium else if v = JStr (js ''high'') then Some High
      else if v = JStr (js ''critical'') then Some Critical else None)"

definition validate_finding :: "review_env \<Rightarrow> snapshot \<Rightarrow> nat \<times> jsval \<Rightarrow> review_finding review" where
  "validate_finding e snap entry =
     (let (index, f) = entry in
      if \<not> is_object f then Inl review_invalid
      else case parse_finding_severity (get_prop f ''severity'') of
        None \<Rightarrow> Inl review_invalid
      | Some severity \<Rightarrow>
          bindr (optional (\<lambda>v. boundedString v 4096) (get_prop f ''path'')) (\<lambda>path.
          if (case path of None \<Rightarrow> False | Some p \<Rightarrow> p \<notin> set (map sf_path snap)) then Inl review_invalid
          else
            bindr (optional validateRevision (get_prop f ''line'')) (\<lambda>line.
            bindr (optional (\<lambda>v. bounded_text v 4000 False) (get_prop f ''evidence'')) (\<lambda>evidence.
            bindr (optional (\<lambda>v. bounded_text v 4000 False) (get_prop f ''recommendation'')) (\<lambda>recommendation.
            bindr (boundedString (get_prop f ''category'') 128) (\<lambda>category.
            bindr (boundedString (get_prop f ''title'') 256) (\<lambda>title.
            bindr (bounded_text (get_prop f ''summary'') 4000 False) (\<lambda>summary.
            Inr \<lparr>rf_id = randomId e index ''upload-review-finding'', rf_severity = severity, rf_category = category,
                 rf_title = title, rf_summary = summary, rf_evidence = evidence,
                 rf_recommendation = recommendation, rf_path = path, rf_line = line, rf_decision = Open,
                 rf_decisionReason = None\<rparr>))))))))"

definition validateFindings :: "review_env \<Rightarrow> jsval \<Rightarrow> snapshot \<Rightarrow> review_finding list review" where
  "validateFindings e findings snap =
     (case arr_of findings of
        None \<Rightarrow> Inl review_invalid
      | Some fs \<Rightarrow>
          if length fs > 60 then Inl review_invalid
          else mapr (validate_finding e snap) (zip [0..<length fs] fs))"

definition sameRequest :: "review_job \<Rightarrow> review_request \<Rightarrow> bool" where
  "sameRequest job rq \<longleftrightarrow> sameBinding (rj_binding job) (rq_binding rq) \<and> sameSnapshot (rj_snapshot job) (rq_snapshot rq)
     \<and> rj_model job = rq_model rq \<and> rj_reviewerRevision job = rq_reviewerRevision rq"

section \<open>Staleness\<close>

definition stale_job :: "jstring \<Rightarrow> timestamp \<Rightarrow> review_job \<Rightarrow> review_job" where
  "stale_job reason t job =
     clearLease (job\<lparr>rj_state := RStale, rj_updatedAt := t, rj_finishedAt := Some t, rj_staleReason := Some reason\<rparr>)"

definition new_result ::
    "jstring \<Rightarrow> review_job \<Rightarrow> jstring \<Rightarrow> review_state \<Rightarrow> review_finding list \<Rightarrow> timestamp \<Rightarrow> jstring option \<Rightarrow>
     jstring option \<Rightarrow> review_result" where
  "new_result rid job org state findings t err stale =
     \<lparr>rr_id = rid, rr_jobId = rj_id job, rr_organizationId = org, rr_binding = rj_binding job, rr_model = rj_model job,
      rr_reviewerRevision = rj_reviewerRevision job, rr_state = state, rr_findings = findings, rr_createdAt = t,
      rr_finishedAt = t, rr_error = err, rr_staleReason = stale\<rparr>"

text \<open>The job, the results and the returned result; \<open>rid\<close> is drawn when a result is created.\<close>

definition staleResultForJob ::
    "jstring \<Rightarrow> review_job \<Rightarrow> jstring \<Rightarrow> review_result list \<Rightarrow> jstring \<Rightarrow> timestamp \<Rightarrow>
     review_job \<times> review_result list \<times> review_result" where
  "staleResultForJob rid job org results reason t =
     (let job' = stale_job reason t job;
          mark = (\<lambda>r. r\<lparr>rr_state := RStale, rr_staleReason := Some reason, rr_finishedAt := t\<rparr>);
          linked = (\<lambda>r. rj_resultId job = Some (rr_id r) \<and> rr_id r \<noteq> []);
          fresh = new_result rid job org RStale [] t None (Some reason) in
      case find linked results of
        Some existing \<Rightarrow> (job', update_first linked mark results, mark existing)
      | None \<Rightarrow> (job'\<lparr>rj_resultId := Some rid\<rparr>, results @ [fresh], fresh))"

definition currentBinding :: "review_service \<Rightarrow> review_store \<Rightarrow> jstring \<Rightarrow> binding option review" where
  "currentBinding sv s draftId =
     (case sv_resolveCurrentBinding sv of
        None \<Rightarrow> Inr None
      | Some resolve \<Rightarrow>
          (let v = resolve s draftId in
           if v = JUndefined then Inr None else bindr (validateBinding v) (\<lambda>b. Inr (Some b))))"

definition bindingIsCurrent :: "review_service \<Rightarrow> review_store \<Rightarrow> binding \<Rightarrow> bool review" where
  "bindingIsCurrent sv s b =
     (if sv_resolveCurrentBinding sv = None then Inr True
      else bindr (currentBinding sv s (bi_draftId b)) (\<lambda>current.
        Inr (case current of None \<Rightarrow> False | Some c \<Rightarrow> sameBinding b c)))"

definition contractIsCurrent :: "review_service \<Rightarrow> jstring \<Rightarrow> jstring \<Rightarrow> bool" where
  "contractIsCurrent sv model reviewerRevision \<longleftrightarrow>
     (case sv_currentContract sv of
        None \<Rightarrow> True
      | Some c \<Rightarrow> rc_model c = model \<and> rc_reviewerRevision c = reviewerRevision)"

definition is_current :: "review_service \<Rightarrow> review_store \<Rightarrow> binding \<Rightarrow> jstring \<Rightarrow> jstring \<Rightarrow> bool review" where
  "is_current sv s b model reviewerRevision =
     bindr (bindingIsCurrent sv s b) (\<lambda>ok. Inr (ok \<and> contractIsCurrent sv model reviewerRevision))"

definition jobIsCurrent :: "review_service \<Rightarrow> review_store \<Rightarrow> review_job \<Rightarrow> bool review" where
  "jobIsCurrent sv s job = is_current sv s (rj_binding job) (rj_model job) (rj_reviewerRevision job)"

definition assertBindingCurrent :: "review_service \<Rightarrow> review_store \<Rightarrow> binding \<Rightarrow> jstring \<Rightarrow> jstring \<Rightarrow> unit review" where
  "assertBindingCurrent sv s b model reviewerRevision =
     bindr (is_current sv s b model reviewerRevision) (\<lambda>ok.
     if ok then Inr () else Inl review_binding_stale)"

definition binding_differs :: jstring where
  "binding_differs = js ''current draft binding differs''"

text \<open>\<open>markBindingStale\<close> followed by \<open>pruneCollections\<close>, as every caller has it.\<close>

definition mark_binding_stale ::
    "review_env \<Rightarrow> jstring \<Rightarrow> jstring \<Rightarrow> review_job \<Rightarrow> timestamp \<Rightarrow> review_store \<Rightarrow>
     (review_store \<times> review_job \<times> review_result) review" where
  "mark_binding_stale e org jobId job t s =
     (let (job', results, stale) =
        staleResultForJob (randomId e 0 ''upload-review-result'') job (rj_organizationId job) (ws_results s) binding_differs t in
      bindr (pruneCollections ((put_job org jobId job' s)\<lparr>ws_results := results\<rparr>)) (\<lambda>s'.
      Inr (s', job', stale)))"

definition needs_projection :: "review_service \<Rightarrow> bool" where
  "needs_projection sv \<longleftrightarrow> sv_resolveCurrentBinding sv \<noteq> None \<or> sv_currentContract sv \<noteq> None"

definition contract_differs :: jstring where
  "contract_differs = js ''current draft binding or reviewer contract differs''"

definition projectJob :: "review_service \<Rightarrow> review_store \<Rightarrow> review_job \<Rightarrow> review_job review" where
  "projectJob sv s job =
     (if \<not> needs_projection sv then Inr job
      else bindr (jobIsCurrent sv s job) (\<lambda>ok.
        if \<not> ok \<and> rj_state job \<noteq> RStale
        then Inr (clearLease (job\<lparr>rj_state := RStale, rj_staleReason := Some contract_differs\<rparr>))
        else Inr job))"

definition projectResult :: "review_service \<Rightarrow> review_store \<Rightarrow> review_result \<Rightarrow> review_result review" where
  "projectResult sv s r =
     (if \<not> needs_projection sv then Inr r
      else bindr (is_current sv s (rr_binding r) (rr_model r) (rr_reviewerRevision r)) (\<lambda>ok.
        if \<not> ok \<and> rr_state r \<noteq> RStale
        then Inr (r\<lparr>rr_state := RStale, rr_staleReason := Some contract_differs\<rparr>)
        else Inr r))"

section \<open>Methods\<close>

definition key_match :: "jstring \<Rightarrow> review_request \<Rightarrow> review_job \<Rightarrow> bool" where
  "key_match org rq j \<longleftrightarrow> rj_organizationId j = org \<and> rj_idempotencyKey j = rq_idempotencyKey rq"

definition pending_job :: "review_env \<Rightarrow> jstring \<Rightarrow> review_request \<Rightarrow> review_job" where
  "pending_job e org rq =
     \<lparr>rj_id = randomId e 0 ''upload-review-job'', rj_organizationId = org,
      rj_idempotencyKey = rq_idempotencyKey rq, rj_binding = rq_binding rq, rj_snapshot = rq_snapshot rq,
      rj_model = rq_model rq, rj_reviewerRevision = rq_reviewerRevision rq, rj_state = RPending,
      rj_createdAt = iso (rq_clock rq), rj_updatedAt = iso (rq_clock rq), rj_startedAt = None,
      rj_finishedAt = None, rj_error = None, rj_staleReason = None, rj_resultId = None,
      rj_eveSessionId = None, rj_leaseToken = None, rj_leaseExpiresAt = None\<rparr>"

definition enqueue :: "review_service \<Rightarrow> review_env \<Rightarrow> jstring \<Rightarrow> enqueue_input \<Rightarrow> review_store \<Rightarrow> (review_store \<times> review_job) review" where
  "enqueue sv e org input s =
     bindr (assertOrganizationId org) (\<lambda>_.
     bindr (normalizeEnqueueInput e input) (\<lambda>rq.
     bindr (assertBindingCurrent sv s (rq_binding rq) (rq_model rq) (rq_reviewerRevision rq)) (\<lambda>_.
     case find (key_match org rq) (ws_jobs s) of
       Some existing \<Rightarrow> if \<not> sameRequest existing rq then Inl review_conflict else Inr (s, existing)
     | None \<Rightarrow>
         bindr (assertRetentionAvailable (ws_jobs s) 1) (\<lambda>_.
         let job = pending_job e org rq in
         bindr (pruneCollections (s\<lparr>ws_jobs := ws_jobs s @ [job]\<rparr>)) (\<lambda>s'. Inr (s', job))))))"

definition bindEveSession ::
    "review_service \<Rightarrow> review_env \<Rightarrow> jstring \<Rightarrow> jstring \<Rightarrow> jstring \<Rightarrow> review_now \<Rightarrow> review_store \<Rightarrow> (review_store \<times> review_job) review" where
  "bindEveSession sv e org jobId eveSessionId now s =
     bindr (assertOrganizationId org) (\<lambda>_.
     bindr (boundedString (JStr jobId) 256) (\<lambda>cleanJobId.
     bindr (boundedString (JStr eveSessionId) 256) (\<lambda>cleanSessionId.
     bindr (parseClock (rv_host e) (rv_wall e) now) (\<lambda>ck.
     bindr (findJob (ws_jobs s) org cleanJobId) (\<lambda>job.
     bindr (assertBindingCurrent sv s (rj_binding job) (rj_model job) (rj_reviewerRevision job)) (\<lambda>_.
     if (\<exists>c \<in> set (ws_jobs s). rj_organizationId c = org \<and> rj_id c \<noteq> rj_id job \<and> rj_eveSessionId c = Some cleanSessionId)
     then Inl review_conflict
     else if \<not> active job then Inl review_conflict
     else if rj_eveSessionId job \<noteq> None \<and> rj_eveSessionId job \<noteq> Some cleanSessionId then Inl review_conflict
     else let job' = job\<lparr>rj_eveSessionId := Some cleanSessionId, rj_updatedAt := iso ck\<rparr> in
       Inr (put_job org cleanJobId job' s, job')))))))"

record review_claim =
  cl_job :: review_job
  cl_claimed :: bool
  cl_leaseToken :: "jstring option"

definition claimed_job :: "review_env \<Rightarrow> jstring option \<Rightarrow> clock \<Rightarrow> timestamp \<Rightarrow> review_job \<Rightarrow> review_job" where
  "claimed_job e eveSessionId ck expires job =
     job\<lparr>rj_eveSessionId := eveSessionId, rj_state := RRunning,
         rj_startedAt := Some (case rj_startedAt job of Some t \<Rightarrow> t | None \<Rightarrow> iso ck),
         rj_updatedAt := iso ck, rj_leaseToken := Some (randomId e 0 ''upload-review-lease''),
         rj_leaseExpiresAt := Some expires, rj_finishedAt := None, rj_error := None, rj_staleReason := None\<rparr>"

definition claim ::
    "review_service \<Rightarrow> review_env \<Rightarrow> jstring \<Rightarrow> jstring \<Rightarrow> jstring option \<Rightarrow> review_now \<Rightarrow> review_store \<Rightarrow>
     (review_store \<times> review_claim) review" where
  "claim sv e org jobId eveSessionId now s =
     bindr (assertOrganizationId org) (\<lambda>_.
     bindr (boundedString (JStr jobId) 256) (\<lambda>cleanJobId.
     bindr (case eveSessionId of None \<Rightarrow> Inr None | Some x \<Rightarrow> bindr (boundedString (JStr x) 256) (\<lambda>y. Inr (Some y))) (\<lambda>session.
     bindr (parseClock (rv_host e) (rv_wall e) now) (\<lambda>ck.
     bindr (findJob (ws_jobs s) org cleanJobId) (\<lambda>job.
     if terminal job then Inr (s, \<lparr>cl_job = job, cl_claimed = False, cl_leaseToken = None\<rparr>)
     else bindr (jobIsCurrent sv s job) (\<lambda>current.
       if \<not> current then
         bindr (mark_binding_stale e org cleanJobId job (iso ck) s) (\<lambda>(s', job', _).
         Inr (s', \<lparr>cl_job = job', cl_claimed = False, cl_leaseToken = None\<rparr>))
       else if rj_state job = RRunning \<and> \<not> leaseExpired job (milliseconds ck) then
         Inr (s, \<lparr>cl_job = job, cl_claimed = False,
                  cl_leaseToken = (if session \<noteq> None \<and> rj_eveSessionId job = session then rj_leaseToken job else None)\<rparr>)
       else bindr (to_iso (milliseconds ck + of_nat (sv_leaseSeconds sv) * 1000)) (\<lambda>expires.
         let job' = claimed_job e session ck expires job in
         bindr (pruneCollections (put_job org cleanJobId job' s)) (\<lambda>s'.
         Inr (s', \<lparr>cl_job = job', cl_claimed = True, cl_leaseToken = rj_leaseToken job'\<rparr>)))))))))"

text \<open>
  \<open>read\<close> is the state the first step of \<open>claimForEveSession\<close> sees, \<open>s\<close> the one its transaction does.
\<close>

definition claimForEveSession ::
    "review_service \<Rightarrow> review_env \<Rightarrow> jstring \<Rightarrow> jstring \<Rightarrow> review_now \<Rightarrow> review_store \<Rightarrow> review_store \<Rightarrow>
     (review_store \<times> review_claim) review" where
  "claimForEveSession sv e org eveSessionId now read s =
     bindr (assertOrganizationId org) (\<lambda>_.
     bindr (boundedString (JStr eveSessionId) 256) (\<lambda>cleanSessionId.
     case filter (\<lambda>j. rj_organizationId j = org \<and> rj_eveSessionId j = Some cleanSessionId) (ws_jobs read) of
       [match] \<Rightarrow> claim sv e org (rj_id match) (Some cleanSessionId) now s
     | _ \<Rightarrow> Inl review_not_found))"

definition getLeasedJob ::
    "review_service \<Rightarrow> review_env \<Rightarrow> jstring \<Rightarrow> jstring \<Rightarrow> jstring \<Rightarrow> review_now \<Rightarrow> review_store \<Rightarrow> (review_store \<times> review_job) review" where
  "getLeasedJob sv e org jobId leaseToken now s =
     bindr (assertOrganizationId org) (\<lambda>_.
     bindr (parseClock (rv_host e) (rv_wall e) now) (\<lambda>ck.
     bindr (boundedString (JStr jobId) 256) (\<lambda>cleanJobId.
     bindr (findJob (ws_jobs s) org cleanJobId) (\<lambda>job.
     if rj_state job = RStale then Inr (s, job)
     else bindr (requireLease job leaseToken (milliseconds ck)) (\<lambda>_.
       bindr (jobIsCurrent sv s job) (\<lambda>current.
       if \<not> current then
         bindr (mark_binding_stale e org cleanJobId job (iso ck) s) (\<lambda>(s', job', _). Inr (s', job'))
       else Inr (s, job)))))))"

text \<open>
  The part \<open>complete\<close> and \<open>fail\<close> share: the lease, then either the stale marker or \<open>finish\<close>, which
  gives the finished job and its result.
\<close>

definition finish_leased ::
    "review_service \<Rightarrow> review_env \<Rightarrow> jstring \<Rightarrow> jstring \<Rightarrow> jstring \<Rightarrow> review_now \<Rightarrow>
     (clock \<Rightarrow> review_job \<Rightarrow> (review_job \<times> review_result) review) \<Rightarrow> review_store \<Rightarrow> (review_store \<times> review_result) review" where
  "finish_leased sv e org jobId leaseToken now finish s =
     bindr (assertOrganizationId org) (\<lambda>_.
     bindr (parseClock (rv_host e) (rv_wall e) now) (\<lambda>ck.
     bindr (boundedString (JStr jobId) 256) (\<lambda>cleanJobId.
     bindr (findJob (ws_jobs s) org cleanJobId) (\<lambda>job.
     bindr (requireLease job leaseToken (milliseconds ck)) (\<lambda>_.
     bindr (jobIsCurrent sv s job) (\<lambda>current.
     if \<not> current then
       bindr (mark_binding_stale e org cleanJobId job (iso ck) s) (\<lambda>(s', _, stale). Inr (s', stale))
     else
       bindr (finish ck job) (\<lambda>(job', result).
       bindr (pruneCollections ((put_job org cleanJobId job' s)\<lparr>ws_results := ws_results s @ [result]\<rparr>)) (\<lambda>s'.
       Inr (s', result)))))))))"

definition finished_job :: "review_state \<Rightarrow> clock \<Rightarrow> jstring \<Rightarrow> review_job \<Rightarrow> review_job" where
  "finished_job state ck rid job =
     clearLease (job\<lparr>rj_state := state, rj_updatedAt := iso ck, rj_finishedAt := Some (iso ck), rj_resultId := Some rid\<rparr>)"

definition complete ::
    "review_service \<Rightarrow> review_env \<Rightarrow> jstring \<Rightarrow> jstring \<Rightarrow> jstring \<Rightarrow> jsval \<Rightarrow> review_now \<Rightarrow> review_store \<Rightarrow>
     (review_store \<times> review_result) review" where
  "complete sv e org jobId leaseToken findings now =
     finish_leased sv e org jobId leaseToken now (\<lambda>ck job.
       bindr (validateFindings e findings (rj_snapshot job)) (\<lambda>fs.
       let rid = randomId e (length fs) ''upload-review-result'' in
       Inr (finished_job RPassed ck rid job, new_result rid job org RPassed fs (iso ck) None None)))"

definition fail ::
    "review_service \<Rightarrow> review_env \<Rightarrow> jstring \<Rightarrow> jstring \<Rightarrow> jstring \<Rightarrow> jstring \<Rightarrow> review_now \<Rightarrow> review_store \<Rightarrow>
     (review_store \<times> review_result) review" where
  "fail sv e org jobId leaseToken error now =
     finish_leased sv e org jobId leaseToken now (\<lambda>ck job.
       let rid = randomId e 0 ''upload-review-result'' in
       Inr ((finished_job RFailed ck rid job)\<lparr>rj_error := Some (redactError error)\<rparr>,
            new_result rid job org RFailed [] (iso ck) (Some (redactError error)) None))"

record mark_stale_input =
  ms_draftId :: jsval
  ms_current :: jsval
  ms_reviewerRevision :: jsval
  ms_model :: jsval
  ms_reason :: jsval
  ms_now :: review_now

text \<open>The test of the loop of \<open>markStale\<close> for one job: it is outdated and not yet stale.\<close>

definition outdated ::
    "review_service \<Rightarrow> jstring \<Rightarrow> jstring \<Rightarrow> binding option \<Rightarrow> jstring option \<Rightarrow> jstring option \<Rightarrow> review_job \<Rightarrow> bool" where
  "outdated sv org draftId effectiveCurrent reviewerRevision model job \<longleftrightarrow>
     rj_organizationId job = org \<and> bi_draftId (rj_binding job) = draftId \<and>
     (let contractChanged =
        (case reviewerRevision of None \<Rightarrow> False | Some r \<Rightarrow> rj_reviewerRevision job \<noteq> r) \<or>
        (case model of None \<Rightarrow> False | Some m \<Rightarrow> rj_model job \<noteq> m) \<or>
        \<not> contractIsCurrent sv (rj_model job) (rj_reviewerRevision job) in
      \<not> ((case effectiveCurrent of None \<Rightarrow> False | Some c \<Rightarrow> sameBinding (rj_binding job) c) \<and> \<not> contractChanged)) \<and>
     rj_state job \<noteq> RStale"

text \<open>The loop: the jobs, the results and the changed jobs; \<open>n\<close> counts the identifiers drawn.\<close>

fun mark_loop ::
    "(review_job \<Rightarrow> bool) \<Rightarrow> review_env \<Rightarrow> jstring \<Rightarrow> jstring \<Rightarrow> timestamp \<Rightarrow> nat \<Rightarrow> review_job list \<Rightarrow> review_result list \<Rightarrow>
     review_job list \<times> review_result list \<times> review_job list" where
  "mark_loop out e org reason t n [] results = ([], results, [])"
| "mark_loop out e org reason t n (job # jobs) results =
     (if \<not> out job then
        (let (jobs', results', changed) = mark_loop out e org reason t n jobs results in (job # jobs', results', changed))
      else
        (let (job', results1, _) = staleResultForJob (randomId e n ''upload-review-result'') job org results reason t;
             (jobs', results', changed) = mark_loop out e org reason t (Suc n) jobs results1 in
         (job' # jobs', results', job' # changed)))"

definition markStale ::
    "review_service \<Rightarrow> review_env \<Rightarrow> jstring \<Rightarrow> mark_stale_input \<Rightarrow> review_store \<Rightarrow> (review_store \<times> review_job list) review" where
  "markStale sv e org input s =
     bindr (assertOrganizationId org) (\<lambda>_.
     bindr (boundedString (ms_draftId input) 256) (\<lambda>draftId.
     bindr (validateBinding (ms_current input)) (\<lambda>current.
     bindr (optionalString (ms_reviewerRevision input) 128) (\<lambda>reviewerRevision.
     bindr (optionalString (ms_model input) 256) (\<lambda>model.
     bindr (boundedString (ms_reason input) 1000) (\<lambda>reason.
     bindr (parseClock (rv_host e) (rv_wall e) (ms_now input)) (\<lambda>ck.
     bindr (if sv_resolveCurrentBinding sv = None then Inr (Some current) else currentBinding sv s draftId) (\<lambda>effectiveCurrent.
     let (jobs, results, changed) =
       mark_loop (outdated sv org draftId effectiveCurrent reviewerRevision model) e org reason (iso ck) 0 (ws_jobs s) (ws_results s) in
     bindr (pruneCollections (s\<lparr>ws_jobs := jobs, ws_results := results\<rparr>)) (\<lambda>s'.
     Inr (s', changed))))))))))"

definition review_audit :: "jstring \<Rightarrow> jstring \<Rightarrow> jstring \<Rightarrow> string \<Rightarrow> jstring \<Rightarrow> timestamp \<Rightarrow> review_store \<Rightarrow> review_store" where
  "review_audit aid org actor action resource t s =
     s\<lparr>ws_registry := (ws_registry s)\<lparr>st_audit := st_audit (ws_registry s) @
        [\<lparr>ae_id = aid, ae_organizationId = org, ae_subject = actor, ae_action = action, ae_resourceId = Some resource,
          ae_createdAt = t\<rparr>]\<rparr>\<rparr>"

definition requeued_job :: "timestamp \<Rightarrow> review_job \<Rightarrow> review_job" where
  "requeued_job t job =
     clearLease (job\<lparr>rj_state := RPending, rj_updatedAt := t, rj_finishedAt := None, rj_error := None,
       rj_staleReason := None, rj_resultId := None, rj_eveSessionId := None\<rparr>)"

definition requeue ::
    "review_service \<Rightarrow> review_env \<Rightarrow> jstring \<Rightarrow> jstring \<Rightarrow> review_now \<Rightarrow> jstring option \<Rightarrow> review_store \<Rightarrow> (review_store \<times> review_job) review" where
  "requeue sv e org jobId now actor s =
     bindr (assertOrganizationId org) (\<lambda>_.
     bindr (case actor of None \<Rightarrow> Inr None | Some a \<Rightarrow> bindr (boundedString (JStr a) 256) (\<lambda>b. Inr (Some b))) (\<lambda>cleanActor.
     bindr (parseClock (rv_host e) (rv_wall e) now) (\<lambda>ck.
     bindr (boundedString (JStr jobId) 256) (\<lambda>cleanJobId.
     bindr (findJob (ws_jobs s) org cleanJobId) (\<lambda>job.
     bindr (assertBindingCurrent sv s (rj_binding job) (rj_model job) (rj_reviewerRevision job)) (\<lambda>_.
     if \<not> terminal job then Inl review_conflict
     else
       let job' = requeued_job (iso ck) job; s1 = put_job org cleanJobId job' s;
           s2 = (case cleanActor of
                   None \<Rightarrow> s1
                 | Some a \<Rightarrow> review_audit (randomId e 0 ''audit'') org a ''upload-review.rerun.requested'' (rj_id job) (iso ck) s1) in
       bindr (pruneCollections s2) (\<lambda>s'. Inr (s', job'))))))))"

definition is_result :: "jstring \<Rightarrow> jstring \<Rightarrow> review_result \<Rightarrow> bool" where
  "is_result org rid r \<longleftrightarrow> rr_organizationId r = org \<and> rr_id r = rid"

definition parse_decision :: "jsval \<Rightarrow> finding_decision option" where
  "parse_decision v =
     (if v = JStr (js ''open'') then Some Open else if v = JStr (js ''acknowledged'') then Some Acknowledged
      else if v = JStr (js ''dismissed'') then Some Dismissed else None)"

text \<open>Whether the findings of a result may still be changed.\<close>

definition result_is_current :: "review_service \<Rightarrow> review_store \<Rightarrow> jstring \<Rightarrow> review_result \<Rightarrow> bool review" where
  "result_is_current sv s org r =
     (if sv_resolveCurrentBinding sv = None then Inr True
      else (case find (is_job org (rr_jobId r)) (ws_jobs s) of
        None \<Rightarrow> Inr False
      | Some job \<Rightarrow>
          bindr (jobIsCurrent sv s job) (\<lambda>ok.
          if \<not> ok \<or> \<not> contractIsCurrent sv (rr_model r) (rr_reviewerRevision r) then Inr False
          else bindingIsCurrent sv s (rr_binding r))))"

definition decide_finding :: "jstring \<Rightarrow> finding_decision \<Rightarrow> jstring option \<Rightarrow> review_result \<Rightarrow> review_result" where
  "decide_finding fid decision reason r =
     r\<lparr>rr_findings := update_first (\<lambda>f. rf_id f = fid) (\<lambda>f. f\<lparr>rf_decision := decision, rf_decisionReason := reason\<rparr>) (rr_findings r)\<rparr>"

definition updateFindingDecision ::
    "review_service \<Rightarrow> review_env \<Rightarrow> jstring \<Rightarrow> jstring \<Rightarrow> jstring \<Rightarrow> jsval \<Rightarrow> jstring \<Rightarrow> jsval \<Rightarrow> review_now \<Rightarrow> review_store \<Rightarrow>
     (review_store \<times> review_result) review" where
  "updateFindingDecision sv e org resultId findingId decision actor reason now s =
     bindr (assertOrganizationId org) (\<lambda>_.
     bindr (boundedString (JStr resultId) 256) (\<lambda>cleanResultId.
     bindr (boundedString (JStr findingId) 256) (\<lambda>cleanFindingId.
     bindr (boundedString (JStr actor) 256) (\<lambda>cleanActor.
     case parse_decision decision of
       None \<Rightarrow> Inl review_invalid
     | Some d \<Rightarrow>
         bindr (optionalString reason 1000) (\<lambda>cleanReason.
         if d = Dismissed \<and> cleanReason = None then Inl review_invalid
         else
           bindr (parseClock (rv_host e) (rv_wall e) now) (\<lambda>ck.
           case find (is_result org cleanResultId) (ws_results s) of
             None \<Rightarrow> Inl review_not_found
           | Some r \<Rightarrow>
               if rr_state r = RStale then Inl review_binding_stale
               else bindr (result_is_current sv s org r) (\<lambda>ok.
                 if \<not> ok then Inl review_binding_stale
                 else (case find (\<lambda>f. rf_id f = cleanFindingId) (rr_findings r) of
                   None \<Rightarrow> Inl review_not_found
                 | Some _ \<Rightarrow>
                     let r' = decide_finding cleanFindingId d cleanReason r;
                         s1 = s\<lparr>ws_results := update_first (is_result org cleanResultId) (\<lambda>_. r') (ws_results s)\<rparr> in
                     Inr (review_audit (randomId e 0 ''audit'') org cleanActor ''upload-review.finding.decision''
                            cleanResultId (iso ck) s1, r')))))))))"

section \<open>Lists\<close>

record list_options =
  lo_draftId :: "jstring option"
  lo_state :: "review_state option"
  lo_limit :: jsval

definition list_limit :: "list_options \<Rightarrow> nat review" where
  "list_limit opts = (if lo_limit opts = JUndefined then Inr 100
                      else bindr (validateRevision (lo_limit opts)) (\<lambda>n. Inr (min n 100)))"

definition listJobs :: "review_service \<Rightarrow> jstring \<Rightarrow> list_options \<Rightarrow> review_store \<Rightarrow> review_job list review" where
  "listJobs sv org opts s =
     bindr (assertOrganizationId org) (\<lambda>_.
     bindr (list_limit opts) (\<lambda>limit.
     bindr (mapr (projectJob sv s) (filter (\<lambda>j. rj_organizationId j = org) (ws_jobs s))) (\<lambda>jobs.
     Inr (take limit
       (sort_by (\<lambda>l r. stamp_cmp (rj_updatedAt r) (rj_updatedAt l))
         (filter (\<lambda>j. case lo_state opts of None \<Rightarrow> True | Some st \<Rightarrow> rj_state j = st)
           (filter (\<lambda>j. case lo_draftId opts of None \<Rightarrow> True | Some d \<Rightarrow> bi_draftId (rj_binding j) = d) jobs)))))))"

definition listResults :: "review_service \<Rightarrow> jstring \<Rightarrow> list_options \<Rightarrow> review_store \<Rightarrow> review_result list review" where
  "listResults sv org opts s =
     bindr (assertOrganizationId org) (\<lambda>_.
     bindr (list_limit opts) (\<lambda>limit.
     bindr (mapr (projectResult sv s) (filter (\<lambda>r. rr_organizationId r = org) (ws_results s))) (\<lambda>results.
     Inr (take limit
       (sort_by (\<lambda>l r. stamp_cmp (rr_finishedAt r) (rr_finishedAt l))
         (filter (\<lambda>r. case lo_state opts of None \<Rightarrow> True | Some st \<Rightarrow> rr_state r = st)
           (filter (\<lambda>r. case lo_draftId opts of None \<Rightarrow> True | Some d \<Rightarrow> bi_draftId (rr_binding r) = d) results)))))))"

end
