(* ===== verification/Review_Guarantees.thy ===== *)
theory Review_Guarantees
  imports Upload_Review
begin

text \<open>
  What the upload review queue promises: its invariant over every interleaving of the methods, the
  states a review may go through, fencing of reviewers by lease, the effect of a changed draft,
  idempotent submission, retention, and honest listings.
\<close>

section \<open>Pruning\<close>

lemma oldest_first_Nil: "oldest_first jobs = [] \<longleftrightarrow> (\<forall>j \<in> set jobs. active j)"
  unfolding oldest_first_def by (metis (no_types, lifting) filter_empty_conv set_empty set_sort_by)

lemma prune_jobs_short: "length jobs \<le> 100 \<Longrightarrow> prune_jobs jobs results = Inr (jobs, results)"
  by (simp add: prune_jobs.simps)

lemma filter_remove1_skip: "\<not> p x \<Longrightarrow> filter p (remove1 x xs) = filter p xs"
  by (induction xs) auto

lemma prune_jobs_Inr:
  "prune_jobs jobs results = Inr (jobs', results') \<Longrightarrow>
     length jobs' \<le> 100 \<and> set jobs' \<subseteq> set jobs \<and> filter active jobs' = filter active jobs \<and>
     set results' \<subseteq> set results \<and>
     (distinct (map rj_id jobs) \<longrightarrow> distinct (map rj_id jobs') \<and>
        (\<forall>r \<in> set results'. \<forall>j \<in> set jobs. rj_id j = rr_jobId r \<longrightarrow> j \<in> set jobs'))"
proof (induction jobs results rule: prune_jobs.induct)
  case (1 jobs results)
  show ?case
  proof (cases "length jobs \<le> 100")
    case True
    with 1 show ?thesis by (auto simp: prune_jobs_short)
  next
    case False
    with 1(2) obtain j rest where old: "oldest_first jobs = j # rest"
      and rec: "prune_jobs (remove1 j jobs) (filter (\<lambda>r. rr_jobId r \<noteq> rj_id j) results) = Inr (jobs', results')"
      by (subst (asm) prune_jobs.simps) (auto split: list.splits)
    note IH = "1.IH" [OF False old rec]
    have j: "j \<in> set jobs" "\<not> active j" using oldest_first_in [OF old] by auto
    have dist: "distinct (map rj_id (remove1 j jobs))" if "distinct (map rj_id jobs)"
      using that by (metis distinct_map distinct_remove1 inj_on_subset set_remove1_subset)
    have other: "x = j \<or> x \<in> set (remove1 j jobs)" if "x \<in> set jobs" for x
      using that by (metis in_set_remove1)
    have bound: "\<forall>r \<in> set results'. \<forall>x \<in> set jobs. rj_id x = rr_jobId r \<longrightarrow> x \<in> set jobs'" if "distinct (map rj_id jobs)"
    proof (intro ballI impI)
      fix r x assume r: "r \<in> set results'" and x: "x \<in> set jobs" "rj_id x = rr_jobId r"
      have "rr_jobId r \<noteq> rj_id j" using IH r by auto
      with x(2) other [OF x(1)] have "x \<in> set (remove1 j jobs)" by metis
      with IH dist [OF that] r x(2) show "x \<in> set jobs'" by blast
    qed
    have "filter active (remove1 j jobs) = filter active jobs" using j(2) by (rule filter_remove1_skip)
    moreover have "set (remove1 j jobs) \<subseteq> set jobs" by (rule set_remove1_subset)
    moreover have "set (filter (\<lambda>r. rr_jobId r \<noteq> rj_id j) results) \<subseteq> set results" by (rule filter_is_subset)
    ultimately show ?thesis using IH dist bound by (metis subset_trans)
  qed
qed

lemma prune_results_Inr: "length (prune_results rs) \<le> 100 \<and> set (prune_results rs) \<subseteq> set rs"
proof (induction rs rule: prune_results.induct)
  case (1 rs)
  let ?sorted = "sort_by (\<lambda>l r. stamp_cmp (rr_finishedAt l) (rr_finishedAt r)) rs"
  have "set (tl ?sorted) \<subseteq> set rs"
    by (metis list.set_sel(2) set_sort_by subsetI tl_Nil)
  with 1 show ?case by (subst (1 2) prune_results.simps) (auto simp del: set_sort_by)
qed

text \<open>Pruning succeeds as long as at most the limit of reviews is active.\<close>

lemma prune_jobs_succeeds:
  "length (filter active jobs) \<le> 100 \<Longrightarrow> \<exists>r. prune_jobs jobs results = Inr r"
proof (induction jobs results rule: prune_jobs.induct)
  case (1 jobs results)
  show ?case
  proof (cases "length jobs \<le> 100")
    case False
    with 1(2) have "oldest_first jobs \<noteq> []"
      by (metis filter_True oldest_first_Nil)
    then obtain j rest where old: "oldest_first jobs = j # rest" by (cases "oldest_first jobs") auto
    have "filter active (remove1 j jobs) = filter active jobs"
      using oldest_first_in [OF old] by (simp add: filter_remove1_skip)
    with "1.IH" [OF False old] 1(2) show ?thesis
      by (subst prune_jobs.simps) (simp add: old)
  qed (simp add: prune_jobs_short)
qed

section \<open>The invariant\<close>

text \<open>What never changes in a job.\<close>

definition ident :: "review_job \<Rightarrow> jstring \<times> jstring \<times> jstring \<times> binding \<times> snapshot \<times> jstring \<times> jstring" where
  "ident j = (rj_id j, rj_organizationId j, rj_idempotencyKey j, rj_binding j, rj_snapshot j, rj_model j, rj_reviewerRevision j)"

definition lease_shape :: "review_job \<Rightarrow> bool" where
  "lease_shape j \<longleftrightarrow> (rj_state j = RRunning \<longleftrightarrow> rj_leaseToken j \<noteq> None) \<and> (rj_leaseToken j = None \<longleftrightarrow> rj_leaseExpiresAt j = None)"

definition inside :: "snapshot \<Rightarrow> review_finding \<Rightarrow> bool" where
  "inside snap f \<longleftrightarrow> (case rf_path f of None \<Rightarrow> True | Some p \<Rightarrow> p \<in> set (map sf_path snap))"

definition result_of :: "review_job \<Rightarrow> review_result \<Rightarrow> bool" where
  "result_of j r \<longleftrightarrow> rr_jobId r = rj_id j \<and> rr_organizationId r = rj_organizationId j \<and> rr_binding r = rj_binding j
     \<and> rr_model r = rj_model j \<and> rr_reviewerRevision r = rj_reviewerRevision j
     \<and> (rr_state r = RPassed \<or> rr_state r = RFailed \<or> rr_state r = RStale) \<and> length (rr_findings r) \<le> 60
     \<and> list_all (inside (rj_snapshot j)) (rr_findings r)"

definition queue_ok :: "review_job list \<Rightarrow> review_result list \<Rightarrow> bool" where
  "queue_ok jobs results \<longleftrightarrow> distinct (map rj_id jobs) \<and> (\<forall>j \<in> set jobs. lease_shape j)
     \<and> (\<forall>r \<in> set results. \<exists>j \<in> set jobs. result_of j r)"

definition store_ok :: "review_store \<Rightarrow> bool" where
  "store_ok s \<longleftrightarrow> queue_ok (ws_jobs s) (ws_results s) \<and> length (ws_jobs s) \<le> 100 \<and> length (ws_results s) \<le> 100"

lemma result_of_ident: "ident j = ident j' \<Longrightarrow> result_of j r \<longleftrightarrow> result_of j' r"
  unfolding ident_def result_of_def by simp

lemma ident_id: "ident j = ident j' \<Longrightarrow> rj_id j = rj_id j' \<and> rj_organizationId j = rj_organizationId j'"
  by (simp add: ident_def)

lemma pruneCollections_InrE:
  assumes "pruneCollections s = Inr t"
  obtains jobs' results' where "prune_jobs (ws_jobs s) (ws_results s) = Inr (jobs', results')"
    and "t = s\<lparr>ws_jobs := jobs', ws_results := prune_results results'\<rparr>"
  using assms by (auto simp: pruneCollections_def result_simps)

lemma prune_facts:
  assumes "pruneCollections s = Inr t"
  shows "set (ws_jobs t) \<subseteq> set (ws_jobs s)" and "set (ws_results t) \<subseteq> set (ws_results s)"
    and "filter active (ws_jobs t) = filter active (ws_jobs s)"
    and "ws_registry t = ws_registry s"
    and "queue_ok (ws_jobs s) (ws_results s) \<Longrightarrow> store_ok t"
proof -
  obtain jobs' results' where p: "prune_jobs (ws_jobs s) (ws_results s) = Inr (jobs', results')"
    "t = s\<lparr>ws_jobs := jobs', ws_results := prune_results results'\<rparr>"
    using assms by (rule pruneCollections_InrE)
  note facts = prune_jobs_Inr [OF p(1)] prune_results_Inr [of results']
  show "set (ws_jobs t) \<subseteq> set (ws_jobs s)" "set (ws_results t) \<subseteq> set (ws_results s)"
    "filter active (ws_jobs t) = filter active (ws_jobs s)" "ws_registry t = ws_registry s"
    using facts by (auto simp: p(2))
  assume ok: "queue_ok (ws_jobs s) (ws_results s)"
  have "\<exists>j \<in> set jobs'. result_of j r" if "r \<in> set (prune_results results')" for r
  proof -
    have r: "r \<in> set results'" "r \<in> set (ws_results s)" using that facts by auto
    then obtain j where "j \<in> set (ws_jobs s)" "result_of j r" using ok by (auto simp: queue_ok_def)
    moreover from this have "rj_id j = rr_jobId r" by (simp add: result_of_def)
    moreover have "distinct (map rj_id (ws_jobs s))" using ok by (simp add: queue_ok_def)
    ultimately show ?thesis using facts(1) r(1) by blast
  qed
  moreover have "\<forall>j \<in> set jobs'. lease_shape j" using ok facts(1) unfolding queue_ok_def by blast
  moreover have "distinct (map rj_id jobs')" using ok facts(1) unfolding queue_ok_def by blast
  ultimately show "store_ok t" using facts by (simp add: store_ok_def queue_ok_def p(2))
qed

lemma prune_short:
  "length (ws_jobs s) \<le> 100 \<Longrightarrow> pruneCollections s = Inr (s\<lparr>ws_results := prune_results (ws_results s)\<rparr>)"
  by (simp add: pruneCollections_def prune_jobs_short)

section \<open>How a job evolves\<close>

definition allowed :: "review_state \<Rightarrow> review_state \<Rightarrow> bool" where
  "allowed a b \<longleftrightarrow> b = a \<or> b = RStale \<or> (a = RPending \<and> b = RRunning) \<or> (a = RRunning \<and> (b = RPassed \<or> b = RFailed))
     \<or> (b = RPending \<and> (a = RPassed \<or> a = RFailed \<or> a = RStale))"

definition evolve :: "review_job \<Rightarrow> review_job \<Rightarrow> bool" where
  "evolve j j' \<longleftrightarrow> ident j' = ident j \<and> allowed (rj_state j) (rj_state j') \<and> (lease_shape j \<longrightarrow> lease_shape j')"

lemma evolve_refl [simp]: "evolve j j"
  by (simp add: evolve_def allowed_def)

lemma jobs_evolve_refl [simp]: "list_all2 evolve jobs jobs"
  by (simp add: list_all2_refl)

lemma evolves_ident: "list_all2 evolve jobs jobs' \<Longrightarrow> map ident jobs' = map ident jobs"
  by (induction rule: list_all2_induct) (auto simp: evolve_def)

lemma evolves_ids: "list_all2 evolve jobs jobs' \<Longrightarrow> map rj_id jobs' = map rj_id jobs"
  by (induction rule: list_all2_induct) (auto simp: evolve_def dest: ident_id)

lemma evolves_lease: "list_all2 evolve jobs jobs' \<Longrightarrow> \<forall>j \<in> set jobs. lease_shape j \<Longrightarrow> \<forall>j \<in> set jobs'. lease_shape j"
  by (induction rule: list_all2_induct) (auto simp: evolve_def)

lemma evolves_ident_in: "list_all2 evolve jobs jobs' \<Longrightarrow> j \<in> set jobs \<Longrightarrow> \<exists>j' \<in> set jobs'. ident j' = ident j"
  by (induction rule: list_all2_induct) (auto simp: evolve_def)

lemma jobs_evolve_same:
  assumes ev: "list_all2 evolve jobs jobs'" and dist: "distinct (map rj_id jobs)"
    and j: "j \<in> set jobs" and j': "j' \<in> set jobs'" and same: "rj_id j' = rj_id j"
  shows "evolve j j'"
proof -
  have len: "length jobs' = length jobs" using ev by (simp add: list_all2_lengthD)
  obtain n where n: "n < length jobs" "j = jobs ! n" using j by (metis in_set_conv_nth)
  obtain m where m: "m < length jobs" "j' = jobs' ! m" using j' len by (metis in_set_conv_nth)
  have "rj_id (jobs' ! m) = rj_id (jobs ! m)"
    using evolves_ids [OF ev] m(1) len nth_map [of m jobs rj_id] nth_map [of m jobs' rj_id] by simp
  then have "rj_id (jobs ! m) = rj_id (jobs ! n)" using same n m by simp
  then have "map rj_id jobs ! m = map rj_id jobs ! n" using n m by simp
  then have "m = n" using nth_eq_iff_index_eq [OF dist] n m by simp
  with list_all2_nthD [OF ev n(1)] n m show ?thesis by simp
qed

lemma evolves_queue_ok:
  assumes ev: "list_all2 evolve jobs jobs'" and ok: "queue_ok jobs results"
    and res: "\<forall>r \<in> set results'. \<exists>j \<in> set jobs. result_of j r"
  shows "queue_ok jobs' results'"
proof -
  have "\<exists>j' \<in> set jobs'. result_of j' r" if r: "r \<in> set results'" for r
  proof -
    obtain j where "j \<in> set jobs" "result_of j r" using bspec [OF res r] by (elim bexE)
    then obtain j' where "j' \<in> set jobs'" "ident j' = ident j" using evolves_ident_in [OF ev] by blast
    with \<open>result_of j r\<close> have "result_of j' r" using result_of_ident [of j' j r] by simp
    with \<open>j' \<in> set jobs'\<close> show ?thesis by (rule bexI [rotated])
  qed
  with ok ev show ?thesis by (simp add: queue_ok_def evolves_ids evolves_lease)
qed

lemma update_first_evolves:
  "find p jobs = Some job \<Longrightarrow> evolve job job' \<Longrightarrow> list_all2 evolve jobs (update_first p (\<lambda>_. job') jobs)"
  by (induction jobs) (auto split: if_splits)

lemma evolve_simps:
  "evolve job (stale_job reason t job)"
  "evolve job ((stale_job reason t job)\<lparr>rj_resultId := rid\<rparr>)"
  "evolve job (job\<lparr>rj_eveSessionId := x, rj_updatedAt := t\<rparr>)"
  "active job \<Longrightarrow> evolve job (claimed_job e session ck expires job)"
  "rj_state job = RRunning \<Longrightarrow> st = RPassed \<or> st = RFailed \<Longrightarrow> evolve job (finished_job st ck r job)"
  "rj_state job = RRunning \<Longrightarrow> st = RPassed \<or> st = RFailed \<Longrightarrow> evolve job ((finished_job st ck r job)\<lparr>rj_error := er\<rparr>)"
  "terminal job \<Longrightarrow> evolve job (requeued_job t job)"
  by (auto simp: evolve_def ident_def allowed_def lease_shape_def stale_job_def clearLease_def claimed_job_def
      finished_job_def requeued_job_def terminal_def active_def)

lemma stale_result_for_job:
  assumes "staleResultForJob rid job (rj_organizationId job) results reason t = (job', results', r)"
    and "\<forall>r \<in> set results. \<exists>j \<in> set jobs. result_of j r" and "job \<in> set jobs"
  shows "evolve job job' \<and> rj_state job' = RStale \<and> rr_state r = RStale \<and>
    (\<forall>r \<in> set results'. \<exists>j \<in> set jobs. result_of j r) \<and>
    (\<forall>r \<in> set results'. rr_state r \<noteq> RStale \<longrightarrow> r \<in> set results)"
proof -
  have mark: "result_of j (r\<lparr>rr_state := RStale, rr_staleReason := x, rr_finishedAt := y\<rparr>)" if "result_of j r" for j r x y
    using that by (simp add: result_of_def)
  have fresh: "result_of job (new_result rid job (rj_organizationId job) RStale [] t None (Some reason))"
    by (simp add: result_of_def new_result_def)
  let ?linked = "\<lambda>r. rj_resultId job = Some (rr_id r) \<and> rr_id r \<noteq> []"
  let ?mark = "\<lambda>r. r\<lparr>rr_state := RStale, rr_staleReason := Some reason, rr_finishedAt := t\<rparr>"
  show ?thesis
  proof (cases "find ?linked results")
    case None
    with assms(1) have eqs: "job' = (stale_job reason t job)\<lparr>rj_resultId := Some rid\<rparr>"
      "r = new_result rid job (rj_organizationId job) RStale [] t None (Some reason)" "results' = results @ [r]"
      by (auto simp: staleResultForJob_def Let_def)
    have "rr_state r = RStale" by (simp add: eqs(2) new_result_def)
    moreover have "evolve job job'" by (simp only: eqs(1) evolve_simps)
    moreover have "rj_state job' = RStale" by (simp add: eqs(1) stale_job_def clearLease_def)
    ultimately show ?thesis using assms(2,3) fresh by (auto simp: eqs(3) eqs(2) [symmetric])
  next
    case (Some old)
    with assms(1) have eqs: "job' = stale_job reason t job" "r = ?mark old" "results' = update_first ?linked ?mark results"
      by (auto simp: staleResultForJob_def Let_def)
    have in_results: "x \<in> set results \<or> x = ?mark old" if "x \<in> set results'" for x
      using update_first_in [of x ?linked ?mark results] that Some by (auto simp: eqs(3))
    have "\<exists>j \<in> set jobs. result_of j (?mark old)" using find_in_set [OF Some] assms(2) mark by blast
    with in_results assms(2) have "\<forall>x \<in> set results'. \<exists>j \<in> set jobs. result_of j x" by blast
    moreover have "\<forall>x \<in> set results'. rr_state x \<noteq> RStale \<longrightarrow> x \<in> set results"
      using in_results by fastforce
    moreover have "evolve job job'" by (simp only: eqs(1) evolve_simps)
    ultimately show ?thesis by (simp add: eqs(1,2) stale_job_def clearLease_def)
  qed
qed

section \<open>The effect of a method\<close>

text \<open>
  All methods but \<open>enqueue\<close> keep the list of jobs, each evolving; \<open>P\<close> is what they establish of a
  result that newly passes.
\<close>

definition effect :: "(review_result \<Rightarrow> bool) \<Rightarrow> review_store \<Rightarrow> review_store \<Rightarrow> bool" where
  "effect P s t \<longleftrightarrow> list_all2 evolve (ws_jobs s) (ws_jobs t) \<and> length (ws_results t) \<le> 100 \<and>
     (\<forall>r \<in> set (ws_results t). \<exists>j \<in> set (ws_jobs s). result_of j r) \<and>
     (\<forall>r \<in> set (ws_results t). rr_state r = RPassed \<longrightarrow>
        (\<exists>r0 \<in> set (ws_results s). rr_id r0 = rr_id r \<and> rr_state r0 = RPassed) \<or> P r)"

lemma effect_refl: "store_ok s \<Longrightarrow> effect P s (s\<lparr>ws_registry := g\<rparr>)"
  by (auto simp: effect_def store_ok_def queue_ok_def)

lemma effect_same: "store_ok s \<Longrightarrow> effect P s s"
  by (auto simp: effect_def store_ok_def queue_ok_def)

lemma effect_store_ok: "store_ok s \<Longrightarrow> effect P s t \<Longrightarrow> store_ok t"
  unfolding effect_def store_ok_def by (auto intro: evolves_queue_ok simp: list_all2_lengthD [symmetric])

lemma effect_prune:
  assumes "store_ok s" and "list_all2 evolve (ws_jobs s) (ws_jobs s1)" and "pruneCollections s1 = Inr t"
    and "\<forall>r \<in> set (ws_results s1). \<exists>j \<in> set (ws_jobs s). result_of j r"
    and "\<forall>r \<in> set (ws_results s1). rr_state r = RPassed \<longrightarrow> r \<in> set (ws_results s) \<or> P r"
  shows "effect P s t" and "ws_jobs t = ws_jobs s1"
proof -
  have "length (ws_jobs s1) \<le> 100"
    using assms(1,2) by (simp add: store_ok_def list_all2_lengthD [symmetric])
  from prune_short [OF this] assms(3) have t: "t = s1\<lparr>ws_results := prune_results (ws_results s1)\<rparr>" by simp
  then show "ws_jobs t = ws_jobs s1" by simp
  have sub: "set (ws_results t) \<subseteq> set (ws_results s1)" "length (ws_results t) \<le> 100"
    using prune_results_Inr [of "ws_results s1"] by (simp_all add: t)
  with assms(2,4,5) show "effect P s t"
    unfolding effect_def by (auto simp: t)
qed

lemma mark_binding_stale_effect:
  assumes ok: "store_ok s" and job: "find (is_job org i) (ws_jobs s) = Some job"
    and mark: "mark_binding_stale e org i job t0 s = Inr (t, job', r)"
  shows "effect P s t" and "rj_state job' = RStale" and "rr_state r = RStale"
proof -
  have job_in: "job \<in> set (ws_jobs s)" using find_in_set [OF job] by simp
  obtain results where st: "staleResultForJob (randomId e 0 ''upload-review-result'') job (rj_organizationId job)
      (ws_results s) binding_differs t0 = (job', results, r)"
    and prune: "pruneCollections ((put_job org i job' s)\<lparr>ws_results := results\<rparr>) = Inr t"
    using mark by (auto simp: mark_binding_stale_def result_simps Let_def split: prod.splits)
  have res: "\<forall>r \<in> set (ws_results s). \<exists>j \<in> set (ws_jobs s). result_of j r"
    using ok by (simp add: store_ok_def queue_ok_def)
  note facts = stale_result_for_job [OF st res job_in]
  have "list_all2 evolve (ws_jobs s) (ws_jobs ((put_job org i job' s)\<lparr>ws_results := results\<rparr>))"
    using update_first_evolves [OF job] facts by (simp add: put_job_def)
  from effect_prune(1) [OF ok this prune] facts show "effect P s t" by auto
  show "rj_state job' = RStale" "rr_state r = RStale" using facts by simp_all
qed

lemma findJob_Inr: "findJob jobs org i = Inr job \<longleftrightarrow> find (is_job org i) jobs = Some job"
  by (simp add: findJob_def split: option.splits)

lemma put_job_effect:
  assumes "store_ok s" and "find (is_job org i) (ws_jobs s) = Some job" and "evolve job job'"
  shows "effect P s (put_job org i job' s)"
  using effect_same [OF assms(1), of P] update_first_evolves [OF assms(2,3)] by (simp add: effect_def put_job_def)

lemma bindEveSession_effect:
  "bindEveSession sv e org jobId session now s = Inr (t, job) \<Longrightarrow> store_ok s \<Longrightarrow> effect P s t"
  by (auto simp: bindEveSession_def result_simps Let_def findJob_Inr intro!: put_job_effect evolve_simps)

lemma claim_InrE:
  assumes "claim sv e org jobId session now s = Inr (t, c)"
  obtains ck i job session' where "parseClock (rv_host e) (rv_wall e) now = Inr ck"
    and "boundedString (JStr jobId) 256 = Inr i" and "find (is_job org i) (ws_jobs s) = Some job"
    and "\<not> cl_claimed c \<and> t = s \<and> cl_job c = job
      \<or> \<not> cl_claimed c \<and> (\<exists>job' r. mark_binding_stale e org i job (iso ck) s = Inr (t, job', r) \<and> cl_job c = job')
      \<or> (\<exists>expires job'. cl_claimed c \<and> active job \<and> (rj_state job = RRunning \<longrightarrow> leaseExpired job (milliseconds ck))
           \<and> jobIsCurrent sv s job = Inr True
           \<and> to_iso (milliseconds ck + of_nat (sv_leaseSeconds sv) * 1000) = Inr expires
           \<and> job' = claimed_job e session' ck expires job \<and> pruneCollections (put_job org i job' s) = Inr t
           \<and> cl_job c = job' \<and> cl_leaseToken c = rj_leaseToken job')"
proof -
  obtain ck i job session' where parts: "parseClock (rv_host e) (rv_wall e) now = Inr ck"
    "boundedString (JStr jobId) 256 = Inr i" "find (is_job org i) (ws_jobs s) = Some job"
    and rest: "(if terminal job then Inr (s, \<lparr>cl_job = job, cl_claimed = False, cl_leaseToken = None\<rparr>)
     else bindr (jobIsCurrent sv s job) (\<lambda>current.
       if \<not> current then
         bindr (mark_binding_stale e org i job (iso ck) s) (\<lambda>(s', job', _).
         Inr (s', \<lparr>cl_job = job', cl_claimed = False, cl_leaseToken = None\<rparr>))
       else if rj_state job = RRunning \<and> \<not> leaseExpired job (milliseconds ck) then
         Inr (s, \<lparr>cl_job = job, cl_claimed = False,
                  cl_leaseToken = (if session' \<noteq> None \<and> rj_eveSessionId job = session' then rj_leaseToken job else None)\<rparr>)
       else bindr (to_iso (milliseconds ck + of_nat (sv_leaseSeconds sv) * 1000)) (\<lambda>expires.
         let job' = claimed_job e session' ck expires job in
         bindr (pruneCollections (put_job org i job' s)) (\<lambda>s'.
         Inr (s', \<lparr>cl_job = job', cl_claimed = True, cl_leaseToken = rj_leaseToken job'\<rparr>))))) = Inr (t, c)"
    using assms unfolding claim_def bindr_Inr_iff findJob_Inr by blast
  have act: "active job" if "\<not> terminal job"
    using that by (cases "rj_state job") (auto simp: terminal_def active_def)
  show thesis
  proof (rule that [OF parts, of session'])
    show "\<not> cl_claimed c \<and> t = s \<and> cl_job c = job
      \<or> \<not> cl_claimed c \<and> (\<exists>job' r. mark_binding_stale e org i job (iso ck) s = Inr (t, job', r) \<and> cl_job c = job')
      \<or> (\<exists>expires job'. cl_claimed c \<and> active job \<and> (rj_state job = RRunning \<longrightarrow> leaseExpired job (milliseconds ck))
           \<and> jobIsCurrent sv s job = Inr True
           \<and> to_iso (milliseconds ck + of_nat (sv_leaseSeconds sv) * 1000) = Inr expires
           \<and> job' = claimed_job e session' ck expires job \<and> pruneCollections (put_job org i job' s) = Inr t
           \<and> cl_job c = job' \<and> cl_leaseToken c = rj_leaseToken job')"
      using rest act by (cases "terminal job") (auto simp: bindr_Inr_iff Let_def split: if_splits)
  qed
qed

lemma put_job_prune_effect:
  assumes "store_ok s" and "find (is_job org i) (ws_jobs s) = Some job" and "evolve job job'"
    and "pruneCollections (put_job org i job' s) = Inr t"
  shows "effect P s t" and "ws_jobs t = update_first (is_job org i) (\<lambda>_. job') (ws_jobs s)"
  using effect_prune [OF assms(1) _ assms(4), of P] update_first_evolves [OF assms(2,3)] assms(1)
  by (auto simp: put_job_def store_ok_def queue_ok_def)

lemma claim_effect:
  assumes "claim sv e org jobId session now s = Inr (t, c)" and "store_ok s"
  shows "effect P s t"
  using assms(1)
proof (cases rule: claim_InrE)
  case (1 ck i job session')
  then consider "t = s" | job' r where "mark_binding_stale e org i job (iso ck) s = Inr (t, job', r)"
    | expires where "active job" "pruneCollections (put_job org i (claimed_job e session' ck expires job) s) = Inr t"
    by blast
  then show ?thesis
  proof cases
    case 1
    then show ?thesis using effect_same [OF assms(2)] by simp
  next
    case 2
    with mark_binding_stale_effect(1) [OF assms(2) \<open>find (is_job org i) (ws_jobs s) = Some job\<close>] show ?thesis by simp
  next
    case 3
    with put_job_prune_effect(1) [OF assms(2) \<open>find (is_job org i) (ws_jobs s) = Some job\<close> evolve_simps(4)]
    show ?thesis by simp
  qed
qed

lemma claimForEveSession_effect:
  "claimForEveSession sv e org session now read s = Inr (t, c) \<Longrightarrow> store_ok s \<Longrightarrow> effect P s t"
  by (auto simp: claimForEveSession_def result_simps intro: claim_effect)

lemma requireLease_Inr:
  "requireLease job tok ms = Inr u \<longleftrightarrow>
     rj_state job = RRunning \<and> boundedString (JStr tok) 256 = Inr (the (rj_leaseToken job)) \<and> rj_leaseToken job \<noteq> None
     \<and> \<not> leaseExpired job ms"
  by (auto simp: requireLease_def result_simps split: if_splits)

lemma getLeasedJob_effect:
  assumes "getLeasedJob sv e org jobId tok now s = Inr (t, job')" and "store_ok s"
  shows "effect P s t"
proof -
  obtain i job and ck :: clock where "find (is_job org i) (ws_jobs s) = Some job"
    and "t = s \<or> (\<exists>j r. mark_binding_stale e org i job (iso ck) s = Inr (t, j, r))"
    using assms(1) by (auto simp: getLeasedJob_def bindr_Inr_iff findJob_Inr split: if_splits) blast+
  then show ?thesis using effect_same [OF assms(2)] mark_binding_stale_effect(1) [OF assms(2)] by blast
qed

lemma finish_leased_InrE:
  assumes "finish_leased sv e org jobId tok now finish s = Inr (t, r)"
  obtains ck i job where "parseClock (rv_host e) (rv_wall e) now = Inr ck" and "boundedString (JStr jobId) 256 = Inr i"
    and "find (is_job org i) (ws_jobs s) = Some job" and "requireLease job tok (milliseconds ck) = Inr ()"
    and "(\<exists>job'. jobIsCurrent sv s job = Inr False \<and> mark_binding_stale e org i job (iso ck) s = Inr (t, job', r))
      \<or> (\<exists>job'. jobIsCurrent sv s job = Inr True \<and> finish ck job = Inr (job', r)
          \<and> pruneCollections ((put_job org i job' s)\<lparr>ws_results := ws_results s @ [r]\<rparr>) = Inr t)"
proof -
  obtain ck i job current where parts: "parseClock (rv_host e) (rv_wall e) now = Inr ck" "boundedString (JStr jobId) 256 = Inr i"
    "find (is_job org i) (ws_jobs s) = Some job" "requireLease job tok (milliseconds ck) = Inr ()"
    and cur: "jobIsCurrent sv s job = Inr current"
    and rest: "(if \<not> current then
       bindr (mark_binding_stale e org i job (iso ck) s) (\<lambda>(s', _, stale). Inr (s', stale))
     else
       bindr (finish ck job) (\<lambda>(job', result).
       bindr (pruneCollections ((put_job org i job' s)\<lparr>ws_results := ws_results s @ [result]\<rparr>)) (\<lambda>s'.
       Inr (s', result)))) = Inr (t, r)"
    using assms unfolding finish_leased_def bindr_Inr_iff findJob_Inr by auto
  show thesis
  proof (rule that [OF parts])
    show "(\<exists>job'. jobIsCurrent sv s job = Inr False \<and> mark_binding_stale e org i job (iso ck) s = Inr (t, job', r))
      \<or> (\<exists>job'. jobIsCurrent sv s job = Inr True \<and> finish ck job = Inr (job', r)
          \<and> pruneCollections ((put_job org i job' s)\<lparr>ws_results := ws_results s @ [r]\<rparr>) = Inr t)"
      using cur rest by (cases current) (auto simp: bindr_Inr_iff)
  qed
qed

text \<open>What a finished review was: running under a live lease, and current.\<close>

definition reviewed :: "review_service \<Rightarrow> review_store \<Rightarrow> review_result \<Rightarrow> bool" where
  "reviewed sv s r \<longleftrightarrow> (\<exists>job \<in> set (ws_jobs s). rj_state job = RRunning \<and> jobIsCurrent sv s job = Inr True \<and> result_of job r)"

lemma finish_leased_effect:
  assumes run: "finish_leased sv e org jobId tok now finish s = Inr (t, r)" and ok: "store_ok s"
    and fin: "\<And>ck job job' r. finish ck job = Inr (job', r) \<Longrightarrow> rj_state job = RRunning \<Longrightarrow> rj_organizationId job = org \<Longrightarrow>
      evolve job job' \<and> result_of job r"
  shows "effect (reviewed sv s) s t"
  using run
proof (cases rule: finish_leased_InrE)
  case (1 ck i job)
  note job = \<open>find (is_job org i) (ws_jobs s) = Some job\<close>
  have job_in: "job \<in> set (ws_jobs s)" "rj_organizationId job = org" using find_in_set [OF job] by (auto simp: is_job_def)
  have running: "rj_state job = RRunning" using 1(4) by (simp add: requireLease_Inr)
  from 1(5) consider job' where "mark_binding_stale e org i job (iso ck) s = Inr (t, job', r)"
    | job' where "jobIsCurrent sv s job = Inr True" "finish ck job = Inr (job', r)"
        "pruneCollections ((put_job org i job' s)\<lparr>ws_results := ws_results s @ [r]\<rparr>) = Inr t" by blast
  then show ?thesis
  proof cases
    case 1
    then show ?thesis by (rule mark_binding_stale_effect(1) [OF ok job])
  next
    case (2 job')
    note f = fin [OF 2(2) running job_in(2)]
    have "list_all2 evolve (ws_jobs s) (ws_jobs ((put_job org i job' s)\<lparr>ws_results := ws_results s @ [r]\<rparr>))"
      using update_first_evolves [OF job] f by (simp add: put_job_def)
    from effect_prune(1) [OF ok this 2(3), of "reviewed sv s"] show ?thesis
      using f job_in(1) running 2(1) ok by (auto simp: reviewed_def store_ok_def queue_ok_def)
  qed
qed

lemma validateFindings_inside:
  assumes "validateFindings e findings snap = Inr fs"
  shows "length fs \<le> 60 \<and> list_all (inside snap) fs"
proof -
  obtain vs where vs: "length vs \<le> 60" "mapr (validate_finding e snap) (zip [0..<length vs] vs) = Inr fs"
    using assms by (auto simp: validateFindings_def result_simps not_less)
  have "inside snap f" if f: "f \<in> set fs" for f
  proof -
    obtain x where "validate_finding e snap x = Inr f" using mapr_InrD [OF vs(2) f] by blast
    then obtain p where "rf_path f = p" "\<not> (case p of None \<Rightarrow> False | Some p \<Rightarrow> p \<notin> set (map sf_path snap))"
      unfolding validate_finding_def Let_def
      by (cases x) (auto simp: result_simps simp del: set_map split: if_splits)
    then show ?thesis by (auto simp: inside_def split: option.splits)
  qed
  then show ?thesis using vs(1) length_mapr [OF vs(2)] by (auto simp: list_all_iff)
qed

lemma complete_effect:
  assumes "complete sv e org jobId tok findings now s = Inr (t, r)" and "store_ok s"
  shows "effect (reviewed sv s) s t"
  using assms unfolding complete_def
  by (rule finish_leased_effect)
    (auto simp: bindr_Inr_iff Let_def new_result_def result_of_def evolve_simps dest!: validateFindings_inside)

lemma fail_effect:
  assumes "fail sv e org jobId tok err now s = Inr (t, r)" and "store_ok s"
  shows "effect (reviewed sv s) s t"
  using assms unfolding fail_def
  by (rule finish_leased_effect) (auto simp: Let_def new_result_def result_of_def evolve_simps)

lemma mark_loop_facts:
  assumes "mark_loop out e org reason t n jobs results = (jobs', results', changed)"
    and "\<forall>r \<in> set results. \<exists>j \<in> set all. result_of j r" and "set jobs \<subseteq> set all"
    and "\<forall>j. out j \<longrightarrow> rj_organizationId j = org"
  shows "list_all2 (\<lambda>j j'. evolve j j' \<and> (if out j then rj_state j' = RStale else j' = j)) jobs jobs' \<and>
    (\<forall>r \<in> set results'. \<exists>j \<in> set all. result_of j r) \<and>
    (\<forall>r \<in> set results'. rr_state r \<noteq> RStale \<longrightarrow> r \<in> set results) \<and>
    map rj_id changed = map rj_id (filter out jobs)"
  using assms
proof (induction out e org reason t n jobs results arbitrary: jobs' results' changed rule: mark_loop.induct)
  case (2 out e org reason t n job jobs results)
  show ?case
  proof (cases "out job")
    case False
    obtain j2 r2 c2 where rec: "mark_loop out e org reason t n jobs results = (j2, r2, c2)" by (metis prod_cases3)
    with "2.prems"(1) False have eqs: "jobs' = job # j2" "results' = r2" "changed = c2" by auto
    from "2.IH"(1) [OF False rec "2.prems"(2) _ "2.prems"(4)] "2.prems"(3) False show ?thesis by (simp add: eqs)
  next
    case True
    obtain job' r1 x where st: "staleResultForJob (randomId e n ''upload-review-result'') job org results reason t = (job', r1, x)"
      by (metis prod_cases3)
    obtain j2 r2 c2 where rec: "mark_loop out e org reason t (Suc n) jobs r1 = (j2, r2, c2)" by (metis prod_cases3)
    with "2.prems"(1) True st have eqs: "jobs' = job' # j2" "results' = r2" "changed = job' # c2" by auto
    have "rj_organizationId job = org" using "2.prems"(4) True by blast
    note one = stale_result_for_job [OF st [folded this] "2.prems"(2)]
    have one': "evolve job job'" "rj_state job' = RStale" "\<forall>r \<in> set r1. \<exists>j \<in> set all. result_of j r"
      "\<forall>r \<in> set r1. rr_state r \<noteq> RStale \<longrightarrow> r \<in> set results"
      using one "2.prems"(3) by simp_all
    have "rj_id job' = rj_id job" using one'(1) ident_id [of job' job] by (simp add: evolve_def)
    have sub: "set jobs \<subseteq> set all" using "2.prems"(3) by simp
    have nout: "\<not> \<not> out job" using True by simp
    note IH = "2.IH"(2) [OF nout st [symmetric] refl refl rec one'(3) sub "2.prems"(4)]
    have "\<forall>r \<in> set r2. rr_state r \<noteq> RStale \<longrightarrow> r \<in> set results" using IH one'(4) by blast
    with IH one'(1,2) True \<open>rj_id job' = rj_id job\<close> show ?thesis by (simp add: eqs)
  qed
qed simp

lemma outdated_org: "outdated sv org d c rv m j \<Longrightarrow> rj_organizationId j = org"
  by (simp add: outdated_def)

lemma markStale_InrE:
  assumes "markStale sv e org input s = Inr (t, changed)" and "store_ok s"
  obtains draftId current reviewerRevision model where "boundedString (ms_draftId input) 256 = Inr draftId"
    and "(if sv_resolveCurrentBinding sv = None then bindr (validateBinding (ms_current input)) (\<lambda>b. Inr (Some b))
          else currentBinding sv s draftId) = Inr current"
    and "optionalString (ms_reviewerRevision input) 128 = Inr reviewerRevision"
    and "optionalString (ms_model input) 256 = Inr model"
    and "list_all2 (\<lambda>j j'. evolve j j' \<and> (if outdated sv org draftId current reviewerRevision model j then rj_state j' = RStale else j' = j))
           (ws_jobs s) (ws_jobs t)"
    and "effect (\<lambda>_. False) s t" and "ws_registry t = ws_registry s"
    and "map rj_id changed = map rj_id (filter (outdated sv org draftId current reviewerRevision model) (ws_jobs s))"
proof -
  obtain draftId cur reviewerRevision model reason ck current where parts: "boundedString (ms_draftId input) 256 = Inr draftId"
    "validateBinding (ms_current input) = Inr cur" "optionalString (ms_reviewerRevision input) 128 = Inr reviewerRevision"
    "optionalString (ms_model input) 256 = Inr model"
    "(if sv_resolveCurrentBinding sv = None then Inr (Some cur) else currentBinding sv s draftId) = Inr current"
    and rest: "(let (jobs, results, changed) = mark_loop (outdated sv org draftId current reviewerRevision model) e org reason
        (iso (ck :: clock)) 0 (ws_jobs s) (ws_results s) in
      bindr (pruneCollections (s\<lparr>ws_jobs := jobs, ws_results := results\<rparr>)) (\<lambda>s'. Inr (s', changed))) = Inr (t, changed)"
    using assms(1) unfolding markStale_def bindr_Inr_iff by blast
  obtain jobs results where
    loop: "mark_loop (outdated sv org draftId current reviewerRevision model) e org reason (iso ck) 0 (ws_jobs s) (ws_results s)
      = (jobs, results, changed)"
    and prune: "pruneCollections (s\<lparr>ws_jobs := jobs, ws_results := results\<rparr>) = Inr t"
    using rest by (auto simp: Let_def bindr_Inr_iff split: prod.splits)
  have res: "\<forall>r \<in> set (ws_results s). \<exists>j \<in> set (ws_jobs s). result_of j r"
    using assms(2) by (simp add: store_ok_def queue_ok_def)
  note facts = mark_loop_facts [OF loop res subset_refl]
  have facts': "list_all2 (\<lambda>j j'. evolve j j' \<and> (if outdated sv org draftId current reviewerRevision model j then rj_state j' = RStale else j' = j)) (ws_jobs s) jobs"
    "\<forall>r \<in> set results. \<exists>j \<in> set (ws_jobs s). result_of j r" "\<forall>r \<in> set results. rr_state r \<noteq> RStale \<longrightarrow> r \<in> set (ws_results s)"
    "map rj_id changed = map rj_id (filter (outdated sv org draftId current reviewerRevision model) (ws_jobs s))"
    using facts by (simp_all add: outdated_org)
  have ev: "list_all2 evolve (ws_jobs s) (ws_jobs (s\<lparr>ws_jobs := jobs, ws_results := results\<rparr>))"
    using list_all2_mono [OF facts'(1)] by simp
  have pass: "\<forall>r \<in> set results. rr_state r = RPassed \<longrightarrow> r \<in> set (ws_results s) \<or> False" using facts'(3) by simp
  have eff: "effect (\<lambda>_. False) s t" and jobs: "ws_jobs t = jobs"
    using effect_prune [OF assms(2) ev prune, of "\<lambda>_. False"] facts'(2) pass by simp_all
  show thesis
    by (rule that [OF parts(1) _ parts(3,4)])
      (use parts(2,5) facts' eff jobs prune_facts(4) [OF prune] in \<open>auto split: if_splits\<close>)
qed

lemma markStale_effect:
  assumes "markStale sv e org input s = Inr (t, changed)" and "store_ok s"
  shows "effect P s t"
  using assms
proof (cases rule: markStale_InrE)
  case 1
  then show ?thesis unfolding effect_def by blast
qed

lemma requeue_effect:
  assumes "requeue sv e org jobId now actor s = Inr (t, job')" and ok: "store_ok s"
  shows "effect P s t"
proof -
  obtain i job and ck :: clock and g where job: "find (is_job org i) (ws_jobs s) = Some job" "terminal job"
    and prune: "pruneCollections ((put_job org i (requeued_job (iso ck) job) s)\<lparr>ws_registry := g\<rparr>) = Inr t"
    using assms(1) unfolding requeue_def review_audit_def bindr_Inr_iff findJob_Inr Let_def
    by (auto simp: bindr_Inr_iff split: if_splits option.splits)
      (metis (no_types, lifting) review_store.surjective review_store.update_convs(1))+
  show ?thesis
    by (rule effect_prune(1) [OF ok _ prune])
      (use update_first_evolves [OF job(1) evolve_simps(7) [OF job(2)]] ok in \<open>auto simp: put_job_def store_ok_def queue_ok_def\<close>)
qed

lemma updateFindingDecision_InrE:
  assumes "updateFindingDecision sv e org resultId findingId decision actor reason now s = Inr (t, r')"
  obtains rid fid d cleanReason r f and ck :: clock and a where "parse_decision decision = Some d"
    and "optionalString reason 1000 = Inr cleanReason" and "d = Dismissed \<longrightarrow> cleanReason \<noteq> None"
    and "boundedString (JStr resultId) 256 = Inr rid" and "boundedString (JStr findingId) 256 = Inr fid"
    and "boundedString (JStr actor) 256 = Inr a"
    and "find (is_result org rid) (ws_results s) = Some r" and "rr_state r \<noteq> RStale"
    and "result_is_current sv s org r = Inr True" and "find (\<lambda>f. rf_id f = fid) (rr_findings r) = Some f"
    and "r' = decide_finding fid d cleanReason r"
    and "t = review_audit (randomId e 0 ''audit'') org a ''upload-review.finding.decision'' rid (iso ck)
           (s\<lparr>ws_results := update_first (is_result org rid) (\<lambda>_. r') (ws_results s)\<rparr>)"
proof -
  obtain rid fid a d cleanReason ck r ok f where *:
    "boundedString (JStr resultId) 256 = Inr rid" "boundedString (JStr findingId) 256 = Inr fid"
    "boundedString (JStr actor) 256 = Inr a" "parse_decision decision = Some d"
    "optionalString reason 1000 = Inr cleanReason" "\<not> (d = Dismissed \<and> cleanReason = None)"
    "find (is_result org rid) (ws_results s) = Some r" "rr_state r \<noteq> RStale" "result_is_current sv s org r = Inr ok"
    "\<not> \<not> ok" "find (\<lambda>f. rf_id f = fid) (rr_findings r) = Some f"
    and fin: "(let r' = decide_finding fid d cleanReason r;
                   s1 = s\<lparr>ws_results := update_first (is_result org rid) (\<lambda>_. r') (ws_results s)\<rparr> in
      Inr (review_audit (randomId e 0 ''audit'') org a ''upload-review.finding.decision'' rid (iso (ck :: clock)) s1, r'))
      = (Inr (t, r') :: (review_store \<times> review_result) review)"
    using assms unfolding updateFindingDecision_def bindr_Inr_iff case_option_Inl_eq_Inr if_Inl_eq_Inr by blast
  have ok: "result_is_current sv s org r = Inr True" using *(9,10) by simp
  have eqs: "r' = decide_finding fid d cleanReason r"
    "t = review_audit (randomId e 0 ''audit'') org a ''upload-review.finding.decision'' rid (iso ck)
      (s\<lparr>ws_results := update_first (is_result org rid) (\<lambda>_. r') (ws_results s)\<rparr>)"
    using fin by (auto simp: Let_def)
  have dis: "d = Dismissed \<longrightarrow> cleanReason \<noteq> None" using *(6) by auto
  show thesis by (rule that [OF *(4,5) dis *(1,2,3,7,8) ok *(11) eqs])
qed

lemma decide_finding_simps [simp]:
  "rr_id (decide_finding fid d x r) = rr_id r" "rr_state (decide_finding fid d x r) = rr_state r"
  "result_of j (decide_finding fid d x r) = result_of j r"
proof -
  have "list_all (inside snap) (update_first (\<lambda>f. rf_id f = fid) (\<lambda>f. f\<lparr>rf_decision := d, rf_decisionReason := x\<rparr>) fs)
    = list_all (inside snap) fs" for snap and fs :: "review_finding list"
    by (induction fs) (auto simp: inside_def)
  then show "result_of j (decide_finding fid d x r) = result_of j r" by (simp add: result_of_def decide_finding_def)
qed (simp_all add: decide_finding_def)

lemma updateFindingDecision_effect:
  assumes "updateFindingDecision sv e org resultId findingId decision actor reason now s = Inr (t, r')" and ok: "store_ok s"
  shows "effect P s t"
  using assms(1)
proof (cases rule: updateFindingDecision_InrE)
  case (1 rid fid d cleanReason r f ck a)
  have in_t: "x \<in> set (ws_results s) \<or> x = r'" if "x \<in> set (ws_results t)" for x
    using update_first_in [of x "is_result org rid" "\<lambda>_. r'" "ws_results s"] that by (auto simp: 1(12) review_audit_def)
  have r: "r \<in> set (ws_results s)" using find_in_set [OF 1(7)] by simp
  have r': "result_of j r' = result_of j r" "rr_id r' = rr_id r" "rr_state r' = rr_state r" for j
    unfolding 1(11) by simp_all
  have jobs: "ws_jobs t = ws_jobs s" and len: "length (ws_results t) = length (ws_results s)"
    by (simp_all add: 1(12) review_audit_def)
  have bound: "\<exists>j \<in> set (ws_jobs s). result_of j x" if x: "x \<in> set (ws_results s)" for x
    using ok x by (simp add: store_ok_def queue_ok_def)
  have "\<exists>j \<in> set (ws_jobs s). result_of j x" if x: "x \<in> set (ws_results t)" for x
    using in_t [OF x] bound [OF r] bound [of x] by (auto simp: r'(1))
  moreover have "\<exists>r0 \<in> set (ws_results s). rr_id r0 = rr_id x \<and> rr_state r0 = RPassed"
    if x: "x \<in> set (ws_results t)" "rr_state x = RPassed" for x
    using in_t [OF x(1)] x(2) r by (auto simp: r'(2,3))
  ultimately show ?thesis
    using ok unfolding effect_def jobs len by (simp add: store_ok_def)
qed

section \<open>Submission\<close>

lemma enqueue_InrE:
  assumes "enqueue sv e org input s = Inr (t, job)"
  obtains rq where "normalizeEnqueueInput e input = Inr rq"
    and "is_current sv s (rq_binding rq) (rq_model rq) (rq_reviewerRevision rq) = Inr True"
    and "find (key_match org rq) (ws_jobs s) = Some job \<and> sameRequest job rq \<and> t = s
      \<or> find (key_match org rq) (ws_jobs s) = None \<and> job = pending_job e org rq
        \<and> pruneCollections (s\<lparr>ws_jobs := ws_jobs s @ [job]\<rparr>) = Inr t"
proof -
  obtain rq ok where rq: "normalizeEnqueueInput e input = Inr rq"
    "is_current sv s (rq_binding rq) (rq_model rq) (rq_reviewerRevision rq) = Inr ok" "ok"
    and rest: "(case find (key_match org rq) (ws_jobs s) of
       Some existing \<Rightarrow> if \<not> sameRequest existing rq then Inl review_conflict else Inr (s, existing)
     | None \<Rightarrow>
         bindr (assertRetentionAvailable (ws_jobs s) 1) (\<lambda>_.
         let job = pending_job e org rq in
         bindr (pruneCollections (s\<lparr>ws_jobs := ws_jobs s @ [job]\<rparr>)) (\<lambda>s'. Inr (s', job)))) = Inr (t, job)"
    using assms unfolding enqueue_def assertBindingCurrent_def bindr_Inr_iff if_Inl_eq_Inr' by blast
  have current: "is_current sv s (rq_binding rq) (rq_model rq) (rq_reviewerRevision rq) = Inr True" using rq(2,3) by simp
  show thesis
    by (rule that [OF rq(1) current])
      (use rest in \<open>cases "find (key_match org rq) (ws_jobs s)";
        auto simp: bindr_Inr_iff if_Inl_eq_Inr Let_def split: if_splits\<close>)
qed

lemma enqueue_effect:
  assumes "enqueue sv e org input s = Inr (t, job)" and ok: "store_ok s"
    and fresh: "randomId e 0 ''upload-review-job'' \<notin> rj_id ` set (ws_jobs s)"
  shows "store_ok t \<and> set (ws_results t) \<subseteq> set (ws_results s) \<and>
    (\<forall>j \<in> set (ws_jobs s). active j \<longrightarrow> j \<in> set (ws_jobs t)) \<and>
    (\<forall>j \<in> set (ws_jobs t). j \<in> set (ws_jobs s) \<or> j = job \<and> rj_id j \<notin> rj_id ` set (ws_jobs s))"
  using assms(1)
proof (cases rule: enqueue_InrE)
  case (1 rq)
  from 1(3) show ?thesis
  proof (elim disjE conjE)
    assume job: "job = pending_job e org rq" and prune: "pruneCollections (s\<lparr>ws_jobs := ws_jobs s @ [job]\<rparr>) = Inr t"
    have new: "lease_shape job" "active job" "rj_id job \<notin> rj_id ` set (ws_jobs s)"
      using fresh by (simp_all add: job pending_job_def lease_shape_def active_def)
    then have q: "queue_ok (ws_jobs s @ [job]) (ws_results s)"
      using ok by (auto simp: store_ok_def queue_ok_def)
    note p = prune_facts [OF prune]
    have "j \<in> set (ws_jobs t)" if "j \<in> set (ws_jobs s)" "active j" for j
    proof -
      have "j \<in> set (filter active (ws_jobs t))" using that unfolding p(3) by simp
      then show ?thesis by simp
    qed
    with p(1,2) p(5) q new show ?thesis by auto
  qed (use ok in auto)
qed

section \<open>Histories\<close>

text \<open>
  One step of the system: any method of the queue, or any other transaction of the registry, which
  may change the registry's part of the state (and thereby what the resolver returns) but not the
  review collections. A new job's identifier is fresh.
\<close>

inductive review_step :: "review_service \<Rightarrow> review_store \<Rightarrow> review_store \<Rightarrow> bool" for sv where
  enqueue_step: "enqueue sv e org input s = Inr (t, job) \<Longrightarrow> randomId e 0 ''upload-review-job'' \<notin> rj_id ` set (ws_jobs s) \<Longrightarrow> review_step sv s t"
| bind_step: "bindEveSession sv e org jobId session now s = Inr (t, job) \<Longrightarrow> review_step sv s t"
| claim_step: "claim sv e org jobId eve now s = Inr (t, c) \<Longrightarrow> review_step sv s t"
| claim_session_step: "claimForEveSession sv e org session now read s = Inr (t, c) \<Longrightarrow> review_step sv s t"
| lease_step: "getLeasedJob sv e org jobId tok now s = Inr (t, job) \<Longrightarrow> review_step sv s t"
| complete_step: "complete sv e org jobId tok findings now s = Inr (t, r) \<Longrightarrow> review_step sv s t"
| fail_step: "fail sv e org jobId tok err now s = Inr (t, r) \<Longrightarrow> review_step sv s t"
| stale_step: "markStale sv e org ms s = Inr (t, changed) \<Longrightarrow> review_step sv s t"
| requeue_step: "requeue sv e org jobId now actor s = Inr (t, job) \<Longrightarrow> review_step sv s t"
| decide_step: "updateFindingDecision sv e org rid fid d a reason now s = Inr (t, r) \<Longrightarrow> review_step sv s t"
| registry_step: "review_step sv s (s\<lparr>ws_registry := g\<rparr>)"

definition empty_queue :: "review_store \<Rightarrow> bool" where
  "empty_queue s \<longleftrightarrow> ws_jobs s = [] \<and> ws_results s = []"

text \<open>A step is a submission or has one of the effects above.\<close>

lemma review_step_cases:
  assumes "review_step sv s t" and "store_ok s"
  obtains (submit) e org input job where "enqueue sv e org input s = Inr (t, job)"
      and "randomId e 0 ''upload-review-job'' \<notin> rj_id ` set (ws_jobs s)"
    | (other) "effect (reviewed sv s) s t"
  using assms(1)
proof (cases rule: review_step.cases)
  case (registry_step g)
  then show thesis using other effect_refl [OF assms(2)] by blast
qed (use assms(2) submit other in \<open>blast intro: bindEveSession_effect claim_effect claimForEveSession_effect
  getLeasedJob_effect complete_effect fail_effect markStale_effect requeue_effect updateFindingDecision_effect\<close>)+

end
