(* ===== verification/Review_Properties.thy ===== *)
theory Review_Properties
  imports Review_Guarantees
begin

text \<open>
  The guarantees of the upload review queue, over the lemmas of the previous theory, and the queue as
  an instance of the two generic interfaces: a transition system with an invariant and a queue of
  leased work.
\<close>

interpretation review_queue: transition_system empty_queue "review_step sv" store_ok for sv
proof unfold_locales
  show "empty_queue s \<Longrightarrow> store_ok s" for s
    by (simp add: empty_queue_def store_ok_def queue_ok_def)
  show "store_ok s \<Longrightarrow> review_step sv s t \<Longrightarrow> store_ok t" for s t
    by (erule review_step_cases) (auto dest: enqueue_effect effect_store_ok)
qed

section \<open>Leases\<close>

definition job_of :: "review_store \<Rightarrow> jstring \<Rightarrow> review_job option" where
  "job_of s i = find (\<lambda>j. rj_id j = i) (ws_jobs s)"

text \<open>A live lease with the given token, the test of \<open>requireLease\<close>.\<close>

definition lease_live :: "review_job \<Rightarrow> jstring \<Rightarrow> rat \<Rightarrow> bool" where
  "lease_live j tok ms \<longleftrightarrow> rj_state j = RRunning \<and> rj_leaseToken j = Some tok \<and> \<not> leaseExpired j ms"

definition lease_token :: "jstring \<Rightarrow> jstring" where
  "lease_token random = js ''upload-review-lease'' @ js ''_'' @ random"

text \<open>
  A claim of the job \<open>i\<close> that draws \<open>random\<close>, at the instant \<open>now\<close>; and whether the reviewer that
  holds \<open>(i, random)\<close> may still write.
\<close>

definition claim_review ::
    "review_service \<Rightarrow> review_env \<Rightarrow> jstring \<Rightarrow> jstring option \<Rightarrow> int \<Rightarrow> jstring \<times> jstring \<Rightarrow> review_store \<Rightarrow> (review_store \<times> jstring) option" where
  "claim_review sv e org eve now tok s =
     (if trim (fst tok) \<noteq> fst tok then None
      else case claim sv (e\<lparr>rv_random := \<lambda>_. snd tok\<rparr>) org (fst tok) eve (NowNumber (Num (of_int now))) s of
        Inr (t, c) \<Rightarrow> if cl_claimed c then Some (t, fst tok) else None
      | Inl _ \<Rightarrow> None)"

definition may_write :: "review_store \<Rightarrow> jstring \<Rightarrow> jstring \<times> jstring \<Rightarrow> int \<Rightarrow> bool" where
  "may_write s i tok now \<longleftrightarrow> fst tok = i \<and>
     (case job_of s i of None \<Rightarrow> False | Some j \<Rightarrow> lease_live j (lease_token (snd tok)) (of_int now))"

lemma requireLease_live:
  "requireLease j tok ms = Inr u \<longleftrightarrow> (\<exists>clean. boundedString (JStr tok) 256 = Inr clean \<and> lease_live j clean ms)"
  by (auto simp: requireLease_Inr lease_live_def)

lemma to_iso_int: "to_iso (of_int n) = Inr x \<Longrightarrow> x = Stamp n"
  by (auto simp: to_iso_def result_simps dest: iso_string_int)

lemma job_of_unique:
  "distinct (map rj_id jobs) \<Longrightarrow> find (is_job org i) jobs = Some j \<Longrightarrow> find (\<lambda>j. rj_id j = i) jobs = Some j"
proof (induction jobs)
  case (Cons x xs)
  show ?case
  proof (cases "is_job org i x")
    case True
    with Cons.prems(2) show ?thesis by (simp add: is_job_def)
  next
    case False
    then have found: "find (is_job org i) xs = Some j" using Cons.prems(2) by simp
    then have "j \<in> set xs" "rj_id j = i" using find_in_set [OF found] by (auto simp: is_job_def)
    then have "rj_id x \<noteq> i" using Cons.prems(1) by (auto simp: image_iff)
    with Cons.IH Cons.prems(1) found show ?thesis by simp
  qed
qed simp

lemma find_update_first_id:
  assumes "distinct (map rj_id jobs)" and "find (is_job org i) jobs = Some j" and "rj_id j' = i"
  shows "find (\<lambda>j. rj_id j = i') (update_first (is_job org i) (\<lambda>_. j') jobs) =
    (if i' = i then Some j' else find (\<lambda>j. rj_id j = i') jobs)"
  using assms
proof (induction jobs)
  case (Cons x xs)
  show ?case
  proof (cases "is_job org i x")
    case True
    with Cons.prems show ?thesis by (auto simp: is_job_def)
  next
    case False
    then have found: "find (is_job org i) xs = Some j" using Cons.prems(2) by simp
    then have "j \<in> set xs" "rj_id j = i" using find_in_set [OF found] by (auto simp: is_job_def)
    then have "rj_id x \<noteq> i" using Cons.prems(1) by (auto simp: image_iff)
    with False Cons found show ?thesis by auto
  qed
qed simp

text \<open>A successful claim, by its effect on the jobs.\<close>

lemma claim_review_SomeE:
  assumes claim: "claim_review sv e org eve now tok s = Some (t, i)" and ok: "store_ok s"
  obtains j j' where "i = fst tok" and "job_of s i = Some j" and "rj_state j = RRunning \<longrightarrow> leaseExpired j (of_int now)"
    and "rj_state j' = RRunning" and "rj_leaseToken j' = Some (lease_token (snd tok))"
    and "rj_leaseExpiresAt j' = Some (Stamp (now + int (sv_leaseSeconds sv) * 1000))"
    and "\<And>i'. job_of t i' = (if i' = i then Some j' else job_of s i')"
proof -
  obtain c where i: "i = fst tok" "trim i = i" and claimed: "cl_claimed c"
    and run: "claim sv (e\<lparr>rv_random := \<lambda>_. snd tok\<rparr>) org i eve (NowNumber (Num (of_int now))) s = Inr (t, c)"
    using claim by (auto simp: claim_review_def split: if_splits sum.splits)
  from run show thesis
  proof (cases rule: claim_InrE)
    case (1 ck i' j session')
    have i': "i' = i" using 1(2) i(2) by (auto simp: boundedString_Inr)
    have ck: "milliseconds ck = of_int now" using 1(1) by (auto simp: parseClock_def now_value_def result_simps)
    obtain expires where cl: "active j" "rj_state j = RRunning \<longrightarrow> leaseExpired j (milliseconds ck)"
      "to_iso (milliseconds ck + of_nat (sv_leaseSeconds sv) * 1000) = Inr expires"
      "pruneCollections (put_job org i (claimed_job (e\<lparr>rv_random := \<lambda>_. snd tok\<rparr>) session' ck expires j) s) = Inr t"
      using 1(4) claimed i' by blast
    let ?j' = "claimed_job (e\<lparr>rv_random := \<lambda>_. snd tok\<rparr>) session' ck expires j"
    have "to_iso (of_int (now + int (sv_leaseSeconds sv) * 1000)) = Inr expires" using cl(3) ck by simp
    then have expires: "expires = Stamp (now + int (sv_leaseSeconds sv) * 1000)" by (rule to_iso_int)
    have found: "find (is_job org i) (ws_jobs s) = Some j" using 1(3) i' by simp
    have dist: "distinct (map rj_id (ws_jobs s))" using ok by (simp add: store_ok_def queue_ok_def)
    have jobs: "ws_jobs t = update_first (is_job org i) (\<lambda>_. ?j') (ws_jobs s)"
      by (rule put_job_prune_effect(2) [OF ok found evolve_simps(4) [OF cl(1)] cl(4)])
    have "rj_id j = i" using find_in_set [OF found] by (simp add: is_job_def)
    then have "rj_id ?j' = i" by (simp add: claimed_job_def)
    from find_update_first_id [OF dist found this]
    have all: "job_of t x = (if x = i then Some ?j' else job_of s x)" for x
      unfolding job_of_def jobs by simp
    have old: "job_of s i = Some j" unfolding job_of_def by (rule job_of_unique [OF dist found])
    show thesis
      by (rule that [OF i(1) old _ _ _ _ all])
        (use cl(2) ck expires in \<open>simp_all add: claimed_job_def lease_token_def randomId_def\<close>)
  qed
qed

interpretation review_leases: leased_queue store_ok "claim_review sv e org eve" may_write
  "\<lambda>now. now + int (sv_leaseSeconds sv) * 1000" for sv e org eve
proof unfold_locales
  fix s t :: review_store and now now' :: int and tok tok' :: "jstring \<times> jstring" and i i' :: jstring
  assume ok: "store_ok s" and claim: "claim_review sv e org eve now tok s = Some (t, i)"
  obtain j j' where *: "i = fst tok" "job_of s i = Some j" "rj_state j = RRunning \<longrightarrow> leaseExpired j (of_int now)"
    "rj_state j' = RRunning" "rj_leaseToken j' = Some (lease_token (snd tok))"
    "rj_leaseExpiresAt j' = Some (Stamp (now + int (sv_leaseSeconds sv) * 1000))"
    "\<And>i'. job_of t i' = (if i' = i then Some j' else job_of s i')"
    using claim_review_SomeE [OF claim ok] by metis
  show "store_ok t"
    using claim by (auto simp: claim_review_def ok intro: effect_store_ok [OF ok claim_effect] split: if_splits sum.splits)
  show "may_write t i tok' now' \<longleftrightarrow> tok' = tok \<and> now' < now + int (sv_leaseSeconds sv) * 1000"
    by (cases tok; cases tok')
      (auto simp: may_write_def * lease_live_def lease_token_def leaseExpired_def simp flip: of_int_le_iff [where 'a = rat])
  show "\<not> may_write s i tok' now" using *(3) by (auto simp: may_write_def *(2) lease_live_def)
  show "i' \<noteq> i \<Longrightarrow> may_write t i' tok' now' \<longleftrightarrow> may_write s i' tok' now'" by (simp add: may_write_def *(7))
next
  have "\<not> leaseExpired j (of_int now')" if "\<not> leaseExpired j (of_int now)" "now' \<le> now" for j now now'
    using that by (auto simp: leaseExpired_def split: option.splits)
  then show "may_write s i tok now \<Longrightarrow> now' \<le> now \<Longrightarrow> may_write s i tok now'" for s i tok now now'
    by (auto simp: may_write_def lease_live_def split: option.splits)
qed

section \<open>A sample history\<close>

definition review_host :: host where
  "review_host = \<lparr>localeCompare = jstr_cmp, digestBytes = (\<lambda>_. []), dateParse = (\<lambda>_. None), stringToNumber = (\<lambda>_. NaN),
     parseUrl = (\<lambda>_. None), toLowerCase = (\<lambda>s. s), toISOString = (\<lambda>_. [])\<rparr>"

definition review_env_at :: "int \<Rightarrow> string \<Rightarrow> review_env" where
  "review_env_at ms random = \<lparr>rv_host = review_host, rv_nfc_lower = (\<lambda>s. s), rv_wall = ms, rv_random = (\<lambda>_. js random)\<rparr>"

definition review_registry :: registry_state where
  "review_registry = \<lparr>st_skills = [], st_packs = [], st_jobs = [], st_scans = [],
     st_policy = \<lparr>po_revision = js ''p1'', po_scanners = [], po_allowUnscanned = False, po_evidenceMaxAgeSeconds = 1, po_hooks = []\<rparr>,
     st_upstreams = [], st_authorizations = [], st_installReceiptTickets = [], st_installReceipts = [], st_grants = [], st_audit = []\<rparr>"

definition sample_digest :: jstring where
  "sample_digest = js ''sha256:'' @ replicate 64 97"

definition sample_binding :: binding where
  "sample_binding = \<lparr>bi_draftId = js ''draft_1'', bi_draftRevision = 3, bi_contentDigest = sample_digest,
     bi_baseReleaseId = None, bi_baseReleaseVersion = None, bi_baseDigest = None, bi_policyRevision = js ''p1''\<rparr>"

definition changed_binding :: binding where
  "changed_binding = sample_binding\<lparr>bi_draftRevision := 4\<rparr>"

text \<open>In the sample the draft changes with the first audit event.\<close>

definition review_sv :: review_service where
  "review_sv = \<lparr>sv_leaseSeconds = 900,
     sv_resolveCurrentBinding =
       Some (\<lambda>s _. binding_value (if st_audit (ws_registry s) = [] then sample_binding else changed_binding)),
     sv_currentContract = Some \<lparr>rc_model = js ''m'', rc_reviewerRevision = js ''r1''\<rparr>\<rparr>"

definition sample_input :: enqueue_input where
  "sample_input = \<lparr>ei_idempotencyKey = JUndefined, ei_binding = binding_value sample_binding,
     ei_snapshot = JObj [(js ''files'', JArr [JObj [(js ''path'', JStr (js ''SKILL.md'')), (js ''kind'', JStr (js ''text'')),
        (js ''size'', number_value 2), (js ''digest'', JStr sample_digest), (js ''text'', JStr (js ''hi''))]])],
     ei_model = JStr (js ''m''), ei_reviewerRevision = JStr (js ''r1''), ei_now = NowUndefined\<rparr>"

definition sample_findings :: jsval where
  "sample_findings = JArr [JObj [(js ''severity'', JStr (js ''low'')), (js ''category'', JStr (js ''style'')),
     (js ''title'', JStr (js ''t'')), (js ''summary'', JStr (js ''s'')), (js ''path'', JStr (js ''SKILL.md''))]]"

abbreviation r_empty :: review_store where
  "r_empty \<equiv> \<lparr>ws_registry = review_registry, ws_jobs = [], ws_results = []\<rparr>"

definition r_submit :: "(review_store \<times> review_job) review" where
  "r_submit = enqueue review_sv (review_env_at 1000 ''a'') (js ''org'') sample_input r_empty"

definition r_queued :: review_store where "r_queued = fst (projr r_submit)"

definition r_job :: jstring where "r_job = js ''upload-review-job_a''"

definition r_claim :: "(review_store \<times> review_claim) review" where
  "r_claim = claim review_sv (review_env_at 2000 ''b'') (js ''org'') r_job None NowUndefined r_queued"

definition r_running :: review_store where "r_running = fst (projr r_claim)"

definition r_complete :: "(review_store \<times> review_result) review" where
  "r_complete = complete review_sv (review_env_at 3000 ''c'') (js ''org'') r_job (lease_token (js ''b'')) sample_findings NowUndefined r_running"

definition r_passed :: review_store where "r_passed = fst (projr r_complete)"

lemma right_pair: "\<not> isl r \<Longrightarrow> r = Inr (fst (projr r), snd (projr r))"
  by (cases r) auto

lemma r_submit_ok: "r_submit = Inr (r_queued, snd (projr r_submit))"
  unfolding r_queued_def by (rule right_pair) code_simp

lemma r_claim_ok: "r_claim = Inr (r_running, snd (projr r_claim))"
  unfolding r_running_def by (rule right_pair) code_simp

lemma r_complete_ok: "r_complete = Inr (r_passed, snd (projr r_complete))"
  unfolding r_passed_def by (rule right_pair) code_simp

lemma r_reach:
  "reach empty_queue (review_step review_sv) r_queued" "reach empty_queue (review_step review_sv) r_running"
  "reach empty_queue (review_step review_sv) r_passed"
proof -
  have "reach empty_queue (review_step review_sv) r_empty"
    by (rule reach_init) (simp add: empty_queue_def)
  then show q: "reach empty_queue (review_step review_sv) r_queued"
    by (rule reach_step) (rule enqueue_step [OF r_submit_ok [unfolded r_submit_def]], simp)
  then show r: "reach empty_queue (review_step review_sv) r_running"
    by (rule reach_step) (rule claim_step [OF r_claim_ok [unfolded r_claim_def]])
  then show "reach empty_queue (review_step review_sv) r_passed"
    by (rule reach_step) (rule complete_step [OF r_complete_ok [unfolded r_complete_def]])
qed

section \<open>Properties\<close>

text \<open>
  C27. In every state that any interleaving of the queue's methods and other registry transactions
  reaches, at most 100 jobs and 100 results are kept, job identifiers are unique, a job holds a lease
  exactly while it is running, and every result belongs to a kept job whose organization, binding,
  model and reviewer revision it repeats, with at most 60 findings that all point into the job's
  snapshot.
\<close>

theorem review_queue_invariant:
  assumes "reach empty_queue (review_step sv) s"
  shows "length (ws_jobs s) \<le> 100 \<and> length (ws_results s) \<le> 100 \<and> distinct (map rj_id (ws_jobs s)) \<and>
    (\<forall>j \<in> set (ws_jobs s). rj_state j = RRunning \<longleftrightarrow> rj_leaseToken j \<noteq> None) \<and>
    (\<forall>r \<in> set (ws_results s). length (rr_findings r) \<le> 60 \<and>
       (\<exists>j \<in> set (ws_jobs s). rj_id j = rr_jobId r \<and> rj_organizationId j = rr_organizationId r \<and> rj_binding j = rr_binding r \<and>
          rj_model j = rr_model r \<and> rj_reviewerRevision j = rr_reviewerRevision r \<and>
          (\<forall>f \<in> set (rr_findings r). \<forall>path. rf_path f = Some path \<longrightarrow> path \<in> sf_path ` set (rj_snapshot j))))"
proof -
  have ok: "store_ok s" using assms by (rule review_queue.reach_inv)
  then have "\<forall>j \<in> set (ws_jobs s). rj_state j = RRunning \<longleftrightarrow> rj_leaseToken j \<noteq> None"
    unfolding store_ok_def queue_ok_def lease_shape_def by blast
  moreover have "length (rr_findings r) \<le> 60 \<and>
       (\<exists>j \<in> set (ws_jobs s). rj_id j = rr_jobId r \<and> rj_organizationId j = rr_organizationId r \<and> rj_binding j = rr_binding r \<and>
          rj_model j = rr_model r \<and> rj_reviewerRevision j = rr_reviewerRevision r \<and>
          (\<forall>f \<in> set (rr_findings r). \<forall>path. rf_path f = Some path \<longrightarrow> path \<in> sf_path ` set (rj_snapshot j)))"
    if r: "r \<in> set (ws_results s)" for r
  proof -
    obtain j where j: "j \<in> set (ws_jobs s)" "result_of j r" using ok r unfolding store_ok_def queue_ok_def by blast
    have "path \<in> sf_path ` set (rj_snapshot j)" if "f \<in> set (rr_findings r)" "rf_path f = Some path" for f path
      using j(2) that by (auto simp: result_of_def list_all_iff inside_def)
    with j show ?thesis by (auto simp: result_of_def)
  qed
  ultimately show ?thesis using ok by (simp add: store_ok_def queue_ok_def)
qed

theorem review_queue_invariant_witness:
  "length (ws_jobs r_passed) = 1 \<and> length (ws_results r_passed) \<le> 100 \<and> distinct (map rj_id (ws_jobs r_passed))"
proof -
  have "length (ws_jobs r_passed) = 1" by code_simp
  with review_queue_invariant [OF r_reach(3)] show ?thesis by auto
qed

text \<open>
  C28. A step never changes what a review is about, moves it only along its state machine (pending to
  running; running to passed or failed; anything to stale; a finished review back to pending), and
  never drops a pending or running review, whatever the pruning removes.
\<close>

theorem reviews_follow_their_state_machine:
  assumes "reach empty_queue (review_step sv) s" and "review_step sv s t" and "j \<in> set (ws_jobs s)"
  shows "(\<forall>j' \<in> set (ws_jobs t). rj_id j' = rj_id j \<longrightarrow>
      rj_binding j' = rj_binding j \<and> rj_snapshot j' = rj_snapshot j \<and> rj_organizationId j' = rj_organizationId j \<and>
      rj_model j' = rj_model j \<and> rj_reviewerRevision j' = rj_reviewerRevision j \<and> allowed (rj_state j) (rj_state j')) \<and>
    (rj_state j \<in> {RPending, RRunning} \<longrightarrow> (\<exists>j' \<in> set (ws_jobs t). rj_id j' = rj_id j))"
proof -
  have ok: "store_ok s" using assms(1) by (rule review_queue.reach_inv)
  then have dist: "distinct (map rj_id (ws_jobs s))" by (simp add: store_ok_def queue_ok_def)
  have same: "x = j" if "x \<in> set (ws_jobs s)" "rj_id x = rj_id j" for x
    using that assms(3) dist by (metis inj_on_eq_iff distinct_map)
  have "(\<forall>j' \<in> set (ws_jobs t). rj_id j' = rj_id j \<longrightarrow> evolve j j') \<and> (active j \<longrightarrow> (\<exists>j' \<in> set (ws_jobs t). rj_id j' = rj_id j))"
    using assms(2) ok
  proof (cases rule: review_step_cases)
    case (submit e org input job)
    from enqueue_effect [OF this(1) ok this(2)] show ?thesis
      using assms(3) same by (metis evolve_refl image_eqI)
  next
    case other
    then have ev: "list_all2 evolve (ws_jobs s) (ws_jobs t)" by (simp add: effect_def)
    from jobs_evolve_same [OF ev dist assms(3)] evolves_ident_in [OF ev assms(3)] show ?thesis
      by (metis ident_id)
  qed
  then show ?thesis by (auto simp: evolve_def ident_def active_def)
qed

theorem reviews_follow_their_state_machine_witness:
  "\<exists>j \<in> set (ws_jobs r_queued). rj_state j = RPending \<and> (\<exists>j' \<in> set (ws_jobs r_running). rj_id j' = rj_id j)"
proof -
  have "review_step review_sv r_queued r_running" by (rule claim_step [OF r_claim_ok [unfolded r_claim_def]])
  moreover have "hd (ws_jobs r_queued) \<in> set (ws_jobs r_queued)" "rj_state (hd (ws_jobs r_queued)) = RPending"
    by code_simp+
  ultimately show ?thesis
    using reviews_follow_their_state_machine [OF r_reach(1), of r_running "hd (ws_jobs r_queued)"] by auto
qed

text \<open>
  C24. A review passes only while its subject is current: a result that is passed after a step and was
  not before belongs to a job that was running and whose binding and reviewer contract were the current
  ones in that very transaction; the result repeats the job's binding and its findings point into the
  job's snapshot.
\<close>

theorem passed_review_was_current:
  assumes "reach empty_queue (review_step sv) s" and "review_step sv s t"
    and "r \<in> set (ws_results t)" and "rr_state r = RPassed"
    and "\<forall>r0 \<in> set (ws_results s). rr_id r0 = rr_id r \<longrightarrow> rr_state r0 \<noteq> RPassed"
  shows "\<exists>job \<in> set (ws_jobs s). rj_id job = rr_jobId r \<and> rj_state job = RRunning \<and> jobIsCurrent sv s job = Inr True \<and>
    rr_binding r = rj_binding job \<and> list_all (inside (rj_snapshot job)) (rr_findings r)"
proof -
  have ok: "store_ok s" using assms(1) by (rule review_queue.reach_inv)
  have "reviewed sv s r"
    using assms(2) ok
  proof (cases rule: review_step_cases)
    case (submit e org input job)
    from enqueue_effect [OF this(1) ok this(2)] assms(3-5) show ?thesis by blast
  next
    case other
    with assms(3-5) show ?thesis unfolding effect_def by blast
  qed
  then show ?thesis unfolding reviewed_def result_of_def by metis
qed

theorem passed_review_was_current_witness:
  "\<exists>job \<in> set (ws_jobs r_running). rj_state job = RRunning \<and> jobIsCurrent review_sv r_running job = Inr True"
proof -
  have step: "review_step review_sv r_running r_passed" by (rule complete_step [OF r_complete_ok [unfolded r_complete_def]])
  have r: "hd (ws_results r_passed) \<in> set (ws_results r_passed)" "rr_state (hd (ws_results r_passed)) = RPassed"
    by code_simp+
  have "ws_results r_running = []" by code_simp
  with passed_review_was_current [OF r_reach(2) step r] show ?thesis by auto
qed

text \<open>
  C25. A reviewer that lost its lease cannot write: once a claim has taken the job, completing or
  failing it, or reading it as its holder, with any other lease token, or with the right one after the
  lease ran out, is refused and changes nothing.
\<close>

theorem review_worker_is_fenced:
  assumes "reach empty_queue (review_step sv) s" and "0 < sv_leaseSeconds sv"
    and "claim_review sv e org eve now (i, random) s = Some (t, i')"
    and "trim tok \<noteq> lease_token random \<or> now + int (sv_leaseSeconds sv) * 1000 \<le> later"
  shows "isl (complete sv e' org i tok findings (NowNumber (Num (of_int later))) t) \<and>
    isl (fail sv e' org i tok err (NowNumber (Num (of_int later))) t) \<and>
    isl (getLeasedJob sv e' org i tok (NowNumber (Num (of_int later))) t)"
proof (intro conjI)
  have ok: "store_ok s" using assms(1) by (rule review_queue.reach_inv)
  note valid = review_leases.claim_valid [OF ok assms(3)]
  have ok': "store_ok t" using review_leases.claim_inv [OF ok assms(3)] .
  have i': "i' = i" "trim i = i" using assms(3) by (auto simp: claim_review_def split: if_splits sum.splits)
  have dist: "distinct (map rj_id (ws_jobs t))" using ok' by (simp add: store_ok_def queue_ok_def)
  have "may_write t i (i, random) now" using valid [of "(i, random)" now] assms(2) i' by simp
  then obtain j where j: "job_of t i = Some j" "rj_state j = RRunning" "rj_leaseToken j = Some (lease_token random)"
    by (auto simp: may_write_def lease_live_def split: option.splits)
  have no: False if "find (is_job org i) (ws_jobs t) = Some job" "requireLease job tok (of_int later) = Inr ()" for job
  proof -
    have "job = j" using job_of_unique [OF dist that(1)] j(1) by (simp add: job_of_def)
    then have live: "lease_live j (trim tok) (of_int later)"
      using that(2) by (auto simp: requireLease_live boundedString_Inr)
    then have "trim tok = lease_token random" using j(3) by (simp add: lease_live_def)
    with live have "may_write t i (i, random) later" using j(1) by (simp add: may_write_def)
    with valid [of "(i, random)" later] i' \<open>trim tok = lease_token random\<close> assms(4) show False by auto
  qed
  have clean: "x = i" if "boundedString (JStr i) 256 = Inr x" for x using that i' by (auto simp: boundedString_Inr)
  have ms: "milliseconds ck = of_int later" if "parseClock h w (NowNumber (Num (of_int later))) = Inr ck" for h w ck
    using that by (auto simp: parseClock_def now_value_def result_simps)
  have none: "isl (finish_leased sv e' org i tok (NowNumber (Num (of_int later))) finish t)" for finish
  proof (cases "finish_leased sv e' org i tok (NowNumber (Num (of_int later))) finish t")
    case (Inr r)
    then obtain u r' where "finish_leased sv e' org i tok (NowNumber (Num (of_int later))) finish t = Inr (u, r')" by (cases r) auto
    then show ?thesis by (rule finish_leased_InrE) (use no clean ms in metis)
  qed simp
  then show "isl (complete sv e' org i tok findings (NowNumber (Num (of_int later))) t)"
    "isl (fail sv e' org i tok err (NowNumber (Num (of_int later))) t)" by (simp_all add: complete_def fail_def)
  show "isl (getLeasedJob sv e' org i tok (NowNumber (Num (of_int later))) t)"
  proof (cases "getLeasedJob sv e' org i tok (NowNumber (Num (of_int later))) t")
    case (Inr r)
    then obtain ck x job where parts: "parseClock (rv_host e') (rv_wall e') (NowNumber (Num (of_int later))) = Inr ck"
      "boundedString (JStr i) 256 = Inr x" "find (is_job org x) (ws_jobs t) = Some job"
      and "rj_state job = RStale \<or> requireLease job tok (milliseconds ck) = Inr ()"
      by (auto simp: getLeasedJob_def bindr_Inr_iff findJob_Inr split: if_splits)
    then have "rj_state job = RStale" using no clean ms by metis
    moreover have "job = j"
      using job_of_unique [OF dist] parts(3) clean [OF parts(2)] j(1) by (metis job_of_def option.inject)
    ultimately show ?thesis using j(2) by simp
  qed simp
qed

theorem review_worker_is_fenced_witness:
  "isl (complete review_sv (review_env_at 9000 ''x'') (js ''org'') r_job (js ''other'') sample_findings (NowNumber (Num (of_int 9000))) r_running)"
proof (rule review_worker_is_fenced [THEN conjunct1])
  show "reach empty_queue (review_step review_sv) r_queued" by (rule r_reach)
  show "0 < sv_leaseSeconds review_sv" by code_simp
  have same: "claim review_sv ((review_env_at 2000 ''b'')\<lparr>rv_random := \<lambda>_. js ''b''\<rparr>) (js ''org'') r_job None
      (NowNumber (Num (of_int 2000))) r_queued = r_claim"
    by (simp add: r_claim_def claim_def parseClock_def now_value_def review_env_at_def)
  have "cl_claimed (snd (projr r_claim))" and trim: "trim r_job = r_job" by code_simp+
  then obtain c where c: "r_claim = Inr (r_running, c)" "cl_claimed c" using r_claim_ok by blast
  show "claim_review review_sv (review_env_at 2000 ''b'') (js ''org'') None 2000 (r_job, js ''b'') r_queued = Some (r_running, r_job)"
    unfolding claim_review_def fst_conv snd_conv same c(1) using trim c(2) by simp
  show "trim (js ''other'') \<noteq> lease_token (js ''b'') \<or> 2000 + int (sv_leaseSeconds review_sv) * 1000 \<le> (9000 :: int)"
    by code_simp
qed

text \<open>
  C26. Saving a draft closes the reviews of its earlier contents: after \<open>markStale\<close>, a review of
  that draft that is not stale is bound to the binding the resolver reports and was made under the
  current reviewer contract; all others lost their lease, so no reviewer can complete them.
\<close>

theorem draft_change_closes_reviews:
  assumes "reach empty_queue (review_step sv) s" and "sv_resolveCurrentBinding sv \<noteq> None"
    and "markStale sv e org input s = Inr (t, changed)" and "boundedString (ms_draftId input) 256 = Inr draftId"
    and "j \<in> set (ws_jobs t)" and "rj_organizationId j = org" and "bi_draftId (rj_binding j) = draftId"
  shows "rj_state j = RStale \<and> (\<forall>tok ms. isl (requireLease j tok ms)) \<or>
    currentBinding sv s draftId = Inr (Some (rj_binding j)) \<and> contractIsCurrent sv (rj_model j) (rj_reviewerRevision j)"
proof -
  have ok: "store_ok s" using assms(1) by (rule review_queue.reach_inv)
  from assms(3) ok show ?thesis
  proof (cases rule: markStale_InrE)
    case (1 d current rv m)
    have d: "d = draftId" "currentBinding sv s draftId = Inr current" using 1(1,2) assms(2,4) by auto
    obtain j0 where j0: "ident j = ident j0" "if outdated sv org d current rv m j0 then rj_state j = RStale else j = j0"
      using 1(5) assms(5) unfolding list_all2_conv_all_nth evolve_def in_set_conv_nth by metis
    show ?thesis
    proof (cases "rj_state j = RStale")
      case True
      then have "isl (requireLease j tok ms)" for tok ms
        by (cases "requireLease j tok ms") (auto simp: requireLease_Inr)
      with True show ?thesis by blast
    next
      case False
      then have "\<not> outdated sv org d current rv m j" using j0(2) by (metis (full_types))
      with False assms(6,7) d show ?thesis
        by (auto simp: outdated_def Let_def sameBinding_def split: option.splits)
    qed
  qed
qed

definition edited_registry :: registry_state where
  "edited_registry = review_registry\<lparr>st_audit := [\<lparr>ae_id = js ''audit_1'', ae_organizationId = js ''org'', ae_subject = js ''u'',
     ae_action = ''draft.saved'', ae_resourceId = None, ae_createdAt = Stamp 3500\<rparr>]\<rparr>"

definition r_edited :: review_store where "r_edited = r_running\<lparr>ws_registry := edited_registry\<rparr>"

definition sample_mark :: mark_stale_input where
  "sample_mark = \<lparr>ms_draftId = JStr (js ''draft_1''), ms_current = binding_value changed_binding, ms_reviewerRevision = JUndefined,
     ms_model = JUndefined, ms_reason = JStr (js ''draft saved''), ms_now = NowUndefined\<rparr>"

definition r_mark :: "(review_store \<times> review_job list) review" where
  "r_mark = markStale review_sv (review_env_at 4000 ''d'') (js ''org'') sample_mark r_edited"

theorem draft_change_closes_reviews_witness:
  "rj_state (hd (ws_jobs (fst (projr r_mark)))) = RStale \<and> length (ws_jobs (fst (projr r_mark))) = 1"
proof -
  let ?t = "fst (projr r_mark)"
  have reach: "reach empty_queue (review_step review_sv) r_edited"
    unfolding r_edited_def by (rule reach_step [OF r_reach(2)]) (rule registry_step)
  have "\<not> isl r_mark" by code_simp
  then have run: "markStale review_sv (review_env_at 4000 ''d'') (js ''org'') sample_mark r_edited = Inr (?t, snd (projr r_mark))"
    using right_pair [of r_mark] by (simp add: r_mark_def)
  have res: "sv_resolveCurrentBinding review_sv \<noteq> None" by (simp add: review_sv_def)
  have hd: "boundedString (ms_draftId sample_mark) 256 = Inr (js ''draft_1'')" "hd (ws_jobs ?t) \<in> set (ws_jobs ?t)"
    "rj_organizationId (hd (ws_jobs ?t)) = js ''org''" "bi_draftId (rj_binding (hd (ws_jobs ?t))) = js ''draft_1''"
    by code_simp+
  have "currentBinding review_sv r_edited (js ''draft_1'') \<noteq> Inr (Some (rj_binding (hd (ws_jobs ?t))))"
    "length (ws_jobs ?t) = 1"
    by code_simp+
  with draft_change_closes_reviews [OF reach res run hd] show ?thesis by blast
qed

text \<open>
  Submission is idempotent: after a successful submission, a later one with the same
  idempotency key in the same organization returns that job and changes nothing when it asks for the
  same review (same binding, model and reviewer revision, same files up to order), and is refused as a
  conflict when it asks for another. The first submission's job is the requested review.
\<close>

theorem submission_is_idempotent:
  assumes "reach empty_queue (review_step sv) s" and "enqueue sv e org input s = Inr (t, job)"
    and "randomId e 0 ''upload-review-job'' \<notin> rj_id ` set (ws_jobs s)"
    and "normalizeEnqueueInput e input = Inr rq" and "normalizeEnqueueInput e' input' = Inr rq'"
    and "rq_idempotencyKey rq' = rq_idempotencyKey rq"
    and "is_current sv t (rq_binding rq') (rq_model rq') (rq_reviewerRevision rq') = Inr True"
  shows "sameRequest job rq \<and>
    enqueue sv e' org input' t = (if sameRequest job rq' then Inr (t, job) else Inl review_conflict)"
proof -
  have ok: "store_ok s" using assms(1) by (rule review_queue.reach_inv)
  have org: "assertOrganizationId org = Inr ()" using assms(2) by (auto simp: enqueue_def bindr_Inr_iff)
  have key: "key_match org rq' = key_match org rq" using assms(6) by (auto simp: key_match_def)
  have "find (key_match org rq) (ws_jobs t) = Some job \<and> sameRequest job rq"
    using assms(2)
  proof (cases rule: enqueue_InrE)
    case (1 rq1)
    then have rq1: "rq1 = rq" using assms(4) by simp
    from 1(3) show ?thesis
    proof (elim disjE conjE)
      assume none: "find (key_match org rq1) (ws_jobs s) = None" and job: "job = pending_job e org rq1"
        and prune: "pruneCollections (s\<lparr>ws_jobs := ws_jobs s @ [job]\<rparr>) = Inr t"
      have "job \<in> set (filter active (ws_jobs t))"
        unfolding prune_facts(3) [OF prune] by (simp add: job pending_job_def active_def)
      moreover have "j = job" if "j \<in> set (ws_jobs t)" "key_match org rq j" for j
        using prune_facts(1) [OF prune] find_None_notin [OF none, of j] that rq1 by auto
      moreover have "key_match org rq job" by (simp add: job rq1 key_match_def pending_job_def)
      ultimately have "find (key_match org rq) (ws_jobs t) = Some job"
        by (intro find_unique) simp_all
      then show ?thesis by (simp add: job rq1 sameRequest_def pending_job_def sameBinding_def sameSnapshot_def)
    qed (simp add: rq1)
  qed
  then show ?thesis
    by (simp add: enqueue_def org assms(5) assertBindingCurrent_def assms(7) key)
qed

theorem submission_is_idempotent_witness:
  "enqueue review_sv (review_env_at 1500 ''z'') (js ''org'') sample_input r_queued = Inr (r_queued, snd (projr r_submit))"
proof -
  define rq where "rq = projr (normalizeEnqueueInput (review_env_at 1000 ''a'') sample_input)"
  define rq' where "rq' = projr (normalizeEnqueueInput (review_env_at 1500 ''z'') sample_input)"
  have n: "normalizeEnqueueInput (review_env_at 1000 ''a'') sample_input = Inr rq"
    unfolding rq_def by (rule sum.collapse(2) [symmetric]) code_simp
  have n': "normalizeEnqueueInput (review_env_at 1500 ''z'') sample_input = Inr rq'"
    unfolding rq'_def by (rule sum.collapse(2) [symmetric]) code_simp
  have reach: "reach empty_queue (review_step review_sv) r_empty"
    by (rule reach_init) (simp add: empty_queue_def)
  have key: "rq_idempotencyKey rq' = rq_idempotencyKey rq" unfolding rq_def rq'_def by code_simp
  have cur: "is_current review_sv r_queued (rq_binding rq') (rq_model rq') (rq_reviewerRevision rq') = Inr True"
    unfolding rq'_def by code_simp
  have "sameRequest (snd (projr r_submit)) rq'" unfolding rq'_def by code_simp
  with submission_is_idempotent [OF reach r_submit_ok [unfolded r_submit_def] _ n n' key cur] show ?thesis
    by (simp add: r_submit_def)
qed

text \<open>
  The queue takes work until it is full of unfinished work: a valid submission with a new key and
  a current binding succeeds, whatever finished reviews fill the store, as long as fewer than 100
  reviews are pending or running; the job is then pending in the store. With 100 unfinished reviews it
  is refused with the retention error.
\<close>

theorem queue_accepts_until_full:
  assumes "reach empty_queue (review_step sv) s" and "assertOrganizationId org = Inr ()"
    and "normalizeEnqueueInput e input = Inr rq"
    and "is_current sv s (rq_binding rq) (rq_model rq) (rq_reviewerRevision rq) = Inr True"
    and "find (key_match org rq) (ws_jobs s) = None"
  shows "if length (filter active (ws_jobs s)) < 100
    then \<exists>t. enqueue sv e org input s = Inr (t, pending_job e org rq) \<and> pending_job e org rq \<in> set (ws_jobs t)
    else enqueue sv e org input s = Inl review_retention"
proof -
  have ok: "store_ok s" using assms(1) by (rule review_queue.reach_inv)
  let ?job = "pending_job e org rq" and ?s' = "s\<lparr>ws_jobs := ws_jobs s @ [pending_job e org rq]\<rparr>"
  have run: "enqueue sv e org input s = bindr (assertRetentionAvailable (ws_jobs s) 1) (\<lambda>_.
      bindr (pruneCollections ?s') (\<lambda>s'. Inr (s', ?job)))"
    by (simp add: enqueue_def assms(2-5) assertBindingCurrent_def Let_def)
  have act: "active ?job" by (simp add: pending_job_def active_def)
  show ?thesis
  proof (cases "length (filter active (ws_jobs s)) < 100")
    case True
    then have "length (filter active (ws_jobs ?s')) \<le> 100" using act by simp
    from prune_jobs_succeeds [OF this, of "ws_results s"] obtain t where t: "pruneCollections ?s' = Inr t"
      by (auto simp: pruneCollections_def)
    have "?job \<in> set (filter active (ws_jobs t))" unfolding prune_facts(3) [OF t] using act by simp
    moreover have "assertRetentionAvailable (ws_jobs s) 1 = Inr ()" using True by (simp add: assertRetentionAvailable_def)
    ultimately show ?thesis using True t by (simp add: run)
  next
    case False
    have "length (filter active (ws_jobs s)) \<le> length (ws_jobs s)" by (rule length_filter_le)
    with False have "\<not> length (ws_jobs s) + 1 \<le> 100" by linarith
    with False have "assertRetentionAvailable (ws_jobs s) 1 = Inl review_retention" by (simp add: assertRetentionAvailable_def)
    with False show ?thesis by (simp add: run)
  qed
qed

theorem queue_accepts_until_full_witness: "\<exists>t job. enqueue review_sv (review_env_at 1000 ''a'') (js ''org'') sample_input r_empty = Inr (t, job) \<and> job \<in> set (ws_jobs t)"
proof -
  have reach: "reach empty_queue (review_step review_sv) r_empty"
    by (rule reach_init) (simp add: empty_queue_def)
  define rq where "rq = projr (normalizeEnqueueInput (review_env_at 1000 ''a'') sample_input)"
  have n: "normalizeEnqueueInput (review_env_at 1000 ''a'') sample_input = Inr rq"
    unfolding rq_def by (rule sum.collapse(2) [symmetric]) code_simp
  have org: "assertOrganizationId (js ''org'') = Inr ()" by code_simp
  have cur: "is_current review_sv r_empty (rq_binding rq) (rq_model rq) (rq_reviewerRevision rq) = Inr True"
    unfolding rq_def by code_simp
  from queue_accepts_until_full [OF reach org n cur] show ?thesis by auto
qed

lemma page_facts:
  "length (take n (sort_by c (filter p (filter q xs)))) \<le> n \<and> set (take n (sort_by c (filter p (filter q xs)))) \<subseteq> set xs"
  by (auto dest!: in_set_takeD)

text \<open>
  Listings are honest: when the service can tell what is current, a listed job or result that is
  not shown as stale has the current binding and was made under the current contract, whatever state is
  stored; a listing is confined to the organization and has at most 100 entries.
\<close>

theorem listings_show_only_current_reviews:
  assumes "needs_projection sv" and "listJobs sv org opts s = Inr jobs" and "listResults sv org opts s = Inr results"
  shows "length jobs \<le> 100 \<and> length results \<le> 100 \<and>
    (\<forall>j \<in> set jobs. rj_organizationId j = org \<and> (rj_state j = RStale \<or> jobIsCurrent sv s j = Inr True)) \<and>
    (\<forall>r \<in> set results. rr_organizationId r = org \<and>
       (rr_state r = RStale \<or> is_current sv s (rr_binding r) (rr_model r) (rr_reviewerRevision r) = Inr True))"
proof -
  have limit: "n \<le> 100" if "list_limit opts = Inr n" for n
    using that by (auto simp: list_limit_def result_simps split: if_splits)
  have job: "rj_organizationId j' = rj_organizationId j \<and> (rj_state j' = RStale \<or> jobIsCurrent sv s j' = Inr True)"
    if "projectJob sv s j = Inr j'" for j j'
    using that assms(1) by (auto simp: projectJob_def bindr_Inr_iff clearLease_def split: if_splits dest: arg_cong [where f = rj_state])
  have res: "rr_organizationId r' = rr_organizationId r \<and>
      (rr_state r' = RStale \<or> is_current sv s (rr_binding r') (rr_model r') (rr_reviewerRevision r') = Inr True)"
    if "projectResult sv s r = Inr r'" for r r'
    using that assms(1) by (auto simp: projectResult_def bindr_Inr_iff split: if_splits dest: arg_cong [where f = rr_state])
  obtain n xs where n: "n \<le> 100" "length jobs \<le> n" "set jobs \<subseteq> set xs"
    and xs: "mapr (projectJob sv s) (filter (\<lambda>j. rj_organizationId j = org) (ws_jobs s)) = Inr xs"
    using assms(2) limit page_facts unfolding listJobs_def bindr_Inr_iff sum.inject by metis
  have jobs: "rj_organizationId j = org \<and> (rj_state j = RStale \<or> jobIsCurrent sv s j = Inr True)" if j: "j \<in> set jobs" for j
  proof -
    obtain j0 where "rj_organizationId j0 = org" "projectJob sv s j0 = Inr j"
      using mapr_InrD [OF xs, of j] j n(3) by auto
    with job show ?thesis by metis
  qed
  obtain m ys where m: "m \<le> 100" "length results \<le> m" "set results \<subseteq> set ys"
    and ys: "mapr (projectResult sv s) (filter (\<lambda>r. rr_organizationId r = org) (ws_results s)) = Inr ys"
    using assms(3) limit page_facts unfolding listResults_def bindr_Inr_iff sum.inject by metis
  have "rr_organizationId r = org \<and> (rr_state r = RStale \<or> is_current sv s (rr_binding r) (rr_model r) (rr_reviewerRevision r) = Inr True)"
    if r: "r \<in> set results" for r
  proof -
    obtain r0 where "rr_organizationId r0 = org" "projectResult sv s r0 = Inr r"
      using mapr_InrD [OF ys, of r] r m(3) by auto
    with res show ?thesis by metis
  qed
  with n m jobs show ?thesis by auto
qed

theorem listings_show_only_current_reviews_witness:
  "\<exists>jobs. listJobs review_sv (js ''org'') \<lparr>lo_draftId = None, lo_state = None, lo_limit = JUndefined\<rparr>
       (r_passed\<lparr>ws_registry := edited_registry\<rparr>) = Inr jobs \<and> length jobs = 1 \<and> list_all (\<lambda>j. rj_state j = RStale) jobs"
proof -
  let ?opts = "\<lparr>lo_draftId = None, lo_state = None, lo_limit = JUndefined\<rparr>" and ?s = "r_passed\<lparr>ws_registry := edited_registry\<rparr>"
  define jobs where "jobs = projr (listJobs review_sv (js ''org'') ?opts ?s)"
  define results where "results = projr (listResults review_sv (js ''org'') ?opts ?s)"
  have j: "listJobs review_sv (js ''org'') ?opts ?s = Inr jobs"
    unfolding jobs_def by (rule sum.collapse(2) [symmetric]) code_simp
  have r: "listResults review_sv (js ''org'') ?opts ?s = Inr results"
    unfolding results_def by (rule sum.collapse(2) [symmetric]) code_simp
  have "needs_projection review_sv" by (simp add: needs_projection_def review_sv_def)
  from listings_show_only_current_reviews [OF this j r]
  have "\<forall>j \<in> set jobs. rj_state j = RStale \<or> jobIsCurrent review_sv ?s j = Inr True" by blast
  moreover have "list_all (\<lambda>j. jobIsCurrent review_sv ?s j = Inr False) jobs" "length jobs = 1"
    unfolding jobs_def by code_simp+
  ultimately show ?thesis using j by (auto simp: list_all_iff)
qed

end
