(* ===== verification/Base64_Url.thy ===== *)
theory Base64_Url
  imports Prelude "HOL-Library.Word"
begin

text \<open>
  The byte helpers of \<open>packages/api-tokens/src/index.ts\<close>: \<open>base64UrlEncode\<close>, \<open>base64UrlDecode\<close> and
  \<open>timingSafeEqual\<close>. Bytes are naturals below 256. The decoder accumulates in a JavaScript number
  that the bitwise operators truncate to a signed 32-bit integer, which is never masked: it is a
  32-bit word here, so that the overflow the source relies on is part of the model.
\<close>

unbundle bit_operations_syntax

section \<open>Encoding\<close>

definition BASE64URL :: jstring where
  "BASE64URL = js ''ABCDEFGHIJKLMNOPQRSTUVWXYZabcdefghijklmnopqrstuvwxyz0123456789-_''"

fun base64UrlEncode :: "nat list \<Rightarrow> jstring" where
  "base64UrlEncode [] = []"
| "base64UrlEncode [first] = [BASE64URL ! drop_bit 2 first, BASE64URL ! push_bit 4 (first AND 3)]"
| "base64UrlEncode [first, second] =
     [BASE64URL ! drop_bit 2 first, BASE64URL ! (push_bit 4 (first AND 3) OR drop_bit 4 second),
      BASE64URL ! push_bit 2 (second AND 15)]"
| "base64UrlEncode (first # second # third # rest) =
     [BASE64URL ! drop_bit 2 first, BASE64URL ! (push_bit 4 (first AND 3) OR drop_bit 4 second),
      BASE64URL ! (push_bit 2 (second AND 15) OR drop_bit 6 third), BASE64URL ! (third AND 63)]
     @ base64UrlEncode rest"

section \<open>Decoding\<close>

text \<open>\<open>BASE64URL.indexOf(character)\<close>, \<open>None\<close> for \<open>-1\<close>.\<close>

fun index_of :: "'a list \<Rightarrow> 'a \<Rightarrow> nat option" where
  "index_of [] c = None"
| "index_of (x # xs) c = (if x = c then Some 0 else map_option Suc (index_of xs c))"

fun decode_loop :: "32 word \<Rightarrow> nat \<Rightarrow> jstring \<Rightarrow> nat list option" where
  "decode_loop buffer bits [] = Some []"
| "decode_loop buffer bits (character # rest) =
     (case index_of BASE64URL character of
        None \<Rightarrow> None
      | Some digit \<Rightarrow>
          (let buffer' = push_bit 6 buffer OR of_nat digit; bits' = bits + 6 in
           if bits' \<ge> 8 then
             map_option (\<lambda>out. unat (signed_drop_bit (bits' - 8) buffer' AND 255) # out) (decode_loop buffer' (bits' - 8) rest)
           else decode_loop buffer' bits' rest))"

definition is_base64url :: "nat \<Rightarrow> bool" where
  "is_base64url c \<longleftrightarrow> is_upper c \<or> is_lower c \<or> is_digit c \<or> c = 95 \<or> c = 45"

definition base64UrlDecode :: "jstring \<Rightarrow> nat list option" where
  "base64UrlDecode s =
     (if \<not> list_all is_base64url s \<or> length s mod 4 = 1 then None else decode_loop 0 0 s)"

section \<open>Comparison\<close>

text \<open>The loop of \<open>timingSafeEqual\<close>; reading past the end gives 0.\<close>

definition byte_at :: "nat list \<Rightarrow> nat \<Rightarrow> nat" where
  "byte_at bs i = (if i < length bs then bs ! i else 0)"

definition timingSafeEqual :: "nat list \<Rightarrow> nat list \<Rightarrow> bool" where
  "timingSafeEqual l r =
     (fold (\<lambda>i difference. difference OR (byte_at l i XOR byte_at r i)) [0..<max (length l) (length r)]
        (length l XOR length r) = 0)"

section \<open>Facts\<close>

lemma or_eq_0_iff: "a OR b = (0::nat) \<longleftrightarrow> a = 0 \<and> b = 0"
  by (auto simp: bit_eq_iff bit_simps)

lemma xor_eq_0_iff: "a XOR b = (0::nat) \<longleftrightarrow> a = b"
  by (auto simp: bit_eq_iff bit_simps)

lemma fold_or_eq_0:
  "fold (\<lambda>i d. d OR f i) xs (d::nat) = 0 \<longleftrightarrow> d = 0 \<and> (\<forall>i \<in> set xs. f i = 0)"
  by (induction xs arbitrary: d) (auto simp: or_eq_0_iff)

lemma timingSafeEqual_iff: "timingSafeEqual l r \<longleftrightarrow> l = r"
proof
  assume "timingSafeEqual l r"
  then have len: "length l = length r" and eq: "\<forall>i < max (length l) (length r). byte_at l i = byte_at r i"
    by (auto simp: timingSafeEqual_def fold_or_eq_0 xor_eq_0_iff)
  then have "\<forall>i < length l. l ! i = r ! i" by (auto simp: byte_at_def)
  with len show "l = r" by (auto intro: nth_equalityI)
next
  assume "l = r"
  then show "timingSafeEqual l r"
    unfolding timingSafeEqual_def fold_or_eq_0 by simp
qed

lemma or_disjoint: "x < 2 ^ n \<Longrightarrow> push_bit n y OR x = push_bit n y + (x::nat)"
proof -
  assume "x < 2 ^ n"
  then have x: "x = take_bit n x" by (simp add: take_bit_nat_eq_self)
  have "push_bit n y AND take_bit n x = 0"
    by (auto simp: bit_eq_iff bit_simps)
  then show ?thesis using disjunctive_add_eq_or [of "push_bit n y" x] x by simp
qed

lemma digits:
  fixes a b c :: nat
  assumes "b < 256" and "c < 256"
  shows "drop_bit 2 a = a div 4" and "drop_bit 4 b = b div 16" and "drop_bit 6 c = c div 64"
    and "push_bit 4 (a AND 3) = a mod 4 * 16" and "push_bit 2 (b AND 15) = b mod 16 * 4"
    and "a mod 4 * 16 OR b div 16 = a mod 4 * 16 + b div 16"
    and "b mod 16 * 4 OR c div 64 = b mod 16 * 4 + c div 64"
    and "c AND 63 = c mod 64"
proof -
  have mask: "x AND 3 = x mod 4" "x AND 15 = x mod 16" "x AND 63 = x mod 64" for x :: nat
    using take_bit_eq_mask [of 2 x] take_bit_eq_mask [of 4 x] take_bit_eq_mask [of 6 x]
    by (simp_all add: take_bit_eq_mod mask_eq_exp_minus_1)
  show "drop_bit 2 a = a div 4" "drop_bit 4 b = b div 16" "drop_bit 6 c = c div 64" by (simp_all add: drop_bit_eq_div)
  show "push_bit 4 (a AND 3) = a mod 4 * 16" "push_bit 2 (b AND 15) = b mod 16 * 4" "c AND 63 = c mod 64"
    by (simp_all add: mask push_bit_eq_mult)
  show "a mod 4 * 16 OR b div 16 = a mod 4 * 16 + b div 16"
    using or_disjoint [of "b div 16" 4 "a mod 4"] assms(1) by (simp add: push_bit_eq_mult)
  show "b mod 16 * 4 OR c div 64 = b mod 16 * 4 + c div 64"
    using or_disjoint [of "c div 64" 2 "b mod 16"] assms(2) by (simp add: push_bit_eq_mult)
qed

lemma encode_digits:
  fixes a b c :: nat
  assumes "a < 256" and "b < 256" and "c < 256"
  shows "base64UrlEncode [a] = [BASE64URL ! (a div 4), BASE64URL ! (a mod 4 * 16)]"
    and "base64UrlEncode [a, b] = [BASE64URL ! (a div 4), BASE64URL ! (a mod 4 * 16 + b div 16), BASE64URL ! (b mod 16 * 4)]"
    and "base64UrlEncode (a # b # c # rest) =
      BASE64URL ! (a div 4) # BASE64URL ! (a mod 4 * 16 + b div 16) # BASE64URL ! (b mod 16 * 4 + c div 64)
      # BASE64URL ! (c mod 64) # base64UrlEncode rest"
  by (simp_all only: base64UrlEncode.simps digits [OF assms(2,3)] append.simps)

lemma index_of_nth: "distinct xs \<Longrightarrow> i < length xs \<Longrightarrow> index_of xs (xs ! i) = Some i"
proof (induction xs arbitrary: i)
  case (Cons x xs)
  then show ?case by (cases i) (auto simp: in_set_conv_nth)
qed simp

lemma alphabet: "distinct BASE64URL" "length BASE64URL = 64" "list_all is_base64url BASE64URL"
  by code_simp+

text \<open>The buffer modulo \<open>2 ^ k\<close> after a digit, whatever the higher bits hold.\<close>

lemma buffer_step:
  fixes b :: "32 word"
  assumes "d < 64" and "6 \<le> k" and "k \<le> 32"
  shows "unat (push_bit 6 b OR of_nat d) mod 2 ^ k = (unat b * 64 + d) mod 2 ^ k"
proof -
  have "push_bit 6 b AND of_nat d = (0 :: 32 word)"
  proof -
    have "(of_nat d :: 32 word) = take_bit 6 (of_nat d)"
      using assms(1) by (simp add: take_bit_nat_eq_self flip: of_nat_take_bit)
    then show ?thesis by (metis (no_types, lifting) bit_and_iff bit_push_bit_iff bit_take_bit_iff bit_word_eqI bit_0_eq bot_apply bot_bool_def leD)
  qed
  then have "push_bit 6 b OR of_nat d = push_bit 6 b + of_nat d"
    by (simp add: disjunctive_add_eq_or)
  also have "\<dots> = of_nat (unat b * 64 + d)"
    by (simp add: push_bit_eq_mult)
  finally have eq: "push_bit 6 b OR of_nat d = of_nat (unat b * 64 + d)" .
  have "unat (push_bit 6 b OR of_nat d) = (unat b * 64 + d) mod 2 ^ 32"
    unfolding eq unat_of_nat by simp
  moreover have "(2::nat) ^ k dvd 2 ^ 32" using assms(3) by (rule le_imp_power_dvd)
  ultimately show ?thesis by (simp add: mod_mod_cancel)
qed

lemma output_byte:
  fixes b :: "32 word"
  assumes "n \<le> 6"
  shows "unat (signed_drop_bit n b AND 255) = unat b div 2 ^ n mod 256"
proof -
  have "signed_drop_bit n b AND 255 = take_bit 8 (drop_bit n b)"
  proof (rule bit_word_eqI)
    fix i assume "i < LENGTH(32)"
    have m: "(255 :: 32 word) = mask 8" by (simp add: mask_eq_exp_minus_1)
    show "bit (signed_drop_bit n b AND 255) i \<longleftrightarrow> bit (take_bit 8 (drop_bit n b)) i"
      unfolding m using assms by (auto simp: bit_simps)
  qed
  moreover have "unat (take_bit 8 (drop_bit n b)) = take_bit 8 (drop_bit n (unat b))"
    by (simp only: unsigned_take_bit_eq unat_drop_bit_eq)
  ultimately show ?thesis by (simp add: take_bit_eq_mod drop_bit_eq_div)
qed

text \<open>
  The loop without the overflow: \<open>v\<close> is the value of the \<open>bits\<close> bits not yet written.
\<close>

fun decode_exact :: "nat \<Rightarrow> nat \<Rightarrow> jstring \<Rightarrow> nat list option" where
  "decode_exact v bits [] = Some []"
| "decode_exact v bits (character # rest) =
     (case index_of BASE64URL character of
        None \<Rightarrow> None
      | Some digit \<Rightarrow>
          (let v' = v * 64 + digit in
           if bits + 6 \<ge> 8 then
             map_option (\<lambda>out. v' div 2 ^ (bits - 2) # out) (decode_exact (v' mod 2 ^ (bits - 2)) (bits - 2) rest)
           else decode_exact v' (bits + 6) rest))"

lemma shift_mod: "d < 64 \<Longrightarrow> (x * 64 + d) mod 2 ^ (n + 6) = x mod 2 ^ n * 64 + (d :: nat)"
  using mod_mult2_eq [of "x * 64 + d" 64 "2 ^ n"] by (simp add: power_add mult.commute)

lemma index_of_less: "index_of xs c = Some d \<Longrightarrow> d < length xs"
  by (induction xs arbitrary: d) (auto split: if_splits)

lemma decode_loop_exact:
  "bits < 8 \<Longrightarrow> decode_loop b bits s = decode_exact (unat b mod 2 ^ bits) bits s"
proof (induction s arbitrary: b bits)
  case (Cons c s)
  show ?case
  proof (cases "index_of BASE64URL c")
    case (Some d)
    then have d: "d < 64" using index_of_less alphabet(2) by fastforce
    define b' :: "32 word" where "b' = push_bit 6 b OR of_nat d"
    have v': "unat b' mod 2 ^ (bits + 6) = unat b mod 2 ^ bits * 64 + d"
      using buffer_step [OF d, of "bits + 6" b] Cons.prems shift_mod [OF d, of "unat b" bits] by (simp add: b'_def)
    show ?thesis
    proof (cases "bits + 6 \<ge> 8")
      case True
      define n where "n = bits - 2"
      have n: "bits = n + 2" "n \<le> 6" using True Cons.prems by (simp_all add: n_def)
      have pow: "(2::nat) ^ (bits + 6) = 2 ^ n * 256" by (simp add: n power_add)
      have out: "unat (signed_drop_bit n b' AND 255) = (unat b mod 2 ^ bits * 64 + d) div 2 ^ n"
        unfolding output_byte [OF n(2)] v' [symmetric] pow by (simp add: mod_mult2_eq)
      have low: "unat b' mod 2 ^ n = (unat b mod 2 ^ bits * 64 + d) mod 2 ^ n"
        unfolding v' [symmetric] pow by (simp add: mod_mult2_eq)
      have "decode_loop b' n s = decode_exact ((unat b mod 2 ^ bits * 64 + d) mod 2 ^ n) n s"
        using Cons.IH [of n b'] n(2) low by simp
      then show ?thesis
        using True n_def out by (simp add: Some Let_def flip: b'_def)
    next
      case False
      then show ?thesis using Cons.IH [of "bits + 6" b'] v' by (simp add: Some Let_def flip: b'_def)
    qed
  qed simp
qed simp

lemma decode_exact_digit:
  "d < 64 \<Longrightarrow> decode_exact v bits (BASE64URL ! d # rest) =
     (let v' = v * 64 + d in
      if bits + 6 \<ge> 8 then map_option (\<lambda>out. v' div 2 ^ (bits - 2) # out) (decode_exact (v' mod 2 ^ (bits - 2)) (bits - 2) rest)
      else decode_exact v' (bits + 6) rest)"
  using index_of_nth [OF alphabet(1)] by (simp add: alphabet(2))

lemma decode_exact_group:
  assumes "d0 < 64" and "d1 < 64" and "d2 < 64" and "d3 < 64"
  shows "decode_exact 0 0 (BASE64URL ! d0 # BASE64URL ! d1 # BASE64URL ! d2 # BASE64URL ! d3 # rest) =
    map_option (\<lambda>out. [(d0 * 64 + d1) div 16, ((d0 * 64 + d1) mod 16 * 64 + d2) div 4,
      ((d0 * 64 + d1) mod 16 * 64 + d2) mod 4 * 64 + d3] @ out) (decode_exact 0 0 rest)"
  by (simp add: decode_exact_digit assms Let_def option.map_comp comp_def del: decode_exact.simps(2))

lemma encode_digits_bound:
  fixes a b c :: nat
  assumes "a < 256" and "b < 256" and "c < 256"
  shows "a div 4 < 64" and "a mod 4 * 16 < 64" and "a mod 4 * 16 + b div 16 < 64" and "b mod 16 * 4 < 64"
    and "b mod 16 * 4 + c div 64 < 64" and "c mod 64 < 64"
  using assms by auto

lemma regroup:
  fixes a b c :: nat
  assumes "b < 256" and "c < 256"
  shows "(a div 4 * 64 + a mod 4 * 16) div 16 = a"
    and "(a div 4 * 64 + (a mod 4 * 16 + b div 16)) div 16 = a" and "(a div 4 * 64 + (a mod 4 * 16 + b div 16)) mod 16 = b div 16"
    and "(b div 16 * 64 + b mod 16 * 4) div 4 = b"
    and "(b div 16 * 64 + (b mod 16 * 4 + c div 64)) div 4 = b" and "(b div 16 * 64 + (b mod 16 * 4 + c div 64)) mod 4 = c div 64"
    and "c div 64 * 64 + c mod 64 = c"
proof -
  have a: "a div 4 * 64 + a mod 4 * 16 = a * 16" using div_mult_mod_eq [of a 4] by linarith
  then show "(a div 4 * 64 + a mod 4 * 16) div 16 = a" by simp
  have e: "a div 4 * 64 + (a mod 4 * 16 + b div 16) = a * 16 + b div 16" using a by linarith
  show "(a div 4 * 64 + (a mod 4 * 16 + b div 16)) div 16 = a" "(a div 4 * 64 + (a mod 4 * 16 + b div 16)) mod 16 = b div 16"
    unfolding e using assms(1) by simp_all
  have b: "b div 16 * 64 + b mod 16 * 4 = b * 4" using div_mult_mod_eq [of b 16] by linarith
  then show "(b div 16 * 64 + b mod 16 * 4) div 4 = b" by simp
  have e': "b div 16 * 64 + (b mod 16 * 4 + c div 64) = b * 4 + c div 64" using b by linarith
  show "(b div 16 * 64 + (b mod 16 * 4 + c div 64)) div 4 = b" "(b div 16 * 64 + (b mod 16 * 4 + c div 64)) mod 4 = c div 64"
    unfolding e' using assms(2) by simp_all
qed (rule div_mult_mod_eq)

lemma decode_exact_encode: "list_all (\<lambda>b. b < 256) bs \<Longrightarrow> decode_exact 0 0 (base64UrlEncode bs) = Some bs"
proof (induction bs rule: base64UrlEncode.induct)
  case (2 a)
  then have a: "a < 256" by simp
  show ?case
    using encode_digits_bound [OF a a a] regroup(1) [OF a a, where a = a]
    by (simp add: encode_digits [OF a a a] decode_exact_digit del: decode_exact.simps(2) base64UrlEncode.simps)
next
  case (3 a b)
  then have ab: "a < 256" "b < 256" by simp_all
  show ?case
    using encode_digits_bound [OF ab ab(2)] regroup(2,3) [OF ab(2) ab(2), where a = a] regroup(4) [OF ab(2) ab(2)]
    by (simp add: encode_digits [OF ab ab(2)] decode_exact_digit Let_def del: decode_exact.simps(2) base64UrlEncode.simps)
next
  case (4 a b c rest)
  then have abc: "a < 256" "b < 256" "c < 256" by simp_all
  show ?case
    unfolding encode_digits(3) [OF abc] decode_exact_group [OF encode_digits_bound(1,3,5,6) [OF abc]]
      regroup(2,3) [OF abc(2,3), where a = a] regroup(5,6,7) [OF abc(2,3)]
    using 4 by simp
qed simp

lemma alphabet_nth: "d < 64 \<Longrightarrow> is_base64url (BASE64URL ! d)"
  using alphabet(2,3) by (simp add: list_all_length)

lemma base64UrlEncode_chars: "list_all (\<lambda>b. b < 256) bs \<Longrightarrow> list_all is_base64url (base64UrlEncode bs)"
proof (induction bs rule: base64UrlEncode.induct)
  case (2 a)
  then have a: "a < 256" by simp
  show ?case
    using encode_digits_bound [OF a a a] by (simp add: encode_digits [OF a a a] alphabet_nth del: base64UrlEncode.simps)
next
  case (3 a b)
  then have ab: "a < 256" "b < 256" by simp_all
  show ?case
    using encode_digits_bound [OF ab ab(2)] by (simp add: encode_digits [OF ab ab(2)] alphabet_nth del: base64UrlEncode.simps)
next
  case (4 a b c rest)
  then have abc: "a < 256" "b < 256" "c < 256" by simp_all
  show ?case
    using encode_digits_bound [OF abc] 4 by (simp add: encode_digits [OF abc] alphabet_nth del: base64UrlEncode.simps)
qed simp

lemma base64UrlEncode_length: "length (base64UrlEncode bs) mod 4 \<noteq> 1"
  by (induction bs rule: base64UrlEncode.induct) auto

lemma base64Url_roundtrip:
  "list_all (\<lambda>b. b < 256) bs \<Longrightarrow> base64UrlDecode (base64UrlEncode bs) = Some bs"
  using decode_loop_exact [of 0 0 "base64UrlEncode bs"] base64UrlEncode_chars base64UrlEncode_length
  by (simp add: base64UrlDecode_def decode_exact_encode)

end
