(* ===== verification/Api_Tokens.thy ===== *)
theory Api_Tokens
  imports Access Text_Encoding Redaction Base64_Url
begin

text \<open>
  Company API tokens, \<open>packages/api-tokens/src/index.ts\<close>: roles and scopes, memberships and sessions,
  the token service over an abstract repository, and the in-memory repository. The identity provider
  (\<open>MembershipAuthorizer\<close>), SHA-256 and the random source are arguments. Left out: the display labels
  of a principal, the human-readable messages and the PostgreSQL adapter. The browser session and the
  HTTP handler are in the theory \<open>Token_Session\<close>.
\<close>

section \<open>Errors and records\<close>

datatype token_error = ApiTokenError (tok_code: string) (tok_status: nat) | TokenRangeError

type_synonym 'a tok = "token_error + 'a"

abbreviation invalid_request :: token_error where "invalid_request \<equiv> ApiTokenError ''INVALID_REQUEST'' 400"
abbreviation tok_unauthorized :: token_error where "tok_unauthorized \<equiv> ApiTokenError ''UNAUTHORIZED'' 401"
abbreviation tok_forbidden :: token_error where "tok_forbidden \<equiv> ApiTokenError ''FORBIDDEN'' 403"
abbreviation token_not_found :: token_error where "token_not_found \<equiv> ApiTokenError ''TOKEN_NOT_FOUND'' 404"
abbreviation invalid_scope :: token_error where "invalid_scope \<equiv> ApiTokenError ''INVALID_SCOPE'' 400"
abbreviation invalid_expiry :: token_error where "invalid_expiry \<equiv> ApiTokenError ''INVALID_EXPIRY'' 400"
abbreviation role_escalation :: token_error where "role_escalation \<equiv> ApiTokenError ''ROLE_ESCALATION'' 403"
abbreviation token_configuration :: token_error where "token_configuration \<equiv> ApiTokenError ''API_TOKEN_CONFIGURATION'' 500"
abbreviation token_repository_error :: token_error where "token_repository_error \<equiv> ApiTokenError ''API_TOKEN_REPOSITORY'' 500"

record organization_session =
  os_userId :: jstring
  os_organizationId :: jstring
  os_sessionId :: "jstring option"

text \<open>\<open>MembershipSnapshot\<close>; the provider's roles and scopes are not trusted to be well formed.\<close>

record membership_snapshot =
  mb_userId :: jstring
  mb_organizationId :: jstring
  mb_roles :: jsval
  mb_role :: jsval
  mb_scopes :: jsval
  mb_active :: "bool option"

record membership =
  mn_userId :: jstring
  mn_organizationId :: jstring
  mn_roles :: "role list"
  mn_scopes :: "jstring list"

record token_record =
  tk_id :: jstring
  tk_organizationId :: jstring
  tk_userId :: jstring
  tk_name :: jstring
  tk_tokenHash :: jstring
  tk_roleCeiling :: role
  tk_scopes :: "jstring list"
  tk_expiresAt :: timestamp
  tk_createdAt :: timestamp
  tk_revokedAt :: "timestamp option"

record token_principal =
  tp_organizationId :: jstring
  tp_subject :: jstring
  tp_roles :: "role list"
  tp_scopes :: "jstring list"
  tp_tokenId :: jstring

text \<open>The metadata that listings return: a record without its hash.\<close>

record token_metadata =
  tm_id :: jstring
  tm_organizationId :: jstring
  tm_userId :: jstring
  tm_name :: jstring
  tm_roleCeiling :: role
  tm_scopes :: "jstring list"
  tm_expiresAt :: timestamp
  tm_createdAt :: timestamp
  tm_revokedAt :: "timestamp option"

datatype token_action = TokenCreated | TokenRevoked

record token_audit =
  ta_action :: token_action
  ta_organizationId :: jstring
  ta_actorId :: jstring
  ta_tokenId :: jstring
  ta_createdAt :: timestamp
  ta_details :: "(role \<times> timestamp \<times> nat) option"

text \<open>\<open>ApiTokenRepository\<close>: the operations the service calls, over a repository state \<open>'r\<close>.\<close>

record 'r token_repository =
  rp_create :: "token_record \<Rightarrow> 'r \<Rightarrow> 'r tok"
  rp_findByHash :: "jstring \<Rightarrow> 'r \<Rightarrow> token_record option tok"
  rp_findById :: "jstring \<Rightarrow> jstring \<Rightarrow> 'r \<Rightarrow> token_record option tok"
  rp_list :: "jstring \<Rightarrow> jstring option \<Rightarrow> nat \<Rightarrow> 'r \<Rightarrow> token_record list tok"
  rp_revoke :: "jstring \<Rightarrow> jstring \<Rightarrow> timestamp \<Rightarrow> 'r \<Rightarrow> ('r \<times> token_record option) tok"

text \<open>
  What a call takes from its surroundings: the \<open>n\<close>-th reading of the clock (a whole number of
  milliseconds in the range of dates), the identity provider
  (\<open>None\<close> when it rejects), the random part of an identifier, the \<open>n\<close>-th generated secret, and
  SHA-256 over bytes.
\<close>

record token_env =
  te_host :: host
  te_now :: "nat \<Rightarrow> int"
  te_membership :: "jstring \<Rightarrow> jstring \<Rightarrow> membership_snapshot option option"
  te_uuid :: jstring
  te_secret :: "nat \<Rightarrow> jstring"
  te_sha256 :: "nat list \<Rightarrow> nat list"
  te_defaultTtl :: rat
  te_maxTtl :: rat
  te_maxList :: nat

section \<open>Strings\<close>

definition nonEmptyString :: "jsval \<Rightarrow> nat \<Rightarrow> jstring tok" where
  "nonEmptyString v maxLength =
     (case str_of v of
        None \<Rightarrow> Inl invalid_request
      | Some s \<Rightarrow> (let normalized = trim s in
          if normalized = [] \<or> length normalized > maxLength then Inl invalid_request else Inr normalized))"

definition is_alnum :: "nat \<Rightarrow> bool" where
  "is_alnum c \<longleftrightarrow> is_upper c \<or> is_lower c \<or> is_digit c"

text \<open>\<open>/^[A-Za-z0-9][A-Za-z0-9._:-]*$/u\<close> and \<open>/^[A-Za-z0-9][A-Za-z0-9:_.*-]*$/u\<close>\<close>

definition token_id_ok :: "jstring \<Rightarrow> bool" where
  "token_id_ok s \<longleftrightarrow> (case s of [] \<Rightarrow> False | c # cs \<Rightarrow> is_alnum c \<and> list_all (\<lambda>x. is_alnum x \<or> x \<in> {46, 95, 58, 45}) cs)"

definition scope_ok :: "jstring \<Rightarrow> bool" where
  "scope_ok s \<longleftrightarrow> (case s of [] \<Rightarrow> False | c # cs \<Rightarrow> is_alnum c \<and> list_all (\<lambda>x. is_alnum x \<or> x \<in> {58, 95, 46, 42, 45}) cs)"

definition boundedId :: "jsval \<Rightarrow> jstring tok" where
  "boundedId v = bindr (nonEmptyString v 128) (\<lambda>i. if token_id_ok i then Inr i else Inl invalid_request)"

definition normalizeName :: "jsval \<Rightarrow> jstring tok" where
  "normalizeName v = nonEmptyString v 128"

definition normalizeScope :: "jsval \<Rightarrow> jstring tok" where
  "normalizeScope v = bindr (nonEmptyString v 128) (\<lambda>scope.
     if scope \<noteq> js ''*'' \<and> \<not> scope_ok scope then Inl invalid_scope else Inr scope)"

definition normalizeScopes :: "jsval \<Rightarrow> jstring list tok" where
  "normalizeScopes v =
     (if v = JUndefined then Inr []
      else case arr_of v of
        None \<Rightarrow> Inl invalid_scope
      | Some vs \<Rightarrow> if length vs > 64 then Inl invalid_scope
                   else bindr (mapr normalizeScope vs) (\<lambda>ss. Inr (unique ss)))"

section \<open>Roles\<close>

fun role_rank :: "role \<Rightarrow> nat" where
  "role_rank Owner = 4"
| "role_rank Admin = 3"
| "role_rank Publisher = 2"
| "role_rank Reader = 1"
| "role_rank _ = 0"

definition normalizeRole :: "jsval \<Rightarrow> role tok" where
  "normalizeRole v =
     (if v = JStr (js ''member'') \<or> v = JStr (js ''reader'') then Inr Reader
      else if v = JStr (js ''manager'') \<or> v = JStr (js ''admin'') then Inr Admin
      else if v = JStr (js ''owner'') then Inr Owner
      else if v = JStr (js ''publisher'') then Inr Publisher
      else if v = JStr (js ''worker'') then Inl role_escalation
      else Inl (ApiTokenError ''INVALID_ROLE'' 400))"

definition normalizeRoleList :: "jsval \<Rightarrow> role list tok" where
  "normalizeRoleList v =
     bindr (mapr normalizeRole (if v = JUndefined then [] else case arr_of v of Some vs \<Rightarrow> vs | None \<Rightarrow> [v]))
       (\<lambda>rs. Inr (unique rs))"

definition highestRole :: "role list \<Rightarrow> role" where
  "highestRole roles = fold (\<lambda>r highest. if role_rank r > role_rank highest then r else highest) roles Reader"

definition roleAtMost :: "role \<Rightarrow> role \<Rightarrow> bool" where
  "roleAtMost requested maximum \<longleftrightarrow> role_rank requested \<le> role_rank maximum"

section \<open>Scopes\<close>

definition scope_grants :: "jstring \<Rightarrow> jstring \<Rightarrow> bool" where
  "scope_grants scope required \<longleftrightarrow> scope = js ''*'' \<or> scope = required \<or>
     (ends_with (js '':*'') scope \<and> starts_with (butlast scope) required)"

definition hasScope :: "jstring list \<Rightarrow> jstring \<Rightarrow> bool" where
  "hasScope granted required \<longleftrightarrow> (\<exists>scope \<in> set granted. scope_grants scope required)"

definition reader_scopes :: "string list" where
  "reader_scopes = [''registry:read'', ''skills:read'', ''resolve:read'', ''operations:read'', ''install:authorize'',
     ''install:receipt'', ''artifacts:download'', ''packs:read'', ''scans:read'', ''upstreams:read'']"

definition publisher_scopes :: "string list" where
  "publisher_scopes = [''registry:read'', ''skills:read'', ''skills:publish'', ''resolve:read'', ''operations:read'',
     ''install:authorize'', ''install:receipt'', ''artifacts:download'', ''packs:read'', ''packs:publish'',
     ''scans:read'', ''upstreams:read'', ''imports:create'']"

fun roleScopes :: "role \<Rightarrow> jstring list" where
  "roleScopes Owner = [js ''*'']"
| "roleScopes Admin = [js ''*'']"
| "roleScopes Publisher = map js publisher_scopes"
| "roleScopes Reader = map js reader_scopes"
| "roleScopes _ = []"

definition meet_scopes :: "jstring \<Rightarrow> jstring \<Rightarrow> jstring option" where
  "meet_scopes l r =
     (if l = js ''*'' then Some r
      else if r = js ''*'' then Some l
      else if l = r then Some l
      else if ends_with (js '':*'') l \<and> starts_with (butlast l) r then Some r
      else if ends_with (js '':*'') r \<and> starts_with (butlast r) l then Some l
      else None)"

definition intersectScopes :: "jstring list \<Rightarrow> jstring list \<Rightarrow> jstring list" where
  "intersectScopes ls rs = unique (concat (map (\<lambda>l. List.map_filter (meet_scopes l) rs) ls))"

section \<open>Memberships and sessions\<close>

definition nullish :: "jsval \<Rightarrow> bool" where
  "nullish v \<longleftrightarrow> v = JUndefined \<or> v = JNull"

text \<open>\<open>a ?? b\<close>\<close>

definition coalesce :: "jsval \<Rightarrow> jsval \<Rightarrow> jsval" where
  "coalesce a b = (if nullish a then b else a)"

definition normalizeMembership :: "membership_snapshot option \<Rightarrow> jstring \<Rightarrow> jstring \<Rightarrow> membership option" where
  "normalizeMembership value org user =
     (case value of
        None \<Rightarrow> None
      | Some m \<Rightarrow>
          if mb_active m = Some False \<or> mb_organizationId m \<noteq> org \<or> mb_userId m \<noteq> user then None
          else
            (let sourceRoles = coalesce (mb_roles m) (if mb_role m = JUndefined then JUndefined else JArr [mb_role m]) in
             case normalizeRoleList sourceRoles of
               Inl _ \<Rightarrow> None
             | Inr roles \<Rightarrow>
                 if roles = [] then None
                 else if mb_scopes m = JUndefined then
                   Some \<lparr>mn_userId = user, mn_organizationId = org, mn_roles = roles, mn_scopes = roleScopes (highestRole roles)\<rparr>
                 else (case normalizeScopes (mb_scopes m) of
                   Inl _ \<Rightarrow> None
                 | Inr scopes \<Rightarrow>
                     Some \<lparr>mn_userId = user, mn_organizationId = org, mn_roles = roles, mn_scopes = scopes\<rparr>)))"

fun falsy :: "jsval \<Rightarrow> bool" where
  "falsy JUndefined = True"
| "falsy JNull = True"
| "falsy (JBool b) = (\<not> b)"
| "falsy (JNum n) = (n = NaN \<or> n = Num 0)"
| "falsy (JStr s) = (s = [])"
| "falsy _ = False"

definition normalizeSession :: "jsval \<Rightarrow> organization_session option" where
  "normalizeSession value =
     (if \<not> is_object value then None
      else
        (let userId = coalesce (get_prop value ''userId'') (coalesce (get_prop value ''subject'')
               (coalesce (get_prop (get_prop value ''user'') ''id'') (get_prop (get_prop value ''session'') ''userId'')));
             organizationId = coalesce (get_prop value ''organizationId'') (coalesce (get_prop value ''orgId'')
               (coalesce (get_prop value ''activeOrganizationId'') (get_prop (get_prop value ''session'') ''activeOrganizationId'')));
             sessionId = coalesce (get_prop value ''sessionId'') (get_prop (get_prop value ''session'') ''id'') in
         if falsy userId \<or> falsy organizationId then None
         else case (nonEmptyString userId 256, nonEmptyString organizationId 256) of
           (Inr u, Inr org) \<Rightarrow>
             (if sessionId = JUndefined then Some \<lparr>os_userId = u, os_organizationId = org, os_sessionId = None\<rparr>
              else case nonEmptyString sessionId 256 of
                Inr sid \<Rightarrow> Some \<lparr>os_userId = u, os_organizationId = org, os_sessionId = Some sid\<rparr>
              | Inl _ \<Rightarrow> None)
         | _ \<Rightarrow> None))"

definition membershipFor :: "token_env \<Rightarrow> jstring \<Rightarrow> jstring \<Rightarrow> membership option" where
  "membershipFor e org user =
     (case te_membership e org user of None \<Rightarrow> None | Some m \<Rightarrow> normalizeMembership m org user)"

section \<open>Expiry\<close>

definition requested_expiry :: "host \<Rightarrow> jsval \<Rightarrow> jsval \<Rightarrow> rat \<Rightarrow> rat \<Rightarrow> rat tok" where
  "requested_expiry h value expiresInSeconds nowMs defaultTtl =
     (if value \<noteq> JUndefined then
        (case value of
           JNum (Num r) \<Rightarrow> Inr (if r < 1000000000000 then r * 1000 else r)
         | JStr s \<Rightarrow> (case dateParse h s of Some ms \<Rightarrow> Inr (of_int ms) | None \<Rightarrow> Inl invalid_expiry)
         | _ \<Rightarrow> Inl invalid_expiry)
      else if expiresInSeconds \<noteq> JUndefined then
        (case expiresInSeconds of
           JNum (Num r) \<Rightarrow> if r \<le> 0 then Inl invalid_expiry else Inr (nowMs + r * 1000)
         | _ \<Rightarrow> Inl invalid_expiry)
      else Inr (nowMs + defaultTtl * 1000))"

definition parseExpiry :: "host \<Rightarrow> jsval \<Rightarrow> jsval \<Rightarrow> rat \<Rightarrow> rat \<Rightarrow> rat \<Rightarrow> timestamp tok" where
  "parseExpiry h value expiresInSeconds nowMs defaultTtl maxTtl =
     bindr (requested_expiry h value expiresInSeconds nowMs defaultTtl) (\<lambda>expiryMs.
     let lifetime = expiryMs - nowMs in
     if lifetime \<le> 0 then Inl invalid_expiry
     else if lifetime > maxTtl * 1000 + 999 then Inl invalid_expiry
     else case iso_string expiryMs of None \<Rightarrow> Inl TokenRangeError | Some t \<Rightarrow> Inr t)"

definition hex_byte :: "nat \<Rightarrow> jstring" where
  "hex_byte b = [hex_digit (b div 16), hex_digit (b mod 16)]"

definition hashString :: "nat list \<Rightarrow> jstring" where
  "hashString bytes = js ''sha256:'' @ concat (map hex_byte bytes)"

definition token_hash :: "token_env \<Rightarrow> jstring \<Rightarrow> jstring" where
  "token_hash e secret = hashString (te_sha256 e (utf8_encode secret))"

definition metadata :: "token_record \<Rightarrow> token_metadata" where
  "metadata r = \<lparr>tm_id = tk_id r, tm_organizationId = tk_organizationId r, tm_userId = tk_userId r, tm_name = tk_name r,
     tm_roleCeiling = tk_roleCeiling r, tm_scopes = tk_scopes r, tm_expiresAt = tk_expiresAt r, tm_createdAt = tk_createdAt r,
     tm_revokedAt = tk_revokedAt r\<rparr>"

section \<open>Authority of a token\<close>

definition isManagementRole :: "role \<Rightarrow> bool" where
  "isManagementRole r \<longleftrightarrow> r = Owner \<or> r = Admin"

definition canManageAll :: "membership \<Rightarrow> bool" where
  "canManageAll m \<longleftrightarrow> list_ex isManagementRole (mn_roles m)"

definition effectiveRole :: "membership \<Rightarrow> role \<Rightarrow> role" where
  "effectiveRole m cap =
     (let highest = highestRole (mn_roles m) in if role_rank highest \<ge> role_rank cap then cap else highest)"

definition scopesForToken :: "token_record \<Rightarrow> membership \<Rightarrow> jstring list" where
  "scopesForToken r m =
     intersectScopes (intersectScopes (tk_scopes r) (mn_scopes m)) (roleScopes (effectiveRole m (tk_roleCeiling r)))"

section \<open>The service\<close>

text \<open>\<open>CreateApiTokenInput\<close>, as the handler passes it on: fields of unknown type.\<close>

record create_token_input =
  ci_name :: jsval
  ci_roleCeiling :: jsval
  ci_role :: jsval
  ci_scopes :: jsval
  ci_expiresAt :: jsval
  ci_expiresInSeconds :: jsval
  ci_organizationId :: jsval

definition secret_ok :: "jstring \<Rightarrow> bool" where
  "secret_ok s \<longleftrightarrow> 20 \<le> length s \<and> length s \<le> 512 \<and> \<not> list_ex (\<lambda>c. c \<in> {13, 10, 9, 32}) s"

text \<open>The loop over at most three generated secrets, from attempt \<open>k\<close>.\<close>

function create_attempts ::
    "'r token_repository \<Rightarrow> token_env \<Rightarrow> (jstring \<Rightarrow> token_record) \<Rightarrow> nat \<Rightarrow> 'r \<Rightarrow> ('r \<times> token_record \<times> jstring) tok" where
  "create_attempts R e next k s =
     (let candidate = te_secret e k in
      if \<not> secret_ok candidate then Inl token_configuration
      else
        (let r = next (token_hash e candidate) in
         case rp_create R r s of
           Inr s' \<Rightarrow> Inr (s', r, candidate)
         | Inl err \<Rightarrow> if k \<ge> 2 then Inl err else create_attempts R e next (Suc k) s))"
  by pat_completeness auto
termination
  by (relation "measure (\<lambda>(R, e, next, k, s). 3 - k)") auto

declare create_attempts.simps [simp del]

definition created_audit :: "token_record \<Rightarrow> jstring \<Rightarrow> token_audit" where
  "created_audit r actor = \<lparr>ta_action = TokenCreated, ta_organizationId = tk_organizationId r, ta_actorId = actor,
     ta_tokenId = tk_id r, ta_createdAt = tk_createdAt r,
     ta_details = Some (tk_roleCeiling r, tk_expiresAt r, length (tk_scopes r))\<rparr>"

definition requested_scopes :: "jsval \<Rightarrow> role \<Rightarrow> jstring list tok" where
  "requested_scopes v role = (if v = JUndefined then Inr (roleScopes role) else normalizeScopes v)"

definition createToken ::
    "'r token_repository \<Rightarrow> token_env \<Rightarrow> jsval \<Rightarrow> create_token_input \<Rightarrow> 'r \<Rightarrow>
     ('r \<times> token_audit \<times> token_metadata \<times> jstring) tok" where
  "createToken R e ctx input s =
     (case normalizeSession ctx of
        None \<Rightarrow> Inl tok_unauthorized
      | Some session \<Rightarrow>
          (case membershipFor e (os_organizationId session) (os_userId session) of
             None \<Rightarrow> Inl tok_forbidden
           | Some m \<Rightarrow>
               if ci_organizationId input \<noteq> JUndefined \<and> ci_organizationId input \<noteq> JStr (os_organizationId session)
               then Inl tok_forbidden
               else
                 bindr (normalizeName (ci_name input)) (\<lambda>name.
                 let asked = coalesce (ci_roleCeiling input) (ci_role input); highest = highestRole (mn_roles m) in
                 bindr (if asked = JUndefined then Inr highest else normalizeRole asked) (\<lambda>requestedRole.
                 if \<not> roleAtMost requestedRole highest then Inl role_escalation
                 else
                   bindr (requested_scopes (ci_scopes input) requestedRole) (\<lambda>scopes.
                   if list_ex (\<lambda>sc. \<not> hasScope (mn_scopes m) sc \<or> \<not> hasScope (roleScopes requestedRole) sc) scopes
                   then Inl (ApiTokenError ''SCOPE_ESCALATION'' 403)
                   else
                     bindr (parseExpiry (te_host e) (ci_expiresAt input) (ci_expiresInSeconds input) (of_int (te_now e 0))
                              (te_defaultTtl e) (te_maxTtl e)) (\<lambda>expiresAt.
                     bindr (boundedId (JStr (js ''st_'' @ te_uuid e))) (\<lambda>i.
                     bindr (create_attempts R e
                              (\<lambda>h. \<lparr>tk_id = i, tk_organizationId = os_organizationId session, tk_userId = os_userId session,
                                    tk_name = name, tk_tokenHash = h, tk_roleCeiling = requestedRole, tk_scopes = scopes,
                                    tk_expiresAt = expiresAt, tk_createdAt = Stamp (te_now e 0), tk_revokedAt = None\<rparr>) 0 s)
                       (\<lambda>(s', r, secret). Inr (s', created_audit r (os_userId session), metadata r, secret)))))))))"

record list_tokens_options =
  lt_includeRevoked :: bool
  lt_subject :: "jstring option"
  lt_limit :: "rat option"

definition listTokens ::
    "'r token_repository \<Rightarrow> token_env \<Rightarrow> jsval \<Rightarrow> list_tokens_options \<Rightarrow> 'r \<Rightarrow> token_metadata list tok" where
  "listTokens R e ctx opts s =
     (case normalizeSession ctx of
        None \<Rightarrow> Inl tok_unauthorized
      | Some session \<Rightarrow>
          (case membershipFor e (os_organizationId session) (os_userId session) of
             None \<Rightarrow> Inl tok_forbidden
           | Some m \<Rightarrow>
               bindr (case lt_subject opts of None \<Rightarrow> Inr None
                      | Some x \<Rightarrow> bindr (nonEmptyString (JStr x) 256) (\<lambda>y. Inr (Some y))) (\<lambda>requestedSubject.
               let subject = (if canManageAll m then requestedSubject else Some (os_userId session));
                   limit = (case lt_limit opts of None \<Rightarrow> te_maxList e
                            | Some l \<Rightarrow> min (te_maxList e) (max 1 (nat \<lfloor>l\<rfloor>))) in
               bindr (rp_list R (os_organizationId session) subject limit s) (\<lambda>rows.
               Inr (map metadata (filter (\<lambda>r. lt_includeRevoked opts \<or> tk_revokedAt r = None) rows))))))"

definition revoked_audit :: "jstring \<Rightarrow> jstring \<Rightarrow> jstring \<Rightarrow> timestamp \<Rightarrow> token_audit" where
  "revoked_audit org actor i t = \<lparr>ta_action = TokenRevoked, ta_organizationId = org, ta_actorId = actor, ta_tokenId = i, ta_createdAt = t,
     ta_details = None\<rparr>"

definition revokeToken ::
    "'r token_repository \<Rightarrow> token_env \<Rightarrow> jsval \<Rightarrow> jsval \<Rightarrow> 'r \<Rightarrow> ('r \<times> token_audit \<times> token_metadata) tok" where
  "revokeToken R e ctx tokenId s =
     (case normalizeSession ctx of
        None \<Rightarrow> Inl tok_unauthorized
      | Some session \<Rightarrow>
          bindr (boundedId tokenId) (\<lambda>cleanId.
          case membershipFor e (os_organizationId session) (os_userId session) of
            None \<Rightarrow> Inl tok_forbidden
          | Some m \<Rightarrow>
              bindr (rp_findById R (os_organizationId session) cleanId s) (\<lambda>found.
              case found of
                None \<Rightarrow> Inl token_not_found
              | Some existing \<Rightarrow>
                  if tk_userId existing \<noteq> os_userId session \<and> \<not> canManageAll m then Inl tok_forbidden
                  else
                    let revokedAt = (case tk_revokedAt existing of Some t \<Rightarrow> t | None \<Rightarrow> Stamp (te_now e 0)) in
                    bindr (rp_revoke R (os_organizationId session) cleanId revokedAt s) (\<lambda>(s', revoked).
                    case revoked of
                      None \<Rightarrow> Inl token_not_found
                    | Some r \<Rightarrow>
                        Inr (s', revoked_audit (os_organizationId session) (os_userId session) cleanId (Stamp (te_now e 1)), metadata r)))))"

text \<open>\<open>rawToken.replace(/^Bearer[ \t]+/iu, '')\<close>\<close>

definition blank :: "nat \<Rightarrow> bool" where "blank c \<longleftrightarrow> c = 32 \<or> c = 9"

definition strip_bearer :: "jstring \<Rightarrow> jstring" where
  "strip_bearer s =
     (if prefix_ci ''bearer'' s \<and> takeWhile blank (drop 6 s) \<noteq> [] then dropWhile blank (drop 6 s) else s)"

definition recordForRawToken :: "'r token_repository \<Rightarrow> token_env \<Rightarrow> jstring \<Rightarrow> 'r \<Rightarrow> token_record option" where
  "recordForRawToken R e rawToken s =
     (let token = strip_bearer rawToken in
      if \<not> secret_ok token then None
      else case rp_findByHash R (token_hash e token) s of Inl _ \<Rightarrow> None | Inr r \<Rightarrow> r)"

definition principalForRecord :: "token_env \<Rightarrow> token_record \<Rightarrow> token_principal option" where
  "principalForRecord e r =
     (if tk_revokedAt r \<noteq> None then None
      else case date_parse (tk_expiresAt r) of
        None \<Rightarrow> None
      | Some expiry \<Rightarrow>
          if te_now e 0 \<ge> expiry then None
          else (case membershipFor e (tk_organizationId r) (tk_userId r) of
            None \<Rightarrow> None
          | Some m \<Rightarrow>
              Some \<lparr>tp_organizationId = tk_organizationId r, tp_subject = tk_userId r,
                    tp_roles = [effectiveRole m (tk_roleCeiling r)], tp_scopes = scopesForToken r m, tp_tokenId = tk_id r\<rparr>))"

definition authenticateBearerToken :: "'r token_repository \<Rightarrow> token_env \<Rightarrow> jstring \<Rightarrow> 'r \<Rightarrow> token_principal option" where
  "authenticateBearerToken R e rawToken s =
     (case recordForRawToken R e rawToken s of None \<Rightarrow> None | Some r \<Rightarrow> principalForRecord e r)"

section \<open>The in-memory repository\<close>

text \<open>
  \<open>records\<close> keeps insertion order, as a \<open>Map\<close> does; \<open>hashes\<close> maps a hash to the identifier of its
  record. The listing is sorted by creation time, newest first; the times are ISO strings of one
  format, whose order is that of the instants.
\<close>

record memory_tokens =
  my_records :: "token_record list"
  my_hashes :: "(jstring \<times> jstring) list"

definition mem_record :: "jstring \<Rightarrow> memory_tokens \<Rightarrow> token_record option" where
  "mem_record i m = find (\<lambda>r. tk_id r = i) (my_records m)"

definition mem_create :: "token_record \<Rightarrow> memory_tokens \<Rightarrow> memory_tokens tok" where
  "mem_create r m =
     (if mem_record (tk_id r) m \<noteq> None \<or> map_of (my_hashes m) (tk_tokenHash r) \<noteq> None then Inl token_repository_error
      else Inr \<lparr>my_records = my_records m @ [r], my_hashes = my_hashes m @ [(tk_tokenHash r, tk_id r)]\<rparr>)"

definition mem_findByHash :: "jstring \<Rightarrow> memory_tokens \<Rightarrow> token_record option tok" where
  "mem_findByHash h m = Inr (case map_of (my_hashes m) h of None \<Rightarrow> None | Some i \<Rightarrow> mem_record i m)"

definition mem_findById :: "jstring \<Rightarrow> jstring \<Rightarrow> memory_tokens \<Rightarrow> token_record option tok" where
  "mem_findById org i m =
     Inr (case mem_record i m of Some r \<Rightarrow> if tk_organizationId r = org then Some r else None | None \<Rightarrow> None)"

definition newest_first :: "token_record \<Rightarrow> token_record \<Rightarrow> int" where
  "newest_first l r =
     (case (date_parse (tk_createdAt l), date_parse (tk_createdAt r)) of (Some a, Some b) \<Rightarrow> b - a | _ \<Rightarrow> 0)"

definition mem_list :: "jstring \<Rightarrow> jstring option \<Rightarrow> nat \<Rightarrow> memory_tokens \<Rightarrow> token_record list tok" where
  "mem_list org subject limit m =
     Inr (take limit (sort_by newest_first
       (filter (\<lambda>r. tk_organizationId r = org \<and> (case subject of None \<Rightarrow> True | Some u \<Rightarrow> tk_userId r = u)) (my_records m))))"

definition mark_revoked :: "timestamp \<Rightarrow> token_record \<Rightarrow> token_record" where
  "mark_revoked t r = (if tk_revokedAt r = None then r\<lparr>tk_revokedAt := Some t\<rparr> else r)"

definition mem_revoke :: "jstring \<Rightarrow> jstring \<Rightarrow> timestamp \<Rightarrow> memory_tokens \<Rightarrow> (memory_tokens \<times> token_record option) tok" where
  "mem_revoke org i t m =
     (case mem_record i m of
        None \<Rightarrow> Inr (m, None)
      | Some r \<Rightarrow>
          if tk_organizationId r \<noteq> org then Inr (m, None)
          else Inr (m\<lparr>my_records := update_first (\<lambda>r. tk_id r = i) (mark_revoked t) (my_records m)\<rparr>, Some (mark_revoked t r)))"

definition memory_repository :: "memory_tokens token_repository" where
  "memory_repository =
     \<lparr>rp_create = mem_create, rp_findByHash = mem_findByHash, rp_findById = mem_findById, rp_list = mem_list, rp_revoke = mem_revoke\<rparr>"

end
