(* ===== verification/Token_Guarantees.thy ===== *)
theory Token_Guarantees
  imports Api_Tokens
begin

text \<open>
  What API tokens promise: scope intersection is exact, a token never carries more authority than its
  record, its owner's current membership and its role, creation cannot escalate, revocation is
  permanent, and a listing shows nobody else's tokens. The service relies on its repository through
  the interface \<open>token_store\<close>, which the in-memory repository satisfies.
\<close>

section \<open>Scopes\<close>

lemma starts_with_iff: "starts_with p s \<longleftrightarrow> (\<exists>r. s = p @ r)"
  unfolding starts_with_def by (metis append_eq_conv_conj append_take_drop_id)

lemma starts_with_trans: "starts_with p q \<Longrightarrow> starts_with q r \<Longrightarrow> starts_with p r"
  by (auto simp: starts_with_iff)

lemma starts_with_same:
  "starts_with p s \<Longrightarrow> starts_with q s \<Longrightarrow> length p \<le> length q \<Longrightarrow> starts_with p q"
  unfolding starts_with_iff by (metis append_eq_append_conv_if append_take_drop_id)

lemma starts_with_butlast:
  assumes "starts_with p s" and "p \<noteq> s"
  shows "starts_with p (butlast s)"
proof -
  obtain r where r: "s = p @ r" "r \<noteq> []" using assms by (auto simp: starts_with_iff)
  then show ?thesis by (simp add: starts_with_iff butlast_append)
qed

lemma wildcard_split: "ends_with (js '':*'') s \<longleftrightarrow> (\<exists>p. s = p @ [58, 42])"
proof -
  have lit: "js '':*'' = [58, 42]" by (simp add: js_def)
  show ?thesis
  proof
    assume "ends_with (js '':*'') s"
    then have "drop (length s - Suc (Suc 0)) s = [58, 42]" by (simp add: ends_with_def lit)
    then have "s = take (length s - Suc (Suc 0)) s @ [58, 42]" by (metis append_take_drop_id)
    then show "\<exists>p. s = p @ [58, 42]" by blast
  qed (auto simp: ends_with_def lit)
qed

lemma star_unit: "js ''*'' = [42]"
  by (simp add: js_def)

lemma wildcard_grants:
  assumes "ends_with (js '':*'') w"
  shows "starts_with (butlast w) w" and "w \<noteq> js ''*''" and "\<not> starts_with (butlast w) (js ''*'')"
  using assms unfolding wildcard_split star_unit by (auto simp: starts_with_iff butlast_append append_eq_Cons_conv Cons_eq_append_conv)

text \<open>A scope that a wildcard covers covers no more than the wildcard.\<close>

lemma covered_grants:
  assumes w: "ends_with (js '':*'') w" and c: "starts_with (butlast w) r" and g: "scope_grants r q"
  shows "starts_with (butlast w) q"
proof -
  have "r \<noteq> js ''*''" using c wildcard_grants(3) [OF w] by blast
  with g consider "r = q" | "ends_with (js '':*'') r" "starts_with (butlast r) q"
    unfolding scope_grants_def by blast
  then show ?thesis
  proof cases
    case 2
    have "butlast w \<noteq> r" using w 2(1) by (auto simp: wildcard_split butlast_append)
    then have "starts_with (butlast w) (butlast r)" using c by (intro starts_with_butlast)
    then show ?thesis using 2(2) by (rule starts_with_trans)
  qed (use c in simp)
qed

lemma scope_grants_trans: "scope_grants a b \<Longrightarrow> scope_grants b c \<Longrightarrow> scope_grants a c"
proof -
  assume ab: "scope_grants a b" and bc: "scope_grants b c"
  from ab consider "a = js ''*''" | "a = b" | "ends_with (js '':*'') a" "starts_with (butlast a) b"
    unfolding scope_grants_def by blast
  then show ?thesis
  proof cases
    case 3
    then show ?thesis using covered_grants [OF 3 bc] by (simp add: scope_grants_def)
  qed (use bc in \<open>auto simp: scope_grants_def\<close>)
qed

lemma hasScope_trans: "hasScope m r \<Longrightarrow> scope_grants r q \<Longrightarrow> hasScope m q"
  unfolding hasScope_def by (blast intro: scope_grants_trans)

lemma meet_scopes_sound:
  "meet_scopes l r = Some x \<Longrightarrow> scope_grants x q \<Longrightarrow> scope_grants l q \<and> scope_grants r q"
proof -
  assume m: "meet_scopes l r = Some x" and g: "scope_grants x q"
  from m consider "l = js ''*''" "x = r" | "r = js ''*''" "x = l" | "l = r" "x = l"
    | "ends_with (js '':*'') l" "starts_with (butlast l) r" "x = r"
    | "ends_with (js '':*'') r" "starts_with (butlast r) l" "x = l"
    unfolding meet_scopes_def by (auto split: if_splits)
  then show ?thesis
  proof cases
    case 4
    then show ?thesis using covered_grants [OF 4(1,2)] g by (simp add: scope_grants_def)
  next
    case 5
    then show ?thesis using covered_grants [OF 5(1,2)] g by (simp add: scope_grants_def)
  qed (use g in \<open>simp_all add: scope_grants_def\<close>)
qed

lemma meet_scopes_complete:
  assumes l: "scope_grants l q" and r: "scope_grants r q"
  shows "\<exists>x. meet_scopes l r = Some x \<and> scope_grants x q"
proof (cases "l = js ''*'' \<or> r = js ''*'' \<or> l = r")
  case True
  then show ?thesis using l r by (auto simp: meet_scopes_def)
next
  case False
  then have ne: "l \<noteq> js ''*''" "r \<noteq> js ''*''" "l \<noteq> r" by auto
  with l r consider "l = q" "ends_with (js '':*'') r" "starts_with (butlast r) q"
    | "r = q" "ends_with (js '':*'') l" "starts_with (butlast l) q"
    | "ends_with (js '':*'') l" "starts_with (butlast l) q" "ends_with (js '':*'') r" "starts_with (butlast r) q"
    unfolding scope_grants_def by blast
  then show ?thesis
  proof cases
    case 1
    then show ?thesis using ne r by (auto simp: meet_scopes_def scope_grants_def)
  next
    case 2
    then show ?thesis using ne l by (auto simp: meet_scopes_def scope_grants_def)
  next
    case 3
    have "starts_with (butlast l) r \<or> starts_with (butlast r) l"
      using starts_with_same [OF 3(2,4)] starts_with_same [OF 3(4,2)] starts_with_trans
        wildcard_grants(1) [OF 3(1)] wildcard_grants(1) [OF 3(3)] nat_le_linear by blast
    then show ?thesis using 3 ne l r by (auto simp: meet_scopes_def)
  qed
qed

lemma hasScope_intersect: "hasScope (intersectScopes ls rs) q \<longleftrightarrow> hasScope ls q \<and> hasScope rs q"
proof
  assume "hasScope (intersectScopes ls rs) q"
  then obtain l r x where "l \<in> set ls" "r \<in> set rs" "meet_scopes l r = Some x" "scope_grants x q"
    by (auto simp: hasScope_def intersectScopes_def map_filter_def)
  with meet_scopes_sound show "hasScope ls q \<and> hasScope rs q" unfolding hasScope_def by blast
next
  assume "hasScope ls q \<and> hasScope rs q"
  then obtain l r where lr: "l \<in> set ls" "r \<in> set rs" "scope_grants l q" "scope_grants r q"
    by (auto simp: hasScope_def)
  obtain x where "meet_scopes l r = Some x" "scope_grants x q" using meet_scopes_complete [OF lr(3,4)] by blast
  then show "hasScope (intersectScopes ls rs) q"
    using lr(1,2) by (force simp: hasScope_def intersectScopes_def map_filter_def)
qed

section \<open>Roles\<close>

lemma highestRole_rank: "r \<in> set roles \<Longrightarrow> role_rank r \<le> role_rank (highestRole roles)"
proof -
  have "role_rank a \<le> role_rank (fold (\<lambda>r h. if role_rank r > role_rank h then r else h) roles a) \<and>
    (\<forall>r \<in> set roles. role_rank r \<le> role_rank (fold (\<lambda>r h. if role_rank r > role_rank h then r else h) roles a))" for a
  proof (induction roles arbitrary: a)
    case (Cons x xs)
    show ?case
      using Cons.IH [of x] Cons.IH [of a] by (cases "role_rank a < role_rank x") auto
  qed simp
  then show "r \<in> set roles \<Longrightarrow> ?thesis" unfolding highestRole_def by blast
qed

lemma effectiveRole_rank:
  "role_rank (effectiveRole m cap) = min (role_rank cap) (role_rank (highestRole (mn_roles m)))"
  by (auto simp: effectiveRole_def Let_def)

section \<open>Creation\<close>

lemma create_attempts_InrE:
  assumes "create_attempts R e next k s = Inr (s', r, secret)"
  obtains "rp_create R r s = Inr s'" and "r = next (token_hash e secret)" and "secret_ok secret"
proof -
  have "rp_create R r s = Inr s' \<and> r = next (token_hash e secret) \<and> secret_ok secret"
    using assms
  proof (induction R e "next" k s rule: create_attempts.induct)
    case (1 R e "next" k s)
    let ?r = "next (token_hash e (te_secret e k))"
    have run: "(if \<not> secret_ok (te_secret e k) then Inl token_configuration
        else case rp_create R ?r s of Inr s' \<Rightarrow> Inr (s', ?r, te_secret e k)
          | Inl err \<Rightarrow> if k \<ge> 2 then Inl err else create_attempts R e next (Suc k) s) = Inr (s', r, secret)"
      using "1.prems" unfolding create_attempts.simps [of R e "next" k s] Let_def .
    then have ok: "secret_ok (te_secret e k)" by (auto split: if_splits)
    show ?case
    proof (cases "rp_create R ?r s")
      case (Inr u)
      with run ok show ?thesis by auto
    next
      case (Inl err)
      with run ok have "\<not> k \<ge> 2" "create_attempts R e next (Suc k) s = Inr (s', r, secret)" by (auto split: if_splits)
      then show ?thesis using "1.IH" [OF refl _ refl Inl] ok by blast
    qed
  qed
  then show thesis using that by blast
qed

text \<open>What a successful creation went through.\<close>

lemma createToken_InrE:
  assumes "createToken R e ctx input s = Inr (s', ev, md, secret)"
  obtains session m r where "normalizeSession ctx = Some session"
    and "membershipFor e (os_organizationId session) (os_userId session) = Some m"
    and "rp_create R r s = Inr s'" and "md = metadata r" and "ev = created_audit r (os_userId session)"
    and "tk_organizationId r = os_organizationId session" and "tk_userId r = os_userId session"
    and "normalizeName (ci_name input) = Inr (tk_name r)" and "boundedId (JStr (js ''st_'' @ te_uuid e)) = Inr (tk_id r)"
    and "tk_tokenHash r = token_hash e secret" and "secret_ok secret" and "tk_revokedAt r = None"
    and "tk_createdAt r = Stamp (te_now e 0)"
    and "roleAtMost (tk_roleCeiling r) (highestRole (mn_roles m))"
    and "tk_roleCeiling r = highestRole (mn_roles m) \<or> (\<exists>v. normalizeRole v = Inr (tk_roleCeiling r))"
    and "requested_scopes (ci_scopes input) (tk_roleCeiling r) = Inr (tk_scopes r)"
    and "\<forall>sc \<in> set (tk_scopes r). hasScope (mn_scopes m) sc \<and> hasScope (roleScopes (tk_roleCeiling r)) sc"
    and "parseExpiry (te_host e) (ci_expiresAt input) (ci_expiresInSeconds input) (of_int (te_now e 0))
           (te_defaultTtl e) (te_maxTtl e) = Inr (tk_expiresAt r)"
proof -
  obtain session m name role scopes expiresAt i r where parts: "normalizeSession ctx = Some session"
    "membershipFor e (os_organizationId session) (os_userId session) = Some m"
    "normalizeName (ci_name input) = Inr name"
    "(if coalesce (ci_roleCeiling input) (ci_role input) = JUndefined then Inr (highestRole (mn_roles m))
      else normalizeRole (coalesce (ci_roleCeiling input) (ci_role input))) = Inr role"
    "roleAtMost role (highestRole (mn_roles m))"
    "requested_scopes (ci_scopes input) role = Inr scopes"
    "\<not> list_ex (\<lambda>sc. \<not> hasScope (mn_scopes m) sc \<or> \<not> hasScope (roleScopes role) sc) scopes"
    "parseExpiry (te_host e) (ci_expiresAt input) (ci_expiresInSeconds input) (of_int (te_now e 0))
       (te_defaultTtl e) (te_maxTtl e) = Inr expiresAt"
    "boundedId (JStr (js ''st_'' @ te_uuid e)) = Inr i"
    and run: "create_attempts R e (\<lambda>h. \<lparr>tk_id = i, tk_organizationId = os_organizationId session, tk_userId = os_userId session,
       tk_name = name, tk_tokenHash = h, tk_roleCeiling = role, tk_scopes = scopes, tk_expiresAt = expiresAt,
       tk_createdAt = Stamp (te_now e 0), tk_revokedAt = None\<rparr>) 0 s = Inr (s', r, secret)"
    and out: "ev = created_audit r (os_userId session)" "md = metadata r"
    using assms unfolding createToken_def Let_def by (clarsimp simp: result_simps)
  have role: "role = highestRole (mn_roles m) \<or> (\<exists>v. normalizeRole v = Inr role)"
    using parts(4) by (auto split: if_splits)
  have scopes: "\<forall>sc \<in> set scopes. hasScope (mn_scopes m) sc \<and> hasScope (roleScopes role) sc"
    using parts(7) by (auto simp: list_ex_iff)
  obtain created: "rp_create R r s = Inr s'" "secret_ok secret"
    and r: "r = \<lparr>tk_id = i, tk_organizationId = os_organizationId session, tk_userId = os_userId session,
       tk_name = name, tk_tokenHash = token_hash e secret, tk_roleCeiling = role, tk_scopes = scopes, tk_expiresAt = expiresAt,
       tk_createdAt = Stamp (te_now e 0), tk_revokedAt = None\<rparr>"
    using create_attempts_InrE [OF run] .
  show thesis
    using role scopes parts(3,5,6,8,9) out created by (intro that [OF parts(1,2), of r]) (simp_all only: r token_record.simps)
qed

section \<open>The repository contract\<close>

text \<open>
  What the service relies on: seen as a set of records with unique identifiers and hashes, creation
  inserts, lookups find exactly the record asked for, listings stay within organization, subject and
  limit, and revocation stamps the one record it names, keeping an earlier stamp.
\<close>

locale token_store =
  fixes R :: "'r token_repository" and inv :: "'r \<Rightarrow> bool" and records :: "'r \<Rightarrow> token_record set"
  assumes unique_id: "inv s \<Longrightarrow> r \<in> records s \<Longrightarrow> r' \<in> records s \<Longrightarrow> tk_id r = tk_id r' \<Longrightarrow> r = r'"
    and unique_hash: "inv s \<Longrightarrow> r \<in> records s \<Longrightarrow> r' \<in> records s \<Longrightarrow> tk_tokenHash r = tk_tokenHash r' \<Longrightarrow> r = r'"
    and create_inserts: "inv s \<Longrightarrow> rp_create R r s = Inr s' \<Longrightarrow> inv s' \<and> records s' = insert r (records s)"
    and find_hash: "inv s \<Longrightarrow> rp_findByHash R h s = Inr (Some r) \<longleftrightarrow> r \<in> records s \<and> tk_tokenHash r = h"
    and find_id: "inv s \<Longrightarrow> rp_findById R org i s = Inr (Some r) \<longleftrightarrow> r \<in> records s \<and> tk_id r = i \<and> tk_organizationId r = org"
    and list_confined: "inv s \<Longrightarrow> rp_list R org subject n s = Inr rows \<Longrightarrow>
      length rows \<le> n \<and> (\<forall>r \<in> set rows. r \<in> records s \<and> tk_organizationId r = org \<and> (\<forall>u. subject = Some u \<longrightarrow> tk_userId r = u))"
    and revoke_none: "inv s \<Longrightarrow> rp_revoke R org i t s = Inr (s', None) \<Longrightarrow> inv s' \<and> records s' = records s"
    and revoke_some: "inv s \<Longrightarrow> rp_revoke R org i t s = Inr (s', Some r') \<Longrightarrow>
      inv s' \<and> (\<exists>r \<in> records s. tk_id r = i \<and> tk_organizationId r = org \<and> r' = mark_revoked t r
        \<and> records s' = insert r' (records s - {r}))"
begin

text \<open>The changes the service makes to the records.\<close>

definition keeps :: "'r \<Rightarrow> 'r \<Rightarrow> bool" where
  "keeps s s' \<longleftrightarrow> inv s' \<and> (\<forall>r \<in> records s. \<exists>r' \<in> records s'. r' = r \<or> (\<exists>t. r' = mark_revoked t r))"

lemma revoked_stays: "keeps s s' \<Longrightarrow> r \<in> records s \<Longrightarrow> tk_revokedAt r \<noteq> None \<Longrightarrow> r \<in> records s'"
  unfolding keeps_def mark_revoked_def by force

lemma createToken_effect:
  assumes "createToken R e ctx input s = Inr (s', ev, md, secret)" and "inv s"
  obtains r where "inv s'" and "records s' = insert r (records s)" and "md = metadata r" and "secret_ok secret"
    and "tk_tokenHash r = token_hash e secret" and "tk_revokedAt r = None"
  using assms(1) create_inserts [OF assms(2)] that by (elim createToken_InrE) blast

lemma createToken_keeps: "createToken R e ctx input s = Inr (s', ev, md, secret) \<Longrightarrow> inv s \<Longrightarrow> keeps s s'"
  by (erule (1) createToken_effect) (auto simp: keeps_def)

lemma revokeToken_effect:
  assumes "revokeToken R e ctx tokenId s = Inr (s', ev, md)" and "inv s"
  obtains r session m t where "inv s'" and "normalizeSession ctx = Some session"
    and "membershipFor e (os_organizationId session) (os_userId session) = Some m"
    and "r \<in> records s" and "boundedId tokenId = Inr (tk_id r)" and "tk_organizationId r = os_organizationId session"
    and "tk_userId r = os_userId session \<or> canManageAll m"
    and "records s' = insert (mark_revoked t r) (records s - {r})" and "md = metadata (mark_revoked t r)"
proof -
  obtain session i m existing t r' where parts: "normalizeSession ctx = Some session" "boundedId tokenId = Inr i"
    "membershipFor e (os_organizationId session) (os_userId session) = Some m"
    "rp_findById R (os_organizationId session) i s = Inr (Some existing)"
    "tk_userId existing = os_userId session \<or> canManageAll m"
    "rp_revoke R (os_organizationId session) i t s = Inr (s', Some r')" "md = metadata r'"
    using assms(1) unfolding revokeToken_def Let_def result_simps bindr_Inr_iff by (clarsimp simp: result_simps)
  obtain r where r: "r \<in> records s" "tk_id r = i" "tk_organizationId r = os_organizationId session" "r' = mark_revoked t r"
    "records s' = insert r' (records s - {r})" and inv: "inv s'"
    using revoke_some [OF assms(2) parts(6)] by blast
  have "existing = r" using parts(4) find_id [OF assms(2)] unique_id [OF assms(2)] r by blast
  then show thesis using that [OF inv parts(1,3) r(1)] parts r by blast
qed

lemma revokeToken_keeps: "revokeToken R e ctx tokenId s = Inr (s', ev, md) \<Longrightarrow> inv s \<Longrightarrow> keeps s s'"
  by (erule (1) revokeToken_effect) (auto simp: keeps_def)

lemma authenticate_record:
  assumes "authenticateBearerToken R e raw s = Some p" and "inv s"
  obtains r m expiry where "r \<in> records s" and "tk_tokenHash r = token_hash e (strip_bearer raw)"
    and "tk_revokedAt r = None" and "date_parse (tk_expiresAt r) = Some expiry" and "te_now e 0 < expiry"
    and "membershipFor e (tk_organizationId r) (tk_userId r) = Some m"
    and "p = \<lparr>tp_organizationId = tk_organizationId r, tp_subject = tk_userId r,
      tp_roles = [effectiveRole m (tk_roleCeiling r)], tp_scopes = scopesForToken r m, tp_tokenId = tk_id r\<rparr>"
proof -
  obtain r where find: "rp_findByHash R (token_hash e (strip_bearer raw)) s = Inr (Some r)" and pr: "principalForRecord e r = Some p"
    using assms(1)
    by (auto simp: authenticateBearerToken_def recordForRawToken_def Let_def split: option.splits if_splits sum.splits)
  then have "r \<in> records s" "tk_tokenHash r = token_hash e (strip_bearer raw)" using find_hash [OF assms(2)] by auto
  with pr show thesis
    using that by (auto simp: principalForRecord_def split: option.splits if_splits)
qed

lemma authenticate_revoked:
  assumes "inv s" and "r \<in> records s" and "tk_revokedAt r \<noteq> None" and "tk_tokenHash r = token_hash e (strip_bearer raw)"
  shows "authenticateBearerToken R e raw s = None"
proof (rule ccontr)
  assume "authenticateBearerToken R e raw s \<noteq> None"
  then obtain p where "authenticateBearerToken R e raw s = Some p" by blast
  from authenticate_record [OF this assms(1)] show False
    using unique_hash [OF assms(1,2)] assms(3,4) by metis
qed

end

section \<open>The in-memory repository satisfies it\<close>

definition memory_ok :: "memory_tokens \<Rightarrow> bool" where
  "memory_ok m \<longleftrightarrow> distinct (map tk_id (my_records m)) \<and> distinct (map tk_tokenHash (my_records m)) \<and>
     my_hashes m = map (\<lambda>r. (tk_tokenHash r, tk_id r)) (my_records m)"

lemma mem_record_iff:
  "distinct (map tk_id (my_records m)) \<Longrightarrow> mem_record i m = Some r \<longleftrightarrow> r \<in> set (my_records m) \<and> tk_id r = i"
  unfolding mem_record_def by (auto dest: find_in_set intro!: find_unique simp: distinct_map inj_on_eq_iff)

lemma hashes_iff:
  assumes "memory_ok m"
  shows "map_of (my_hashes m) h = Some i \<longleftrightarrow> (\<exists>r \<in> set (my_records m). tk_tokenHash r = h \<and> tk_id r = i)"
proof -
  have "distinct (map fst (my_hashes m))" using assms by (simp add: memory_ok_def comp_def)
  then have "map_of (my_hashes m) h = Some i \<longleftrightarrow> (h, i) \<in> set (my_hashes m)" by (rule map_of_eq_Some_iff)
  then show ?thesis using assms by (auto simp: memory_ok_def)
qed

lemma memory_inj:
  assumes "memory_ok m"
  shows "inj_on tk_id (set (my_records m))" and "inj_on tk_tokenHash (set (my_records m))"
  using assms by (simp_all add: memory_ok_def distinct_map)

lemma mem_create_ok:
  assumes "memory_ok m" and "mem_create r m = Inr m'"
  shows "memory_ok m' \<and> set (my_records m') = insert r (set (my_records m))"
proof -
  have fresh: "mem_record (tk_id r) m = None" "map_of (my_hashes m) (tk_tokenHash r) = None"
    and m': "m' = \<lparr>my_records = my_records m @ [r], my_hashes = my_hashes m @ [(tk_tokenHash r, tk_id r)]\<rparr>"
    using assms(2) by (auto simp: mem_create_def split: if_splits)
  have "tk_id r \<notin> tk_id ` set (my_records m)"
    using fresh(1) by (auto simp: mem_record_def find_None_iff)
  moreover have "tk_tokenHash r \<notin> tk_tokenHash ` set (my_records m)"
    using fresh(2) assms(1) by (auto simp: map_of_eq_None_iff memory_ok_def image_image)
  ultimately show ?thesis using assms(1) by (auto simp: memory_ok_def m')
qed

lemma mem_findByHash_iff:
  assumes "memory_ok m"
  shows "mem_findByHash h m = Inr (Some r) \<longleftrightarrow> r \<in> set (my_records m) \<and> tk_tokenHash r = h"
proof -
  have "mem_findByHash h m = Inr (Some r) \<longleftrightarrow> (\<exists>i. map_of (my_hashes m) h = Some i \<and> mem_record i m = Some r)"
    by (auto simp: mem_findByHash_def split: option.splits)
  also have "\<dots> \<longleftrightarrow> r \<in> set (my_records m) \<and> tk_tokenHash r = h"
    using assms memory_inj(1) [OF assms] unfolding hashes_iff [OF assms]
    by (auto simp: mem_record_iff memory_ok_def inj_on_def)
  finally show ?thesis .
qed

lemma mem_findById_iff:
  assumes "memory_ok m"
  shows "mem_findById org i m = Inr (Some r) \<longleftrightarrow> r \<in> set (my_records m) \<and> tk_id r = i \<and> tk_organizationId r = org"
proof -
  have "mem_findById org i m = Inr (Some r) \<longleftrightarrow> mem_record i m = Some r \<and> tk_organizationId r = org"
    by (auto simp: mem_findById_def split: option.splits)
  then show ?thesis using assms by (simp add: memory_ok_def mem_record_iff)
qed

lemma mem_revoke_ok:
  assumes ok: "memory_ok m" and run: "mem_revoke org i t m = Inr (m', Some r')"
  shows "memory_ok m' \<and> (\<exists>r \<in> set (my_records m). tk_id r = i \<and> tk_organizationId r = org \<and> r' = mark_revoked t r
    \<and> set (my_records m') = insert r' (set (my_records m) - {r}))"
proof -
  let ?p = "\<lambda>r. tk_id r = i"
  obtain r where r: "mem_record i m = Some r" "tk_organizationId r = org" "r' = mark_revoked t r"
    and m': "m' = m\<lparr>my_records := update_first ?p (mark_revoked t) (my_records m)\<rparr>"
    using run by (auto simp: mem_revoke_def split: option.splits if_splits)
  have found: "find ?p (my_records m) = Some r" using r(1) by (simp add: mem_record_def)
  then have in_m: "r \<in> set (my_records m)" "tk_id r = i" by (auto dest: find_in_set)
  have keys: "tk_id (mark_revoked t x) = tk_id x" "tk_tokenHash (mark_revoked t x) = tk_tokenHash x" for x
    by (simp_all add: mark_revoked_def)
  have maps: "map tk_id (update_first ?p (mark_revoked t) (my_records m)) = map tk_id (my_records m)"
    "map tk_tokenHash (update_first ?p (mark_revoked t) (my_records m)) = map tk_tokenHash (my_records m)"
    "map (\<lambda>r. (tk_tokenHash r, tk_id r)) (update_first ?p (mark_revoked t) (my_records m)) =
      map (\<lambda>r. (tk_tokenHash r, tk_id r)) (my_records m)"
    by (simp_all add: map_update_first keys)
  have unique: "x \<in> set (my_records m) \<Longrightarrow> tk_id x = i \<Longrightarrow> x = r" for x
    using memory_inj(1) [OF ok] in_m by (auto dest: inj_onD)
  have "set (my_records m') = insert r' (set (my_records m) - {r})"
  proof (intro equalityI subsetI)
    fix x assume x: "x \<in> set (my_records m')"
    have "tk_id r' = i" using in_m(2) r(3) keys by simp
    have "distinct (map tk_id (my_records m'))" using ok by (simp add: m' maps memory_ok_def)
    moreover have "r' \<in> set (my_records m')" using update_first_found [OF found] r(3) m' by simp
    ultimately have "x = r \<Longrightarrow> x = r'"
      using x in_m(2) \<open>tk_id r' = i\<close> by (auto simp: distinct_map dest: inj_onD)
    then show "x \<in> insert r' (set (my_records m) - {r})"
      using update_first_in [of x ?p "mark_revoked t" "my_records m"] x found r(3) m' by auto
  next
    fix x assume "x \<in> insert r' (set (my_records m) - {r})"
    then show "x \<in> set (my_records m')"
      using update_first_found [OF found] update_first_other unique r(3) m' by fastforce
  qed
  then show ?thesis using ok in_m r maps by (auto simp: memory_ok_def m')
qed

interpretation memory: token_store memory_repository memory_ok "\<lambda>m. set (my_records m)"
proof unfold_locales
  fix s r r' assume "memory_ok s" "r \<in> set (my_records s)" "r' \<in> set (my_records s)"
  then show "tk_id r = tk_id r' \<Longrightarrow> r = r'" "tk_tokenHash r = tk_tokenHash r' \<Longrightarrow> r = r'"
    using memory_inj by (auto dest: inj_onD)
next
  fix s r s' assume "memory_ok s" "rp_create memory_repository r s = Inr s'"
  then show "memory_ok s' \<and> set (my_records s') = insert r (set (my_records s))"
    using mem_create_ok by (simp add: memory_repository_def)
next
  fix s h r assume "memory_ok s"
  then show "rp_findByHash memory_repository h s = Inr (Some r) \<longleftrightarrow> r \<in> set (my_records s) \<and> tk_tokenHash r = h"
    using mem_findByHash_iff by (simp add: memory_repository_def)
next
  fix s org i r assume "memory_ok s"
  then show "rp_findById memory_repository org i s = Inr (Some r) \<longleftrightarrow>
      r \<in> set (my_records s) \<and> tk_id r = i \<and> tk_organizationId r = org"
    using mem_findById_iff by (simp add: memory_repository_def)
next
  fix s org subject n rows assume "rp_list memory_repository org subject n s = Inr rows"
  then show "length rows \<le> n \<and> (\<forall>r \<in> set rows. r \<in> set (my_records s) \<and> tk_organizationId r = org \<and>
      (\<forall>u. subject = Some u \<longrightarrow> tk_userId r = u))"
    by (auto simp: memory_repository_def mem_list_def dest!: in_set_takeD)
next
  fix s org i t s' assume "memory_ok s" "rp_revoke memory_repository org i t s = Inr (s', None)"
  then show "memory_ok s' \<and> set (my_records s') = set (my_records s)"
    by (auto simp: memory_repository_def mem_revoke_def split: option.splits if_splits)
next
  fix s org i t s' r' assume "memory_ok s" "rp_revoke memory_repository org i t s = Inr (s', Some r')"
  then show "memory_ok s' \<and> (\<exists>r \<in> set (my_records s). tk_id r = i \<and> tk_organizationId r = org \<and> r' = mark_revoked t r
      \<and> set (my_records s') = insert r' (set (my_records s) - {r}))"
    using mem_revoke_ok by (simp add: memory_repository_def)
qed

section \<open>Runs of the service\<close>

text \<open>
  The calls that write, each under its own environment: the clock, the memberships and the randomness
  of that call. The hash function is one and the same.
\<close>

inductive token_step :: "(nat list \<Rightarrow> nat list) \<Rightarrow> memory_tokens \<Rightarrow> memory_tokens \<Rightarrow> bool" for sha where
  token_create: "te_sha256 e = sha \<Longrightarrow> createToken memory_repository e ctx input s = Inr (s', ev, md, secret) \<Longrightarrow> token_step sha s s'"
| token_revoke: "te_sha256 e = sha \<Longrightarrow> revokeToken memory_repository e ctx tokenId s = Inr (s', ev, md) \<Longrightarrow> token_step sha s s'"

definition no_tokens :: memory_tokens where
  "no_tokens = \<lparr>my_records = [], my_hashes = []\<rparr>"

lemma token_step_keeps: "token_step sha s s' \<Longrightarrow> memory_ok s \<Longrightarrow> memory.keeps s s'"
  by (induction rule: token_step.induct) (auto dest: memory.createToken_keeps memory.revokeToken_keeps)

interpretation token_runs: transition_system "\<lambda>s. s = no_tokens" "token_step sha" memory_ok for sha
proof unfold_locales
  show "s = no_tokens \<Longrightarrow> memory_ok s" for s by (simp add: no_tokens_def memory_ok_def)
  show "memory_ok s \<Longrightarrow> token_step sha s t \<Longrightarrow> memory_ok t" for s t
    using token_step_keeps unfolding memory.keeps_def by blast
qed

lemma revoked_forever:
  "(token_step sha)\<^sup>*\<^sup>* s s' \<Longrightarrow> memory_ok s \<Longrightarrow> r \<in> set (my_records s) \<Longrightarrow> tk_revokedAt r \<noteq> None \<Longrightarrow> r \<in> set (my_records s')"
  by (induction rule: rtranclp_induct) (auto intro: memory.revoked_stays token_step_keeps token_runs.steps_inv)

end
