(* ===== verification/Token_Session.thy ===== *)
theory Token_Session
  imports Api_Tokens
begin

text \<open>
  The browser session and the HTTP handler of \<open>packages/api-tokens/src/index.ts\<close>: the signed session
  cookie that a token can be exchanged for, request authentication, the cookie-authenticated
  management context, and the token routes with their cross-site checks. The identity provider, HMAC,
  \<open>JSON.parse\<close>, the URL parser and \<open>Date.prototype.toUTCString\<close> are arguments; the texts of the
  messages are left out.
\<close>

section \<open>Requests\<close>

text \<open>\<open>rq_header\<close> is \<open>request.headers.get\<close>; the body arrives in chunks.\<close>

record http_request =
  rq_url :: jstring
  rq_method :: jstring
  rq_header :: "string \<Rightarrow> jstring option"
  rq_body :: "nat list list option"

record token_url =
  tu_origin :: jstring
  tu_username :: jstring
  tu_password :: jstring
  tu_pathname :: jstring
  tu_search :: jstring
  tu_hash :: jstring
  tu_query :: "string \<Rightarrow> jstring option"

text \<open>
  The surroundings of a request: those of the service, the session lookup (\<open>None\<close> when it rejects),
  HMAC-SHA-256 under the session secret (\<open>None\<close> without one), and the platform functions.
\<close>

record session_env =
  se_env :: token_env
  se_session :: "http_request \<Rightarrow> jsval option"
  se_hmac :: "(nat list \<Rightarrow> nat list) option"
  se_cookieName :: jstring
  se_secureCookies :: bool
  se_jsonParse :: "jstring \<Rightarrow> jsval option"
  se_url :: "jstring \<Rightarrow> token_url option"
  se_utcString :: "int \<Rightarrow> jstring"

text \<open>The environment after the first reading of the clock.\<close>

definition later :: "token_env \<Rightarrow> token_env" where
  "later e = e\<lparr>te_now := \<lambda>n. te_now e (Suc n)\<rparr>"

section \<open>Configuration of the service\<close>

definition token_prefix_ok :: "jstring \<Rightarrow> bool" where
  "token_prefix_ok s \<longleftrightarrow> (case s of [] \<Rightarrow> False
     | c # r \<Rightarrow> (is_upper c \<or> is_lower c) \<and> length r \<le> 15 \<and> list_all (\<lambda>x. is_alnum x \<or> x = 95 \<or> x = 45) r)"

definition is_cookie_char :: "nat \<Rightarrow> bool" where
  "is_cookie_char c \<longleftrightarrow> is_alnum c \<or> c \<in> {33, 35, 36, 37, 38, 39, 42, 43, 46, 94, 95, 96, 124, 126, 45}"

definition normalizeCookieName :: "jstring \<Rightarrow> jstring tok" where
  "normalizeCookieName s = (if s = [] \<or> \<not> list_all is_cookie_char s then Inl token_configuration else Inr s)"

record service_options =
  so_tokenPrefix :: "jstring option"
  so_defaultTtlSeconds :: "jnum option"
  so_maxTtlSeconds :: "jnum option"
  so_maxList :: "jnum option"
  so_sessionCookieName :: "jstring option"
  so_sessionSecureCookies :: jsval
  so_sessionSecret :: "nat list option"

record service_config =
  sc_defaultTtl :: rat
  sc_maxTtl :: rat
  sc_maxList :: nat
  sc_cookieName :: jstring
  sc_secureCookies :: bool
  sc_sessionSecret :: "nat list option"

definition default_to :: "'a \<Rightarrow> 'a option \<Rightarrow> 'a" where
  "default_to d x = (case x of None \<Rightarrow> d | Some y \<Rightarrow> y)"

definition newTokenService :: "service_options \<Rightarrow> service_config tok" where
  "newTokenService opts =
     (if \<not> token_prefix_ok (default_to (js ''psk_'') (so_tokenPrefix opts)) then Inl token_configuration
      else
        bindr (normalizeCookieName (default_to (js ''pskills_session'') (so_sessionCookieName opts))) (\<lambda>cookieName.
        case coalesce (so_sessionSecureCookies opts) (JBool True) of
          JBool secure \<Rightarrow>
            if (case so_sessionSecret opts of None \<Rightarrow> False | Some secret \<Rightarrow> length secret < 32) then Inl token_configuration
            else
              (case (default_to (Num 7776000) (so_defaultTtlSeconds opts), default_to (Num 31536000) (so_maxTtlSeconds opts),
                     default_to (Num 100) (so_maxList opts)) of
                 (Num d, Num m, Num n) \<Rightarrow>
                   if d \<le> 0 \<or> m \<le> 0 \<or> d > m \<or> \<not> is_safe_integer (Num n) \<or> n \<le> 0 \<or> n > 1000 then Inl token_configuration
                   else Inr \<lparr>sc_defaultTtl = d, sc_maxTtl = m, sc_maxList = nat \<lfloor>n\<rfloor>, sc_cookieName = cookieName,
                             sc_secureCookies = secure, sc_sessionSecret = so_sessionSecret opts\<rparr>
               | _ \<Rightarrow> Inl token_configuration)
        | _ \<Rightarrow> Inl token_configuration))"

section \<open>Headers\<close>

definition bearerToken :: "http_request \<Rightarrow> jstring option" where
  "bearerToken rq =
     (case rq_header rq ''authorization'' of
        None \<Rightarrow> None
      | Some header \<Rightarrow>
          (let rest = drop 6 header; token = dropWhile blank rest in
           if prefix_ci ''bearer'' header \<and> takeWhile blank rest \<noteq> [] \<and> token \<noteq> [] \<and> \<not> list_ex blank token
           then Some token else None))"

definition hasCookie :: "http_request \<Rightarrow> bool" where
  "hasCookie rq = (case rq_header rq ''cookie'' of None \<Rightarrow> False | Some c \<Rightarrow> trim c \<noteq> [])"

definition cookie_part :: "jstring \<Rightarrow> (jstring \<times> jstring) option" where
  "cookie_part part =
     (case index_of part 61 of
        None \<Rightarrow> None
      | Some separator \<Rightarrow>
          (let name = trim (take separator part) in
           if name = [] then None else Some (name, trim (drop (Suc separator) part))))"

text \<open>The entries in the order they are set; a later entry for a name replaces an earlier one.\<close>

definition parseCookieHeader :: "jstring option \<Rightarrow> (jstring \<times> jstring) list" where
  "parseCookieHeader header = (case header of None \<Rightarrow> [] | Some h \<Rightarrow> List.map_filter cookie_part (split_on 59 h))"

definition cookie_value :: "(jstring \<times> jstring) list \<Rightarrow> jstring \<Rightarrow> jstring option" where
  "cookie_value entries name = map_of (rev entries) name"

section \<open>Session claims\<close>

record session_claims =
  cl_tokenId :: jstring
  cl_organizationId :: jstring
  cl_userId :: jstring
  cl_exp :: int

definition sessionClaimString :: "jsval \<Rightarrow> nat \<Rightarrow> jstring option" where
  "sessionClaimString v maxLength =
     (case str_of v of
        None \<Rightarrow> None
      | Some s \<Rightarrow> if s = [] \<or> length s > maxLength \<or> list_ex is_control s then None else Some s)"

definition audience :: jstring where "audience = js ''private-skills-api-token''"

definition parseApiTokenSessionClaims :: "jsval \<Rightarrow> session_claims option" where
  "parseApiTokenSessionClaims v =
     (if \<not> is_object v then None
      else
        (case (sessionClaimString (get_prop v ''tokenId'') 128, sessionClaimString (get_prop v ''organizationId'') 256,
               sessionClaimString (get_prop v ''userId'') 256, get_prop v ''exp'') of
           (Some tokenId, Some organizationId, Some userId, JNum expiry) \<Rightarrow>
             if get_prop v ''v'' \<noteq> JNum (Num 1) \<or> get_prop v ''aud'' \<noteq> JStr audience \<or> \<not> token_id_ok tokenId
                \<or> \<not> is_safe_integer expiry \<or> expiry \<le> Num 0
             then None
             else (case expiry of
                 Num r \<Rightarrow> Some \<lparr>cl_tokenId = tokenId, cl_organizationId = organizationId, cl_userId = userId, cl_exp = \<lfloor>r\<rfloor>\<rparr>
               | _ \<Rightarrow> None)
         | _ \<Rightarrow> None))"

text \<open>\<open>String(z)\<close> of an integer, and \<open>JSON.stringify(claims)\<close>.\<close>

definition int_text :: "int \<Rightarrow> jstring" where
  "int_text z = (if z < 0 then 45 # decimal (nat (- z)) else decimal (nat z))"

definition claims_json :: "session_claims \<Rightarrow> jstring" where
  "claims_json c =
     js ''{\"v\":1,\"aud\":'' @ json_quote audience @ js '',\"tokenId\":'' @ json_quote (cl_tokenId c)
     @ js '',\"organizationId\":'' @ json_quote (cl_organizationId c) @ js '',\"userId\":'' @ json_quote (cl_userId c)
     @ js '',\"exp\":'' @ int_text (cl_exp c) @ js ''}''"

section \<open>The session cookie\<close>

definition session_prefix :: jstring where "session_prefix = js ''api-token-session-v1''"

definition signSession :: "(nat list \<Rightarrow> nat list) \<Rightarrow> jstring \<Rightarrow> jstring" where
  "signSession hmac value = base64UrlEncode (hmac (utf8_encode value))"

definition verifySession :: "(nat list \<Rightarrow> nat list) \<Rightarrow> jstring \<Rightarrow> jstring \<Rightarrow> bool" where
  "verifySession hmac value suppliedSignature =
     (case base64UrlDecode suppliedSignature of
        None \<Rightarrow> False
      | Some supplied \<Rightarrow> length supplied = 32 \<and> timingSafeEqual supplied (hmac (utf8_encode value)))"

text \<open>The claims of a cookie value whose signature verifies.\<close>

definition session_cookie_claims :: "session_env \<Rightarrow> jstring \<Rightarrow> session_claims option" where
  "session_cookie_claims se raw =
     (case se_hmac se of
        None \<Rightarrow> None
      | Some hmac \<Rightarrow>
          if raw = [] \<or> length raw > 8192 then None
          else (case split_on 46 raw of
              [a, b, c] \<Rightarrow>
                if a \<noteq> session_prefix \<or> b = [] \<or> c = [] \<or> \<not> verifySession hmac (a @ [46] @ b) c then None
                else (case base64UrlDecode b of
                    None \<Rightarrow> None
                  | Some encodedClaims \<Rightarrow>
                      (case se_jsonParse se (text_decode_replacing encodedClaims) of
                         None \<Rightarrow> None
                       | Some claimsValue \<Rightarrow> parseApiTokenSessionClaims claimsValue))
            | _ \<Rightarrow> None))"

definition browserSessionPrincipal :: "'r token_repository \<Rightarrow> session_env \<Rightarrow> http_request \<Rightarrow> 'r \<Rightarrow> token_principal option" where
  "browserSessionPrincipal R se rq s =
     (case cookie_value (parseCookieHeader (rq_header rq ''cookie'')) (se_cookieName se) of
        None \<Rightarrow> None
      | Some raw \<Rightarrow>
          (case session_cookie_claims se raw of
             None \<Rightarrow> None
           | Some claims \<Rightarrow>
               if te_now (se_env se) 0 div 1000 \<ge> cl_exp claims then None
               else (case rp_findById R (cl_organizationId claims) (cl_tokenId claims) s of
                   Inr (Some r) \<Rightarrow>
                     if tk_organizationId r \<noteq> cl_organizationId claims \<or> tk_userId r \<noteq> cl_userId claims then None
                     else principalForRecord (later (se_env se)) r
                 | _ \<Rightarrow> None)))"

definition session_value :: "session_env \<Rightarrow> (nat list \<Rightarrow> nat list) \<Rightarrow> session_claims \<Rightarrow> jstring" where
  "session_value se hmac claims =
     (let signedValue = session_prefix @ [46] @ base64UrlEncode (utf8_encode (claims_json claims)) in
      signedValue @ [46] @ signSession hmac signedValue)"

definition cookie_text :: "session_env \<Rightarrow> jstring list \<Rightarrow> jstring" where
  "cookie_text se parts = join (js ''; '') (parts @ (if se_secureCookies se then [js ''Secure''] else []))"

text \<open>\<open>createSession\<close>: the value of the cookie, the cookie and the principal.\<close>

definition createSession ::
    "'r token_repository \<Rightarrow> session_env \<Rightarrow> jstring \<Rightarrow> 'r \<Rightarrow> (jstring \<times> jstring \<times> token_principal) option" where
  "createSession R se rawToken s =
     (case se_hmac se of
        None \<Rightarrow> None
      | Some hmac \<Rightarrow>
          (case recordForRawToken R (se_env se) rawToken s of
             None \<Rightarrow> None
           | Some r \<Rightarrow>
               (case principalForRecord (se_env se) r of
                  None \<Rightarrow> None
                | Some caller \<Rightarrow>
                    (case date_parse (tk_expiresAt r) of
                       None \<Rightarrow> None
                     | Some expiresAtMs \<Rightarrow>
                         (let nowMs = te_now (se_env se) 1; expiry = expiresAtMs div 1000 in
                          if expiry \<le> nowMs div 1000 then None
                          else
                            let value = session_value se hmac \<lparr>cl_tokenId = tk_id r, cl_organizationId = tk_organizationId r,
                                          cl_userId = tk_userId r, cl_exp = expiry\<rparr>;
                                maxAge = max 1 ((expiresAtMs - nowMs) div 1000) in
                            Some (value,
                              cookie_text se [se_cookieName se @ js ''='' @ value, js ''Path=/'', js ''HttpOnly'', js ''SameSite=Lax'',
                                js ''Max-Age='' @ int_text maxAge, js ''Expires='' @ se_utcString se expiresAtMs],
                              caller))))))"

definition clearSessionCookie :: "session_env \<Rightarrow> jstring" where
  "clearSessionCookie se =
     cookie_text se [se_cookieName se @ js ''='', js ''Path=/'', js ''HttpOnly'', js ''SameSite=Lax'', js ''Max-Age=0'',
       js ''Expires=Thu, 01 Jan 1970 00:00:00 GMT'']"

section \<open>Authentication of a request\<close>

definition authenticate :: "'r token_repository \<Rightarrow> session_env \<Rightarrow> http_request \<Rightarrow> 'r \<Rightarrow> token_principal option" where
  "authenticate R se rq s =
     (if rq_header rq ''authorization'' \<noteq> None then
        (case bearerToken rq of None \<Rightarrow> None | Some token \<Rightarrow> authenticateBearerToken R (se_env se) token s)
      else browserSessionPrincipal R se rq s)"

text \<open>The context as the later calls read it: an object with the fields of the session.\<close>

definition session_object :: "organization_session \<Rightarrow> jsval" where
  "session_object session =
     JObj ([(js ''userId'', JStr (os_userId session)), (js ''organizationId'', JStr (os_organizationId session))] @
       (case os_sessionId session of None \<Rightarrow> [] | Some i \<Rightarrow> [(js ''sessionId'', JStr i)]))"

definition resolveManagementContext :: "session_env \<Rightarrow> http_request \<Rightarrow> bool \<Rightarrow> (organization_session \<times> membership) tok" where
  "resolveManagementContext se rq requireCookie =
     (if requireCookie \<and> (\<not> hasCookie rq \<or> rq_header rq ''authorization'' \<noteq> None) then Inl tok_unauthorized
      else
        (case (case se_session se rq of None \<Rightarrow> None | Some v \<Rightarrow> normalizeSession v) of
           None \<Rightarrow> Inl tok_unauthorized
         | Some session \<Rightarrow>
             (case membershipFor (se_env se) (os_organizationId session) (os_userId session) of
                None \<Rightarrow> Inl tok_forbidden
              | Some m \<Rightarrow> Inr (session, m))))"

section \<open>Routes and origins\<close>

definition strip_slashes :: "jstring \<Rightarrow> jstring" where
  "strip_slashes s = rev (dropWhile (\<lambda>c. c = 47) (rev s))"

definition requestPath :: "session_env \<Rightarrow> http_request \<Rightarrow> jstring tok" where
  "requestPath se rq =
     (case se_url se (rq_url rq) of
        None \<Rightarrow> Inl invalid_request
      | Some u \<Rightarrow> (let path = strip_slashes (tu_pathname u) in Inr (if path = [] then js ''/'' else path)))"

definition includes_text :: "jstring \<Rightarrow> jstring \<Rightarrow> bool" where
  "includes_text p s \<longleftrightarrow> list_ex (\<lambda>i. starts_with p (drop i s)) [0..<Suc (length s)]"

definition safeRoutePrefix :: "jstring option \<Rightarrow> jstring tok" where
  "safeRoutePrefix value =
     (let stripped = strip_slashes (default_to (js ''/v1/tokens'') value);
          prefix = (if stripped = [] then js ''/v1/tokens'' else stripped) in
      if \<not> starts_with (js ''/'') prefix \<or> includes_text (js ''..'') prefix \<or> length prefix < 2
         \<or> \<not> list_all (\<lambda>c. is_alnum c \<or> c = 47 \<or> c = 95 \<or> c = 45) prefix
      then Inl token_configuration else Inr prefix)"

text \<open>\<open>normalizeRequestOrigin\<close>: \<open>None\<close> when it throws.\<close>

definition normalizeRequestOrigin :: "session_env \<Rightarrow> jstring \<Rightarrow> jstring option" where
  "normalizeRequestOrigin se value =
     (case se_url se value of
        None \<Rightarrow> None
      | Some u \<Rightarrow>
          if tu_origin u = js ''null'' \<or> tu_username u \<noteq> [] \<or> tu_password u \<noteq> [] \<or> tu_pathname u \<noteq> js ''/''
             \<or> tu_search u \<noteq> [] \<or> tu_hash u \<noteq> []
          then None else Some (tu_origin u))"

definition normalizeTrustedOrigin :: "session_env \<Rightarrow> jsval \<Rightarrow> jstring tok" where
  "normalizeTrustedOrigin se v =
     (case str_of v of
        None \<Rightarrow> Inl token_configuration
      | Some s \<Rightarrow>
          if trim s = [] then Inl token_configuration
          else (case normalizeRequestOrigin se s of None \<Rightarrow> Inl token_configuration | Some origin \<Rightarrow> Inr origin))"

definition configuredTrustedOrigins :: "session_env \<Rightarrow> jsval \<Rightarrow> jsval \<Rightarrow> jstring list tok" where
  "configuredTrustedOrigins se canonicalOrigin trustedOrigins =
     bindr (if trustedOrigins = JUndefined then Inr []
            else case arr_of trustedOrigins of None \<Rightarrow> Inl token_configuration | Some vs \<Rightarrow> Inr vs) (\<lambda>more.
     bindr (mapr (normalizeTrustedOrigin se) ((if canonicalOrigin = JUndefined then [] else [canonicalOrigin]) @ more))
       (\<lambda>origins. Inr (unique origins)))"

datatype missing_origin = DenyMissing | AllowMissing

definition enforceCookieMutationOrigin :: "session_env \<Rightarrow> http_request \<Rightarrow> jstring list \<Rightarrow> missing_origin \<Rightarrow> unit tok" where
  "enforceCookieMutationOrigin se rq trustedOrigins missingOrigin =
     (if trustedOrigins = [] then Inl (ApiTokenError ''API_TOKEN_ORIGIN_NOT_CONFIGURED'' 500)
      else case rq_header rq ''origin'' of
        None \<Rightarrow> if missingOrigin = AllowMissing then Inr () else Inl (ApiTokenError ''CSRF_ORIGIN_MISSING'' 403)
      | Some supplied \<Rightarrow>
          if trim supplied = [] then
            (if missingOrigin = AllowMissing then Inr () else Inl (ApiTokenError ''CSRF_ORIGIN_MISSING'' 403))
          else (case normalizeRequestOrigin se supplied of
              None \<Rightarrow> Inl (ApiTokenError ''CSRF_ORIGIN_MISMATCH'' 403)
            | Some origin \<Rightarrow> if origin \<in> set trustedOrigins then Inr () else Inl (ApiTokenError ''CSRF_ORIGIN_MISMATCH'' 403)))"

section \<open>The request body\<close>

text \<open>The reading loop: the bytes of all chunks, unless their total exceeds the limit.\<close>

fun read_chunks :: "nat \<Rightarrow> nat \<Rightarrow> nat list list \<Rightarrow> nat list tok" where
  "read_chunks maxBodyBytes received [] = Inr []"
| "read_chunks maxBodyBytes received (chunk # chunks) =
     (let received' = received + length chunk in
      if received' > maxBodyBytes then Inl (ApiTokenError ''PAYLOAD_TOO_LARGE'' 413)
      else bindr (read_chunks maxBodyBytes received' chunks) (\<lambda>bytes. Inr (chunk @ bytes)))"

definition readBoundedJson :: "session_env \<Rightarrow> http_request \<Rightarrow> nat \<Rightarrow> jsval tok" where
  "readBoundedJson se rq maxBodyBytes =
     (if (case rq_header rq ''content-length'' of
            None \<Rightarrow> False
          | Some l \<Rightarrow> (case stringToNumber (te_host (se_env se)) l of Num n \<Rightarrow> n > of_nat maxBodyBytes | _ \<Rightarrow> False))
      then Inl (ApiTokenError ''PAYLOAD_TOO_LARGE'' 413)
      else
        bindr (case rq_body rq of None \<Rightarrow> Inr [] | Some chunks \<Rightarrow>
                 bindr (read_chunks maxBodyBytes 0 chunks) (\<lambda>bytes. Inr (text_decode_replacing bytes))) (\<lambda>text.
        case se_jsonParse se text of
          None \<Rightarrow> Inl invalid_request
        | Some v \<Rightarrow> if is_object v then Inr v else Inl invalid_request))"

definition parseCreateInput :: "jsval \<Rightarrow> create_token_input" where
  "parseCreateInput body =
     \<lparr>ci_name = get_prop body ''name'', ci_roleCeiling = get_prop body ''roleCeiling'', ci_role = get_prop body ''role'',
      ci_scopes = get_prop body ''scopes'', ci_expiresAt = get_prop body ''expiresAt'',
      ci_expiresInSeconds = get_prop body ''expiresInSeconds'', ci_organizationId = get_prop body ''organizationId''\<rparr>"

section \<open>The handler\<close>

datatype token_response =
    CreatedResponse token_metadata jstring
  | ListResponse "token_metadata list"
  | RevokedResponse token_metadata
  | MethodNotAllowed "string list"
  | ErrorResponse string nat

fun errorResponse :: "token_error \<Rightarrow> token_response" where
  "errorResponse (ApiTokenError code status) = ErrorResponse code status"
| "errorResponse TokenRangeError = ErrorResponse ''API_TOKEN_ERROR'' 500"

record handler_options =
  ho_routePrefix :: "jstring option"
  ho_maxBodyBytes :: "jnum option"
  ho_canonicalOrigin :: jsval
  ho_trustedOrigins :: jsval
  ho_missingOrigin :: "jstring option"

record handler_config =
  hc_prefix :: jstring
  hc_maxBodyBytes :: nat
  hc_trustedOrigins :: "jstring list"
  hc_missingOrigin :: missing_origin

definition configureHandler :: "session_env \<Rightarrow> handler_options \<Rightarrow> handler_config tok" where
  "configureHandler se opts =
     bindr (safeRoutePrefix (ho_routePrefix opts)) (\<lambda>prefix.
     case default_to (Num 65536) (ho_maxBodyBytes opts) of
       Num n \<Rightarrow>
         if \<not> is_safe_integer (Num n) \<or> n \<le> 0 \<or> n > 1000000 then Inl token_configuration
         else
           bindr (configuredTrustedOrigins se (ho_canonicalOrigin opts) (ho_trustedOrigins opts)) (\<lambda>origins.
           let missingOrigin = default_to (js ''deny'') (ho_missingOrigin opts) in
           if missingOrigin = js ''deny'' then
             Inr \<lparr>hc_prefix = prefix, hc_maxBodyBytes = nat \<lfloor>n\<rfloor>, hc_trustedOrigins = origins, hc_missingOrigin = DenyMissing\<rparr>
           else if missingOrigin = js ''allow'' then
             Inr \<lparr>hc_prefix = prefix, hc_maxBodyBytes = nat \<lfloor>n\<rfloor>, hc_trustedOrigins = origins, hc_missingOrigin = AllowMissing\<rparr>
           else Inl token_configuration)
     | _ \<Rightarrow> Inl token_configuration)"

definition isTokenRoute :: "jstring \<Rightarrow> jstring \<Rightarrow> bool" where
  "isTokenRoute path prefix \<longleftrightarrow> path = prefix \<or> starts_with (prefix @ [47]) path"

text \<open>\<open>sessionFromPrincipal\<close>\<close>

definition sessionFromPrincipal :: "token_principal \<Rightarrow> organization_session" where
  "sessionFromPrincipal p = \<lparr>os_userId = tp_subject p, os_organizationId = tp_organizationId p, os_sessionId = None\<rparr>"

definition to_upper :: "jstring \<Rightarrow> jstring" where
  "to_upper s = map (\<lambda>c. if is_lower c then c - 32 else c) s"

definition include_revoked :: "session_env \<Rightarrow> http_request \<Rightarrow> bool" where
  "include_revoked se rq = (case se_url se (rq_url rq) of None \<Rightarrow> False | Some u \<Rightarrow> tu_query u ''includeRevoked'' = Some (js ''true''))"

text \<open>A call of the handler: the repository afterwards, the audit event if one was emitted, and the response.\<close>

type_synonym 'r token_outcome = "'r \<times> token_audit option \<times> token_response"

definition handle_create :: "handler_config \<Rightarrow> 'r token_repository \<Rightarrow> session_env \<Rightarrow> http_request \<Rightarrow> 'r \<Rightarrow> 'r token_outcome tok" where
  "handle_create hc R se rq s =
     bindr (if bearerToken rq = None then enforceCookieMutationOrigin se rq (hc_trustedOrigins hc) (hc_missingOrigin hc)
            else Inr ()) (\<lambda>_.
     bindr (resolveManagementContext se rq True) (\<lambda>(session, m).
     bindr (readBoundedJson se rq (hc_maxBodyBytes hc)) (\<lambda>body.
     bindr (createToken R (se_env se) (session_object session) (parseCreateInput body) s) (\<lambda>(s', ev, md, secret).
     Inr (s', Some ev, CreatedResponse md secret)))))"

definition handle_list :: "'r token_repository \<Rightarrow> session_env \<Rightarrow> http_request \<Rightarrow> 'r \<Rightarrow> 'r token_outcome tok" where
  "handle_list R se rq s =
     (if bearerToken rq \<noteq> None then
        (case authenticate R se rq s of
           None \<Rightarrow> Inl tok_unauthorized
         | Some caller \<Rightarrow>
             (let subject = (if list_ex isManagementRole (tp_roles caller) then None else Some (tp_subject caller)) in
              bindr (listTokens R (later (se_env se)) (session_object (sessionFromPrincipal caller))
                       \<lparr>lt_includeRevoked = include_revoked se rq, lt_subject = subject, lt_limit = None\<rparr> s) (\<lambda>tokens.
              Inr (s, None, ListResponse tokens))))
      else
        bindr (resolveManagementContext se rq True) (\<lambda>(session, m).
        bindr (listTokens R (se_env se) (session_object session)
                 \<lparr>lt_includeRevoked = include_revoked se rq, lt_subject = None, lt_limit = None\<rparr> s) (\<lambda>tokens.
        Inr (s, None, ListResponse tokens))))"

text \<open>Who revokes, under which environment: the principal of the bearer, or the cookie session.\<close>

definition revoke_context ::
    "handler_config \<Rightarrow> 'r token_repository \<Rightarrow> session_env \<Rightarrow> http_request \<Rightarrow> jstring \<Rightarrow> 'r \<Rightarrow> (organization_session \<times> token_env) tok" where
  "revoke_context hc R se rq tokenId s =
     (if bearerToken rq \<noteq> None then
        (case authenticate R se rq s of
           None \<Rightarrow> Inl tok_unauthorized
         | Some caller \<Rightarrow>
             if tp_tokenId caller \<noteq> tokenId \<and> \<not> list_ex isManagementRole (tp_roles caller) then Inl tok_forbidden
             else Inr (sessionFromPrincipal caller, later (se_env se)))
      else
        bindr (enforceCookieMutationOrigin se rq (hc_trustedOrigins hc) (hc_missingOrigin hc)) (\<lambda>_.
        bindr (resolveManagementContext se rq True) (\<lambda>(session, m). Inr (session, se_env se))))"

definition handle_revoke ::
    "handler_config \<Rightarrow> 'r token_repository \<Rightarrow> session_env \<Rightarrow> http_request \<Rightarrow> jstring \<Rightarrow> 'r \<Rightarrow> 'r token_outcome tok" where
  "handle_revoke hc R se rq suffix s =
     (let revokeAlias = (to_upper (rq_method rq) = js ''POST'' \<and> ends_with (js ''/revoke'') suffix);
          cut = take (length suffix - 7) suffix;
          rawId = (if revokeAlias then (if ends_with (js ''/'') cut then butlast cut else cut) else suffix) in
      if rawId = [] \<or> 47 \<in> set rawId then Inl token_not_found
      else
        bindr (boundedId (JStr rawId)) (\<lambda>tokenId.
        if to_upper (rq_method rq) \<noteq> js ''DELETE'' \<and> \<not> revokeAlias then Inr (s, None, MethodNotAllowed [''DELETE'', ''POST''])
        else
          bindr (revoke_context hc R se rq tokenId s) (\<lambda>(session, e).
          bindr (revokeToken R e (session_object session) (JStr tokenId) s) (\<lambda>(s', ev, md).
          Inr (s', Some ev, RevokedResponse md)))))"

definition dispatch :: "handler_config \<Rightarrow> 'r token_repository \<Rightarrow> session_env \<Rightarrow> http_request \<Rightarrow> jstring \<Rightarrow> 'r \<Rightarrow> 'r token_outcome tok" where
  "dispatch hc R se rq path s =
     (let rest = drop (length (hc_prefix hc)) path; suffix = (if starts_with (js ''/'') rest then tl rest else rest);
          verb = to_upper (rq_method rq) in
      if suffix = [] then
        (if verb = js ''POST'' then handle_create hc R se rq s
         else if verb = js ''GET'' then handle_list R se rq s
         else Inr (s, None, MethodNotAllowed [''GET'', ''POST'']))
      else handle_revoke hc R se rq suffix s)"

text \<open>\<open>None\<close> as the response means that the request is not for this handler.\<close>

definition token_handler ::
    "handler_config \<Rightarrow> 'r token_repository \<Rightarrow> session_env \<Rightarrow> http_request \<Rightarrow> 'r \<Rightarrow> 'r \<times> token_audit option \<times> token_response option" where
  "token_handler hc R se rq s =
     (case requestPath se rq of
        Inl err \<Rightarrow> (s, None, Some (errorResponse err))
      | Inr path \<Rightarrow>
          if \<not> isTokenRoute path (hc_prefix hc) then (s, None, None)
          else (case dispatch hc R se rq path s of
              Inl err \<Rightarrow> (s, None, Some (errorResponse err))
            | Inr (s', ev, response) \<Rightarrow> (s', ev, Some response)))"

end
