(* ===== verification/Token_Rows.thy ===== *)
theory Token_Rows
  imports Token_Session
begin

text \<open>
  The row codec of the PostgreSQL adapter of \<open>packages/api-tokens/src/index.ts\<close>: identifiers of the
  schema, the parameters of the \<open>INSERT\<close> and the reading of a row. The SQL itself runs in the
  database and is not modelled.
\<close>

section \<open>Identifiers\<close>

definition quoteIdentifier :: "jstring \<Rightarrow> jstring tok" where
  "quoteIdentifier s =
     (case s of
        [] \<Rightarrow> Inl token_configuration
      | c # r \<Rightarrow>
          if (is_upper c \<or> is_lower c \<or> c = 95) \<and> list_all (\<lambda>x. is_alnum x \<or> x = 95) r
          then Inr ([34] @ s @ [34]) else Inl token_configuration)"

definition qualifiedTable :: "jstring \<Rightarrow> jstring option \<Rightarrow> jstring tok" where
  "qualifiedTable tableName schemaName =
     bindr (quoteIdentifier tableName) (\<lambda>tableIdentifier.
     case map_option trim schemaName of
       None \<Rightarrow> Inr tableIdentifier
     | Some schema \<Rightarrow>
         if schema = [] then Inr tableIdentifier
         else bindr (quoteIdentifier schema) (\<lambda>q. Inr (q @ [46] @ tableIdentifier)))"

section \<open>Rows\<close>

text \<open>A column as the driver returns it: a \<open>Date\<close> (\<open>None\<close> when invalid) or a plain value.\<close>

datatype db_value = DbDate "int option" | DbValue jsval

record token_row =
  ro_id :: jsval
  ro_organization_id :: jsval
  ro_user_id :: jsval
  ro_name :: jsval
  ro_token_hash :: jsval
  ro_role_ceiling :: jsval
  ro_scopes :: jsval
  ro_expires_at :: db_value
  ro_created_at :: db_value
  ro_revoked_at :: db_value

definition dbString :: "jsval \<Rightarrow> jstring tok" where
  "dbString v = (case str_of v of None \<Rightarrow> Inl token_repository_error
     | Some s \<Rightarrow> if trim s = [] then Inl token_repository_error else Inr s)"

text \<open>\<open>new Date(value).getTime()\<close> of a string or number, \<open>None\<close> when it is not a finite number.\<close>

fun date_value :: "host \<Rightarrow> db_value \<Rightarrow> int option" where
  "date_value h (DbDate d) = d"
| "date_value h (DbValue (JStr s)) = dateParse h s"
| "date_value h (DbValue (JNum (Num r))) = (case iso_string r of Some (Stamp ms) \<Rightarrow> Some ms | _ \<Rightarrow> None)"
| "date_value h _ = None"

definition dbDate :: "host \<Rightarrow> db_value \<Rightarrow> timestamp tok" where
  "dbDate h v = (case date_value h v of None \<Rightarrow> Inl token_repository_error | Some ms \<Rightarrow> Inr (Stamp ms))"

definition dbScopes :: "(jstring \<Rightarrow> jsval option) \<Rightarrow> jsval \<Rightarrow> jstring list tok" where
  "dbScopes jsonParse v =
     bindr (case v of JStr s \<Rightarrow> (case jsonParse s of None \<Rightarrow> Inl token_repository_error | Some x \<Rightarrow> Inr x) | _ \<Rightarrow> Inr v) (\<lambda>parsed.
     case arr_of parsed of
       None \<Rightarrow> Inl token_repository_error
     | Some vs \<Rightarrow> (case normalizeScopes parsed of Inl _ \<Rightarrow> Inl token_repository_error | Inr scopes \<Rightarrow> Inr scopes))"

definition is_lower_hex :: "nat \<Rightarrow> bool" where
  "is_lower_hex c \<longleftrightarrow> is_digit c \<or> (97 \<le> c \<and> c \<le> 102)"

definition stored_hash_ok :: "jstring \<Rightarrow> bool" where
  "stored_hash_ok s \<longleftrightarrow> starts_with (js ''sha256:'') s \<and> length s = 71 \<and> list_all is_lower_hex (drop 7 s)"

definition absent :: "db_value \<Rightarrow> bool" where
  "absent v \<longleftrightarrow> v = DbValue JNull \<or> v = DbValue JUndefined"

definition rowToRecord :: "host \<Rightarrow> (jstring \<Rightarrow> jsval option) \<Rightarrow> token_row \<Rightarrow> token_record tok" where
  "rowToRecord h jsonParse row =
     bindr (boundedId (ro_id row)) (\<lambda>i.
     bindr (dbString (ro_organization_id row)) (\<lambda>org.
     bindr (dbString (ro_user_id row)) (\<lambda>user.
     bindr (nonEmptyString (ro_name row) 128) (\<lambda>name.
     bindr (dbString (ro_token_hash row)) (\<lambda>hash.
     bindr (normalizeRole (ro_role_ceiling row)) (\<lambda>role.
     bindr (dbScopes jsonParse (ro_scopes row)) (\<lambda>scopes.
     bindr (dbDate h (ro_expires_at row)) (\<lambda>expiresAt.
     bindr (dbDate h (ro_created_at row)) (\<lambda>createdAt.
     bindr (if absent (ro_revoked_at row) then Inr None
            else bindr (dbDate h (ro_revoked_at row)) (\<lambda>t. Inr (Some t))) (\<lambda>revokedAt.
     if \<not> stored_hash_ok hash then Inl token_repository_error
     else Inr \<lparr>tk_id = i, tk_organizationId = org, tk_userId = user, tk_name = name, tk_tokenHash = hash,
               tk_roleCeiling = role, tk_scopes = scopes, tk_expiresAt = expiresAt, tk_createdAt = createdAt,
               tk_revokedAt = revokedAt\<rparr>))))))))))"

fun role_name :: "role \<Rightarrow> string" where
  "role_name Owner = ''owner''"
| "role_name Admin = ''admin''"
| "role_name Publisher = ''publisher''"
| "role_name Reader = ''reader''"
| "role_name _ = ''worker''"

fun stamp_column :: "timestamp \<Rightarrow> db_value" where
  "stamp_column (Stamp ms) = DbDate (Some ms)"
| "stamp_column (BadStamp _) = DbDate None"

text \<open>
  The row that the parameters of the \<open>INSERT\<close> store: the scopes through \<open>jsonb\<close>, which the driver
  returns parsed, and the instants through \<open>timestamptz\<close>, which it returns as \<open>Date\<close>s.
\<close>

definition insertRow :: "token_record \<Rightarrow> token_row" where
  "insertRow r =
     \<lparr>ro_id = JStr (tk_id r), ro_organization_id = JStr (tk_organizationId r), ro_user_id = JStr (tk_userId r),
      ro_name = JStr (tk_name r), ro_token_hash = JStr (tk_tokenHash r), ro_role_ceiling = JStr (js (role_name (tk_roleCeiling r))),
      ro_scopes = JArr (map JStr (tk_scopes r)), ro_expires_at = stamp_column (tk_expiresAt r),
      ro_created_at = stamp_column (tk_createdAt r),
      ro_revoked_at = (case tk_revokedAt r of None \<Rightarrow> DbValue JNull | Some t \<Rightarrow> stamp_column t)\<rparr>"

text \<open>The limit of the listing query.\<close>

definition queryLimit :: "rat option \<Rightarrow> nat" where
  "queryLimit l = min 1000 (max 1 (nat \<lfloor>case l of None \<Rightarrow> 100 | Some x \<Rightarrow> x\<rfloor>))"

end
