(* ===== verification/Token_Properties.thy ===== *)
theory Token_Properties
  imports Token_Guarantees Token_Rows
begin

text \<open>
  The properties of API tokens: the well-formedness of every stored record and its row codec, the
  authority of an authenticated caller, revocation, listings, the cross-site checks of the handler
  and the session cookie.
\<close>

section \<open>Well-formed records\<close>

definition scope_text_ok :: "jstring \<Rightarrow> bool" where
  "scope_text_ok sc \<longleftrightarrow> (sc = js ''*'' \<or> scope_ok sc) \<and> length sc \<le> 128"

definition bounded_text :: "nat \<Rightarrow> jstring \<Rightarrow> bool" where
  "bounded_text n s \<longleftrightarrow> s \<noteq> [] \<and> trim s = s \<and> length s \<le> n"

definition is_stamp :: "timestamp \<Rightarrow> bool" where
  "is_stamp t \<longleftrightarrow> date_parse t \<noteq> None"

definition in_date_range :: "timestamp \<Rightarrow> bool" where
  "in_date_range t \<longleftrightarrow> (case date_parse t of None \<Rightarrow> False | Some ms \<Rightarrow> \<bar>ms\<bar> \<le> 8640000000000000)"

definition token_record_ok :: "token_record \<Rightarrow> bool" where
  "token_record_ok r \<longleftrightarrow>
     token_id_ok (tk_id r) \<and> length (tk_id r) \<le> 128 \<and>
     bounded_text 256 (tk_organizationId r) \<and> bounded_text 256 (tk_userId r) \<and> bounded_text 128 (tk_name r) \<and>
     stored_hash_ok (tk_tokenHash r) \<and> tk_roleCeiling r \<in> {Owner, Admin, Publisher, Reader} \<and>
     length (tk_scopes r) \<le> 64 \<and> distinct (tk_scopes r) \<and> list_all scope_text_ok (tk_scopes r) \<and>
     in_date_range (tk_expiresAt r) \<and> is_stamp (tk_createdAt r) \<and> (\<forall>t. tk_revokedAt r = Some t \<longrightarrow> is_stamp t)"

lemma nonEmptyString_Inr_iff: "nonEmptyString v n = Inr s \<longleftrightarrow> (\<exists>x. v = JStr x \<and> s = trim x \<and> s \<noteq> [] \<and> length s \<le> n)"
  by (cases v) (auto simp: nonEmptyString_def Let_def)

lemma nonEmptyString_bounded: "nonEmptyString v n = Inr s \<Longrightarrow> bounded_text n s"
  by (auto simp: nonEmptyString_Inr_iff bounded_text_def)

lemma nonEmptyString_again: "bounded_text n s \<Longrightarrow> nonEmptyString (JStr s) n = Inr s"
  by (simp add: bounded_text_def nonEmptyString_Inr_iff)

lemma space_not_id_char: "is_space c \<Longrightarrow> \<not> is_alnum c \<and> c \<noteq> 46 \<and> c \<noteq> 95 \<and> c \<noteq> 58 \<and> c \<noteq> 45 \<and> c \<noteq> 42"
  by (auto simp: is_alnum_def is_upper_def is_lower_def is_digit_def is_space_def)

lemma id_text_bounded: "token_id_ok s \<Longrightarrow> length s \<le> n \<Longrightarrow> bounded_text n s"
proof -
  assume s: "token_id_ok s" "length s \<le> n"
  have "list_all (\<lambda>c. \<not> is_space c) s"
    using s(1) by (auto simp: token_id_ok_def list_all_iff split: list.splits dest: space_not_id_char)
  then show ?thesis using s trim_no_space [of s] by (auto simp: bounded_text_def token_id_ok_def)
qed

lemma scope_text_bounded: "scope_text_ok s \<Longrightarrow> bounded_text 128 s"
proof -
  assume s: "scope_text_ok s"
  have "list_all (\<lambda>c. \<not> is_space c) s \<and> s \<noteq> []"
    using s by (auto simp: scope_text_ok_def scope_ok_def list_all_iff star_unit split: list.splits dest: space_not_id_char)
  then show ?thesis using s trim_no_space [of s] by (auto simp: bounded_text_def scope_text_ok_def)
qed

lemma boundedId_Inr_iff: "boundedId v = Inr s \<longleftrightarrow> nonEmptyString v 128 = Inr s \<and> token_id_ok s"
  by (auto simp: boundedId_def result_simps)

lemma boundedId_ok: "boundedId v = Inr s \<Longrightarrow> token_id_ok s \<and> length s \<le> 128"
  by (auto simp: boundedId_Inr_iff nonEmptyString_Inr_iff)

lemma boundedId_again: "token_id_ok s \<Longrightarrow> length s \<le> 128 \<Longrightarrow> boundedId (JStr s) = Inr s"
  by (simp add: boundedId_Inr_iff nonEmptyString_again id_text_bounded)

lemma normalizeScope_ok: "normalizeScope v = Inr s \<Longrightarrow> scope_text_ok s"
  by (auto simp: normalizeScope_def result_simps nonEmptyString_Inr_iff scope_text_ok_def split: if_splits)

lemma normalizeScope_again: "scope_text_ok s \<Longrightarrow> normalizeScope (JStr s) = Inr s"
  using nonEmptyString_again [OF scope_text_bounded] by (auto simp: normalizeScope_def scope_text_ok_def)

definition scopes_ok :: "jstring list \<Rightarrow> bool" where
  "scopes_ok scopes \<longleftrightarrow> length scopes \<le> 64 \<and> distinct scopes \<and> list_all scope_text_ok scopes"

lemma length_unique_le: "length (unique xs) \<le> length xs"
  by (metis card_length distinct_card distinct_unique set_unique)

lemma unique_distinct: "distinct xs \<Longrightarrow> unique xs = xs"
proof (induction xs)
  case (Cons x xs)
  then have "filter (\<lambda>y. y \<noteq> x) xs = xs" by (auto simp: filter_id_conv)
  then show ?case using Cons by simp
qed simp

lemma normalizeScopes_ok: "normalizeScopes v = Inr ss \<Longrightarrow> scopes_ok ss"
proof -
  assume ss: "normalizeScopes v = Inr ss"
  show ?thesis
  proof (cases "v = JUndefined")
    case True
    then show ?thesis using ss by (simp add: normalizeScopes_def scopes_ok_def)
  next
    case False
    then obtain vs xs where vs: "length vs \<le> 64" "mapr normalizeScope vs = Inr xs" "ss = unique xs"
      using ss by (auto simp: normalizeScopes_def result_simps not_less split: option.splits if_splits)
    then show ?thesis
      using length_unique_le [of xs] length_mapr [OF vs(2)] mapr_InrD [OF vs(2)]
      by (auto simp: scopes_ok_def list_all_iff dest: normalizeScope_ok)
  qed
qed

lemma normalizeScopes_again: "scopes_ok ss \<Longrightarrow> normalizeScopes (JArr (map JStr ss)) = Inr ss"
proof -
  assume ss: "scopes_ok ss"
  have "mapr normalizeScope (map JStr ss) = Inr ss"
    using ss by (auto simp: mapr_Inr_iff list_all2_conv_all_nth normalizeScope_again scopes_ok_def list_all_iff)
  then show ?thesis using ss by (simp add: normalizeScopes_def scopes_ok_def unique_distinct)
qed

lemma roleScopes_ok: "scopes_ok (roleScopes role)"
proof -
  have lists: "scopes_ok (map js publisher_scopes)" "scopes_ok (map js reader_scopes)" "scopes_ok [js ''*'']"
    by code_simp+
  then show ?thesis by (cases role) (auto simp: scopes_ok_def)
qed

lemma normalizeRole_ok: "normalizeRole v = Inr role \<Longrightarrow> role \<in> {Owner, Admin, Publisher, Reader}"
  by (auto simp: normalizeRole_def split: if_splits)

lemma highestRole_ok: "set roles \<subseteq> {Owner, Admin, Publisher, Reader} \<Longrightarrow> highestRole roles \<in> {Owner, Admin, Publisher, Reader}"
proof -
  have "set roles \<subseteq> A \<Longrightarrow> a \<in> A \<Longrightarrow> fold (\<lambda>r h. if role_rank h < role_rank r then r else h) roles a \<in> A" for a A
    by (induction roles arbitrary: a) auto
  then show "set roles \<subseteq> {Owner, Admin, Publisher, Reader} \<Longrightarrow> ?thesis" unfolding highestRole_def by blast
qed

lemma membershipFor_roles: "membershipFor e org user = Some m \<Longrightarrow> set (mn_roles m) \<subseteq> {Owner, Admin, Publisher, Reader}"
proof -
  assume "membershipFor e org user = Some m"
  then obtain v where "normalizeRoleList v = Inr (mn_roles m)"
    by (auto simp: membershipFor_def normalizeMembership_def Let_def split: option.splits if_splits sum.splits)
  then obtain vs xs where "mapr normalizeRole vs = Inr xs" "mn_roles m = unique xs"
    by (auto simp: normalizeRoleList_def result_simps)
  then show ?thesis using mapr_InrD [of normalizeRole vs xs] normalizeRole_ok by fastforce
qed

lemma normalizeSession_bounded:
  "normalizeSession v = Some session \<Longrightarrow> bounded_text 256 (os_organizationId session) \<and> bounded_text 256 (os_userId session)"
  by (auto simp: normalizeSession_def Let_def dest!: nonEmptyString_bounded split: if_splits sum.splits)

lemma hex_lower: "n < 16 \<Longrightarrow> is_lower_hex (hex_digit n)"
  by (auto simp: hex_digit_def is_lower_hex_def is_digit_def)

lemma token_hash_ok:
  assumes "\<forall>bs. length (te_sha256 e bs) = 32 \<and> (\<forall>b \<in> set (te_sha256 e bs). b < 256)"
  shows "stored_hash_ok (token_hash e secret)"
proof -
  let ?d = "te_sha256 e (utf8_encode secret)"
  have len: "length (concat (map hex_byte xs)) = 2 * length xs" for xs
    by (induction xs) (auto simp: hex_byte_def)
  have prefix: "js ''sha256:'' = [115, 104, 97, 50, 53, 54, 58]" by code_simp
  have "\<forall>c \<in> set (hex_byte b). is_lower_hex c" if "b < 256" for b
    using that by (auto simp: hex_byte_def intro!: hex_lower)
  then have "\<forall>c \<in> set (concat (map hex_byte ?d)). is_lower_hex c" using assms by auto
  then show ?thesis
    using len [of ?d] assms by (simp add: stored_hash_ok_def token_hash_def hashString_def starts_with_def prefix list_all_iff)
qed

lemma in_date_range_stamp: "in_date_range t \<Longrightarrow> is_stamp t"
  by (auto simp: in_date_range_def is_stamp_def split: option.splits)

lemma iso_string_range: "iso_string ms = Some t \<Longrightarrow> in_date_range t"
proof -
  assume "iso_string ms = Some t"
  then have "\<bar>ms\<bar> \<le> of_int 8640000000000000" "t = Stamp (if ms < 0 then \<lceil>ms\<rceil> else \<lfloor>ms\<rfloor>)"
    by (auto simp: iso_string_def split: if_splits)
  moreover from this(1) have "- of_int 8640000000000000 \<le> ms" "ms \<le> of_int 8640000000000000" by linarith+
  ultimately show ?thesis by (auto simp: in_date_range_def ceiling_le_iff le_floor_iff floor_le_iff abs_le_iff) linarith+
qed

lemma parseExpiry_range: "parseExpiry h v w now d m = Inr t \<Longrightarrow> in_date_range t"
  by (auto simp: parseExpiry_def result_simps Let_def dest: iso_string_range split: option.splits if_splits)

lemma created_record_ok:
  assumes run: "createToken R e ctx input s = Inr (s', ev, md, secret)"
    and sha: "\<forall>bs. length (te_sha256 e bs) = 32 \<and> (\<forall>b \<in> set (te_sha256 e bs). b < 256)"
  obtains r where "rp_create R r s = Inr s'" and "token_record_ok r"
proof -
  obtain session m r where r: "normalizeSession ctx = Some session"
    "membershipFor e (os_organizationId session) (os_userId session) = Some m" "rp_create R r s = Inr s'"
    "tk_organizationId r = os_organizationId session" "tk_userId r = os_userId session"
    "normalizeName (ci_name input) = Inr (tk_name r)" "boundedId (JStr (js ''st_'' @ te_uuid e)) = Inr (tk_id r)"
    "tk_tokenHash r = token_hash e secret" "tk_revokedAt r = None" "tk_createdAt r = Stamp (te_now e 0)"
    "tk_roleCeiling r = highestRole (mn_roles m) \<or> (\<exists>v. normalizeRole v = Inr (tk_roleCeiling r))"
    "requested_scopes (ci_scopes input) (tk_roleCeiling r) = Inr (tk_scopes r)"
    "parseExpiry (te_host e) (ci_expiresAt input) (ci_expiresInSeconds input) (of_int (te_now e 0))
       (te_defaultTtl e) (te_maxTtl e) = Inr (tk_expiresAt r)"
    using run by (elim createToken_InrE) blast
  have "tk_roleCeiling r \<in> {Owner, Admin, Publisher, Reader}"
    using r(11) highestRole_ok [OF membershipFor_roles [OF r(2)]] normalizeRole_ok by metis
  moreover have "scopes_ok (tk_scopes r)"
    using r(12) roleScopes_ok [of "tk_roleCeiling r"] normalizeScopes_ok by (auto simp: requested_scopes_def split: if_splits)
  moreover have "bounded_text 128 (tk_name r)"
    using nonEmptyString_bounded r(6) by (simp add: normalizeName_def)
  moreover have "in_date_range (tk_expiresAt r)" "is_stamp (tk_createdAt r)"
    using parseExpiry_range [OF r(13)] r(10) by (simp_all add: is_stamp_def)
  ultimately have "token_record_ok r"
    using normalizeSession_bounded [OF r(1)] boundedId_ok [OF r(7)] token_hash_ok [OF sha] r(4,5,8,9)
    by (simp add: token_record_ok_def scopes_ok_def)
  then show thesis using that r(3) by blast
qed

lemma mark_revoked_ok: "token_record_ok r \<Longrightarrow> is_stamp t \<Longrightarrow> token_record_ok (mark_revoked t r)"
  by (simp add: token_record_ok_def mark_revoked_def)

lemma revokeToken_stamp:
  assumes "revokeToken R e ctx tokenId s = Inr (s', ev, md)"
  obtains org i existing t r' where "rp_findById R org i s = Inr (Some existing)"
    and "rp_revoke R org i t s = Inr (s', Some r')"
    and "t = (case tk_revokedAt existing of Some x \<Rightarrow> x | None \<Rightarrow> Stamp (te_now e 0))"
  using assms that unfolding revokeToken_def Let_def result_simps bindr_Inr_iff by (clarsimp simp: result_simps)

definition digest_function :: "(nat list \<Rightarrow> nat list) \<Rightarrow> bool" where
  "digest_function sha \<longleftrightarrow> (\<forall>bs. length (sha bs) = 32 \<and> (\<forall>b \<in> set (sha bs). b < 256))"

definition store_ok :: "memory_tokens \<Rightarrow> bool" where
  "store_ok s \<longleftrightarrow> memory_ok s \<and> (\<forall>r \<in> set (my_records s). token_record_ok r)"

lemma token_step_store_ok:
  assumes "token_step sha s s'" and "digest_function sha" and "store_ok s"
  shows "store_ok s'"
  using assms(1)
proof cases
  case (token_create e ctx input ev md secret)
  obtain r where "rp_create memory_repository r s = Inr s'" "token_record_ok r"
    using created_record_ok [OF token_create(2)] token_create(1) assms(2) unfolding digest_function_def by blast
  then show ?thesis using memory.create_inserts assms(3) by (auto simp: store_ok_def)
next
  case (token_revoke e ctx tokenId ev md)
  have ok: "memory_ok s" "\<And>r. r \<in> set (my_records s) \<Longrightarrow> token_record_ok r" using assms(3) by (auto simp: store_ok_def)
  obtain org i existing t r' where run: "rp_findById memory_repository org i s = Inr (Some existing)"
    "rp_revoke memory_repository org i t s = Inr (s', Some r')"
    "t = (case tk_revokedAt existing of Some x \<Rightarrow> x | None \<Rightarrow> Stamp (te_now e 0))"
    using revokeToken_stamp [OF token_revoke(2)] by blast
  have "token_record_ok existing" using run(1) memory.find_id [OF ok(1)] ok(2) by blast
  then have "is_stamp t" using run(3) by (auto simp: token_record_ok_def is_stamp_def split: option.splits)
  moreover obtain r where "r \<in> set (my_records s)" "r' = mark_revoked t r" "memory_ok s'"
    "set (my_records s') = insert r' (set (my_records s) - {r})"
    using memory.revoke_some [OF ok(1) run(2)] by blast
  ultimately show ?thesis using ok mark_revoked_ok by (auto simp: store_ok_def)
qed

lemma store_ok_empty: "store_ok no_tokens"
  by (simp add: store_ok_def no_tokens_def memory_ok_def)

lemma digest_runs: "digest_function sha \<Longrightarrow> transition_system (\<lambda>s. s = no_tokens) (token_step sha) store_ok"
  using store_ok_empty by unfold_locales (auto intro: token_step_store_ok)

lemmas reach_store_ok = transition_system.reach_inv [OF digest_runs]

lemma rowToRecord_insertRow: "token_record_ok r \<Longrightarrow> rowToRecord h jsonParse (insertRow r) = Inr r"
proof -
  assume r: "token_record_ok r"
  have "dbString (JStr s) = Inr s" if "bounded_text n s" for n s
    using that by (simp add: dbString_def bounded_text_def)
  then have strings: "dbString (JStr (tk_organizationId r)) = Inr (tk_organizationId r)" "dbString (JStr (tk_userId r)) = Inr (tk_userId r)"
    using r by (auto simp: token_record_ok_def)
  have stamp: "dbDate h (stamp_column t) = Inr t" if "is_stamp t" for t
    using that by (cases t) (auto simp: dbDate_def is_stamp_def)
  have "trim (tk_tokenHash r) \<noteq> []"
  proof -
    have "list_all (\<lambda>c. \<not> is_space c) (tk_tokenHash r)"
    proof -
      have "take 7 (tk_tokenHash r) = js ''sha256:''"
        using r unfolding token_record_ok_def stored_hash_ok_def starts_with_def by (simp add: numeral_eq_Suc)
      then have "tk_tokenHash r = js ''sha256:'' @ drop 7 (tk_tokenHash r)"
        using append_take_drop_id [of 7 "tk_tokenHash r"] by simp
      moreover have "list_all (\<lambda>c. \<not> is_space c) (js ''sha256:'')" by code_simp
      moreover have "list_all (\<lambda>c. \<not> is_space c) (drop 7 (tk_tokenHash r))"
        using r by (auto simp: token_record_ok_def stored_hash_ok_def list_all_iff is_lower_hex_def is_digit_def is_space_def)
      ultimately show ?thesis by (metis list_all_append)
    qed
    then show ?thesis using r trim_no_space by (fastforce simp: token_record_ok_def stored_hash_ok_def)
  qed
  then have hash: "dbString (JStr (tk_tokenHash r)) = Inr (tk_tokenHash r)" by (simp add: dbString_def)
  have role: "normalizeRole (JStr (js (role_name (tk_roleCeiling r)))) = Inr (tk_roleCeiling r)"
    using r by (auto simp: token_record_ok_def normalizeRole_def)
  have scopes: "dbScopes jsonParse (JArr (map JStr (tk_scopes r))) = Inr (tk_scopes r)"
    using normalizeScopes_again r by (simp add: dbScopes_def token_record_ok_def scopes_ok_def)
  have revoked: "(if absent (ro_revoked_at (insertRow r)) then Inr None
      else bindr (dbDate h (ro_revoked_at (insertRow r))) (\<lambda>t. Inr (Some t))) = Inr (tk_revokedAt r)"
  proof (cases "tk_revokedAt r")
    case (Some t)
    then have "is_stamp t" using r by (simp add: token_record_ok_def)
    then have "\<not> absent (stamp_column t)" by (cases t) (auto simp: absent_def)
    then show ?thesis using Some stamp [OF \<open>is_stamp t\<close>] by (simp add: insertRow_def)
  qed (simp add: insertRow_def absent_def)
  have id: "boundedId (JStr (tk_id r)) = Inr (tk_id r)" and name: "nonEmptyString (JStr (tk_name r)) 128 = Inr (tk_name r)"
    using r boundedId_again nonEmptyString_again by (auto simp: token_record_ok_def)
  have "stored_hash_ok (tk_tokenHash r)" "is_stamp (tk_expiresAt r)" "is_stamp (tk_createdAt r)"
    using r in_date_range_stamp by (auto simp: token_record_ok_def)
  then show ?thesis
    unfolding rowToRecord_def revoked by (simp add: insertRow_def id strings name hash role scopes stamp)
qed

section \<open>Authenticated callers\<close>

lemma later_simps [simp]:
  "membershipFor (later e) = membershipFor e" "te_sha256 (later e) = te_sha256 e" "te_now (later e) n = te_now e (Suc n)"
  "te_maxList (later e) = te_maxList e" "token_hash (later e) = token_hash e"
  by (simp_all add: later_def membershipFor_def token_hash_def fun_eq_iff)

lemma principalForRecord_SomeE:
  assumes "principalForRecord e r = Some p"
  obtains m expiry where "tk_revokedAt r = None" and "date_parse (tk_expiresAt r) = Some expiry" and "te_now e 0 < expiry"
    and "membershipFor e (tk_organizationId r) (tk_userId r) = Some m"
    and "p = \<lparr>tp_organizationId = tk_organizationId r, tp_subject = tk_userId r,
      tp_roles = [effectiveRole m (tk_roleCeiling r)], tp_scopes = scopesForToken r m, tp_tokenId = tk_id r\<rparr>"
  using assms that by (auto simp: principalForRecord_def split: option.splits if_splits)

text \<open>The credential a request authenticates with: the secret itself, or a cookie signed for it.\<close>

definition presents :: "session_env \<Rightarrow> http_request \<Rightarrow> token_record \<Rightarrow> bool" where
  "presents se rq r \<longleftrightarrow>
     (\<exists>t. bearerToken rq = Some t \<and> secret_ok t \<and> tk_tokenHash r = token_hash (se_env se) t) \<or>
     (rq_header rq ''authorization'' = None \<and>
      (\<exists>hmac b c raw. se_hmac se = Some hmac \<and>
        cookie_value (parseCookieHeader (rq_header rq ''cookie'')) (se_cookieName se) = Some raw \<and>
        split_on 46 raw = [session_prefix, b, c] \<and>
        base64UrlDecode c = Some (hmac (utf8_encode (session_prefix @ [46] @ b)))))"

lemma no_blank_stripped: "\<not> list_ex blank s \<Longrightarrow> strip_bearer s = s"
proof -
  assume "\<not> list_ex blank s"
  then have "\<forall>c \<in> set (drop 6 s). \<not> blank c" by (auto simp: list_ex_iff dest: in_set_dropD)
  then have "takeWhile blank (drop 6 s) = []" by (cases "drop 6 s") auto
  then show ?thesis by (simp add: strip_bearer_def)
qed

lemma bearerToken_stripped: "bearerToken rq = Some t \<Longrightarrow> strip_bearer t = t"
  by (auto simp: bearerToken_def Let_def split: option.splits if_splits intro!: no_blank_stripped)

lemma session_cookie_signed:
  assumes "session_cookie_claims se raw = Some c"
  obtains hmac b sig where "se_hmac se = Some hmac" and "split_on 46 raw = [session_prefix, b, sig]"
    and "base64UrlDecode sig = Some (hmac (utf8_encode (session_prefix @ [46] @ b)))"
  using assms that
  by (auto simp: session_cookie_claims_def verifySession_def timingSafeEqual_iff split: option.splits if_splits list.splits)

lemma authenticate_presents:
  assumes "authenticate memory_repository se rq s = Some p" and ok: "memory_ok s"
  obtains r e where "r \<in> set (my_records s)" and "principalForRecord e r = Some p" and "presents se rq r"
    and "e = se_env se \<or> e = later (se_env se)"
proof (cases "rq_header rq ''authorization'' = None")
  case True
  then have "browserSessionPrincipal memory_repository se rq s = Some p" using assms(1) by (simp add: authenticate_def)
  then obtain raw c r where parts: "cookie_value (parseCookieHeader (rq_header rq ''cookie'')) (se_cookieName se) = Some raw"
    "session_cookie_claims se raw = Some c"
    "rp_findById memory_repository (cl_organizationId c) (cl_tokenId c) s = Inr (Some r)"
    "principalForRecord (later (se_env se)) r = Some p"
    by (auto simp: browserSessionPrincipal_def split: option.splits if_splits sum.splits)
  have "presents se rq r"
    by (rule session_cookie_signed [OF parts(2)]) (use True parts(1) in \<open>auto simp: presents_def\<close>)
  moreover have "r \<in> set (my_records s)" using memory.find_id [OF ok] parts(3) by blast
  ultimately show thesis using that parts(4) by blast
next
  case False
  then obtain t where t: "bearerToken rq = Some t" "authenticateBearerToken memory_repository (se_env se) t s = Some p"
    using assms(1) by (auto simp: authenticate_def split: option.splits)
  obtain r where r: "rp_findByHash memory_repository (token_hash (se_env se) t) s = Inr (Some r)" "secret_ok t"
    "principalForRecord (se_env se) r = Some p"
    using t(2) bearerToken_stripped [OF t(1)]
    by (auto simp: authenticateBearerToken_def recordForRawToken_def Let_def split: option.splits if_splits sum.splits)
  then show thesis using that t(1) memory.find_hash [OF ok] by (auto simp: presents_def)
qed


section \<open>Creation\<close>

lemma iso_string_bounds:
  assumes "iso_string ms = Some t" and "0 \<le> now" and "of_int now < ms"
  obtains x where "t = Stamp x" and "now \<le> x" and "of_int x \<le> ms"
proof -
  have "t = Stamp \<lfloor>ms\<rfloor>" using assms by (auto simp: iso_string_def split: if_splits)
  moreover have "now \<le> \<lfloor>ms\<rfloor>" using assms(3) by (simp add: le_floor_iff)
  ultimately show thesis using that of_int_floor_le by blast
qed

text \<open>
  C31. Creating a token cannot escalate: it is issued only to an active member of the organization of
  the session, its role is at most the member's, everything its scopes grant is granted by the
  membership and by that role, it expires within the configured lifetime, and the audit event and the
  returned metadata describe the stored record, which holds only the hash of the secret.
\<close>

theorem creation_cannot_escalate:
  assumes "createToken memory_repository e ctx input s = Inr (s', ev, md, secret)" and "0 \<le> te_now e 0"
  shows "\<exists>session m r expiry. normalizeSession ctx = Some session \<and>
    membershipFor e (os_organizationId session) (os_userId session) = Some m \<and>
    my_records s' = my_records s @ [r] \<and> md = metadata r \<and> tk_tokenHash r = token_hash e secret \<and>
    ta_tokenId ev = tk_id r \<and> ta_actorId ev = os_userId session \<and>
    tk_organizationId r = os_organizationId session \<and> tk_userId r = os_userId session \<and>
    role_rank (tk_roleCeiling r) \<le> role_rank (highestRole (mn_roles m)) \<and>
    (\<forall>q. hasScope (tk_scopes r) q \<longrightarrow> hasScope (mn_scopes m) q \<and> hasScope (roleScopes (tk_roleCeiling r)) q) \<and>
    tk_expiresAt r = Stamp expiry \<and> te_now e 0 \<le> expiry \<and> of_int expiry \<le> of_int (te_now e 0) + te_maxTtl e * 1000 + 999"
proof -
  obtain session m r where r: "normalizeSession ctx = Some session"
    "membershipFor e (os_organizationId session) (os_userId session) = Some m" "rp_create memory_repository r s = Inr s'"
    "md = metadata r" "ev = created_audit r (os_userId session)"
    "tk_organizationId r = os_organizationId session" "tk_userId r = os_userId session" "tk_tokenHash r = token_hash e secret"
    "roleAtMost (tk_roleCeiling r) (highestRole (mn_roles m))"
    "\<forall>sc \<in> set (tk_scopes r). hasScope (mn_scopes m) sc \<and> hasScope (roleScopes (tk_roleCeiling r)) sc"
    "parseExpiry (te_host e) (ci_expiresAt input) (ci_expiresInSeconds input) (of_int (te_now e 0))
       (te_defaultTtl e) (te_maxTtl e) = Inr (tk_expiresAt r)"
    using assms(1) by (elim createToken_InrE) blast
  obtain ms where ms: "iso_string ms = Some (tk_expiresAt r)" "of_int (te_now e 0) < ms" "ms \<le> of_int (te_now e 0) + te_maxTtl e * 1000 + 999"
    using r(11) by (auto simp: parseExpiry_def result_simps Let_def split: option.splits if_splits)
  obtain expiry where x: "tk_expiresAt r = Stamp expiry" "te_now e 0 \<le> expiry" "of_int expiry \<le> ms"
    using iso_string_bounds [OF ms(1) assms(2) ms(2)] .
  have "\<forall>q. hasScope (tk_scopes r) q \<longrightarrow> hasScope (mn_scopes m) q \<and> hasScope (roleScopes (tk_roleCeiling r)) q"
    using r(10) hasScope_trans by (auto simp: hasScope_def [of "tk_scopes r"])
  moreover have "my_records s' = my_records s @ [r]"
    using r(3) by (auto simp: memory_repository_def mem_create_def split: if_splits)
  ultimately show ?thesis
    using r(1,2,4-9) x order_trans [OF x(3) ms(3)]
    by (intro exI [of _ session] exI [of _ m] exI [of _ r] exI [of _ expiry]) (simp add: created_audit_def roleAtMost_def)
qed


section \<open>Revocation\<close>

text \<open>
  C32. Revocation is final: once a revocation has returned, in every state that later calls of the
  service lead to, no request authenticates as that token, by bearer or by session cookie.
\<close>

theorem revoked_token_never_authenticates:
  assumes "reach (\<lambda>s. s = no_tokens) (token_step sha) s"
    and "revokeToken memory_repository e ctx tokenId s = Inr (s', ev, md)" and "te_sha256 e = sha"
    and "(token_step sha)\<^sup>*\<^sup>* s' t"
  shows "case authenticate memory_repository se rq t of None \<Rightarrow> True | Some p \<Rightarrow> tp_tokenId p \<noteq> tm_id md"
proof (rule ccontr)
  assume "\<not> ?thesis"
  then obtain p where auth: "authenticate memory_repository se rq t = Some p" and same: "tp_tokenId p = tm_id md"
    by (auto split: option.splits)
  have ok: "memory_ok s" using token_runs.reach_inv assms(1) by blast
  have ok': "memory_ok s'" using token_runs.step_inv [OF ok token_revoke] assms(2,3) by blast
  obtain r u where r: "set (my_records s') = insert (mark_revoked u r) (set (my_records s) - {r})" "md = metadata (mark_revoked u r)"
    using memory.revokeToken_effect [OF assms(2) ok] by blast
  have marked: "tk_revokedAt (mark_revoked u r) \<noteq> None" by (simp add: mark_revoked_def)
  then have stays: "mark_revoked u r \<in> set (my_records t)"
    using revoked_forever [OF assms(4) ok'] r(1) by blast
  have "memory_ok t" using token_runs.steps_inv [OF assms(4) ok'] .
  then obtain r' e' where r': "r' \<in> set (my_records t)" "principalForRecord e' r' = Some p"
    using authenticate_presents [OF auth] by blast
  then have "tk_id r' = tk_id (mark_revoked u r)" "tk_revokedAt r' = None"
    using same r(2) by (auto simp: metadata_def elim!: principalForRecord_SomeE)
  then show False using memory.unique_id [OF \<open>memory_ok t\<close> r'(1) stays] marked by auto
qed

section \<open>The handler\<close>

definition session_ok :: "organization_session \<Rightarrow> bool" where
  "session_ok session \<longleftrightarrow> bounded_text 256 (os_organizationId session) \<and> bounded_text 256 (os_userId session) \<and>
     (\<forall>i. os_sessionId session = Some i \<longrightarrow> bounded_text 256 i)"

lemma normalizeSession_ok: "normalizeSession v = Some session \<Longrightarrow> session_ok session"
  by (auto simp: normalizeSession_def Let_def session_ok_def dest!: nonEmptyString_bounded split: if_splits sum.splits)

lemma normalizeSession_again: "session_ok session \<Longrightarrow> normalizeSession (session_object session) = Some session"
  by (cases session) (auto simp: session_ok_def normalizeSession_def session_object_def coalesce_def nullish_def
      nonEmptyString_again bounded_text_def nonEmptyString_Inr_iff Let_def split: option.splits)

lemma resolveManagementContext_InrE:
  assumes "resolveManagementContext se rq True = Inr (session, m)"
  obtains "rq_header rq ''authorization'' = None" and "hasCookie rq" and "session_ok session"
    and "membershipFor (se_env se) (os_organizationId session) (os_userId session) = Some m"
  using assms that by (auto simp: resolveManagementContext_def dest: normalizeSession_ok split: if_splits option.splits)

lemma sessionFromPrincipal_ok:
  assumes "authenticate memory_repository se rq s = Some p" and "store_ok s"
  shows "session_ok (sessionFromPrincipal p)"
proof -
  obtain r e where "r \<in> set (my_records s)" "principalForRecord e r = Some p"
    using authenticate_presents [OF assms(1)] assms(2) unfolding store_ok_def by blast
  moreover from this(1) have "bounded_text 256 (tk_organizationId r)" "bounded_text 256 (tk_userId r)"
    using assms(2) by (auto simp: store_ok_def token_record_ok_def)
  ultimately show ?thesis by (auto simp: session_ok_def sessionFromPrincipal_def elim!: principalForRecord_SomeE)
qed

lemma listTokens_confined:
  assumes "listTokens memory_repository e ctx opts s = Inr mds" and "memory_ok s"
  obtains session m where "normalizeSession ctx = Some session"
    and "membershipFor e (os_organizationId session) (os_userId session) = Some m"
    and "length mds \<le> te_maxList e"
    and "\<forall>md \<in> set mds. tm_organizationId md = os_organizationId session \<and>
      (\<exists>r \<in> set (my_records s). md = metadata r) \<and>
      (canManageAll m \<or> tm_userId md = os_userId session) \<and> (\<forall>u. lt_subject opts = Some u \<longrightarrow> tm_userId md = trim u \<or> \<not> canManageAll m)"
proof -
  obtain session m subject rows where parts: "normalizeSession ctx = Some session"
    "membershipFor e (os_organizationId session) (os_userId session) = Some m"
    "(case lt_subject opts of None \<Rightarrow> Inr None | Some x \<Rightarrow> bindr (nonEmptyString (JStr x) 256) (\<lambda>y. Inr (Some y))) = Inr subject"
    "rp_list memory_repository (os_organizationId session) (if canManageAll m then subject else Some (os_userId session))
       (case lt_limit opts of None \<Rightarrow> te_maxList e | Some l \<Rightarrow> min (te_maxList e) (max 1 (nat \<lfloor>l\<rfloor>))) s = Inr rows"
    "mds = map metadata (filter (\<lambda>r. lt_includeRevoked opts \<or> tk_revokedAt r = None) rows)"
    using assms(1) unfolding listTokens_def Let_def result_simps by blast
  have rows: "length rows \<le> te_maxList e"
    "\<forall>r \<in> set rows. r \<in> set (my_records s) \<and> tk_organizationId r = os_organizationId session \<and>
      (\<forall>u. (if canManageAll m then subject else Some (os_userId session)) = Some u \<longrightarrow> tk_userId r = u)"
    using memory.list_confined [OF assms(2) parts(4)] by (auto split: option.splits)
  have sub: "lt_subject opts = Some u \<Longrightarrow> subject = Some (trim u)" for u
    using parts(3) by (auto simp: result_simps nonEmptyString_Inr_iff)
  have "length mds \<le> length rows" by (simp add: parts(5))
  then have "length mds \<le> te_maxList e" using rows(1) by simp
  moreover have "\<forall>md \<in> set mds. tm_organizationId md = os_organizationId session \<and>
      (\<exists>r \<in> set (my_records s). md = metadata r) \<and>
      (canManageAll m \<or> tm_userId md = os_userId session) \<and> (\<forall>u. lt_subject opts = Some u \<longrightarrow> tm_userId md = trim u \<or> \<not> canManageAll m)"
    using rows(2) sub unfolding parts(5) by (auto simp: metadata_def split: if_splits)
  ultimately show thesis by (rule that [OF parts(1,2)])
qed

text \<open>
  A listing over HTTP shows only the metadata of stored tokens of the caller's organization, at
  most the configured number. A bearer token lists its owner's tokens only, unless its own effective
  role manages the organization; a cookie session sees others' tokens only for a managing member.
\<close>

theorem listings_are_confined:
  assumes "reach (\<lambda>s. s = no_tokens) (token_step sha) s" and "digest_function sha"
    and "token_handler hc memory_repository se rq s = (s', ev, Some (ListResponse mds))"
  shows "s' = s \<and> ev = None \<and> length mds \<le> te_maxList (se_env se) \<and>
    (\<exists>org user. (\<forall>md \<in> set mds. tm_organizationId md = org \<and> (\<exists>r \<in> set (my_records s). md = metadata r)) \<and>
      ((\<exists>p. authenticate memory_repository se rq s = Some p \<and> bearerToken rq \<noteq> None \<and> tp_organizationId p = org \<and>
          (list_ex isManagementRole (tp_roles p) \<or> (\<forall>md \<in> set mds. tm_userId md = tp_subject p))) \<or>
       (\<exists>m. rq_header rq ''authorization'' = None \<and> hasCookie rq \<and> membershipFor (se_env se) org user = Some m \<and>
          (canManageAll m \<or> (\<forall>md \<in> set mds. tm_userId md = user)))))"
proof -
  have store: "store_ok s" and ok: "memory_ok s"
    using reach_store_ok [OF assms(2,1)] by (auto simp: store_ok_def)
  have run: "handle_list memory_repository se rq s = Inr (s', ev, ListResponse mds)"
    using assms(3)
    by (auto simp: token_handler_def dispatch_def handle_create_def handle_revoke_def Let_def result_simps
        split: sum.splits if_splits prod.splits elim!: errorResponse.elims)
  show ?thesis
  proof (cases "bearerToken rq = None")
    case False
    then obtain p where p: "authenticate memory_repository se rq s = Some p" and same: "s' = s" "ev = None"
      and list: "listTokens memory_repository (later (se_env se)) (session_object (sessionFromPrincipal p))
        \<lparr>lt_includeRevoked = include_revoked se rq,
         lt_subject = (if list_ex isManagementRole (tp_roles p) then None else Some (tp_subject p)), lt_limit = None\<rparr> s = Inr mds"
      using run unfolding handle_list_def Let_def by (auto simp: result_simps)
    have trimmed: "trim (tp_subject p) = tp_subject p"
      using sessionFromPrincipal_ok [OF p store] by (simp add: session_ok_def sessionFromPrincipal_def bounded_text_def)
    obtain m where m: "length mds \<le> te_maxList (se_env se)"
      "\<forall>md \<in> set mds. tm_organizationId md = tp_organizationId p \<and> (\<exists>r \<in> set (my_records s). md = metadata r) \<and>
        (canManageAll m \<or> tm_userId md = tp_subject p) \<and>
        (\<not> list_ex isManagementRole (tp_roles p) \<longrightarrow> tm_userId md = tp_subject p \<or> \<not> canManageAll m)"
    proof (rule listTokens_confined [OF list ok])
      fix session m
      assume "normalizeSession (session_object (sessionFromPrincipal p)) = Some session"
      then have session: "os_organizationId session = tp_organizationId p" "os_userId session = tp_subject p"
        using normalizeSession_again [OF sessionFromPrincipal_ok [OF p store]] by (auto simp: sessionFromPrincipal_def)
      assume "length mds \<le> te_maxList (later (se_env se))"
        and "\<forall>md \<in> set mds. tm_organizationId md = os_organizationId session \<and> (\<exists>r \<in> set (my_records s). md = metadata r) \<and>
          (canManageAll m \<or> tm_userId md = os_userId session) \<and>
          (\<forall>u. lt_subject \<lparr>lt_includeRevoked = include_revoked se rq,
            lt_subject = (if list_ex isManagementRole (tp_roles p) then None else Some (tp_subject p)), lt_limit = None\<rparr> = Some u
            \<longrightarrow> tm_userId md = trim u \<or> \<not> canManageAll m)"
      then show thesis unfolding session by (intro that [of m]) (auto simp: trimmed)
    qed
    then show ?thesis using False p same by blast
  next
    case True
    then obtain session m where c: "resolveManagementContext se rq True = Inr (session, m)" and same: "s' = s" "ev = None"
      and list: "listTokens memory_repository (se_env se) (session_object session)
        \<lparr>lt_includeRevoked = include_revoked se rq, lt_subject = None, lt_limit = None\<rparr> s = Inr mds"
      using run unfolding handle_list_def Let_def by (auto simp: result_simps)
    obtain c': "rq_header rq ''authorization'' = None" "hasCookie rq" "session_ok session"
      "membershipFor (se_env se) (os_organizationId session) (os_userId session) = Some m"
      using resolveManagementContext_InrE [OF c] .
    have "length mds \<le> te_maxList (se_env se) \<and> (\<forall>md \<in> set mds. tm_organizationId md = os_organizationId session \<and>
        (\<exists>r \<in> set (my_records s). md = metadata r) \<and> (canManageAll m \<or> tm_userId md = os_userId session))"
      by (rule listTokens_confined [OF list ok]) (use c'(4) in \<open>auto simp: normalizeSession_again [OF c'(3)]\<close>)
    then show ?thesis using c' same by blast
  qed
qed

lemma enforce_origin_Inr:
  assumes "enforceCookieMutationOrigin se rq origins missing = Inr ()"
  shows "origins \<noteq> [] \<and> ((\<exists>supplied origin. rq_header rq ''origin'' = Some supplied \<and> normalizeRequestOrigin se supplied = Some origin \<and> origin \<in> set origins) \<or>
    missing = AllowMissing \<and> (\<forall>supplied. rq_header rq ''origin'' = Some supplied \<longrightarrow> trim supplied = []))"
  using assms by (auto simp: enforceCookieMutationOrigin_def split: if_splits option.splits)

text \<open>How a request may change the tokens: by a bearer token, or by a cookie from a trusted origin.\<close>

definition trusted_cookie :: "handler_config \<Rightarrow> session_env \<Rightarrow> http_request \<Rightarrow> bool" where
  "trusted_cookie hc se rq \<longleftrightarrow> rq_header rq ''authorization'' = None \<and> hasCookie rq \<and> hc_trustedOrigins hc \<noteq> [] \<and>
     ((\<exists>supplied origin. rq_header rq ''origin'' = Some supplied \<and> normalizeRequestOrigin se supplied = Some origin \<and>
         origin \<in> set (hc_trustedOrigins hc)) \<or>
      hc_missingOrigin hc = AllowMissing \<and> (\<forall>supplied. rq_header rq ''origin'' = Some supplied \<longrightarrow> trim supplied = []))"

lemma trusted_cookieI:
  "enforceCookieMutationOrigin se rq (hc_trustedOrigins hc) (hc_missingOrigin hc) = Inr () \<Longrightarrow>
    resolveManagementContext se rq True = Inr c \<Longrightarrow> trusted_cookie hc se rq"
  unfolding trusted_cookie_def by (cases c) (blast dest: enforce_origin_Inr elim: resolveManagementContext_InrE)

lemma bearer_no_cookie: "bearerToken rq \<noteq> None \<Longrightarrow> rq_header rq ''authorization'' \<noteq> None"
  by (auto simp: bearerToken_def split: option.splits)

lemma handle_create_trusted:
  assumes "handle_create hc R se rq s = Inr out"
  shows "trusted_cookie hc se rq"
proof -
  obtain u c where origin: "(if bearerToken rq = None
      then enforceCookieMutationOrigin se rq (hc_trustedOrigins hc) (hc_missingOrigin hc) else Inr ()) = Inr u"
    and c: "resolveManagementContext se rq True = Inr c"
    using assms unfolding handle_create_def result_simps by blast
  obtain session m where "c = (session, m)" by (cases c)
  then have "rq_header rq ''authorization'' = None" using c by (auto elim: resolveManagementContext_InrE)
  then have "bearerToken rq = None" using bearer_no_cookie by blast
  then show ?thesis using origin c by (auto intro: trusted_cookieI)
qed

lemma handle_revoke_authority:
  assumes "handle_revoke hc memory_repository se rq suffix s = Inr (s', ev, resp)" and "memory_ok s" and "ev \<noteq> None \<or> s' \<noteq> s"
  shows "trusted_cookie hc se rq \<or> (\<exists>p md. bearerToken rq \<noteq> None \<and> authenticate memory_repository se rq s = Some p \<and>
    resp = RevokedResponse md \<and> (tm_id md = tp_tokenId p \<or> list_ex isManagementRole (tp_roles p)))"
proof -
  obtain rawId tokenId where tokenId: "boundedId (JStr rawId) = Inr tokenId"
    and "(s', ev) = (s, None) \<or> bindr (revoke_context hc memory_repository se rq tokenId s) (\<lambda>(session, e).
        bindr (revokeToken memory_repository e (session_object session) (JStr tokenId) s) (\<lambda>(s', ev, md).
        Inr (s', Some ev, RevokedResponse md))) = Inr (s', ev, resp)"
    using assms(1) by (auto simp: handle_revoke_def Let_def result_simps split: if_splits)
  then have "bindr (revoke_context hc memory_repository se rq tokenId s) (\<lambda>(session, e).
        bindr (revokeToken memory_repository e (session_object session) (JStr tokenId) s) (\<lambda>(s', ev, md).
        Inr (s', Some ev, RevokedResponse md))) = Inr (s', ev, resp)"
    using assms(3) by blast
  then obtain session e ev' md where run: "revoke_context hc memory_repository se rq tokenId s = Inr (session, e)"
    "revokeToken memory_repository e (session_object session) (JStr tokenId) s = Inr (s', ev', md)"
    "resp = RevokedResponse md" "token_id_ok tokenId" "length tokenId \<le> 128"
    using boundedId_ok [OF tokenId] by (auto simp: result_simps)
  have "tm_id md = tokenId"
    by (rule memory.revokeToken_effect [OF run(2) assms(2)])
      (use boundedId_again [OF run(4,5)] in \<open>auto simp: metadata_def mark_revoked_def\<close>)
  then show ?thesis
    using run(1,3) unfolding revoke_context_def
    by (auto simp: result_simps split: if_splits intro: trusted_cookieI)
qed


text \<open>Every call of the handler is a step of the service or leaves the tokens alone.\<close>

lemma handler_steps:
  assumes "token_handler hc memory_repository se rq s = (s', ev, response)"
  shows "s' = s \<or> token_step (te_sha256 (se_env se)) s s'"
proof -
  have "te_sha256 e = te_sha256 (se_env se)" if "revoke_context hc memory_repository se rq i s = Inr (session, e)" for i session e
    using that unfolding revoke_context_def by (auto simp: result_simps split: if_splits option.splits)
  then show ?thesis
    using assms unfolding token_handler_def dispatch_def handle_create_def handle_list_def handle_revoke_def Let_def
    by (auto simp: result_simps split: sum.splits if_splits prod.splits option.splits intro: token_create token_revoke)
qed

section \<open>An issued token\<close>

lemma token_hash_cong: "te_sha256 e = te_sha256 e' \<Longrightarrow> token_hash e = token_hash e'"
  by (simp add: token_hash_def fun_eq_iff)

lemma bearer_header:
  assumes "rq_header rq ''authorization'' = Some (js ''Bearer '' @ secret)" and "secret_ok secret"
  shows "bearerToken rq = Some secret" and "strip_bearer secret = secret"
proof -
  have ne: "secret \<noteq> []" using assms(2) by (auto simp: secret_ok_def)
  have clean: "\<not> list_ex blank secret" using assms(2) by (auto simp: secret_ok_def list_ex_iff blank_def)
  have lit: "js ''Bearer '' = [66, 101, 97, 114, 101, 114, 32]" "map fold_case [66, 101, 97, 114, 101, 114] = js ''bearer''" by code_simp+
  have "blank 32" by (simp add: blank_def)
  have "dropWhile blank secret = secret" using clean ne by (cases secret) auto
  moreover have "\<exists>x \<in> set secret. \<not> blank x" using clean ne by (cases secret) auto
  ultimately show "bearerToken rq = Some secret"
    using clean ne assms(1) lit \<open>blank 32\<close> by (simp add: bearerToken_def prefix_ci_def)
  show "strip_bearer secret = secret" using clean by (rule no_blank_stripped)
qed


section \<open>Stored records\<close>

text \<open>
  C36. Every stored token is well formed, whatever sequence of calls led to it: identifiers, names and
  scopes are within their alphabets and lengths and free of duplicates, the role is one of the four
  that tokens may have, the hash is \<open>sha256:\<close> and 64 lower-case hexadecimal digits, the expiry is a
  date, and identifiers and hashes are unique.
\<close>

theorem stored_tokens_are_well_formed:
  assumes "reach (\<lambda>s. s = no_tokens) (token_step sha) s" and "digest_function sha"
  shows "memory_ok s \<and> (\<forall>r \<in> set (my_records s). token_record_ok r)"
  using reach_store_ok [OF assms(2,1)] by (simp add: store_ok_def)

text \<open>
  The PostgreSQL row codec loses nothing: reading back the row that is written for a stored token
  gives the same record, revoked or not, so both repositories hold the same data.
\<close>

theorem token_rows_round_trip:
  assumes "reach (\<lambda>s. s = no_tokens) (token_step sha) s" and "digest_function sha" and "r \<in> set (my_records s)"
  shows "rowToRecord h jsonParse (insertRow r) = Inr r"
  using reach_store_ok [OF assms(2,1)] assms(3) by (auto simp: store_ok_def intro: rowToRecord_insertRow)

section \<open>Scope intersection\<close>

section \<open>A run\<close>

definition demo_sha :: "nat list \<Rightarrow> nat list" where
  "demo_sha bs = take 32 (map (\<lambda>b. b mod 256) bs @ replicate 32 0)"

lemma demo_sha_digest: "digest_function demo_sha"
  by (auto simp: digest_function_def demo_sha_def min_def dest!: in_set_takeD)

definition demo_host :: host where
  "demo_host = \<lparr>localeCompare = jstr_cmp, digestBytes = (\<lambda>_. []), dateParse = (\<lambda>_. None), stringToNumber = (\<lambda>_. NaN), parseUrl = (\<lambda>_. None), toLowerCase = (\<lambda>s. s), toISOString = (\<lambda>_. [])\<rparr>"

definition demo_env :: "int \<Rightarrow> token_env" where
  "demo_env now = \<lparr>te_host = demo_host, te_now = (\<lambda>_. now),
     te_membership = (\<lambda>org user. Some (Some \<lparr>mb_userId = user, mb_organizationId = org, mb_roles = JArr [JStr (js ''publisher'')],
       mb_role = JUndefined, mb_scopes = JUndefined, mb_active = None\<rparr>)),
     te_uuid = js ''one'', te_secret = (\<lambda>k. js ''psk_aaaaaaaaaaaaaaaaaaaa'' @ [97 + k]), te_sha256 = demo_sha,
     te_defaultTtl = 60, te_maxTtl = 3600, te_maxList = 100\<rparr>"

definition demo_session :: jsval where
  "demo_session = JObj [(js ''userId'', JStr (js ''ann'')), (js ''organizationId'', JStr (js ''org''))]"

definition demo_input :: create_token_input where
  "demo_input = \<lparr>ci_name = JStr (js ''ci''), ci_roleCeiling = JStr (js ''reader''), ci_role = JUndefined,
     ci_scopes = JArr [JStr (js ''skills:read'')], ci_expiresAt = JUndefined, ci_expiresInSeconds = JUndefined, ci_organizationId = JUndefined\<rparr>"

abbreviation "demo_creation \<equiv> createToken memory_repository (demo_env 1000) demo_session demo_input no_tokens"

definition demo_tokens :: memory_tokens where
  "demo_tokens = (case demo_creation of Inr (s', _) \<Rightarrow> s' | Inl _ \<Rightarrow> no_tokens)"

definition demo_secret :: jstring where "demo_secret = js ''psk_aaaaaaaaaaaaaaaaaaaaa''"

lemma demo_created:
  obtains ev md where "demo_creation = Inr (demo_tokens, ev, md, demo_secret)" and "tm_id md = js ''st_one''" and "tm_expiresAt md = Stamp 61000"
    and "tm_organizationId md = js ''org''" and "tm_userId md = js ''ann''"
proof -
  have ok: "case demo_creation of Inl _ \<Rightarrow> False | Inr (s', ev, md, secret) \<Rightarrow> secret = demo_secret \<and> tm_id md = js ''st_one'' \<and>
    tm_expiresAt md = Stamp 61000 \<and> tm_organizationId md = js ''org'' \<and> tm_userId md = js ''ann''" by code_simp
  then obtain s' ev md where "demo_creation = Inr (s', ev, md, demo_secret)" "tm_id md = js ''st_one''" "tm_expiresAt md = Stamp 61000"
    "tm_organizationId md = js ''org''" "tm_userId md = js ''ann''"
    by (auto split: sum.splits)
  then show thesis using that by (simp add: demo_tokens_def)
qed

lemma demo_reach: "reach (\<lambda>s. s = no_tokens) (token_step demo_sha) demo_tokens"
proof (rule reach_step [OF reach_init])
  show "token_step demo_sha no_tokens demo_tokens"
    by (rule demo_created, rule token_create [of "demo_env 1000"]) (auto simp: demo_env_def)
qed simp

definition demo_request :: "string \<Rightarrow> string \<Rightarrow> http_request" where
  "demo_request verb path = \<lparr>rq_url = js path, rq_method = js verb,
     rq_header = (\<lambda>h. if h = ''authorization'' then Some (js ''Bearer '' @ demo_secret) else None), rq_body = None\<rparr>"

definition demo_se :: session_env where
  "demo_se = \<lparr>se_env = demo_env 2000, se_session = (\<lambda>_. None), se_hmac = None, se_cookieName = js ''pskills_session'',
     se_secureCookies = True, se_jsonParse = (\<lambda>_. None),
     se_url = (\<lambda>u. Some \<lparr>tu_origin = js ''https://x'', tu_username = [], tu_password = [], tu_pathname = u, tu_search = [], tu_hash = [],
       tu_query = (\<lambda>_. None)\<rparr>), se_utcString = (\<lambda>_. [])\<rparr>"

definition demo_config :: handler_config where
  "demo_config = \<lparr>hc_prefix = js ''/v1/tokens'', hc_maxBodyBytes = 65536, hc_trustedOrigins = [js ''https://x''], hc_missingOrigin = DenyMissing\<rparr>"

abbreviation "demo_get \<equiv> demo_request ''GET'' ''/v1/tokens''"

lemma demo_authenticated:
  obtains p where "authenticate memory_repository demo_se demo_get demo_tokens = Some p" and "tp_tokenId p = js ''st_one''"
proof -
  have "case authenticate memory_repository demo_se demo_get demo_tokens of None \<Rightarrow> False | Some p \<Rightarrow> tp_tokenId p = js ''st_one''" by code_simp
  then show thesis using that by (auto split: option.splits)
qed


theorem creation_cannot_escalate_witness:
  "\<exists>r expiry. my_records demo_tokens = [r] \<and> tk_expiresAt r = Stamp expiry \<and> 1000 \<le> expiry \<and> expiry \<le> 3601999 \<and>
    tk_tokenHash r = token_hash (demo_env 1000) demo_secret"
proof -
  obtain ev md where c: "demo_creation = Inr (demo_tokens, ev, md, demo_secret)" by (rule demo_created)
  have env: "te_now (demo_env 1000) 0 = 1000" "te_maxTtl (demo_env 1000) = 3600" by (simp_all add: demo_env_def)
  obtain r expiry where r: "my_records demo_tokens = my_records no_tokens @ [r]" "tk_expiresAt r = Stamp expiry" "1000 \<le> expiry"
    "of_int expiry \<le> (3601999 :: rat)" "tk_tokenHash r = token_hash (demo_env 1000) demo_secret"
    using creation_cannot_escalate [OF c] by (auto simp: env)
  have "expiry \<le> 3601999" using r(4) of_int_le_iff [of expiry 3601999, where ?'a = rat] by simp
  then show ?thesis using r by (auto simp: no_tokens_def)
qed

definition demo_next :: "jstring \<Rightarrow> token_record" where
  "demo_next h = (hd (my_records demo_tokens))\<lparr>tk_id := js ''st_two'', tk_tokenHash := h\<rparr>"


abbreviation "demo_revocation \<equiv> revokeToken memory_repository (demo_env 3000) demo_session (JStr (js ''st_one'')) demo_tokens"

theorem revoked_token_never_authenticates_witness:
  "\<exists>t ev md. demo_revocation = Inr (t, ev, md) \<and> tm_id md = js ''st_one'' \<and>
    (case authenticate memory_repository demo_se demo_get t of None \<Rightarrow> True | Some p \<Rightarrow> tp_tokenId p \<noteq> js ''st_one'')"
proof -
  have "case demo_revocation of Inl _ \<Rightarrow> False | Inr (t, ev, md) \<Rightarrow> tm_id md = js ''st_one''" by code_simp
  then obtain t ev md where r: "demo_revocation = Inr (t, ev, md)" "tm_id md = js ''st_one''" by (auto split: sum.splits)
  have "te_sha256 (demo_env 3000) = demo_sha" by (simp add: demo_env_def)
  from revoked_token_never_authenticates [OF demo_reach r(1) this rtranclp.rtrancl_refl, of demo_se demo_get] show ?thesis
    using r by (auto split: option.splits)
qed

theorem listings_are_confined_witness:
  "\<exists>md. token_handler demo_config memory_repository demo_se demo_get demo_tokens = (demo_tokens, None, Some (ListResponse [md])) \<and>
    tm_organizationId md = js ''org''"
proof -
  have "case token_handler demo_config memory_repository demo_se demo_get demo_tokens of
    (_, _, Some (ListResponse [md])) \<Rightarrow> tm_organizationId md = js ''org'' | _ \<Rightarrow> False" by code_simp
  then obtain s' ev md where run: "token_handler demo_config memory_repository demo_se demo_get demo_tokens = (s', ev, Some (ListResponse [md]))"
    "tm_organizationId md = js ''org''"
    by (auto split: prod.splits option.splits token_response.splits list.splits)
  from listings_are_confined [OF demo_reach demo_sha_digest run(1)] show ?thesis using run by auto
qed

abbreviation "demo_delete \<equiv> demo_request ''DELETE'' ''/v1/tokens/st_one''"



theorem stored_tokens_are_well_formed_witness:
  "\<exists>r. my_records demo_tokens = [r] \<and> token_record_ok r"
proof -
  have "case my_records demo_tokens of [r] \<Rightarrow> True | _ \<Rightarrow> False" by code_simp
  then obtain r where "my_records demo_tokens = [r]" by (auto split: list.splits)
  then show ?thesis using stored_tokens_are_well_formed [OF demo_reach demo_sha_digest] by auto
qed

theorem token_rows_round_trip_witness:
  "my_records demo_tokens \<noteq> [] \<and> rowToRecord demo_host (\<lambda>_. None) (insertRow (hd (my_records demo_tokens))) = Inr (hd (my_records demo_tokens))"
proof -
  have ne: "my_records demo_tokens \<noteq> []" by code_simp
  then show ?thesis using token_rows_round_trip [OF demo_reach demo_sha_digest, of "hd (my_records demo_tokens)"] by simp
qed

end
