(* ===== verification/Bundle.thy ===== *)
theory Bundle
  imports Json Redaction
begin

text \<open>
  Distribution bundles, the first part of \<open>packages/storage/src/bundle.ts\<close>: canonical base64, path
  safety, bundle validation, and the deterministic JSON encoding whose bytes are hashed and stored.
  Unicode normalisation and case mapping are arguments; an error keeps its code, not its text.
\<close>

datatype bundle_error = BundleValidationError (be_code: string)

type_synonym 'a bundled = "bundle_error + 'a"

abbreviation invalid_bundle :: bundle_error where "invalid_bundle \<equiv> BundleValidationError ''invalid_bundle''"

text \<open>\<open>String.prototype.normalize('NFC')\<close>, \<open>String.prototype.toLowerCase\<close> and the numbers of \<open>JSON.parse\<close>.\<close>

record unicode =
  uc_nfc :: "jstring \<Rightarrow> jstring"
  uc_lower :: "jstring \<Rightarrow> jstring"
  uc_number :: "jstring \<Rightarrow> jnum"

definition MAX_BUNDLE_FILES :: nat where "MAX_BUNDLE_FILES = 2000"
definition MAX_FILE_BYTES :: nat where "MAX_FILE_BYTES = 10485760"
definition MAX_BUNDLE_BYTES :: nat where "MAX_BUNDLE_BYTES = 104857600"
definition MAX_FILE_BASE64_CHARS :: nat where "MAX_FILE_BASE64_CHARS = (MAX_FILE_BYTES + 2) div 3 * 4"

section \<open>Base64\<close>

text \<open>\<open>btoa\<close> and \<open>atob\<close> of the platform, over bytes.\<close>

definition base64_char :: "nat \<Rightarrow> nat" where
  "base64_char d = (if d < 26 then 65 + d else if d < 52 then 71 + d else if d < 62 then d - 4 else if d = 62 then 43 else 47)"

fun sextets :: "nat list \<Rightarrow> nat list" where
  "sextets [] = []"
| "sextets [a] = [a div 4, a mod 4 * 16]"
| "sextets [a, b] = [a div 4, a mod 4 * 16 + b div 16, b mod 16 * 4]"
| "sextets (a # b # c # r) = a div 4 # (a mod 4 * 16 + b div 16) # (b mod 16 * 4 + c div 64) # c mod 64 # sextets r"

definition padding :: "nat \<Rightarrow> nat" where
  "padding n = (if n mod 3 = 1 then 2 else if n mod 3 = 2 then 1 else 0)"

definition btoa :: "nat list \<Rightarrow> jstring" where
  "btoa bytes = map base64_char (sextets bytes) @ replicate (padding (length bytes)) 61"

definition base64Sextet :: "nat \<Rightarrow> int" where
  "base64Sextet code =
     (if 65 \<le> code \<and> code \<le> 90 then int code - 65
      else if 97 \<le> code \<and> code \<le> 122 then int code - 97 + 26
      else if 48 \<le> code \<and> code \<le> 57 then int code - 48 + 52
      else if code = 43 then 62 else if code = 47 then 63 else - 1)"

fun unsextets :: "nat list \<Rightarrow> nat list" where
  "unsextets (x # y # z # w # r) = (x * 4 + y div 16) # (y mod 16 * 16 + z div 4) # (z mod 4 * 64 + w) # unsextets r"
| "unsextets [x, y, z] = [x * 4 + y div 16, y mod 16 * 16 + z div 4]"
| "unsextets [x, y] = [x * 4 + y div 16]"
| "unsextets _ = []"

text \<open>The forgiving decoder: white space is dropped, then up to two padding marks at the end.\<close>

definition strip_padding :: "jstring \<Rightarrow> jstring" where
  "strip_padding s =
     (if length s mod 4 \<noteq> 0 then s
      else if s \<noteq> [] \<and> last s = 61 then (if butlast s \<noteq> [] \<and> last (butlast s) = 61 then butlast (butlast s) else butlast s)
      else s)"

definition atob :: "jstring \<Rightarrow> nat list option" where
  "atob s =
     (let data = strip_padding (filter (\<lambda>c. c \<notin> {9, 10, 12, 13, 32}) s) in
      if length data mod 4 = 1 \<or> \<not> list_all (\<lambda>c. base64Sextet c \<ge> 0) data then None
      else Some (unsextets (map (\<lambda>c. nat (base64Sextet c)) data)))"

text \<open>The loop of \<open>isCanonicalBase64\<close>: the number of padding marks, \<open>None\<close> once it returned \<open>false\<close>.\<close>

fun canonical_scan :: "nat \<Rightarrow> nat \<Rightarrow> nat \<Rightarrow> jstring \<Rightarrow> nat option" where
  "canonical_scan len index pad [] = Some pad"
| "canonical_scan len index pad (code # r) =
     (if code = 61 then
        (if int index < int len - 2 \<or> pad + 1 > 2 then None else canonical_scan len (index + 1) (pad + 1) r)
      else if pad > 0 \<or> base64Sextet code < 0 then None
      else canonical_scan len (index + 1) pad r)"

definition isCanonicalBase64 :: "jstring \<Rightarrow> bool" where
  "isCanonicalBase64 s =
     (if s = [] then True
      else if length s mod 4 \<noteq> 0 then False
      else (case canonical_scan (length s) 0 0 s of
          None \<Rightarrow> False
        | Some pad \<Rightarrow>
            if pad = 0 then True
            else (let finalSextet = base64Sextet (s ! (length s - pad - 1)); unusedBits = (if pad = 2 then 4 else 2) in
                  finalSextet \<ge> 0 \<and> nat finalSextet mod 2 ^ unusedBits = 0)))"

definition decodeBase64 :: "jsval \<Rightarrow> nat list bundled" where
  "decodeBase64 v =
     (case str_of v of
        None \<Rightarrow> Inl (BundleValidationError ''invalid_base64'')
      | Some s \<Rightarrow>
          if \<not> isCanonicalBase64 s then Inl (BundleValidationError ''invalid_base64'')
          else (case atob s of
              None \<Rightarrow> Inl (BundleValidationError ''invalid_base64'')
            | Some bytes \<Rightarrow> if btoa bytes \<noteq> s then Inl (BundleValidationError ''invalid_base64'') else Inr bytes))"

section \<open>Paths\<close>

text \<open>
  \<open>hasLoneSurrogate\<close>. Past the end \<open>charCodeAt\<close> gives \<open>NaN\<close>, which is neither below nor above the range
  of low surrogates.
\<close>

fun hasLoneSurrogate :: "jstring \<Rightarrow> bool" where
  "hasLoneSurrogate [] = False"
| "hasLoneSurrogate (code # r) =
     (if is_high code then (case r of [] \<Rightarrow> False | n # r' \<Rightarrow> if \<not> is_low n then True else hasLoneSurrogate r')
      else if is_low code then True
      else hasLoneSurrogate r)"

definition RESERVED_AGENT_SEGMENTS :: "string list" where
  "RESERVED_AGENT_SEGMENTS = [''.agents'', ''.claude-plugin'', ''.codex'', ''.cursor'', ''.mcp'', ''.mcp.json'', ''.windsurf'']"

definition isPluginEnablingPath :: "unicode \<Rightarrow> jstring \<Rightarrow> bool" where
  "isPluginEnablingPath uc path \<longleftrightarrow>
     list_ex (\<lambda>segment. segment \<in> set (map js RESERVED_AGENT_SEGMENTS)) (split_on 47 (uc_lower uc path))"

definition pathCollisionKey :: "unicode \<Rightarrow> jstring \<Rightarrow> jstring" where
  "pathCollisionKey uc path = uc_lower uc (uc_nfc uc path)"

text \<open>\<open>/^(?:con|prn|aux|nul|com[1-9]|lpt[1-9])(?:\..*)?$/iu\<close>; the dot matches no line terminator.\<close>

definition reserved_names :: "string list" where
  "reserved_names = [''con'', ''prn'', ''aux'', ''nul'', ''com1'', ''com2'', ''com3'', ''com4'', ''com5'', ''com6'', ''com7'', ''com8'', ''com9'',
     ''lpt1'', ''lpt2'', ''lpt3'', ''lpt4'', ''lpt5'', ''lpt6'', ''lpt7'', ''lpt8'', ''lpt9'']"

definition windows_reserved :: "jstring \<Rightarrow> bool" where
  "windows_reserved segment \<longleftrightarrow>
     list_ex (\<lambda>name. prefix_ci name segment \<and>
       (case drop (length name) segment of [] \<Rightarrow> True | c # r \<Rightarrow> c = 46 \<and> list_all (\<lambda>x. x \<notin> {10, 13, 8232, 8233}) r)) reserved_names"

definition contains_pair :: "nat \<Rightarrow> nat \<Rightarrow> jstring \<Rightarrow> bool" where
  "contains_pair a b s \<longleftrightarrow> list_ex (\<lambda>(x, y). x = a \<and> y = b) (zip s (tl s))"

fun check_segments :: "jstring list \<Rightarrow> unit bundled" where
  "check_segments [] = Inr ()"
| "check_segments (segment # segments) =
     (if segment = [] \<or> segment = js ''.'' \<or> segment = js ''..'' \<or> ends_with (js ''.'') segment \<or> ends_with (js '' '') segment
         \<or> windows_reserved segment
      then Inl (BundleValidationError ''unsafe_path'')
      else if length (utf8_encode segment) > 255 then Inl (BundleValidationError ''path_too_long'')
      else check_segments segments)"

definition validatePath :: "unicode \<Rightarrow> jsval \<Rightarrow> jstring bundled" where
  "validatePath uc v =
     (case str_of v of
        None \<Rightarrow> Inl (BundleValidationError ''invalid_path'')
      | Some path \<Rightarrow>
          if path = [] then Inl (BundleValidationError ''invalid_path'')
          else if hasLoneSurrogate path \<or> path \<noteq> uc_nfc uc path then Inl (BundleValidationError ''invalid_path'')
          else if length path > 4096 \<or> starts_with (js ''/'') path \<or> ends_with (js ''/'') path \<or> 92 \<in> set path \<or> 58 \<in> set path
                  \<or> contains_pair 47 47 path \<or> list_ex (\<lambda>c. c \<in> {60, 62, 34, 124, 63, 42}) path \<or> list_ex is_control path
            then Inl (BundleValidationError ''unsafe_path'')
          else bindr (check_segments (split_on 47 path)) (\<lambda>_. Inr path))"

section \<open>Validation\<close>

record bundle_file =
  bf_path :: jstring
  bf_content :: jstring
  bf_executable :: bool

fun own_keys :: "jsval \<Rightarrow> jstring list" where
  "own_keys (JObj ps) = map fst ps"
| "own_keys _ = []"

definition assertOnlyKeys :: "jsval \<Rightarrow> string list \<Rightarrow> unit bundled" where
  "assertOnlyKeys v allowed =
     (if list_all (\<lambda>k. k \<in> set (map js allowed)) (own_keys v) then Inr () else Inl (BundleValidationError ''unsupported_property''))"

definition validateFile :: "unicode \<Rightarrow> jsval \<Rightarrow> (bundle_file \<times> nat) bundled" where
  "validateFile uc v =
     (if \<not> is_object v then Inl (BundleValidationError ''invalid_file'')
      else
        bindr (assertOnlyKeys v [''path'', ''content'', ''executable'']) (\<lambda>_.
        bindr (validatePath uc (get_prop v ''path'')) (\<lambda>path.
        if isPluginEnablingPath uc path then Inl (BundleValidationError ''plugin_payload'')
        else (case str_of (get_prop v ''content'') of
            None \<Rightarrow> Inl (BundleValidationError ''invalid_content'')
          | Some content \<Rightarrow>
              if hasLoneSurrogate content then Inl (BundleValidationError ''invalid_base64'')
              else
                bindr (case get_prop v ''executable'' of JUndefined \<Rightarrow> Inr False | JBool b \<Rightarrow> Inr b
                       | _ \<Rightarrow> Inl (BundleValidationError ''invalid_executable'')) (\<lambda>executable.
                if length content > MAX_FILE_BASE64_CHARS then Inl (BundleValidationError ''file_too_large'')
                else
                  bindr (decodeBase64 (JStr content)) (\<lambda>bytes.
                  if length bytes > MAX_FILE_BYTES then Inl (BundleValidationError ''file_too_large'')
                  else Inr (\<lparr>bf_path = path, bf_content = content, bf_executable = executable\<rparr>, length bytes)))))))"

text \<open>The loop over the files: the collision keys seen so far and the running total of decoded bytes.\<close>

fun validate_files :: "unicode \<Rightarrow> jstring list \<Rightarrow> nat \<Rightarrow> jsval list \<Rightarrow> bundle_file list bundled" where
  "validate_files uc seen totalBytes [] = Inr []"
| "validate_files uc seen totalBytes (v # vs) =
     bindr (validateFile uc v) (\<lambda>(file, decodedBytes).
     let key = pathCollisionKey uc (bf_path file); totalBytes' = totalBytes + decodedBytes in
     if key \<in> set seen then Inl (BundleValidationError ''path_collision'')
     else if totalBytes' > MAX_BUNDLE_BYTES then Inl (BundleValidationError ''bundle_too_large'')
     else bindr (validate_files uc (key # seen) totalBytes' vs) (\<lambda>files. Inr (file # files)))"

definition validateBundle :: "unicode \<Rightarrow> jsval \<Rightarrow> bundle_file list bundled" where
  "validateBundle uc v =
     (if \<not> is_object v then Inl invalid_bundle
      else
        bindr (assertOnlyKeys v [''format'', ''files'']) (\<lambda>_.
        if get_prop v ''format'' \<noteq> JStr (js ''pskills-bundle-v1'') then Inl (BundleValidationError ''invalid_format'')
        else (case arr_of (get_prop v ''files'') of
            None \<Rightarrow> Inl (BundleValidationError ''invalid_files'')
          | Some vs \<Rightarrow>
              if vs = [] then Inl (BundleValidationError ''empty_bundle'')
              else if length vs > MAX_BUNDLE_FILES then Inl (BundleValidationError ''too_many_files'')
              else validate_files uc [] 0 vs)))"

section \<open>The canonical encoding\<close>

definition comparePaths :: "bundle_file \<Rightarrow> bundle_file \<Rightarrow> int" where
  "comparePaths l r = jstr_cmp (bf_path l) (bf_path r)"

definition file_value :: "bundle_file \<Rightarrow> jsval" where
  "file_value f = JObj ([(js ''path'', JStr (bf_path f)), (js ''content'', JStr (bf_content f))]
     @ (if bf_executable f then [(js ''executable'', JBool True)] else []))"

definition bundle_value :: "bundle_file list \<Rightarrow> jsval" where
  "bundle_value fs = JObj [(js ''format'', JStr (js ''pskills-bundle-v1'')), (js ''files'', JArr (map file_value fs))]"

definition encodeBundle :: "unicode \<Rightarrow> jsval \<Rightarrow> nat list bundled" where
  "encodeBundle uc bundle =
     bindr (validateBundle uc bundle) (\<lambda>normalized.
     Inr (utf8_encode (json_text (bundle_value (sort_by comparePaths normalized)))))"

definition decodeBundle :: "unicode \<Rightarrow> nat list \<Rightarrow> bundle_file list bundled" where
  "decodeBundle uc bytes =
     (if take 3 bytes = [239, 187, 191] then Inl invalid_bundle
      else (case text_decode bytes of
          None \<Rightarrow> Inl invalid_bundle
        | Some decoded \<Rightarrow>
            (case json_parse (uc_number uc) decoded of
               None \<Rightarrow> Inl invalid_bundle
             | Some parsed \<Rightarrow>
                 bindr (validateBundle uc parsed) (\<lambda>normalized.
                 bindr (encodeBundle uc (bundle_value normalized)) (\<lambda>canonical.
                 if canonical \<noteq> bytes then Inl (BundleValidationError ''non_canonical'') else Inr normalized)))))"

end
