(* ===== verification/Bundle_Guarantees.thy ===== *)
theory Bundle_Guarantees
  imports Bundle
begin

text \<open>
  What bundles promise: the linear base64 check accepts exactly the canonical spellings, accepted
  paths stay inside the installation and cannot collide, validation is idempotent, and the encoding
  is a bijection between accepted bundles up to file order and accepted byte strings.
\<close>

section \<open>Base64\<close>

abbreviation is_bytes :: "nat list \<Rightarrow> bool" where
  "is_bytes bs \<equiv> list_all (\<lambda>b. b < 256) bs"

lemma base64_char_sextet: "d < 64 \<Longrightarrow> base64Sextet (base64_char d) = int d"
  by (auto simp: base64_char_def base64Sextet_def)

lemma base64_sextet_char: "base64Sextet c \<ge> 0 \<Longrightarrow> base64_char (nat (base64Sextet c)) = c \<and> nat (base64Sextet c) < 64"
  by (auto simp: base64_char_def base64Sextet_def nat_diff_distrib' nat_add_distrib split: if_splits)

lemma base64_char_plain: "d < 64 \<Longrightarrow> base64_char d \<noteq> 61 \<and> base64_char d \<notin> {9, 10, 12, 13, 32}"
  by (auto simp: base64_char_def)

lemma sextets_less: "is_bytes bs \<Longrightarrow> list_all (\<lambda>d. d < 64) (sextets bs)"
proof (induction bs rule: sextets.induct)
  case (3 a b)
  then have "a mod 4 * 16 + b div 16 < 64" using mod_less_divisor [of 4 a] by (auto simp: less_mult_imp_div_less)
  then show ?case using 3 by (auto simp: less_mult_imp_div_less)
next
  case (4 a b c r)
  then have "a mod 4 * 16 + b div 16 < 64" "b mod 16 * 4 + c div 64 < 64"
    using mod_less_divisor [of 4 a] mod_less_divisor [of 16 b] by (auto simp: less_mult_imp_div_less)
  then show ?case using 4 by (auto simp: less_mult_imp_div_less)
qed auto

lemma regroup_sextets:
  fixes a b c :: nat
  assumes "b < 256" and "c < 256"
  shows "a div 4 * 4 + (a mod 4 * 16 + b div 16) div 16 = a"
    and "(a mod 4 * 16 + b div 16) mod 16 * 16 + (b mod 16 * 4 + c div 64) div 4 = b"
    and "(b mod 16 * 4 + c div 64) mod 4 * 64 + c mod 64 = c"
    and "(a mod 4 * 16 + b div 16) mod 16 * 16 + b mod 16 * 4 div 4 = b"
  using assms by (auto simp: div_add1_eq mod_add_eq less_mult_imp_div_less)

lemma unsextets_sextets: "is_bytes bs \<Longrightarrow> unsextets (sextets bs) = bs"
  by (induction bs rule: sextets.induct) (auto simp: regroup_sextets)

text \<open>The digits and padding of a canonical spelling.\<close>

definition canonical_digits :: "nat list \<Rightarrow> nat \<Rightarrow> bool" where
  "canonical_digits ds p \<longleftrightarrow> list_all (\<lambda>d. d < 64) ds \<and> (length ds + p) mod 4 = 0 \<and> p \<le> 2 \<and>
     (p = 2 \<longrightarrow> last ds mod 16 = 0) \<and> (p = 1 \<longrightarrow> last ds mod 4 = 0)"

lemma canonical_digits_Cons4:
  "canonical_digits (x # y # z # w # ds) p \<longleftrightarrow> x < 64 \<and> y < 64 \<and> z < 64 \<and> w < 64 \<and> canonical_digits ds p"
proof (cases "ds = []")
  case True
  have "(4 + p) mod 4 = 0 \<and> p \<le> 2 \<longleftrightarrow> p = 0" "p mod 4 = 0 \<and> p \<le> 2 \<longleftrightarrow> p = 0" by presburger+
  then show ?thesis using True by (auto simp: canonical_digits_def)
next
  case False
  have "(length ds + 4 + p) mod 4 = (length ds + p) mod 4" by presburger
  then show ?thesis using False by (auto simp: canonical_digits_def add.commute add.left_commute)
qed

lemma sextets_canonical: "is_bytes bs \<Longrightarrow> canonical_digits (sextets bs) (padding (length bs))"
proof (induction bs rule: sextets.induct)
  case (4 a b c r)
  have "padding (length (a # b # c # r)) = padding (length r)" by (simp add: padding_def)
  moreover have "list_all (\<lambda>d. d < 64) (sextets (a # b # c # r))" using 4 by (intro sextets_less) simp
  ultimately show ?case using 4 by (simp add: canonical_digits_Cons4)
next
  case (3 a b)
  have "list_all (\<lambda>d. d < 64) (sextets [a, b])" using 3 by (intro sextets_less) simp
  then show ?case by (auto simp: canonical_digits_def padding_def)
qed (auto simp: canonical_digits_def padding_def less_mult_imp_div_less)

lemma canonical_digits_cases:
  assumes "canonical_digits ds p"
  obtains "ds = []" "p = 0" | x y where "ds = [x, y]" "p = 2" | x y z where "ds = [x, y, z]" "p = 1"
    | x y z w r where "ds = x # y # z # w # r" "canonical_digits r p"
proof -
  have "(length ds + p) mod 4 = 0" "p \<le> 2" using assms by (simp_all add: canonical_digits_def)
  then have "length ds \<noteq> 1 \<and> (length ds = 0 \<longrightarrow> p = 0) \<and> (length ds = 2 \<longrightarrow> p = 2) \<and> (length ds = 3 \<longrightarrow> p = 1)"
    by presburger
  then show thesis
  proof (cases ds rule: unsextets.cases)
    case (1 x y z w r)
    have "canonical_digits r p" using assms by (simp add: 1 canonical_digits_Cons4)
    then show thesis using that(4) 1 by blast
  qed (use that in auto)
qed

lemma unsextets_canonical:
  "canonical_digits ds p \<Longrightarrow> is_bytes (unsextets ds) \<and> sextets (unsextets ds) = ds \<and> padding (length (unsextets ds)) = p"
proof (induction ds rule: unsextets.induct)
  case (1 x y z w r)
  from "1.prems" have r: "canonical_digits r p" and d: "x < 64" "y < 64" "z < 64" "w < 64"
    by (auto simp: canonical_digits_Cons4)
  have "padding (length (unsextets (x # y # z # w # r))) = padding (length (unsextets r))" by (simp add: padding_def)
  then show ?case using "1.IH" [OF r] d by auto
next
  case (2 x y z)
  then have "p = 1" "x < 64" "y < 64" "z < 64" "z mod 4 = 0" by (auto simp: canonical_digits_def) presburger+
  then show ?case by (auto simp: padding_def)
next
  case (3 x y)
  then have "p = 2" "x < 64" "y < 64" "y mod 16 = 0" by (auto simp: canonical_digits_def) presburger+
  then show ?case by (auto simp: padding_def)
qed (auto elim: canonical_digits_cases simp: padding_def)

text \<open>The scan: the digits first, then the padding.\<close>

lemma scan_padding:
  "canonical_scan len i pad s = Some p \<Longrightarrow> 0 < pad \<Longrightarrow> pad \<le> 2 \<Longrightarrow> s = replicate (p - pad) 61 \<and> pad \<le> p \<and> p \<le> 2"
proof (induction s arbitrary: i pad)
  case (Cons c s)
  then have "c = 61" "pad + 1 \<le> 2" "canonical_scan len (i + 1) (pad + 1) s = Some p" by (auto split: if_splits)
  with Cons.IH [of "i + 1" "pad + 1"] show ?case by (auto simp: Suc_diff_le simp flip: replicate_Suc)
qed simp

lemma scan_shape:
  "canonical_scan len i 0 s = Some p \<Longrightarrow>
    p \<le> 2 \<and> (\<exists>ds. list_all (\<lambda>d. d < 64) ds \<and> s = map base64_char ds @ replicate p 61)"
proof (induction s arbitrary: i)
  case (Cons c s)
  show ?case
  proof (cases "c = 61")
    case True
    then have "canonical_scan len (i + 1) 1 s = Some p" using Cons.prems by (auto split: if_splits)
    from scan_padding [OF this] have p: "s = replicate (p - 1) 61" "1 \<le> p" "p \<le> 2" by auto
    then have "c # s = map base64_char [] @ replicate p 61" using True by (cases p) auto
    then show ?thesis using p(3) by (metis list.pred_inject(1))
  next
    case False
    then have sx: "base64Sextet c \<ge> 0" and "canonical_scan len (i + 1) 0 s = Some p" using Cons.prems by (auto split: if_splits)
    with Cons.IH obtain ds where ds: "p \<le> 2" "list_all (\<lambda>d. d < 64) ds" "s = map base64_char ds @ replicate p 61" by blast
    let ?d = "nat (base64Sextet c)"
    have "list_all (\<lambda>d. d < 64) (?d # ds)" "c # s = map base64_char (?d # ds) @ replicate p 61"
      using base64_sextet_char [OF sx] ds by auto
    then show ?thesis using ds(1) by blast
  qed
qed simp

lemma scan_pads: "i + n = len \<Longrightarrow> pad + n \<le> 2 \<Longrightarrow> canonical_scan len i pad (replicate n 61) = Some (pad + n)"
  by (induction n arbitrary: i pad) auto

lemma scan_digits:
  "list_all (\<lambda>d. d < 64) ds \<Longrightarrow> p \<le> 2 \<Longrightarrow> i + length ds + p = len \<Longrightarrow>
    canonical_scan len i 0 (map base64_char ds @ replicate p 61) = Some p"
proof (induction ds arbitrary: i)
  case Nil
  then show ?case using scan_pads [of i p len 0] by simp
next
  case (Cons d ds)
  then have "canonical_scan len (i + 1) 0 (map base64_char ds @ replicate p 61) = Some p" by simp
  then show ?case using Cons.prems base64_char_plain [of d] base64_char_sextet [of d] by simp
qed

lemma final_sextet:
  assumes "ds \<noteq> []" and "list_all (\<lambda>d. d < 64) ds"
  shows "base64Sextet ((map base64_char ds @ replicate p 61) ! (length (map base64_char ds @ replicate p 61) - p - 1)) = int (last ds)"
proof -
  have "(map base64_char ds @ replicate p 61) ! (length ds - 1) = base64_char (last ds)"
    using assms(1) by (simp add: nth_append last_conv_nth)
  moreover have "last ds < 64" using assms by (auto simp: list_all_iff)
  ultimately show ?thesis by (simp add: base64_char_sextet)
qed

lemma isCanonicalBase64_digits:
  "isCanonicalBase64 s \<longleftrightarrow> (\<exists>ds p. canonical_digits ds p \<and> s = map base64_char ds @ replicate p 61)"
proof
  assume canon: "isCanonicalBase64 s"
  show "\<exists>ds p. canonical_digits ds p \<and> s = map base64_char ds @ replicate p 61"
  proof (cases "s = []")
    case True
    then show ?thesis by (intro exI [of _ "[]"] exI [of _ 0]) (simp add: canonical_digits_def)
  next
    case False
    then obtain p where len: "length s mod 4 = 0" and scan: "canonical_scan (length s) 0 0 s = Some p"
      using canon by (auto simp: isCanonicalBase64_def split: option.splits if_splits)
    obtain ds where ds: "p \<le> 2" "list_all (\<lambda>d. d < 64) ds" "s = map base64_char ds @ replicate p 61" using scan_shape [OF scan] by blast
    have "ds \<noteq> []"
    proof
      assume "ds = []"
      then have "length s = p" using ds(3) by simp
      then show False using len ds(1) False by (cases "p = 0") auto
    qed
    then have "canonical_digits ds p"
      using canon False scan ds len final_sextet [OF _ ds(2), of p]
      by (auto simp: canonical_digits_def isCanonicalBase64_def Let_def nat_mod_distrib)
    then show ?thesis using ds(3) by blast
  qed
next
  assume "\<exists>ds p. canonical_digits ds p \<and> s = map base64_char ds @ replicate p 61"
  then obtain ds p where ds: "canonical_digits ds p" "s = map base64_char ds @ replicate p 61" by blast
  then have d: "list_all (\<lambda>d. d < 64) ds" "p \<le> 2" "length s mod 4 = 0" by (auto simp: canonical_digits_def)
  have scan: "canonical_scan (length s) 0 0 s = Some p" unfolding ds(2) using d by (intro scan_digits) auto
  have "p \<noteq> 0 \<Longrightarrow> ds \<noteq> []" using ds(1) by (auto elim: canonical_digits_cases)
  moreover consider "p = 0" | "p = 1" | "p = 2" using d(2) by linarith
  ultimately show "isCanonicalBase64 s"
    using ds d scan final_sextet [OF _ d(1), of p]
    by cases (auto simp: isCanonicalBase64_def canonical_digits_def Let_def nat_mod_distrib)
qed

lemma isCanonicalBase64_iff: "isCanonicalBase64 s \<longleftrightarrow> (\<exists>bs. is_bytes bs \<and> btoa bs = s)"
proof
  assume "isCanonicalBase64 s"
  then obtain ds p where "canonical_digits ds p" "s = map base64_char ds @ replicate p 61" unfolding isCanonicalBase64_digits by blast
  then show "\<exists>bs. is_bytes bs \<and> btoa bs = s" using unsextets_canonical [of ds p] by (auto simp: btoa_def)
next
  assume "\<exists>bs. is_bytes bs \<and> btoa bs = s"
  then show "isCanonicalBase64 s" unfolding isCanonicalBase64_digits btoa_def using sextets_canonical by blast
qed

lemma atob_btoa: "is_bytes bs \<Longrightarrow> atob (btoa bs) = Some bs"
proof -
  assume bs: "is_bytes bs"
  have ds: "canonical_digits (sextets bs) (padding (length bs))" using bs by (rule sextets_canonical)
  define p where "p = padding (length bs)"
  let ?cs = "map base64_char (sextets bs)"
  have plain: "\<forall>d \<in> set (sextets bs). base64_char d \<noteq> 61 \<and> base64_char d \<notin> {9, 10, 12, 13, 32} \<and> base64Sextet (base64_char d) = int d"
    using ds base64_char_plain base64_char_sextet by (auto simp: canonical_digits_def list_all_iff)
  then have "filter (\<lambda>c. c \<notin> {9, 10, 12, 13, 32}) (btoa bs) = btoa bs" by (auto simp: btoa_def filter_id_conv)
  moreover have "strip_padding (btoa bs) = ?cs"
  proof -
    have "btoa bs = ?cs @ replicate p 61" by (simp add: btoa_def p_def)
    moreover have "(length ?cs + p) mod 4 = 0" "p \<le> 2" using ds by (auto simp: canonical_digits_def p_def)
    moreover have "?cs \<noteq> [] \<Longrightarrow> last ?cs \<noteq> 61" using plain by (auto simp: last_map)
    ultimately show ?thesis
      by (auto simp: strip_padding_def le_Suc_eq numeral_2_eq_2 butlast_append)
  qed
  moreover have "length ?cs mod 4 \<noteq> 1"
  proof -
    have "(length (sextets bs) + padding (length bs)) mod 4 = 0" "padding (length bs) \<le> 2" using ds by (auto simp: canonical_digits_def)
    then show ?thesis unfolding length_map by presburger
  qed
  moreover have "map (\<lambda>c. nat (base64Sextet c)) ?cs = sextets bs" using plain by (auto simp: map_idI)
  ultimately show ?thesis using plain unsextets_sextets [OF bs] by (simp add: atob_def Let_def list_all_iff)
qed

lemma decodeBase64_iff: "decodeBase64 (JStr s) = Inr bs \<longleftrightarrow> is_bytes bs \<and> btoa bs = s"
proof
  assume "decodeBase64 (JStr s) = Inr bs"
  then have canon: "isCanonicalBase64 s" and at: "atob s = Some bs" and bt: "btoa bs = s"
    by (auto simp: decodeBase64_def split: if_splits option.splits)
  from canon obtain cs where "is_bytes cs" "btoa cs = s" unfolding isCanonicalBase64_iff by blast
  then show "is_bytes bs \<and> btoa bs = s" using at bt atob_btoa by auto
next
  assume "is_bytes bs \<and> btoa bs = s"
  then show "decodeBase64 (JStr s) = Inr bs" using atob_btoa [of bs] isCanonicalBase64_iff [of s] by (auto simp: decodeBase64_def)
qed

section \<open>Validation\<close>

definition decoded_size :: "bundle_file \<Rightarrow> nat" where
  "decoded_size f = (case decodeBase64 (JStr (bf_content f)) of Inl _ \<Rightarrow> 0 | Inr bytes \<Rightarrow> length bytes)"

definition file_ok :: "unicode \<Rightarrow> bundle_file \<Rightarrow> bool" where
  "file_ok uc f \<longleftrightarrow> validatePath uc (JStr (bf_path f)) = Inr (bf_path f) \<and> \<not> isPluginEnablingPath uc (bf_path f) \<and>
     \<not> hasLoneSurrogate (bf_content f) \<and> length (bf_content f) \<le> MAX_FILE_BASE64_CHARS \<and>
     (\<exists>bytes. decodeBase64 (JStr (bf_content f)) = Inr bytes) \<and> decoded_size f \<le> MAX_FILE_BYTES"

definition bundle_ok :: "unicode \<Rightarrow> bundle_file list \<Rightarrow> bool" where
  "bundle_ok uc fs \<longleftrightarrow> fs \<noteq> [] \<and> length fs \<le> MAX_BUNDLE_FILES \<and> list_all (file_ok uc) fs \<and>
     distinct (map (\<lambda>f. pathCollisionKey uc (bf_path f)) fs) \<and> sum_list (map decoded_size fs) \<le> MAX_BUNDLE_BYTES"

lemma validatePath_InrD: "validatePath uc v = Inr p \<Longrightarrow> v = JStr p"
  by (cases v) (auto simp: validatePath_def result_simps split: if_splits)

lemma validateFile_InrD:
  assumes "validateFile uc v = Inr (f, n)"
  shows "file_ok uc f \<and> n = decoded_size f"
proof -
  obtain path content executable bytes where "validatePath uc (get_prop v ''path'') = Inr path" "\<not> isPluginEnablingPath uc path"
    "\<not> hasLoneSurrogate content" "length content \<le> MAX_FILE_BASE64_CHARS" "decodeBase64 (JStr content) = Inr bytes"
    "length bytes \<le> MAX_FILE_BYTES" "f = \<lparr>bf_path = path, bf_content = content, bf_executable = executable\<rparr>" "n = length bytes"
    using assms by (auto simp: validateFile_def result_simps not_less split: if_splits option.splits)
  then show ?thesis using validatePath_InrD by (auto simp: file_ok_def decoded_size_def)
qed

lemma js_names: "js ''path'' \<noteq> js ''content''" "js ''path'' \<noteq> js ''executable''" "js ''content'' \<noteq> js ''executable''" "js ''format'' \<noteq> js ''files''"
  by simp_all

lemma validateFile_value: "file_ok uc f \<Longrightarrow> validateFile uc (file_value f) = Inr (f, decoded_size f)"
  by (cases f) (auto simp: validateFile_def file_value_def file_ok_def assertOnlyKeys_def decoded_size_def not_less)

lemma validate_files_InrD:
  "validate_files uc seen n vs = Inr fs \<Longrightarrow> n \<le> MAX_BUNDLE_BYTES \<Longrightarrow>
    length fs = length vs \<and> list_all (file_ok uc) fs \<and> distinct (map (\<lambda>f. pathCollisionKey uc (bf_path f)) fs) \<and>
    (\<forall>f \<in> set fs. pathCollisionKey uc (bf_path f) \<notin> set seen) \<and> n + sum_list (map decoded_size fs) \<le> MAX_BUNDLE_BYTES"
proof (induction vs arbitrary: seen n fs)
  case (Cons v vs)
  obtain f m gs where v: "validateFile uc v = Inr (f, m)" "pathCollisionKey uc (bf_path f) \<notin> set seen" "n + m \<le> MAX_BUNDLE_BYTES"
    "validate_files uc (pathCollisionKey uc (bf_path f) # seen) (n + m) vs = Inr gs" "fs = f # gs"
    using Cons.prems by (auto simp: result_simps Let_def not_less split: if_splits)
  from Cons.IH [OF v(4,3)] validateFile_InrD [OF v(1)] v(2,5) show ?case by auto
qed simp

lemma validate_files_values:
  "list_all (file_ok uc) fs \<Longrightarrow> distinct (map (\<lambda>f. pathCollisionKey uc (bf_path f)) fs) \<Longrightarrow>
    (\<forall>f \<in> set fs. pathCollisionKey uc (bf_path f) \<notin> set seen) \<Longrightarrow> n + sum_list (map decoded_size fs) \<le> MAX_BUNDLE_BYTES \<Longrightarrow>
    validate_files uc seen n (map file_value fs) = Inr fs"
proof (induction fs arbitrary: seen n)
  case (Cons f fs)
  then have "validate_files uc (pathCollisionKey uc (bf_path f) # seen) (n + decoded_size f) (map file_value fs) = Inr fs"
    by (intro Cons.IH) (auto simp: image_iff)
  then show ?case using Cons.prems validateFile_value [of uc f] by (simp add: Let_def)
qed simp

lemma validateBundle_InrD: "validateBundle uc v = Inr fs \<Longrightarrow> bundle_ok uc fs"
proof -
  assume "validateBundle uc v = Inr fs"
  then obtain vs where "vs \<noteq> []" "length vs \<le> MAX_BUNDLE_FILES" "validate_files uc [] 0 vs = Inr fs"
    by (auto simp: validateBundle_def result_simps not_less split: if_splits option.splits)
  then show ?thesis using validate_files_InrD [of uc "[]" 0 vs fs] by (auto simp: bundle_ok_def)
qed

lemma validateBundle_value: "bundle_ok uc fs \<Longrightarrow> validateBundle uc (bundle_value fs) = Inr fs"
  using validate_files_values [of uc fs "[]" 0]
  by (simp add: validateBundle_def bundle_value_def assertOnlyKeys_def bundle_ok_def)

lemma bundle_ok_perm:
  assumes "mset fs = mset gs" and "bundle_ok uc fs"
  shows "bundle_ok uc gs"
proof -
  have "mset (map decoded_size fs) = mset (map decoded_size gs)"
    "mset (map (\<lambda>f. pathCollisionKey uc (bf_path f)) fs) = mset (map (\<lambda>f. pathCollisionKey uc (bf_path f)) gs)"
    using assms(1) by simp_all
  then have "sum_list (map decoded_size fs) = sum_list (map decoded_size gs)"
    "distinct (map (\<lambda>f. pathCollisionKey uc (bf_path f)) gs) \<longleftrightarrow> distinct (map (\<lambda>f. pathCollisionKey uc (bf_path f)) fs)"
    by (metis sum_mset_sum_list, metis mset_eq_imp_distinct_iff)
  moreover have "set fs = set gs" "length fs = length gs" using assms(1) by (metis mset_eq_setD, metis mset_eq_length)
  ultimately show ?thesis using assms(2) by (auto simp: bundle_ok_def list_all_iff)
qed

section \<open>The encoding\<close>

interpretation path_order: comparator comparePaths
proof unfold_locales
  show "comparePaths x y \<le> 0 \<or> comparePaths y x \<le> 0" for x y
    unfolding comparePaths_def by (rule jstr_order.cmp_total)
  show "comparePaths x y \<le> 0 \<Longrightarrow> comparePaths y z \<le> 0 \<Longrightarrow> comparePaths x z \<le> 0" for x y z
    unfolding comparePaths_def by (rule jstr_order.cmp_trans)
qed

abbreviation sorted_files :: "bundle_file list \<Rightarrow> bundle_file list" where
  "sorted_files fs \<equiv> sort_by comparePaths fs"

lemma sorted_files_perm:
  assumes "bundle_ok uc fs" and "mset fs = mset gs"
  shows "sorted_files fs = sorted_files gs"
proof (rule path_order.sort_by_perm [OF assms(2)])
  fix x y assume xy: "x \<in> set fs" "y \<in> set fs" "comparePaths x y \<le> 0" "comparePaths y x \<le> 0"
  then have "bf_path x = bf_path y"
    using jstr_less_trans [of "bf_path x" "bf_path y" "bf_path x"] by (auto simp: comparePaths_def jstr_cmp_le_iff)
  moreover have "inj_on (\<lambda>f. pathCollisionKey uc (bf_path f)) (set fs)" using assms(1) by (auto simp: bundle_ok_def distinct_map)
  ultimately show "x = y" using xy(1,2) inj_onD [of "\<lambda>f. pathCollisionKey uc (bf_path f)" "set fs" x y] by simp
qed

definition units_ok :: "bundle_file list \<Rightarrow> bool" where
  "units_ok fs \<longleftrightarrow> list_all (\<lambda>f. list_all (\<lambda>c. c < 65536) (bf_path f)) fs"

lemma content_ascii: "file_ok uc f \<Longrightarrow> c \<in> set (bf_content f) \<Longrightarrow> c < 128"
proof -
  assume f: "file_ok uc f" and c: "c \<in> set (bf_content f)"
  then obtain bs where bs: "is_bytes bs" "btoa bs = bf_content f" unfolding file_ok_def decodeBase64_iff by blast
  then have "list_all (\<lambda>d. d < 64) (sextets bs)" using sextets_canonical by (auto simp: canonical_digits_def)
  then show ?thesis using c unfolding bs(2) [symmetric] btoa_def by (auto simp: list_all_iff base64_char_def)
qed

lemma bundle_value_faithful: "bundle_ok uc fs \<Longrightarrow> units_ok fs \<Longrightarrow> json_faithful num (bundle_value fs)"
proof -
  assume ok: "bundle_ok uc fs" and units: "units_ok fs"
  have files: "json_faithful num (file_value f)" if "f \<in> set fs" for f
  proof -
    have f: "file_ok uc f" "\<forall>c \<in> set (bf_path f). c < 65536"
      using that ok units by (auto simp: bundle_ok_def units_ok_def list_all_iff)
    moreover have "\<forall>c \<in> set (bf_content f). c < 65536" using content_ascii [OF f(1)] by fastforce
    moreover have "\<forall>k \<in> {''path'', ''content'', ''executable''}. \<forall>c \<in> set (js k). c < 65536" by code_simp
    ultimately show ?thesis by (auto simp: file_value_def)
  qed
  have "\<forall>k \<in> {''format'', ''files'', ''pskills-bundle-v1''}. \<forall>c \<in> set (js k). c < 65536" by code_simp
  then show ?thesis using files by (auto simp: bundle_value_def)
qed

lemma well_formed_join: "list_all well_formed ss \<Longrightarrow> well_formed sep \<Longrightarrow> well_formed (join sep ss)"
proof -
  assume ss: "list_all well_formed ss" and sep: "well_formed sep"
  have "list_all well_formed r \<Longrightarrow> well_formed (concat (map (\<lambda>x. sep @ x) r))" for r
    using sep by (induction r) (auto intro!: well_formed_append)
  then show ?thesis using ss by (cases ss) (auto simp: join_def intro: well_formed_append)
qed

lemma well_formed_json_quote: "\<forall>c \<in> set s. c < 65536 \<Longrightarrow> well_formed (json_quote s)"
  unfolding json_quote_def
  by (intro well_formed_append well_formed_quote_units) (auto simp: is_high_def is_low_def)

lemma well_formed_json_text: "json_faithful num v \<Longrightarrow> well_formed (json_text v)"
proof (induction v)
  case (JNum n)
  then obtain k where "json_text (JNum n) = decimal k" by auto
  then show ?case using well_formed_ascii [OF decimal_ascii] by simp
next
  case (JArr vs)
  then have "well_formed (join [44] (map json_text vs))" by (intro well_formed_join) (auto simp: list_all_iff is_high_def is_low_def)
  moreover have "well_formed [91]" "well_formed [93]" by code_simp+
  ultimately show ?case by (auto intro!: well_formed_append simp del: append.simps)
next
  case (JObj ps)
  have colon: "well_formed [58]" "well_formed [123]" "well_formed [125]" by code_simp+
  have "well_formed (json_quote k @ [58] @ json_text v)" if "(k, v) \<in> set ps" for k v
    using that JObj.prems JObj.IH [of "(k, v)" v] colon(1) by (intro well_formed_append) (auto intro: well_formed_json_quote)
  then have "well_formed (join [44] (map (\<lambda>(k, v). json_quote k @ [58] @ json_text v) ps))"
    by (intro well_formed_join) (auto simp: list_all_iff is_high_def is_low_def)
  then show ?case using colon by (auto intro!: well_formed_append simp del: append.simps)
next
  case (JBool b)
  have "well_formed (js ''true'')" "well_formed (js ''false'')" by code_simp+
  then show ?case by simp
next
  case JNull
  have "well_formed (js ''null'')" by code_simp
  then show ?case by simp
qed (auto intro: well_formed_json_quote)

lemma decode_json_text:
  assumes "json_faithful num v" and "json_text v = c # r" and "c < 128"
  shows "take 3 (utf8_encode (json_text v)) \<noteq> [239, 187, 191]" and "text_decode (utf8_encode (json_text v)) = Some (json_text v)"
proof -
  have wf: "well_formed (json_text v)" using assms(1) by (rule well_formed_json_text)
  have "utf8_encode (json_text v) = c # utf8_encode r"
    using assms(2,3) by (cases r) (auto simp: is_high_def enc_unit_def)
  then show head: "take 3 (utf8_encode (json_text v)) \<noteq> [239, 187, 191]" using assms(3) by auto
  then show "text_decode (utf8_encode (json_text v)) = Some (json_text v)"
    unfolding text_decode_def using utf8_decode_encode [OF wf] by (simp only: if_False)
qed

lemma encodeBundle_value:
  "validateBundle uc v = Inr fs \<Longrightarrow> encodeBundle uc v = Inr (utf8_encode (json_text (bundle_value (sorted_files fs))))"
  by (simp add: encodeBundle_def)

lemma units_ok_perm: "mset fs = mset gs \<Longrightarrow> units_ok fs \<Longrightarrow> units_ok gs"
  by (metis (no_types, lifting) list_all_iff mset_eq_setD units_ok_def)

lemma bundle_text_head: "\<exists>r. json_text (bundle_value fs) = 123 # r"
  by (simp add: bundle_value_def)

lemma decode_encoded:
  assumes "bundle_ok uc fs" and "units_ok fs" and "sorted_files fs = fs"
  shows "decodeBundle uc (utf8_encode (json_text (bundle_value fs))) = Inr fs"
proof -
  have faithful: "json_faithful (uc_number uc) (bundle_value fs)" using assms(1,2) by (rule bundle_value_faithful)
  obtain r where r: "json_text (bundle_value fs) = 123 # r" using bundle_text_head by blast
  have "encodeBundle uc (bundle_value fs) = Inr (utf8_encode (json_text (bundle_value fs)))"
    using encodeBundle_value [OF validateBundle_value [OF assms(1)]] assms(3) by simp
  then show ?thesis
    using decode_json_text [OF faithful r] json_parse_text [OF faithful] validateBundle_value [OF assms(1)]
    by (simp add: decodeBundle_def)
qed

lemma file_value_inj: "file_value f = file_value g \<Longrightarrow> f = g"
  by (cases f; cases g) (auto simp: file_value_def split: if_splits)

lemma bundle_value_inj: "bundle_value fs = bundle_value gs \<Longrightarrow> fs = gs"
  using file_value_inj by (auto simp: bundle_value_def intro: injI map_injective)

lemma decode_canonical:
  assumes "validateBundle uc v = Inr fs" and "units_ok fs" and "encodeBundle uc v = Inr bytes"
  shows "decodeBundle uc bytes = Inr (sorted_files fs)"
proof -
  have "bundle_ok uc fs" using assms(1) by (rule validateBundle_InrD)
  then have "bundle_ok uc (sorted_files fs) \<and> units_ok (sorted_files fs)"
    using bundle_ok_perm [of fs "sorted_files fs"] units_ok_perm [of fs "sorted_files fs"] assms(2) by simp
  then show ?thesis
    using decode_encoded [of uc "sorted_files fs"] path_order.sort_by_idem encodeBundle_value [OF assms(1)] assms(3) by simp
qed

section \<open>Properties\<close>

text \<open>
  C38. The linear base64 check is exact: it accepts a string exactly when the string is the standard
  padded encoding of some bytes, and decoding succeeds with just those bytes, so every file content has
  one spelling.
\<close>

theorem base64_check_is_exact:
  "(isCanonicalBase64 s \<longleftrightarrow> (\<exists>bytes. is_bytes bytes \<and> btoa bytes = s)) \<and>
   (decodeBase64 (JStr s) = Inr bs \<longleftrightarrow> is_bytes bs \<and> btoa bs = s)"
  by (simp add: isCanonicalBase64_iff decodeBase64_iff)

text \<open>
  C8. The bytes of a bundle identify its content. Two accepted bundles have the same encoding exactly
  when they have the same files, in any order; the encoding is accepted back and gives the files in path
  order; and no two byte strings decode to the same files. So the digest of an artifact stands for its
  files, and there is one digest per set of files.
\<close>

theorem bundle_bytes_identify_content:
  assumes "validateBundle uc v = Inr fs" and "validateBundle uc w = Inr gs" and "units_ok fs" and "units_ok gs"
  shows "(encodeBundle uc v = encodeBundle uc w \<longleftrightarrow> mset fs = mset gs) \<and>
    (\<exists>bytes. encodeBundle uc v = Inr bytes \<and> decodeBundle uc bytes = Inr (sorted_files fs) \<and>
      (\<forall>other hs. decodeBundle uc other = Inr hs \<longrightarrow> mset hs = mset fs \<longrightarrow> other = bytes))"
proof -
  have ok: "bundle_ok uc fs" "bundle_ok uc gs" using assms(1,2) validateBundle_InrD by auto
  have sorted: "bundle_ok uc (sorted_files x) \<and> units_ok (sorted_files x)" if "bundle_ok uc x" "units_ok x" for x
    using that bundle_ok_perm [of x "sorted_files x"] units_ok_perm [of x "sorted_files x"] by simp
  define E where "E x = utf8_encode (json_text (bundle_value (sorted_files x)))" for x
  have back_again: "decodeBundle uc (E x) = Inr (sorted_files x)" if "bundle_ok uc x" "units_ok x" for x
    unfolding E_def using sorted [OF that] path_order.sort_by_idem by (intro decode_encoded) auto
  note bytes = encodeBundle_value [OF assms(1), folded E_def] encodeBundle_value [OF assms(2), folded E_def]
  have same: "encodeBundle uc v = encodeBundle uc w \<longleftrightarrow> mset fs = mset gs"
  proof
    assume "encodeBundle uc v = encodeBundle uc w"
    then have "E fs = E gs" by (simp add: bytes)
    then have "sorted_files fs = sorted_files gs" using back_again [OF ok(1) assms(3)] back_again [OF ok(2) assms(4)] by simp
    then show "mset fs = mset gs" by (metis mset_sort_by)
  next
    assume "mset fs = mset gs"
    then show "encodeBundle uc v = encodeBundle uc w"
      using sorted_files_perm [OF ok(1)] by (simp add: bytes E_def)
  qed
  have "other = E fs" if decoded: "decodeBundle uc other = Inr hs" and perm: "mset hs = mset fs" for other hs
  proof -
    obtain u where u: "validateBundle uc u = Inr hs" "encodeBundle uc (bundle_value hs) = Inr other"
      using decoded by (auto simp: decodeBundle_def result_simps split: if_splits option.splits)
    have "validateBundle uc (bundle_value hs) = Inr hs" using validateBundle_value validateBundle_InrD [OF u(1)] by blast
    then have "other = E hs" using encodeBundle_value u(2) by (simp add: E_def)
    then show ?thesis using sorted_files_perm [OF validateBundle_InrD [OF u(1)] perm] by (simp add: E_def)
  qed
  then show ?thesis using same bytes(1) back_again [OF ok(1) assms(3)] by blast
qed

definition segment_safe :: "jstring \<Rightarrow> bool" where
  "segment_safe seg \<longleftrightarrow> seg \<noteq> [] \<and> seg \<noteq> js ''.'' \<and> seg \<noteq> js ''..'' \<and> last seg \<notin> {46, 32} \<and> \<not> windows_reserved seg \<and>
     47 \<notin> set seg \<and> length (utf8_encode seg) \<le> 255"

lemma ends_with_unit: "ends_with [c] s \<longleftrightarrow> s \<noteq> [] \<and> last s = c"
  by (cases s rule: rev_cases) (auto simp: ends_with_def)

lemma check_segments_safe: "check_segments ss = Inr u \<Longrightarrow> \<forall>seg \<in> set ss. 47 \<notin> set seg \<Longrightarrow> list_all segment_safe ss"
proof (induction ss)
  case (Cons seg ss)
  have lits: "js ''.'' = [46]" "js '' '' = [32]" by code_simp+
  have here: "seg \<noteq> []" "seg \<noteq> js ''.''" "seg \<noteq> js ''..''" "\<not> ends_with (js ''.'') seg" "\<not> ends_with (js '' '') seg"
    "\<not> windows_reserved seg" "\<not> length (utf8_encode seg) > 255" and rest: "check_segments ss = Inr u"
    using Cons.prems(1) unfolding check_segments.simps if_Inl_eq_Inr by blast+
  have "last seg \<notin> {46, 32}" using here(1,4,5) by (simp add: lits ends_with_unit)
  then have "segment_safe seg" using here Cons.prems(2) by (simp add: segment_safe_def)
  then show ?case using Cons.IH [OF rest] Cons.prems(2) by simp
qed simp

lemma validatePath_safe:
  assumes "validatePath uc (JStr p) = Inr p"
  shows "p \<noteq> [] \<and> length p \<le> 4096 \<and> \<not> starts_with (js ''/'') p \<and> 92 \<notin> set p \<and> 58 \<notin> set p \<and> \<not> list_ex is_control p \<and>
    uc_nfc uc p = p \<and> list_all segment_safe (split_on 47 p)"
proof -
  have parts: "p \<noteq> []" "\<not> (hasLoneSurrogate p \<or> p \<noteq> uc_nfc uc p)"
    "\<not> (length p > 4096 \<or> starts_with (js ''/'') p \<or> ends_with (js ''/'') p \<or> 92 \<in> set p \<or> 58 \<in> set p
      \<or> contains_pair 47 47 p \<or> list_ex (\<lambda>c. c \<in> {60, 62, 34, 124, 63, 42}) p \<or> list_ex is_control p)"
    "\<exists>u. check_segments (split_on 47 p) = Inr u"
    using assms unfolding validatePath_def str_of.simps option.case if_Inl_eq_Inr bindr_Inr_iff by blast+
  obtain u where "check_segments (split_on 47 p) = Inr u" using parts(4) ..
  then have "list_all segment_safe (split_on 47 p)" by (rule check_segments_safe) (simp add: split_on_no_sep)
  moreover have "uc_nfc uc p = p" using parts(2) by metis
  ultimately show ?thesis using parts(1,3) unfolding linorder_not_less [symmetric] by blast
qed


section \<open>Witnesses\<close>

definition demo_unicode :: unicode where
  "demo_unicode = \<lparr>uc_nfc = (\<lambda>s. s), uc_lower = map (\<lambda>c. if 65 \<le> c \<and> c \<le> 90 then c + 32 else c), uc_number = (\<lambda>_. NaN)\<rparr>"

definition demo_files :: "bundle_file list" where
  "demo_files = [\<lparr>bf_path = js ''bin/run.sh'', bf_content = js ''QQ=='', bf_executable = True\<rparr>,
     \<lparr>bf_path = js ''SKILL.md'', bf_content = js ''Qg=='', bf_executable = False\<rparr>]"

lemma demo_bundle_valid:
  "validateBundle demo_unicode (bundle_value demo_files) = Inr demo_files"
  "validateBundle demo_unicode (bundle_value (rev demo_files)) = Inr (rev demo_files)"
  by code_simp+

lemma demo_units: "units_ok demo_files" "units_ok (rev demo_files)"
  by code_simp+

theorem bundle_bytes_identify_content_witness:
  "encodeBundle demo_unicode (bundle_value demo_files) = encodeBundle demo_unicode (bundle_value (rev demo_files)) \<and>
   (\<exists>bytes. encodeBundle demo_unicode (bundle_value demo_files) = Inr bytes \<and>
      decodeBundle demo_unicode bytes = Inr (sorted_files demo_files))"
proof -
  have "mset demo_files = mset (rev demo_files)" by simp
  then show ?thesis using bundle_bytes_identify_content [OF demo_bundle_valid demo_units] by blast
qed


text \<open>
  The surrogate check looks past the end of the string and finds \<open>NaN\<close>, so it accepts a lone high surrogate
  in last position. Two such paths are different keys of a bundle, and the same bytes once they are written
  as UTF-8.
\<close>

theorem trailing_surrogate_escapes_check:
  "\<exists>p q. p \<noteq> q \<and> validatePath demo_unicode (JStr p) = Inr p \<and> validatePath demo_unicode (JStr q) = Inr q \<and>
     pathCollisionKey demo_unicode p \<noteq> pathCollisionKey demo_unicode q \<and> utf8_encode p = utf8_encode q"
proof (intro exI conjI)
  show "[97, 55296] \<noteq> [97, 55297 :: nat]" by simp
  show "validatePath demo_unicode (JStr [97, 55296]) = Inr [97, 55296]"
    "validatePath demo_unicode (JStr [97, 55297]) = Inr [97, 55297]"
    "pathCollisionKey demo_unicode [97, 55296] \<noteq> pathCollisionKey demo_unicode [97, 55297]"
    "utf8_encode [97, 55296] = utf8_encode [97, 55297]"
    by code_simp+
qed

end
