(* ===== verification/Frontmatter.thy ===== *)
theory Frontmatter
  imports Bundle_Guarantees
begin

text \<open>
  Skill metadata, the second part of \<open>packages/storage/src/bundle.ts\<close>: the bounded, data-only reader of
  the YAML frontmatter of \<open>SKILL.md\<close>. The YAML composer is the third-party package \<open>yaml\<close>, so it is
  an argument that gives the document tree; the tree has what the code asks of it (\<open>isAlias\<close>,
  \<open>isScalar\<close>, \<open>isSeq\<close>, \<open>isMap\<close>, \<open>anchor\<close>, \<open>tag\<close>).
\<close>

section \<open>The document tree\<close>

text \<open>\<open>YNone\<close> is \<open>null\<close> or a value that is no object; \<open>YOther\<close> an object that is none of the node kinds.\<close>

datatype yaml_node =
    YNone
  | YAlias
  | YScalar "jstring option" "jstring option" jsval
  | YSeq "jstring option" "jstring option" "yaml_node list"
  | YMap "jstring option" "jstring option" "(yaml_node \<times> yaml_node) list"
  | YOther "jstring option" "jstring option"

record yaml_directives =
  yd_docStart :: bool
  yd_docEnd :: bool
  yd_explicit :: bool
  yd_tags :: "jstring list"

record yaml_document =
  yd_directives :: "yaml_directives option"
  yd_errors :: nat
  yd_warnings :: nat
  yd_contents :: yaml_node

definition MAX_FRONTMATTER_BYTES :: nat where "MAX_FRONTMATTER_BYTES = 131072"
definition MAX_FRONTMATTER_LINES :: nat where "MAX_FRONTMATTER_LINES = 4096"
definition MAX_FRONTMATTER_FIELDS :: nat where "MAX_FRONTMATTER_FIELDS = 256"
definition MAX_METADATA_FIELDS :: nat where "MAX_METADATA_FIELDS = 128"
definition MAX_METADATA_VALUE_CHARS :: nat where "MAX_METADATA_VALUE_CHARS = 4096"
definition MAX_FRONTMATTER_VALUE_CHARS :: nat where "MAX_FRONTMATTER_VALUE_CHARS = 16384"
definition MAX_FRONTMATTER_DEPTH :: nat where "MAX_FRONTMATTER_DEPTH = 8"
definition MAX_FRONTMATTER_NODES :: nat where "MAX_FRONTMATTER_NODES = 2048"
definition MAX_FRONTMATTER_MAP_ITEMS :: nat where "MAX_FRONTMATTER_MAP_ITEMS = 256"
definition MAX_FRONTMATTER_SEQUENCE_ITEMS :: nat where "MAX_FRONTMATTER_SEQUENCE_ITEMS = 128"

lemmas frontmatter_limits =
  MAX_FRONTMATTER_BYTES_def MAX_FRONTMATTER_LINES_def MAX_FRONTMATTER_FIELDS_def MAX_METADATA_FIELDS_def
  MAX_METADATA_VALUE_CHARS_def MAX_FRONTMATTER_VALUE_CHARS_def MAX_FRONTMATTER_DEPTH_def
  MAX_FRONTMATTER_NODES_def MAX_FRONTMATTER_MAP_ITEMS_def MAX_FRONTMATTER_SEQUENCE_ITEMS_def

section \<open>Keys\<close>

definition frontmatterKey :: "unicode \<Rightarrow> jstring \<Rightarrow> jstring" where
  "frontmatterKey uc key = uc_lower uc (trim key)"

definition DANGEROUS_FRONTMATTER_KEYS :: "string list" where
  "DANGEROUS_FRONTMATTER_KEYS = [''plugin'', ''plugins'', ''pluginjson'', ''extension'', ''extensions'', ''mcp'', ''mcpserver'',
     ''mcpservers'', ''hook'', ''hooks'', ''command'', ''commands'', ''script'', ''scripts'', ''runtime'', ''runtimes'',
     ''entrypoint'', ''install'', ''installer'', ''tool'', ''tools'']"

definition DANGEROUS_FRONTMATTER_PARTS :: "string list" where
  "DANGEROUS_FRONTMATTER_PARTS =
     [''plugin'', ''extension'', ''mcp'', ''hook'', ''command'', ''script'', ''runtime'', ''entrypoint'', ''install'', ''execute'']"

text \<open>\<open>replaceAll(/[-_]/gu, '')\<close>, \<open>replaceAll(/([a-z])([A-Z])/gu, '$1-$2')\<close> and \<open>split(/[-_]+/u)\<close>.\<close>

definition drop_separators :: "jstring \<Rightarrow> jstring" where
  "drop_separators s = filter (\<lambda>c. c \<noteq> 45 \<and> c \<noteq> 95) s"

fun hyphenate_camel :: "jstring \<Rightarrow> jstring" where
  "hyphenate_camel (a # b # r) =
     (if is_lower a \<and> is_upper b then a # 45 # b # hyphenate_camel r else a # hyphenate_camel (b # r))"
| "hyphenate_camel s = s"

function split_separators :: "jstring \<Rightarrow> jstring list" where
  "split_separators [] = [[]]"
| "split_separators (c # r) =
     (if c = 45 \<or> c = 95 then [] # split_separators (dropWhile (\<lambda>c. c = 45 \<or> c = 95) r)
      else (case split_separators r of [] \<Rightarrow> [[c]] | w # ws \<Rightarrow> (c # w) # ws))"
  by pat_completeness auto
termination
  by (relation "measure length") (auto simp: length_dropWhile_le le_imp_less_Suc)

definition isDangerousFrontmatterKey :: "unicode \<Rightarrow> jstring \<Rightarrow> bool" where
  "isDangerousFrontmatterKey uc rawKey =
     (let normalized = frontmatterKey uc rawKey; compact = drop_separators normalized in
      if compact = js ''allowedtools'' then False
      else if compact \<in> set (map js DANGEROUS_FRONTMATTER_KEYS) then True
      else
        (let segments = map (uc_lower uc) (split_separators (hyphenate_camel normalized)) in
         list_ex (\<lambda>part. js part \<in> set segments \<or> starts_with (js part) compact \<or> ends_with (js part) compact)
           DANGEROUS_FRONTMATTER_PARTS))"

section \<open>Errors and text\<close>

abbreviation invalid_frontmatter :: bundle_error where
  "invalid_frontmatter \<equiv> BundleValidationError ''invalid_frontmatter''"

abbreviation unsafe_frontmatter :: bundle_error where
  "unsafe_frontmatter \<equiv> BundleValidationError ''unsafe_frontmatter''"

text \<open>\<open>[...value].length\<close>: a surrogate pair is one element.\<close>

fun code_points :: "jstring \<Rightarrow> nat" where
  "code_points [] = 0"
| "code_points [c] = 1"
| "code_points (a # b # r) = (if is_high a \<and> is_low b then 1 + code_points r else 1 + code_points (b # r))"

definition frontmatter_control :: "nat \<Rightarrow> bool" where
  "frontmatter_control c \<longleftrightarrow> c \<le> 8 \<or> c = 11 \<or> c = 12 \<or> (14 \<le> c \<and> c \<le> 31) \<or> c = 127"

definition assertFrontmatterText :: "jstring \<Rightarrow> nat \<Rightarrow> bool \<Rightarrow> unit bundled" where
  "assertFrontmatterText s maxChars allowEmpty =
     (if \<not> allowEmpty \<and> s = [] then Inl invalid_frontmatter
      else if code_points s > maxChars then Inl invalid_frontmatter
      else if list_ex frontmatter_control s \<or> hasLoneSurrogate s then Inl unsafe_frontmatter
      else Inr ())"

section \<open>The walk over the tree\<close>

text \<open>\<open>assertSafeYamlNode\<close>; the budget object is passed in and its new count returned.\<close>

definition decorated :: "jstring option \<Rightarrow> jstring option \<Rightarrow> bool" where
  "decorated anchor tag \<longleftrightarrow> anchor \<noteq> None \<or> tag \<noteq> None"

definition assert_scalar :: "jsval \<Rightarrow> unit bundled" where
  "assert_scalar v =
     (case v of
        JStr s \<Rightarrow> assertFrontmatterText s MAX_FRONTMATTER_VALUE_CHARS True
      | JBool _ \<Rightarrow> Inr ()
      | JNum n \<Rightarrow> if is_finite n then Inr () else Inl invalid_frontmatter
      | _ \<Rightarrow> Inl invalid_frontmatter)"

fun foldr_budget :: "('a \<Rightarrow> nat \<Rightarrow> nat bundled) \<Rightarrow> 'a list \<Rightarrow> nat \<Rightarrow> nat bundled" where
  "foldr_budget f [] nodes = Inr nodes"
| "foldr_budget f (x # xs) nodes = bindr (f x nodes) (foldr_budget f xs)"

lemma foldr_budget_cong [fundef_cong]:
  "xs = ys \<Longrightarrow> b = c \<Longrightarrow> (\<And>x n. x \<in> set ys \<Longrightarrow> f x n = g x n) \<Longrightarrow> foldr_budget f xs b = foldr_budget g ys c"
proof (induction xs arbitrary: ys b c)
  case (Cons x xs)
  have "foldr_budget f xs n = foldr_budget g xs n" for n using Cons.IH [of xs n n] Cons.prems by auto
  then have "foldr_budget f xs = foldr_budget g xs" by blast
  then show ?case using Cons.prems by auto
qed simp

lemma size_seq_item: "item \<in> set items \<Longrightarrow> size (item :: yaml_node) < Suc (size_list size items)"
  by (induction items) auto

lemma size_map_pair:
  "(k, v) \<in> set items \<Longrightarrow> size (k :: yaml_node) < Suc (size_list (size_prod size size) items)"
  "(k, v) \<in> set items \<Longrightarrow> size (v :: yaml_node) < Suc (size_list (size_prod size size) items)"
  by (induction items) auto

function assertSafeYamlNode :: "yaml_node \<Rightarrow> nat \<Rightarrow> nat \<Rightarrow> nat bundled" where
  "assertSafeYamlNode node depth nodes =
     (let nodes = nodes + 1 in
      if nodes > MAX_FRONTMATTER_NODES then Inl unsafe_frontmatter
      else (case node of
          YAlias \<Rightarrow> Inl unsafe_frontmatter
        | YNone \<Rightarrow> Inl invalid_frontmatter
        | YScalar anchor tag v \<Rightarrow>
            if decorated anchor tag then Inl unsafe_frontmatter else bindr (assert_scalar v) (\<lambda>_. Inr nodes)
        | YSeq anchor tag items \<Rightarrow>
            if decorated anchor tag then Inl unsafe_frontmatter
            else if length items > MAX_FRONTMATTER_SEQUENCE_ITEMS then Inl unsafe_frontmatter
            else foldr_budget (\<lambda>item. assertSafeYamlNode item (depth + 1)) items nodes
        | YMap anchor tag items \<Rightarrow>
            if decorated anchor tag then Inl unsafe_frontmatter
            else if depth > MAX_FRONTMATTER_DEPTH then Inl unsafe_frontmatter
            else if length items > MAX_FRONTMATTER_MAP_ITEMS then Inl unsafe_frontmatter
            else foldr_budget (\<lambda>pair nodes.
                bindr (assertSafeYamlNode (fst pair) (depth + 1) nodes) (assertSafeYamlNode (snd pair) (depth + 1))) items nodes
        | YOther anchor tag \<Rightarrow> if decorated anchor tag then Inl unsafe_frontmatter else Inl invalid_frontmatter))"
  by pat_completeness auto
termination
  by (relation "measure (\<lambda>(node, _, _). size node)") (auto simp: size_seq_item size_map_pair)

declare assertSafeYamlNode.simps [simp del]

section \<open>Reading values\<close>

definition name_start :: "nat \<Rightarrow> bool" where
  "name_start c \<longleftrightarrow> is_upper c \<or> is_lower c"

definition name_part :: "nat \<Rightarrow> bool" where
  "name_part c \<longleftrightarrow> is_upper c \<or> is_lower c \<or> is_digit c \<or> c = 95 \<or> c = 45"

text \<open>\<open>/^[A-Za-z][A-Za-z0-9_-]{0,63}$/u\<close>\<close>

fun field_name_pattern :: "jstring \<Rightarrow> bool" where
  "field_name_pattern [] \<longleftrightarrow> False"
| "field_name_pattern (c # r) \<longleftrightarrow> name_start c \<and> list_all name_part r \<and> length r \<le> 63"

definition yamlMapKey :: "yaml_node \<Rightarrow> jstring bundled" where
  "yamlMapKey node =
     (case node of
        YScalar _ _ (JStr key) \<Rightarrow>
          if key = [] \<or> length key > 64 \<or> \<not> field_name_pattern key \<or> list_ex frontmatter_control key \<or> hasLoneSurrogate key
          then Inl invalid_frontmatter else Inr key
      | _ \<Rightarrow> Inl invalid_frontmatter)"

definition parseYamlScalar :: "yaml_node \<Rightarrow> nat \<Rightarrow> bool \<Rightarrow> jsval bundled" where
  "parseYamlScalar node maxChars allowEmpty =
     (case node of
        YScalar _ _ v \<Rightarrow>
          (case v of
             JStr s \<Rightarrow> bindr (assertFrontmatterText s maxChars allowEmpty) (\<lambda>_. Inr v)
           | JBool _ \<Rightarrow> Inr v
           | JNum n \<Rightarrow> if is_finite n then Inr v else Inl invalid_frontmatter
           | _ \<Rightarrow> Inl invalid_frontmatter)
      | _ \<Rightarrow> Inl unsafe_frontmatter)"

definition parseYamlString :: "yaml_node \<Rightarrow> nat \<Rightarrow> bool \<Rightarrow> jsval bundled" where
  "parseYamlString node maxChars allowEmpty =
     bindr (parseYamlScalar node maxChars allowEmpty) (\<lambda>v.
     case str_of v of None \<Rightarrow> Inl invalid_frontmatter | Some _ \<Rightarrow> Inr v)"

definition normalized_key :: "unicode \<Rightarrow> jstring \<Rightarrow> jstring" where
  "normalized_key uc key = drop_separators (frontmatterKey uc key)"

definition reserved_key :: "jstring \<Rightarrow> bool" where
  "reserved_key key \<longleftrightarrow> key = js ''__proto__'' \<or> key = js ''constructor''"

text \<open>The loop of \<open>parseStructuredMetadataMap\<close>, with the reader of values as its argument.\<close>

fun structured_fields ::
    "unicode \<Rightarrow> (yaml_node \<Rightarrow> jsval bundled) \<Rightarrow> jstring list \<Rightarrow> (yaml_node \<times> yaml_node) list \<Rightarrow> (jstring \<times> jsval) list bundled" where
  "structured_fields uc f seen [] = Inr []"
| "structured_fields uc f seen (pair # pairs) =
     bindr (yamlMapKey (fst pair)) (\<lambda>key.
     if normalized_key uc key \<in> set seen \<or> reserved_key key \<or> isDangerousFrontmatterKey uc key then Inl unsafe_frontmatter
     else bindr (f (snd pair)) (\<lambda>v.
       bindr (structured_fields uc f (normalized_key uc key # seen) pairs) (\<lambda>fields. Inr ((key, v) # fields))))"

lemma structured_fields_ext:
  "(\<And>pair. pair \<in> set pairs \<Longrightarrow> f (snd pair) = g (snd pair)) \<Longrightarrow> structured_fields uc f seen pairs = structured_fields uc g seen pairs"
proof (induction pairs arbitrary: seen)
  case (Cons pair pairs)
  have "f (snd pair) = g (snd pair)" using Cons.prems by simp
  moreover have "structured_fields uc f t pairs = structured_fields uc g t pairs" for t by (rule Cons.IH) (simp add: Cons.prems)
  ultimately show ?case by (simp cong: if_cong)
qed simp

lemma structured_fields_cong [fundef_cong]:
  "uc = uc' \<Longrightarrow> seen = seen' \<Longrightarrow> pairs = pairs' \<Longrightarrow> (\<And>pair. pair \<in> set pairs' \<Longrightarrow> f (snd pair) = g (snd pair)) \<Longrightarrow>
   structured_fields uc f seen pairs = structured_fields uc' g seen' pairs'"
  using structured_fields_ext by blast

function parseStructuredMetadataMap :: "unicode \<Rightarrow> yaml_node \<Rightarrow> nat \<Rightarrow> jsval bundled"
  and parseStructuredValue :: "unicode \<Rightarrow> yaml_node \<Rightarrow> nat \<Rightarrow> jsval bundled" where
  "parseStructuredMetadataMap uc node depth =
     (case node of
        YMap _ _ items \<Rightarrow>
          if depth > MAX_FRONTMATTER_DEPTH \<or> length items > MAX_FRONTMATTER_MAP_ITEMS then Inl unsafe_frontmatter
          else bindr (structured_fields uc (\<lambda>v. parseStructuredValue uc v (depth + 1)) [] items) (\<lambda>fields. Inr (JObj fields))
      | _ \<Rightarrow> Inl unsafe_frontmatter)"
| "parseStructuredValue uc node depth =
     (if depth > MAX_FRONTMATTER_DEPTH then Inl unsafe_frontmatter
      else (case node of
          YScalar _ _ _ \<Rightarrow> parseYamlScalar node MAX_FRONTMATTER_VALUE_CHARS True
        | YSeq _ _ items \<Rightarrow>
            if length items > MAX_FRONTMATTER_SEQUENCE_ITEMS then Inl unsafe_frontmatter
            else bindr (mapr (\<lambda>item. parseStructuredValue uc item (depth + 1)) items) (\<lambda>vs. Inr (JArr vs))
        | YMap _ _ _ \<Rightarrow> parseStructuredMetadataMap uc node depth
        | _ \<Rightarrow> Inl unsafe_frontmatter))"
  by pat_completeness auto
termination
  by (relation "measure (case_sum (\<lambda>(_, node, _). 2 * size node) (\<lambda>(_, node, _). 2 * size node + 1))")
    (auto dest: size_seq_item size_map_pair)

declare parseStructuredMetadataMap.simps [simp del] parseStructuredValue.simps [simp del]

text \<open>The loop of \<open>parseMetadataMap\<close>.\<close>

fun metadata_fields :: "unicode \<Rightarrow> jstring list \<Rightarrow> (yaml_node \<times> yaml_node) list \<Rightarrow> (jstring \<times> jsval) list bundled" where
  "metadata_fields uc seen [] = Inr []"
| "metadata_fields uc seen (pair # pairs) =
     bindr (yamlMapKey (fst pair)) (\<lambda>key.
     if isDangerousFrontmatterKey uc key then Inl unsafe_frontmatter
     else if normalized_key uc key \<in> set seen \<or> reserved_key key then Inl invalid_frontmatter
     else bindr (if normalized_key uc key = js ''openclaw'' then parseStructuredMetadataMap uc (snd pair) 0
                 else parseYamlString (snd pair) MAX_METADATA_VALUE_CHARS True) (\<lambda>v.
       bindr (metadata_fields uc (normalized_key uc key # seen) pairs) (\<lambda>fields. Inr ((key, v) # fields))))"

definition parseMetadataMap :: "unicode \<Rightarrow> yaml_node \<Rightarrow> jsval bundled" where
  "parseMetadataMap uc node =
     (case node of
        YMap _ _ items \<Rightarrow>
          if length items > MAX_METADATA_FIELDS then Inl invalid_frontmatter
          else bindr (metadata_fields uc [] items) (\<lambda>fields. Inr (JObj fields))
      | _ \<Rightarrow> Inl unsafe_frontmatter)"

section \<open>The frontmatter\<close>

definition KNOWN_FRONTMATTER_FIELDS :: "string list" where
  "KNOWN_FRONTMATTER_FIELDS = [''name'', ''description'', ''license'', ''compatibility'', ''metadata'', ''allowedtools'']"

text \<open>\<open>replaceAll('\r\n', '\n').replaceAll('\r', '\n')\<close>\<close>

fun drop_crlf :: "jstring \<Rightarrow> jstring" where
  "drop_crlf (a # b # r) = (if a = 13 \<and> b = 10 then 10 # drop_crlf r else a # drop_crlf (b # r))"
| "drop_crlf s = s"

definition text_lines :: "jstring \<Rightarrow> jstring list" where
  "text_lines s = split_on 10 (map (\<lambda>c. if c = 13 then 10 else c) (drop_crlf s))"

text \<open>The loop over the fields of the document.\<close>

fun document_fields :: "unicode \<Rightarrow> jstring list \<Rightarrow> (yaml_node \<times> yaml_node) list \<Rightarrow> (jstring \<times> jsval) list bundled" where
  "document_fields uc seen [] = Inr []"
| "document_fields uc seen (pair # pairs) =
     bindr (yamlMapKey (fst pair)) (\<lambda>key.
     if isDangerousFrontmatterKey uc key then Inl unsafe_frontmatter
     else if normalized_key uc key \<in> set seen \<or> reserved_key key then Inl invalid_frontmatter
     else bindr (if frontmatterKey uc key = js ''metadata'' then parseMetadataMap uc (snd pair)
                 else if normalized_key uc key \<in> set (map js KNOWN_FRONTMATTER_FIELDS)
                 then parseYamlString (snd pair) MAX_FRONTMATTER_VALUE_CHARS False
                 else parseStructuredValue uc (snd pair) 0) (\<lambda>v.
       bindr (document_fields uc (normalized_key uc key # seen) pairs) (\<lambda>fields. Inr ((key, v) # fields))))"

definition safe_directives :: "yaml_document \<Rightarrow> bool" where
  "safe_directives document \<longleftrightarrow>
     (case yd_directives document of
        None \<Rightarrow> False
      | Some directives \<Rightarrow> yd_errors document = 0 \<and> yd_warnings document = 0 \<and> \<not> yd_docStart directives \<and> \<not> yd_docEnd directives
          \<and> \<not> yd_explicit directives \<and> list_all (\<lambda>tag. tag = js ''!!'') (yd_tags directives))"

definition parseFrontmatter :: "(jstring \<Rightarrow> yaml_document option) \<Rightarrow> unicode \<Rightarrow> jstring \<Rightarrow> jsval bundled" where
  "parseFrontmatter parseDocument uc s =
     (let lines = text_lines s; body = takeWhile (\<lambda>l. l \<noteq> js ''---'') (tl lines); end_line = length body + 1 in
      if hd lines \<noteq> js ''---'' then Inl (BundleValidationError ''missing_frontmatter'')
      else if end_line \<ge> length lines then Inl invalid_frontmatter
      else if end_line + 1 > MAX_FRONTMATTER_LINES then Inl invalid_frontmatter
      else if length (utf8_encode (join [10] (take (end_line + 1) lines))) > MAX_FRONTMATTER_BYTES then Inl invalid_frontmatter
      else (case parseDocument (join [10] body) of
          None \<Rightarrow> Inl invalid_frontmatter
        | Some document \<Rightarrow>
            if \<not> safe_directives document then Inl invalid_frontmatter
            else (case yd_contents document of
                YMap _ _ items \<Rightarrow>
                  if length items > MAX_FRONTMATTER_FIELDS then Inl invalid_frontmatter
                  else bindr (assertSafeYamlNode (yd_contents document) 0 0) (\<lambda>_.
                    bindr (document_fields uc [] items) (\<lambda>fields. Inr (JObj fields)))
              | _ \<Rightarrow> Inl invalid_frontmatter)))"

section \<open>Skill metadata\<close>

record skill_metadata =
  sm_skillName :: jstring
  sm_description :: jstring
  sm_frontmatter :: jsval

definition decodeSkillText :: "jstring \<Rightarrow> jstring bundled" where
  "decodeSkillText content =
     bindr (decodeBase64 (JStr content)) (\<lambda>bytes.
     case text_decode bytes of None \<Rightarrow> Inl (BundleValidationError ''invalid_skill_encoding'') | Some t \<Rightarrow> Inr t)"

text \<open>\<open>/^[a-z0-9]+(?:-[a-z0-9]+)*$/u\<close>\<close>

definition name_pattern :: "jstring \<Rightarrow> bool" where
  "name_pattern s \<longleftrightarrow> list_all (\<lambda>w. w \<noteq> [] \<and> list_all (\<lambda>c. is_lower c \<or> is_digit c) w) (split_on 45 s)"

definition parseSkillMetadata :: "(jstring \<Rightarrow> yaml_document option) \<Rightarrow> unicode \<Rightarrow> jsval \<Rightarrow> skill_metadata bundled" where
  "parseSkillMetadata parseDocument uc bundle =
     bindr (validateBundle uc bundle) (\<lambda>files.
     case find (\<lambda>f. bf_path f = js ''SKILL.md'') files of
       None \<Rightarrow> Inl (BundleValidationError ''missing_skill_metadata'')
     | Some skillFile \<Rightarrow>
         bindr (decodeSkillText (bf_content skillFile)) (\<lambda>t.
         bindr (parseFrontmatter parseDocument uc t) (\<lambda>frontmatter.
         case str_of (get_prop frontmatter ''name'') of
           None \<Rightarrow> Inl (BundleValidationError ''invalid_skill_name'')
         | Some name \<Rightarrow>
             if \<not> name_pattern name then Inl (BundleValidationError ''invalid_skill_name'')
             else if code_points name > 64 then Inl (BundleValidationError ''invalid_skill_name'')
             else (case str_of (get_prop frontmatter ''description'') of
                 None \<Rightarrow> Inl (BundleValidationError ''invalid_skill_description'')
               | Some description \<Rightarrow>
                   if trim description = [] \<or> code_points description > 1024
                   then Inl (BundleValidationError ''invalid_skill_description'')
                   else Inr \<lparr>sm_skillName = name, sm_description = description, sm_frontmatter = frontmatter\<rparr>))))"

end
