(* ===== verification/Frontmatter_Guarantees.thy ===== *)
theory Frontmatter_Guarantees
  imports Frontmatter
begin

text \<open>
  What the metadata reader promises: the budgeted walk over the YAML tree decides exactly the plain
  bounded trees, and what is read is inert data, bounded in every direction and free of the keys that
  would activate something at every level.
\<close>

lemma case_map_eq_Inr [result_simps]:
  "(case node of YMap a t items \<Rightarrow> f a t items | _ \<Rightarrow> Inl e) = Inr z \<longleftrightarrow>
   (\<exists>a t items. node = YMap a t items \<and> f a t items = Inr z)"
  by (cases node) auto

section \<open>The walk is exact\<close>

definition plain_scalar :: "jsval \<Rightarrow> bool" where
  "plain_scalar v \<longleftrightarrow> assert_scalar v = Inr ()"

fun node_count :: "yaml_node \<Rightarrow> nat" where
  "node_count (YSeq _ _ items) = 1 + sum_list (map node_count items)"
| "node_count (YMap _ _ items) = 1 + sum_list (map (\<lambda>(k, v). node_count k + node_count v) items)"
| "node_count _ = 1"

fun plain_node :: "nat \<Rightarrow> yaml_node \<Rightarrow> bool" where
  "plain_node depth (YScalar anchor tag v) \<longleftrightarrow> anchor = None \<and> tag = None \<and> plain_scalar v"
| "plain_node depth (YSeq anchor tag items) \<longleftrightarrow>
     anchor = None \<and> tag = None \<and> length items \<le> 128 \<and> list_all (plain_node (depth + 1)) items"
| "plain_node depth (YMap anchor tag items) \<longleftrightarrow>
     anchor = None \<and> tag = None \<and> depth \<le> 8 \<and> length items \<le> 256 \<and>
     list_all (\<lambda>(k, v). plain_node (depth + 1) k \<and> plain_node (depth + 1) v) items"
| "plain_node depth _ \<longleftrightarrow> False"

lemma foldr_budget_exact:
  assumes "\<And>x b n. x \<in> set xs \<Longrightarrow> f x b = Inr n \<longleftrightarrow> P x \<and> n = b + c x \<and> n \<le> limit" and "b \<le> (limit :: nat)"
  shows "foldr_budget f xs b = Inr n \<longleftrightarrow> list_all P xs \<and> n = b + sum_list (map c xs) \<and> n \<le> limit"
  using assms
proof (induction xs arbitrary: b)
  case (Cons x xs)
  have "foldr_budget f xs m = Inr n \<longleftrightarrow> list_all P xs \<and> n = m + sum_list (map c xs) \<and> n \<le> limit" if "m \<le> limit" for m
    by (rule Cons.IH) (simp_all add: Cons.prems that)
  then show ?case using Cons.prems(1) [of x b] by (auto simp: bindr_Inr_iff add.assoc)
qed auto

lemma assertSafeYamlNode_exact:
  "assertSafeYamlNode node depth nodes = Inr n \<longleftrightarrow> plain_node depth node \<and> n = nodes + node_count node \<and> n \<le> 2048"
proof (induction node depth nodes arbitrary: n rule: assertSafeYamlNode.induct)
  case (1 node depth nodes)
  show ?case
  proof (cases node)
    case (YSeq a t items)
    have "foldr_budget (\<lambda>item. assertSafeYamlNode item (depth + 1)) items (nodes + 1) = Inr n \<longleftrightarrow>
        list_all (plain_node (depth + 1)) items \<and> n = nodes + 1 + sum_list (map node_count items) \<and> n \<le> 2048"
      if "\<not> nodes + 1 > MAX_FRONTMATTER_NODES" "\<not> decorated a t" "\<not> length items > MAX_FRONTMATTER_SEQUENCE_ITEMS"
      using 1(1) [OF refl that(1) YSeq that(2,3)] that(1) by (intro foldr_budget_exact) (auto simp: frontmatter_limits)
    then show ?thesis unfolding YSeq using assertSafeYamlNode.simps [of "YSeq a t items" depth nodes]
      by (auto simp: decorated_def frontmatter_limits)
  next
    case (YMap a t items)
    define walk where "walk = (\<lambda>pair nodes.
      bindr (assertSafeYamlNode (fst pair) (depth + 1) nodes) (assertSafeYamlNode (snd pair) (depth + 1)))"
    have "foldr_budget walk items (nodes + 1) = Inr n \<longleftrightarrow>
        list_all (\<lambda>(k, v). plain_node (depth + 1) k \<and> plain_node (depth + 1) v) items \<and>
        n = nodes + 1 + sum_list (map (\<lambda>(k, v). node_count k + node_count v) items) \<and> n \<le> 2048"
      if "\<not> nodes + 1 > MAX_FRONTMATTER_NODES" "\<not> decorated a t" "\<not> depth > MAX_FRONTMATTER_DEPTH"
        "\<not> length items > MAX_FRONTMATTER_MAP_ITEMS"
      using 1(2,3) [OF refl that(1) YMap that(2-4)] that(1)
      by (intro foldr_budget_exact) (auto simp: frontmatter_limits walk_def bindr_Inr_iff)
    then show ?thesis unfolding YMap using assertSafeYamlNode.simps [of "YMap a t items" depth nodes, folded walk_def]
      by (auto simp: decorated_def frontmatter_limits)
  qed (auto simp: assertSafeYamlNode.simps [of _ depth nodes] decorated_def frontmatter_limits plain_scalar_def result_simps)
qed

section \<open>What is read is inert\<close>

definition inert_text :: "jstring \<Rightarrow> bool" where
  "inert_text s \<longleftrightarrow> code_points s \<le> 16384 \<and> \<not> list_ex frontmatter_control s \<and> \<not> hasLoneSurrogate s"

definition inert_key :: "unicode \<Rightarrow> jstring \<Rightarrow> bool" where
  "inert_key uc key \<longleftrightarrow> field_name_pattern key \<and> \<not> isDangerousFrontmatterKey uc key \<and> \<not> reserved_key key"

fun inert :: "unicode \<Rightarrow> nat \<Rightarrow> jsval \<Rightarrow> bool" where
  "inert uc levels (JStr s) \<longleftrightarrow> inert_text s"
| "inert uc levels (JBool b) \<longleftrightarrow> True"
| "inert uc levels (JNum n) \<longleftrightarrow> is_finite n"
| "inert uc levels (JArr vs) \<longleftrightarrow> levels > 0 \<and> length vs \<le> 128 \<and> list_all (inert uc (levels - 1)) vs"
| "inert uc levels (JObj ps) \<longleftrightarrow> levels > 0 \<and> length ps \<le> 256 \<and> distinct (map (\<lambda>(k, v). normalized_key uc k) ps) \<and>
     list_all (\<lambda>(k, v). inert_key uc k \<and> inert uc (levels - 1) v) ps"
| "inert uc levels _ \<longleftrightarrow> False"

lemma inert_mono: "inert uc m v \<Longrightarrow> m \<le> n \<Longrightarrow> inert uc n v"
proof (induction uc m v arbitrary: n rule: inert.induct)
  case (4 uc levels vs)
  then show ?case by (auto simp: list_all_iff)
next
  case (5 uc levels ps)
  then show ?case by (fastforce simp: list_all_iff)
qed auto

lemma yamlMapKey_InrD: "yamlMapKey node = Inr key \<Longrightarrow> field_name_pattern key"
  by (auto simp: yamlMapKey_def split: yaml_node.splits jsval.splits if_splits)

lemma assertFrontmatterText_InrD: "assertFrontmatterText s m e = Inr u \<Longrightarrow> m \<le> 16384 \<Longrightarrow> inert_text s"
  by (auto simp: assertFrontmatterText_def inert_text_def split: if_splits)

lemma parseYamlScalar_inert: "parseYamlScalar node m e = Inr v \<Longrightarrow> m \<le> 16384 \<Longrightarrow> inert uc n v"
  by (auto simp: parseYamlScalar_def bindr_Inr_iff dest: assertFrontmatterText_InrD split: yaml_node.splits jsval.splits if_splits)

lemma parseYamlString_inert: "parseYamlString node m e = Inr v \<Longrightarrow> m \<le> 16384 \<Longrightarrow> inert uc n v"
  by (auto simp: parseYamlString_def bindr_Inr_iff dest: parseYamlScalar_inert split: option.splits)

text \<open>The three loops over the pairs of a map keep their keys apart in the same way.\<close>

definition fields_ok :: "unicode \<Rightarrow> nat \<Rightarrow> jstring list \<Rightarrow> (jstring \<times> jsval) list \<Rightarrow> bool" where
  "fields_ok uc n seen fs \<longleftrightarrow> distinct (map (\<lambda>(k, v). normalized_key uc k) fs) \<and>
     list_all (\<lambda>(k, v). normalized_key uc k \<notin> set seen \<and> inert_key uc k \<and> inert uc n v) fs"

lemma fields_ok_Nil: "fields_ok uc n seen []"
  by (simp add: fields_ok_def)

lemma fields_ok_Cons:
  "fields_ok uc n (normalized_key uc k # seen) fs \<Longrightarrow> normalized_key uc k \<notin> set seen \<Longrightarrow> inert_key uc k \<Longrightarrow> inert uc n v \<Longrightarrow>
   fields_ok uc n seen ((k, v) # fs)"
  by (force simp: fields_ok_def list_all_iff)

lemma inert_object: "fields_ok uc n [] fs \<Longrightarrow> length fs \<le> 256 \<Longrightarrow> inert uc (Suc n) (JObj fs)"
  by (auto simp: fields_ok_def list_all_iff)

lemma structured_fields_ok:
  "structured_fields uc f seen pairs = Inr fs \<Longrightarrow>
   (\<And>pair v. pair \<in> set pairs \<Longrightarrow> f (snd pair) = Inr v \<Longrightarrow> inert uc n v) \<Longrightarrow>
   fields_ok uc n seen fs \<and> length fs = length pairs"
proof (induction pairs arbitrary: seen fs)
  case (Cons pair pairs)
  obtain key v rest where parts: "yamlMapKey (fst pair) = Inr key"
      "normalized_key uc key \<notin> set seen" "\<not> reserved_key key" "\<not> isDangerousFrontmatterKey uc key"
      "f (snd pair) = Inr v" "structured_fields uc f (normalized_key uc key # seen) pairs = Inr rest" "fs = (key, v) # rest"
    using Cons.prems(1) by (auto simp: result_simps)
  have "fields_ok uc n (normalized_key uc key # seen) rest \<and> length rest = length pairs"
    by (rule Cons.IH [OF parts(6)]) (use Cons.prems(2) in auto)
  then show ?case
    using parts yamlMapKey_InrD [OF parts(1)] Cons.prems(2) [of pair v] by (auto simp: inert_key_def intro: fields_ok_Cons)
qed (simp add: fields_ok_Nil)

lemma structured_inert:
  "parseStructuredMetadataMap uc node depth = Inr v \<Longrightarrow> inert uc (9 - depth) v"
  "parseStructuredValue uc node depth = Inr v \<Longrightarrow> inert uc (9 - depth) v"
proof (induction uc node depth and uc node depth arbitrary: v and v
    rule: parseStructuredMetadataMap_parseStructuredValue.induct)
  case (1 uc node depth)
  from 1(2) obtain a t items fs where parts: "node = YMap a t items" "depth \<le> 8" "length items \<le> 256"
      "structured_fields uc (\<lambda>v. parseStructuredValue uc v (depth + 1)) [] items = Inr fs" "v = JObj fs"
    by (auto simp: parseStructuredMetadataMap.simps [of uc node depth] result_simps frontmatter_limits split: yaml_node.splits)
  have "inert uc (9 - (depth + 1)) w" if "pair \<in> set items" "parseStructuredValue uc (snd pair) (depth + 1) = Inr w" for pair w
    by (rule 1(1) [OF parts(1)]) (use that parts(2,3) in \<open>auto simp: frontmatter_limits\<close>)
  then have "fields_ok uc (9 - (depth + 1)) [] fs \<and> length fs = length items"
    by (intro structured_fields_ok [OF parts(4)])
  then have "inert uc (Suc (9 - (depth + 1))) (JObj fs)" using parts(3) by (intro inert_object) auto
  moreover have "Suc (9 - (depth + 1)) = 9 - depth" using parts(2) by simp
  ultimately show ?case using parts(5) by simp
next
  case (2 uc node depth)
  show ?case
  proof (cases node)
    case (YScalar a t w)
    then show ?thesis using 2(3) parseYamlScalar_inert
      by (auto simp: parseStructuredValue.simps [of uc _ depth] frontmatter_limits split: if_splits)
  next
    case (YSeq a t items)
    then obtain vs where parts: "depth \<le> 8" "length items \<le> 128"
        "mapr (\<lambda>item. parseStructuredValue uc item (depth + 1)) items = Inr vs" "v = JArr vs"
      using 2(3) by (auto simp: parseStructuredValue.simps [of uc "YSeq a t items" depth] result_simps frontmatter_limits)
    have "inert uc (9 - (depth + 1)) w" if "item \<in> set items" "parseStructuredValue uc item (depth + 1) = Inr w" for item w
      by (rule 2(1) [OF _ YSeq]) (use that parts(1,2) in \<open>auto simp: frontmatter_limits\<close>)
    then have "list_all (inert uc (9 - (depth + 1))) vs"
      unfolding list_all_iff using mapr_InrD [OF parts(3)] by blast
    then show ?thesis using parts length_mapr [OF parts(3)] by (simp add: Suc_diff_le)
  next
    case (YMap a t items)
    then show ?thesis using 2(2) [OF _ YMap] 2(3)
      by (auto simp: parseStructuredValue.simps [of uc "YMap a t items" depth] split: if_splits)
  qed (use 2(3) in \<open>auto simp: parseStructuredValue.simps [of uc _ depth] split: if_splits\<close>)
qed

lemma metadata_fields_ok:
  "metadata_fields uc seen pairs = Inr fs \<Longrightarrow> fields_ok uc 9 seen fs \<and> length fs = length pairs"
proof (induction pairs arbitrary: seen fs)
  case (Cons pair pairs)
  obtain key v rest where parts: "yamlMapKey (fst pair) = Inr key"
      "normalized_key uc key \<notin> set seen" "\<not> reserved_key key" "\<not> isDangerousFrontmatterKey uc key"
      "(if normalized_key uc key = js ''openclaw'' then parseStructuredMetadataMap uc (snd pair) 0
        else parseYamlString (snd pair) MAX_METADATA_VALUE_CHARS True) = Inr v"
      "metadata_fields uc (normalized_key uc key # seen) pairs = Inr rest" "fs = (key, v) # rest"
    using Cons.prems by (auto simp: result_simps)
  have "inert uc 9 v"
    using parts(5) structured_inert(1) [of uc "snd pair" 0 v] parseYamlString_inert
    by (auto simp: MAX_METADATA_VALUE_CHARS_def split: if_splits)
  then show ?case
    using parts yamlMapKey_InrD [OF parts(1)] Cons.IH [OF parts(6)] by (auto simp: inert_key_def intro: fields_ok_Cons)
qed (simp add: fields_ok_Nil)

lemma parseMetadataMap_inert: "parseMetadataMap uc node = Inr v \<Longrightarrow> inert uc 10 v"
  using inert_object [of uc 9] metadata_fields_ok
  by (fastforce simp: parseMetadataMap_def result_simps MAX_METADATA_FIELDS_def split: yaml_node.splits)

lemma document_fields_ok:
  "document_fields uc seen pairs = Inr fs \<Longrightarrow> fields_ok uc 10 seen fs \<and> length fs = length pairs"
proof (induction pairs arbitrary: seen fs)
  case (Cons pair pairs)
  obtain key v rest where parts: "yamlMapKey (fst pair) = Inr key"
      "normalized_key uc key \<notin> set seen" "\<not> reserved_key key" "\<not> isDangerousFrontmatterKey uc key"
      "(if frontmatterKey uc key = js ''metadata'' then parseMetadataMap uc (snd pair)
        else if normalized_key uc key \<in> set (map js KNOWN_FRONTMATTER_FIELDS)
        then parseYamlString (snd pair) MAX_FRONTMATTER_VALUE_CHARS False
        else parseStructuredValue uc (snd pair) 0) = Inr v"
      "document_fields uc (normalized_key uc key # seen) pairs = Inr rest" "fs = (key, v) # rest"
    using Cons.prems by (auto simp: result_simps)
  have "inert uc 10 v"
    using parts(5) structured_inert(2) [of uc "snd pair" 0 v] inert_mono [of uc 9 v 10] parseYamlString_inert parseMetadataMap_inert
    by (auto simp: MAX_FRONTMATTER_VALUE_CHARS_def split: if_splits)
  then show ?case
    using parts yamlMapKey_InrD [OF parts(1)] Cons.IH [OF parts(6)] by (auto simp: inert_key_def intro: fields_ok_Cons)
qed (simp add: fields_ok_Nil)

lemma parseFrontmatter_InrE:
  assumes "parseFrontmatter pd uc s = Inr v"
  obtains document items fs where "pd (join [10] (takeWhile (\<lambda>l. l \<noteq> js ''---'') (tl (text_lines s)))) = Some document"
    and "\<exists>a t. yd_contents document = YMap a t items" and "\<exists>n. assertSafeYamlNode (yd_contents document) 0 0 = Inr n"
    and "length items \<le> 256" and "document_fields uc [] items = Inr fs" and "v = JObj fs"
  using assms that by (auto simp: parseFrontmatter_def Let_def result_simps MAX_FRONTMATTER_FIELDS_def)

lemma parseFrontmatter_inert:
  assumes "parseFrontmatter pd uc s = Inr v"
  shows "inert uc 11 v \<and> is_object v"
proof -
  obtain items fs where "length items \<le> 256" "document_fields uc [] items = Inr fs" "v = JObj fs"
    using assms by (rule parseFrontmatter_InrE)
  then show ?thesis using document_fields_ok [of uc "[]" items fs] inert_object [of uc 10 fs] by auto
qed

lemma parseSkillMetadata_inert:
  assumes "parseSkillMetadata parseDocument uc bundle = Inr md"
  shows "name_pattern (sm_skillName md) \<and> code_points (sm_skillName md) \<le> 64 \<and>
    trim (sm_description md) \<noteq> [] \<and> code_points (sm_description md) \<le> 1024 \<and>
    is_object (sm_frontmatter md) \<and> inert uc 11 (sm_frontmatter md) \<and>
    get_prop (sm_frontmatter md) ''name'' = JStr (sm_skillName md) \<and>
    get_prop (sm_frontmatter md) ''description'' = JStr (sm_description md)"
proof -
  obtain t frontmatter name description where parts: "parseFrontmatter parseDocument uc t = Inr frontmatter"
      "str_of (get_prop frontmatter ''name'') = Some name" "name_pattern name" "code_points name \<le> 64"
      "str_of (get_prop frontmatter ''description'') = Some description" "trim description \<noteq> []" "code_points description \<le> 1024"
      "md = \<lparr>sm_skillName = name, sm_description = description, sm_frontmatter = frontmatter\<rparr>"
    using assms by (auto simp: parseSkillMetadata_def result_simps)
  have str: "str_of w = Some x \<Longrightarrow> w = JStr x" for w x by (cases w) auto
  show ?thesis using parts parseFrontmatter_inert [OF parts(1)] by (simp add: str)
qed

section \<open>Properties\<close>


text \<open>
  C39. The walk over the YAML tree is exact: with its running budget it accepts a tree if and only if the
  tree has no alias, anchor, tag or foreign node, only bounded scalars, sequences of at most 128 items and
  maps of at most 256 at depth eight or less, and at most 2048 nodes; the count it returns is the number
  of nodes.
\<close>

theorem yaml_walk_is_exact:
  "assertSafeYamlNode node depth nodes = Inr n \<longleftrightarrow>
     plain_node depth node \<and> n = nodes + node_count node \<and> nodes + node_count node \<le> 2048"
  using assertSafeYamlNode_exact by auto

section \<open>Witnesses\<close>

text \<open>A skill file with two fields, and a composer that knows its document.\<close>

definition demo_frontmatter :: jstring where
  "demo_frontmatter = js ''name: demo'' @ [10] @ js ''description: Demo''"

definition demo_yaml :: "jstring \<Rightarrow> yaml_document option" where
  "demo_yaml s =
     (if s = demo_frontmatter
      then Some \<lparr>yd_directives = Some \<lparr>yd_docStart = False, yd_docEnd = False, yd_explicit = False, yd_tags = [js ''!!'']\<rparr>,
        yd_errors = 0, yd_warnings = 0,
        yd_contents = YMap None None
          [(YScalar None None (JStr (js ''name'')), YScalar None None (JStr (js ''demo''))),
           (YScalar None None (JStr (js ''description'')), YScalar None None (JStr (js ''Demo'')))]\<rparr>
      else None)"

definition demo_skill_files :: "bundle_file list" where
  "demo_skill_files =
     [\<lparr>bf_path = js ''SKILL.md'', bf_content = btoa (js ''---'' @ [10] @ demo_frontmatter @ [13, 10] @ js ''---'' @ [10]), bf_executable = False\<rparr>]"

definition demo_metadata :: "skill_metadata bundled" where
  "demo_metadata = parseSkillMetadata demo_yaml demo_unicode (bundle_value demo_skill_files)"

lemma demo_metadata_value:
  "demo_metadata = Inr \<lparr>sm_skillName = js ''demo'', sm_description = js ''Demo'',
     sm_frontmatter = JObj [(js ''name'', JStr (js ''demo'')), (js ''description'', JStr (js ''Demo''))]\<rparr>"
  by code_simp


text \<open>
  The key is lower-cased before its camel-case words are taken apart, so that step never changes
  anything: a word in the middle of a camel-case key is not seen, although the same word between hyphens is.
\<close>

lemma hyphenate_lower: "list_all (\<lambda>c. \<not> is_upper c) s \<Longrightarrow> hyphenate_camel s = s"
  by (induction s rule: hyphenate_camel.induct) auto

theorem camel_case_hides_words:
  "isDangerousFrontmatterKey demo_unicode (js ''pre-hook-run'') \<and> \<not> isDangerousFrontmatterKey demo_unicode (js ''preHookRun'')"
  by code_simp

end
