(* ===== verification/Publication.thy ===== *)
theory Publication
  imports Lifecycle Frontmatter_Guarantees
begin

text \<open>
  Publication with the real bundle component: \<open>publishSkill\<close> of the registry runs on \<open>validateBundle\<close>,
  \<open>encodeBundle\<close> and \<open>parseSkillMetadata\<close>, composed as the handler composes them.
\<close>

definition bundleError :: "'a bundled \<Rightarrow> 'a api" where
  "bundleError r = (case r of Inl _ \<Rightarrow> Inl (RegistryApiError ''BUNDLE_INVALID'' 400 False) | Inr x \<Rightarrow> Inr x)"

lemma bundleError_Inr_iff [result_simps]: "bundleError r = Inr x \<longleftrightarrow> r = Inr x"
  by (cases r) (auto simp: bundleError_def)

definition bundle_codec :: "(jstring \<Rightarrow> yaml_document option) \<Rightarrow> unicode \<Rightarrow> bundle_ops" where
  "bundle_codec parseDocument uc =
     \<lparr>bo_encode = (\<lambda>v. bundleError (
        bindr (validateBundle uc v) (\<lambda>files.
        bindr (encodeBundle uc (bundle_value files)) (\<lambda>bytes. Inr (bytes, length files))))),
      bo_metadata = (\<lambda>v. bundleError (
        bindr (validateBundle uc v) (\<lambda>files.
        bindr (parseSkillMetadata parseDocument uc (bundle_value files)) (\<lambda>md. Inr (sm_skillName md, sm_description md)))))\<rparr>"

lemma code_points_plain: "list_all (\<lambda>c. \<not> is_high c) s \<Longrightarrow> code_points s = length s"
  by (induction s rule: code_points.induct) auto

lemma split_on_list_all: "list_all (list_all P) (split_on c s) \<Longrightarrow> list_all (\<lambda>x. P x \<or> x = c) s"
proof (induction s)
  case (Cons x s)
  obtain w ws where "split_on c s = w # ws" by (cases "split_on c s") auto
  then show ?case using Cons by (cases "x = c") auto
qed simp

lemma name_pattern_units: "name_pattern s \<Longrightarrow> list_all (\<lambda>c. is_lower c \<or> is_digit c \<or> c = 45) s"
  using split_on_list_all [of "\<lambda>c. is_lower c \<or> is_digit c" 45 s] by (auto simp: name_pattern_def list_all_iff)

lemma normalizeSkillName_name:
  assumes "name_pattern s" and "code_points s \<le> 64"
  shows "normalizeSkillName (JStr s) = Some s"
proof -
  have units: "list_all (\<lambda>c. is_lower c \<or> is_digit c \<or> c = 45) s" using assms(1) by (rule name_pattern_units)
  then have "list_all (\<lambda>c. \<not> is_high c) s" by (auto simp: list_all_iff is_high_def is_lower_def is_digit_def)
  then have short: "length s \<le> 64" using assms(2) by (simp add: code_points_plain)
  obtain w ws where split: "split_on 45 s = w # ws" by (cases "split_on 45 s") auto
  then have "w \<noteq> []" "list_all (\<lambda>c. is_lower c \<or> is_digit c) w" using assms(1) by (simp_all add: name_pattern_def)
  then obtain c r where "s = c # r" "is_lower c \<or> is_digit c"
    using split by (cases s) (auto split: if_splits list.splits)
  then show ?thesis using units short
    by (auto simp: normalizeSkillName_def is_slug_head_def is_slug_char_def list_all_iff)
qed

lemma publishSkill_parts:
  assumes "publishSkill h put bo org body p e s0 s = Inr (t, j)"
  obtains bytes fileCount metadata stored k where
    "bo_encode bo (get_prop body ''bundle'') = Inr (bytes, fileCount)" "bo_metadata bo (get_prop body ''bundle'') = Inr metadata"
    "putVerifiedBlob put bytes (digestBytes h bytes) = Inr stored"
    "st_skills t = st_skills s @ [k]" "st_jobs t = st_jobs s @ [j]" "sk_artifact k = stored" "sk_fileCount k = fileCount" "sk_state k = Pending"
    "sk_skillName k = (case normalizeSkillName (JStr (fst metadata)) of Some n \<Rightarrow> n | None \<Rightarrow> slug_of_name (sk_name k))"
    "jb_artifact j = Some stored" "jb_resourceId j = Some (sk_id k)" "jb_state j = Queued"
proof -
  obtain name version description bytes fileCount metadata stored where parts:
      "bo_encode bo (get_prop body ''bundle'') = Inr (bytes, fileCount)" "bo_metadata bo (get_prop body ''bundle'') = Inr metadata"
      "putVerifiedBlob put bytes (digestBytes h bytes) = Inr stored"
      "t = appendAudit (audit p ''skill.publish.queued'' (Some (en_skill e)) org e)
         (s\<lparr>st_skills := st_skills s @ [publish_skill_record org e name version description metadata fileCount stored (st_policy s0)],
            st_jobs := st_jobs s @ [j]\<rparr>)"
      "j = new_scan_job org e (en_skill e) stored (st_policy s0)"
    using assms by (auto simp: publishSkill_def result_simps Let_def split: prod.splits)
  show thesis
    by (rule that [where k = "publish_skill_record org e name version description metadata fileCount stored (st_policy s0)", OF parts(1-3)])
      (simp_all add: parts(4,5) appendAudit_def publish_skill_record_def new_scan_job_def split: option.split)
qed

text \<open>
  C6. A published release is its bundle. When publication succeeds, the uploaded bundle was valid and its
  metadata inert; the one release and the one scan job that are added hold the blob of the canonical
  bytes, under their digest and with their length; those bytes decode back to the files of the upload in
  path order; the file count is right; and the skill name is the one the metadata declares.
\<close>

theorem published_release_is_its_bundle:
  assumes "publishSkill h put (bundle_codec parseDocument uc) org body p e s0 s = Inr (t, j)"
    and "\<And>fs. validateBundle uc (get_prop body ''bundle'') = Inr fs \<Longrightarrow> units_ok fs"
  shows "\<exists>fs bytes md k stored. validateBundle uc (get_prop body ''bundle'') = Inr fs \<and>
    encodeBundle uc (get_prop body ''bundle'') = Inr bytes \<and> decodeBundle uc bytes = Inr (sorted_files fs) \<and>
    st_skills t = st_skills s @ [k] \<and> st_jobs t = st_jobs s @ [j] \<and> jb_resourceId j = Some (sk_id k) \<and> jb_state j = Queued \<and>
    sk_artifact k = stored \<and> jb_artifact j = Some stored \<and> blob_digest stored = digestBytes h bytes \<and>
    blob_size stored = length bytes \<and> sk_fileCount k = length fs \<and> sk_state k = Pending \<and>
    parseSkillMetadata parseDocument uc (bundle_value fs) = Inr md \<and> inert uc 11 (sm_frontmatter md) \<and>
    sk_skillName k = sm_skillName md"
proof -
  obtain bytes fileCount metadata stored k where parts:
    "bo_encode (bundle_codec parseDocument uc) (get_prop body ''bundle'') = Inr (bytes, fileCount)"
    "bo_metadata (bundle_codec parseDocument uc) (get_prop body ''bundle'') = Inr metadata"
    "putVerifiedBlob put bytes (digestBytes h bytes) = Inr stored"
    "st_skills t = st_skills s @ [k]" "st_jobs t = st_jobs s @ [j]" "sk_artifact k = stored" "sk_fileCount k = fileCount" "sk_state k = Pending"
    "sk_skillName k = (case normalizeSkillName (JStr (fst metadata)) of Some n \<Rightarrow> n | None \<Rightarrow> slug_of_name (sk_name k))"
    "jb_artifact j = Some stored" "jb_resourceId j = Some (sk_id k)" "jb_state j = Queued"
    using assms(1) by (rule publishSkill_parts)
  obtain fs where fs: "validateBundle uc (get_prop body ''bundle'') = Inr fs" "encodeBundle uc (bundle_value fs) = Inr bytes" "fileCount = length fs"
    using parts(1) by (auto simp: bundle_codec_def result_simps)
  obtain md where md: "parseSkillMetadata parseDocument uc (bundle_value fs) = Inr md" "metadata = (sm_skillName md, sm_description md)"
    using parts(2) fs(1) by (auto simp: bundle_codec_def result_simps)
  have same: "encodeBundle uc (get_prop body ''bundle'') = Inr bytes"
    using fs(2) encodeBundle_value [OF fs(1)] encodeBundle_value [OF validateBundle_value [OF validateBundle_InrD [OF fs(1)]]] by simp
  have "decodeBundle uc bytes = Inr (sorted_files fs)"
    using decode_canonical [OF fs(1) assms(2) [OF fs(1)] same] .
  moreover have inert: "name_pattern (sm_skillName md)" "code_points (sm_skillName md) \<le> 64" "inert uc 11 (sm_frontmatter md)"
    using parseSkillMetadata_inert [OF md(1)] by simp_all
  moreover have "blob_digest stored = digestBytes h bytes" "blob_size stored = length bytes"
    using parts(3) by (auto simp: putVerifiedBlob_def split: option.splits if_splits)
  moreover have "sk_skillName k = sm_skillName md"
    using parts(9) normalizeSkillName_name [OF inert(1,2)] by (simp add: md(2))
  ultimately show ?thesis using fs(1,3) same parts(4-8,10-12) md(1) by blast
qed

section \<open>A witness\<close>

definition demo_publication :: jsval where
  "demo_publication = JObj [(js ''name'', JStr (js ''@a/b'')), (js ''version'', JStr (js ''1.0.0'')), (js ''bundle'', bundle_value demo_skill_files)]"

definition demo_publish :: "(registry_state \<times> job) api" where
  "demo_publish = publishSkill sample_host (dp_put sample_deps) (bundle_codec demo_yaml demo_unicode) (js ''org'')
     demo_publication sample_admin sample_env s_empty s_empty"

lemma demo_published: "\<exists>t j. demo_publish = Inr (t, j)"
proof -
  have "\<not> isl demo_publish" by code_simp
  then show ?thesis by (metis sum.collapse(2) surj_pair)
qed

lemma demo_upload: "validateBundle demo_unicode (get_prop demo_publication ''bundle'') = Inr demo_skill_files"
  by code_simp

theorem published_release_is_its_bundle_witness:
  "\<exists>t j fs bytes k. demo_publish = Inr (t, j) \<and> st_skills t = [k] \<and> decodeBundle demo_unicode bytes = Inr fs \<and>
     blob_size (sk_artifact k) = length bytes"
proof -
  obtain t j where "demo_publish = Inr (t, j)" using demo_published by blast
  moreover have "units_ok demo_skill_files" "st_skills s_empty = []" by code_simp+
  ultimately show ?thesis
    using published_release_is_its_bundle [of sample_host "dp_put sample_deps" demo_yaml demo_unicode "js ''org''" demo_publication
        sample_admin sample_env s_empty s_empty t j, folded demo_publish_def] demo_upload by auto
qed

end
