(* ===== verification/Provenance.thy ===== *)
theory Provenance
  imports Imports
begin

text \<open>
  The provenance that an import completion reports, as \<open>normalizeProvenance\<close> of
  \<open>packages/core/src/index.ts\<close> accepts and records it, and the public source identities that are derived
  from recorded provenance. Every refusal is the same conflict error, except a digest that differs.
\<close>

section \<open>Source identities\<close>

text \<open>\<open>/^[0-9a-f]{40}$/iu\<close> and \<open>/^[A-Za-z0-9._~-]+$/u\<close>\<close>

definition isCommit :: "jstring option \<Rightarrow> bool" where
  "isCommit v \<longleftrightarrow> (case v of None \<Rightarrow> False | Some s \<Rightarrow> length s = 40 \<and> list_all is_hex_ci s)"

definition safe_part :: "jstring \<Rightarrow> bool" where
  "safe_part s \<longleftrightarrow> s \<noteq> [] \<and> list_all (\<lambda>c. is_upper c \<or> is_lower c \<or> is_digit c \<or> c \<in> {46, 95, 126, 45}) s"

definition isSafeRepository :: "jstring \<Rightarrow> bool" where
  "isSafeRepository s \<longleftrightarrow> isWellFormedUnicodeString s \<and> s \<noteq> [] \<and> length s \<le> 2048 \<and> length (split_on 47 s) = 2 \<and> list_all safe_part (split_on 47 s)"

definition isSafeSourcePath :: "jstring \<Rightarrow> bool" where
  "isSafeSourcePath s \<longleftrightarrow> isWellFormedUnicodeString s \<and> length s \<le> 4096 \<and> \<not> starts_with (js ''/'') s \<and>
     list_all (\<lambda>part. part = [] \<or> (part \<noteq> js ''.'' \<and> part \<noteq> js ''..'' \<and> safe_part part)) (split_on 47 s)"

definition isSafeDirectoryExternalValue :: "jstring \<Rightarrow> bool" where
  "isSafeDirectoryExternalValue s \<longleftrightarrow> isWellFormedUnicodeString s \<and> length (utf8_encode s) \<le> 2048 \<and> s \<noteq> [] \<and> trim s = s \<and>
     list_all isSafeDirectorySegment (split_on 47 s) \<and> \<not> list_ex (\<lambda>c. is_control c \<or> c \<in> {63, 35, 37, 92}) s"

definition verifiedSourceOrigin :: "host \<Rightarrow> jstring option \<Rightarrow> jstring option" where
  "verifiedSourceOrigin h v =
     (if \<not> truthy v then None
      else (case parseUrl h (the v) of
          None \<Rightarrow> None
        | Some u \<Rightarrow>
            if url_protocol u \<noteq> js ''https:'' \<or> url_username u \<noteq> [] \<or> url_password u \<noteq> [] \<or> url_port u \<noteq> []
               \<or> url_pathname u \<noteq> js ''/'' \<or> url_search u \<noteq> [] \<or> url_hash u \<noteq> [] then None
            else Some (toLowerCase h (url_hostname u))))"

definition verifiedSourceOriginFromUrl :: "host \<Rightarrow> jstring \<Rightarrow> jstring option" where
  "verifiedSourceOriginFromUrl h s =
     (case parseUrl h s of
        None \<Rightarrow> None
      | Some u \<Rightarrow>
          if url_protocol u \<noteq> js ''https:'' \<or> url_username u \<noteq> [] \<or> url_password u \<noteq> [] \<or> url_port u \<noteq> [] then None
          else Some (toLowerCase h (url_hostname u)))"

definition wellKnownScopeFromIndexUrl :: "host \<Rightarrow> jstring \<Rightarrow> jstring option" where
  "wellKnownScopeFromIndexUrl h s =
     (case parseUrl h s of
        None \<Rightarrow> None
      | Some u \<Rightarrow>
          if url_protocol u \<noteq> js ''https:'' \<or> url_username u \<noteq> [] \<or> url_password u \<noteq> [] \<or> url_search u \<noteq> [] \<or> url_hash u \<noteq> [] then None
          else
            (let parts = filter (\<lambda>x. x \<noteq> []) (split_on 47 (url_pathname u)) in
             if length parts < 3 \<or> last parts \<noteq> js ''index.json''
                \<or> last (butlast parts) \<noteq> js ''agent-skills'' \<and> last (butlast parts) \<noteq> js ''skills'' then None
             else (let scope = join [47] (butlast parts) in if scope \<noteq> [] \<and> isSafeSourcePath scope then Some scope else None)))"

record canonical_source =
  cs_provider :: string
  cs_host :: jstring
  cs_repository :: jstring
  cs_path :: jstring
  cs_revision :: "jstring option"
  cs_digest :: "jstring option"

definition sourceReferenceFromCanonical :: "canonical_source \<Rightarrow> jstring" where
  "sourceReferenceFromCanonical c =
     (if cs_provider c = ''snapshot'' then js ''@snapshot/skills-sh/'' @ cs_path c
      else if cs_provider c = ''github'' \<and> cs_host c = js ''github.com'' \<and> cs_path c = [] then js ''@github/'' @ cs_repository c
      else if cs_provider c = ''github'' \<and> cs_host c = js ''github.com'' then js ''@github/'' @ cs_repository c @ js ''/'' @ cs_path c
      else if cs_provider c = ''well-known'' then js ''@web/'' @ cs_host c @ js ''/'' @ cs_repository c @ js ''/'' @ cs_path c
      else if cs_provider c = ''github'' \<and> cs_path c = [] then js ''@github/'' @ cs_host c @ js ''/'' @ cs_repository c
      else js ''@'' @ js (cs_provider c) @ js ''/'' @ cs_host c @ js ''/'' @ cs_repository c @ js ''/'' @ cs_path c)"

definition wellKnownCanonicalFromProvenance :: "host \<Rightarrow> provenance \<Rightarrow> canonical_source option" where
  "wellKnownCanonicalFromProvenance h pv =
     (let ev = pv_evidence pv in
      if \<not> truthy (sv_sourceProviderOrigin ev) \<or> \<not> truthy (sv_wellKnownIndexUrl ev) \<or> \<not> truthy (sv_wellKnownEntryName ev) then None
      else
        (let origin = verifiedSourceOrigin h (sv_sourceProviderOrigin ev);
             indexOrigin = verifiedSourceOriginFromUrl h (the (sv_wellKnownIndexUrl ev));
             scope = wellKnownScopeFromIndexUrl h (the (sv_wellKnownIndexUrl ev)) in
         if \<not> truthy origin \<or> \<not> truthy indexOrigin \<or> origin \<noteq> indexOrigin \<or> scope = None
            \<or> \<not> isSafeSourcePath (the (sv_wellKnownEntryName ev)) then None
         else Some \<lparr>cs_provider = ''well-known'', cs_host = the origin, cs_repository = the scope, cs_path = the (sv_wellKnownEntryName ev),
            cs_revision = (if isCommit (sv_resolvedCommit ev) then sv_resolvedCommit ev else None), cs_digest = None\<rparr>))"

definition snapshot_identity :: "provenance \<Rightarrow> bool" where
  "snapshot_identity pv \<longleftrightarrow> pv_kind pv = UpstreamProvenance SkillsShUpstream \<and> truthy (pv_externalId pv) \<and>
     pv_path pv = pv_externalId pv \<and> isSafeDirectoryExternalValue (the (pv_externalId pv))"

definition source_path_of :: "provenance \<Rightarrow> jstring option" where
  "source_path_of pv = (if pv_kind pv = UpstreamProvenance SkillsShUpstream then sv_skillPath (pv_evidence pv) else pv_path pv)"

definition github_identity :: "host \<Rightarrow> provenance \<Rightarrow> bool" where
  "github_identity h pv \<longleftrightarrow> sv_sourceResolutionKind (pv_evidence pv) = Some (js ''github'') \<and>
     verifiedSourceOrigin h (sv_sourceProviderOrigin (pv_evidence pv)) = Some (js ''github.com'') \<and> truthy (pv_repository pv) \<and>
     isCommit (sv_resolvedCommit (pv_evidence pv))"

definition pinned_well_known :: "provenance \<Rightarrow> bool" where
  "pinned_well_known pv \<longleftrightarrow> isCommit (sv_resolvedCommit (pv_evidence pv)) \<or>
     (case sv_externalDigest (pv_evidence pv) of None \<Rightarrow> False | Some d \<Rightarrow> isDigest d)"

definition sourceReferenceFromProvenance :: "host \<Rightarrow> provenance \<Rightarrow> jstring option" where
  "sourceReferenceFromProvenance h pv =
     (let kind = sv_sourceResolutionKind (pv_evidence pv) in
      if kind = Some (js ''snapshot'') \<and> snapshot_identity pv then Some (js ''@snapshot/skills-sh/'' @ the (pv_externalId pv))
      else if github_identity h pv \<and> source_path_of pv \<noteq> None \<and> isSafeSourcePath (the (source_path_of pv))
              \<and> isSafeRepository (the (pv_repository pv))
      then Some (sourceReferenceFromCanonical \<lparr>cs_provider = ''github'', cs_host = js ''github.com'', cs_repository = the (pv_repository pv),
             cs_path = the (source_path_of pv), cs_revision = sv_resolvedCommit (pv_evidence pv), cs_digest = None\<rparr>)
      else if kind = Some (js ''well-known'') \<and> pinned_well_known pv \<and> wellKnownCanonicalFromProvenance h pv \<noteq> None
      then Some (sourceReferenceFromCanonical (the (wellKnownCanonicalFromProvenance h pv)))
      else if kind = Some (js ''well-known'') \<and> snapshot_identity pv then Some (js ''@snapshot/skills-sh/'' @ the (pv_externalId pv))
      else None)"

definition snapshot_source :: "jstring \<Rightarrow> jstring \<Rightarrow> canonical_source" where
  "snapshot_source externalId digest = \<lparr>cs_provider = ''snapshot'', cs_host = js ''skills.sh'', cs_repository = js ''skills.sh'',
     cs_path = externalId, cs_revision = None, cs_digest = Some digest\<rparr>"

definition canonicalSourceFromSkill :: "host \<Rightarrow> provenance \<Rightarrow> skill_version \<Rightarrow> canonical_source option" where
  "canonicalSourceFromSkill h pv k =
     (let kind = sv_sourceResolutionKind (pv_evidence pv); digest = blob_digest (sk_artifact k);
          origin = verifiedSourceOrigin h (sv_sourceProviderOrigin (pv_evidence pv)) in
      if kind = Some (js ''snapshot'') \<and> pv_kind pv = UpstreamProvenance SkillsShUpstream \<and> truthy (pv_externalId pv)
      then (if snapshot_identity pv then Some (snapshot_source (the (pv_externalId pv)) digest) else None)
      else if github_identity h pv
      then (case source_path_of pv of
              None \<Rightarrow> None
            | Some path \<Rightarrow>
                if \<not> isSafeSourcePath path \<or> \<not> isSafeRepository (the (pv_repository pv)) then None
                else Some \<lparr>cs_provider = ''github'', cs_host = js ''github.com'', cs_repository = the (pv_repository pv), cs_path = path,
                       cs_revision = sv_resolvedCommit (pv_evidence pv), cs_digest = Some digest\<rparr>)
      else (let pinned = kind = Some (js ''well-known'') \<and> truthy origin \<and> truthy (pv_repository pv)
                  \<and> truthy (sv_wellKnownEntryName (pv_evidence pv)) \<and> truthy (sv_wellKnownIndexUrl (pv_evidence pv)) \<and> pinned_well_known pv in
        case (if pinned then wellKnownCanonicalFromProvenance h pv else None) of
          Some c \<Rightarrow> Some (c\<lparr>cs_digest := Some digest\<rparr>)
        | None \<Rightarrow>
            if kind = Some (js ''well-known'') \<and> snapshot_identity pv then Some (snapshot_source (the (pv_externalId pv)) digest) else None))"

section \<open>Reported fields\<close>

definition optionalProvenanceString :: "jsval \<Rightarrow> nat \<Rightarrow> jstring option api" where
  "optionalProvenanceString v maximum =
     (case v of
        JUndefined \<Rightarrow> Inr None
      | JNull \<Rightarrow> Inr None
      | JStr s \<Rightarrow> if s = [] \<or> length s > maximum \<or> list_ex is_control s then Inl provenance_conflict else Inr (Some s)
      | _ \<Rightarrow> Inl provenance_conflict)"

definition isCanonicalIsoTimestamp :: "host \<Rightarrow> jstring \<Rightarrow> bool" where
  "isCanonicalIsoTimestamp h s \<longleftrightarrow> s \<noteq> [] \<and> length s \<le> 64 \<and> isWellFormedUnicodeString s \<and>
     (case dateParse h s of None \<Rightarrow> False | Some ms \<Rightarrow> toISOString h ms = s)"

definition optionalCanonicalProvenanceTimestamp :: "host \<Rightarrow> jsval \<Rightarrow> jstring option api" where
  "optionalCanonicalProvenanceTimestamp h v =
     (case v of
        JUndefined \<Rightarrow> Inr None
      | JNull \<Rightarrow> Inr None
      | JStr s \<Rightarrow> if isCanonicalIsoTimestamp h s then Inr (Some s) else Inl provenance_conflict
      | _ \<Rightarrow> Inl provenance_conflict)"

text \<open>\<open>a ?? b\<close>, and a choice among literals where \<open>undefined\<close> is allowed.\<close>

definition nullish :: "jsval \<Rightarrow> jsval \<Rightarrow> jsval" where
  "nullish a b = (if a = JUndefined \<or> a = JNull then b else a)"

definition literal_of :: "string list \<Rightarrow> jsval \<Rightarrow> jstring option api" where
  "literal_of allowed v =
     (case v of
        JUndefined \<Rightarrow> Inr None
      | JStr s \<Rightarrow> if s \<in> set (map js allowed) then Inr (Some s) else Inl provenance_conflict
      | _ \<Rightarrow> Inl provenance_conflict)"

definition check :: "bool \<Rightarrow> unit api" where
  "check b = (if b then Inr () else Inl provenance_conflict)"

lemma check_Inr_iff [result_simps]: "check b = Inr u \<longleftrightarrow> b"
  by (simp add: check_def)

fun orelse :: "'a option \<Rightarrow> 'a option \<Rightarrow> 'a option" where
  "orelse None b = b"
| "orelse (Some a) b = Some a"

section \<open>Evidence of a skills.sh import\<close>

definition external_of ::
    "jsval \<Rightarrow> jstring option \<Rightarrow> jstring option \<Rightarrow> jstring option \<Rightarrow> jstring option \<Rightarrow> jstring option \<Rightarrow> source_evidence \<Rightarrow>
     external_provenance option" where
  "external_of provider externalId nestedSource nestedSlug nestedSourceType snapshotHash evidence =
     (if provider = JStr (js ''skills.sh'') \<and> truthy externalId \<and> nestedSource \<noteq> None \<and> nestedSlug \<noteq> None \<and> nestedSourceType \<noteq> None
         \<and> sv_sourceUrl evidence \<noteq> None
      then Some \<lparr>xp_provider = js ''skills.sh'', xp_externalId = the externalId, xp_source = the nestedSource, xp_slug = the nestedSlug,
             xp_sourceType = the nestedSourceType, xp_externalSnapshotHash = snapshotHash, xp_evidence = evidence\<rparr>
      else None)"

definition normalizeSkillsShEvidence ::
    "host \<Rightarrow> jsval \<Rightarrow> jstring \<Rightarrow> jstring option \<Rightarrow> jstring option \<Rightarrow> jstring option option \<Rightarrow> jstring option \<Rightarrow>
     (source_evidence \<times> external_provenance option) api" where
  "normalizeSkillsShEvidence h raw repository externalId sourceType snapshotHash fetchedAt =
     (if get_prop raw ''external'' \<noteq> JUndefined \<and> \<not> is_object (get_prop raw ''external'') then Inl provenance_conflict
      else
       (let nested = get_prop raw ''external''; pick = (\<lambda>k. nullish (get_prop nested k) (get_prop raw k));
            provider = pick ''provider'' in
        bindr (optionalProvenanceString (get_prop nested ''externalId'') 2048) (\<lambda>nestedExternalId.
        bindr (optionalProvenanceString (pick ''source'') 2048) (\<lambda>nestedSource.
        bindr (optionalProvenanceString (pick ''slug'') 2048) (\<lambda>nestedSlug.
        bindr (optionalProvenanceString (pick ''sourceUrl'') 4096) (\<lambda>sourceUrl.
        bindr (optionalProvenanceString (pick ''sourceProviderOrigin'') 512) (\<lambda>sourceProviderOrigin.
        bindr (optionalCanonicalProvenanceTimestamp h (get_prop nested ''fetchedAt'')) (\<lambda>nestedFetchedAt.
        bindr (check (\<not> (nestedFetchedAt \<noteq> None \<and> fetchedAt \<noteq> None \<and> nestedFetchedAt \<noteq> fetchedAt))) (\<lambda>_.
        bindr (literal_of [''snapshot'', ''github'', ''well-known''] (pick ''sourceResolutionKind'')) (\<lambda>sourceResolutionKind.
        bindr (optionalProvenanceString (pick ''pageUrl'') 4096) (\<lambda>pageUrl.
        bindr (if get_prop nested ''externalSnapshotHash'' = JNull then Inr (Some None)
               else bindr (optionalProvenanceString (get_prop nested ''externalSnapshotHash'') 256) (\<lambda>v. Inr (map_option Some v)))
          (\<lambda>nestedSnapshotHash.
        let effectiveSnapshotHash = (if get_prop nested ''externalSnapshotHash'' = JUndefined then snapshotHash else nestedSnapshotHash) in
        bindr (check (provider = JUndefined \<or> provider = JStr (js ''skills.sh''))) (\<lambda>_.
        bindr (check (nestedExternalId = None \<or> nestedExternalId = externalId)) (\<lambda>_.
        bindr (check (nestedSource = None \<or> nestedSource = Some repository)) (\<lambda>_.
        bindr (literal_of [''github'', ''well-known'']
            (nullish (pick ''sourceType'') (case sourceType of None \<Rightarrow> JUndefined | Some t \<Rightarrow> JStr t))) (\<lambda>nestedSourceType.
        bindr (check (\<not> (effectiveSnapshotHash \<noteq> snapshotHash \<and> snapshotHash \<noteq> None))) (\<lambda>_.
        bindr (check (\<not> (nestedSource \<noteq> None \<and> nestedSlug \<noteq> None \<and> externalId \<noteq> Some (the nestedSource @ js ''/'' @ the nestedSlug)))) (\<lambda>_.
        bindr (optionalProvenanceString (pick ''externalDigest'') 128) (\<lambda>externalDigest.
        bindr (check (case externalDigest of None \<Rightarrow> True | Some d \<Rightarrow> isDigest d)) (\<lambda>_.
        bindr (if pick ''skillPath'' = JStr [] then Inr (Some []) else optionalProvenanceString (pick ''skillPath'') 4096) (\<lambda>skillPath.
        bindr (optionalProvenanceString (pick ''requestedRef'') 256) (\<lambda>requestedRef.
        bindr (optionalProvenanceString (pick ''resolvedCommit'') 128) (\<lambda>resolvedCommit.
        bindr (optionalProvenanceString (pick ''resolvedTree'') 128) (\<lambda>resolvedTree.
        bindr (check (resolvedCommit = None \<or> isCommit resolvedCommit)) (\<lambda>_.
        bindr (check (resolvedTree = None \<or> isCommit resolvedTree)) (\<lambda>_.
        bindr (check (\<not> (skillPath = Some [] \<and>
            (sourceResolutionKind \<noteq> Some (js ''github'') \<or> nestedSourceType \<noteq> Some (js ''github'')
             \<or> verifiedSourceOrigin h sourceProviderOrigin \<noteq> Some (js ''github.com'') \<or> \<not> isCommit resolvedCommit
             \<or> \<not> isSafeRepository repository \<or> externalId = None \<or> nestedSource \<noteq> Some repository \<or> nestedSlug = None
             \<or> externalId \<noteq> Some (the nestedSource @ js ''/'' @ the nestedSlug) \<or> sourceUrl = None)))) (\<lambda>_.
        bindr (optionalProvenanceString (pick ''wellKnownIndexUrl'') 4096) (\<lambda>wellKnownIndexUrl.
        bindr (optionalProvenanceString (pick ''wellKnownEntryName'') 2048) (\<lambda>wellKnownEntryName.
        bindr (optionalProvenanceString (pick ''artifactUrl'') 4096) (\<lambda>artifactUrl.
        bindr (optionalProvenanceString (pick ''frontmatterName'') 512) (\<lambda>frontmatterName.
        bindr (optionalProvenanceString (pick ''frontmatterDescription'') 4096) (\<lambda>frontmatterDescription.
        let evidence = \<lparr>sv_sourceUrl = sourceUrl, sv_sourceProviderOrigin = sourceProviderOrigin,
              sv_sourceResolutionKind = sourceResolutionKind, sv_fetchedAt = orelse nestedFetchedAt fetchedAt, sv_pageUrl = pageUrl,
              sv_artifactUrl = artifactUrl, sv_skillPath = skillPath, sv_requestedRef = requestedRef, sv_resolvedCommit = resolvedCommit,
              sv_resolvedTree = resolvedTree, sv_wellKnownIndexUrl = wellKnownIndexUrl, sv_wellKnownEntryName = wellKnownEntryName,
              sv_frontmatterName = frontmatterName, sv_frontmatterDescription = frontmatterDescription, sv_externalDigest = externalDigest\<rparr> in
        Inr (evidence, external_of provider externalId nestedSource nestedSlug nestedSourceType (Option.bind effectiveSnapshotHash id) evidence)))))))))))))))))))))))))))))))))"

section \<open>Normalisation\<close>

text \<open>\<open>...evidence\<close>: a field that is there replaces the earlier one.\<close>

definition merge_evidence :: "source_evidence \<Rightarrow> source_evidence \<Rightarrow> source_evidence" where
  "merge_evidence base ev =
     \<lparr>sv_sourceUrl = orelse (sv_sourceUrl ev) (sv_sourceUrl base),
      sv_sourceProviderOrigin = orelse (sv_sourceProviderOrigin ev) (sv_sourceProviderOrigin base),
      sv_sourceResolutionKind = orelse (sv_sourceResolutionKind ev) (sv_sourceResolutionKind base),
      sv_fetchedAt = orelse (sv_fetchedAt ev) (sv_fetchedAt base), sv_pageUrl = orelse (sv_pageUrl ev) (sv_pageUrl base),
      sv_artifactUrl = orelse (sv_artifactUrl ev) (sv_artifactUrl base), sv_skillPath = orelse (sv_skillPath ev) (sv_skillPath base),
      sv_requestedRef = orelse (sv_requestedRef ev) (sv_requestedRef base),
      sv_resolvedCommit = orelse (sv_resolvedCommit ev) (sv_resolvedCommit base),
      sv_resolvedTree = orelse (sv_resolvedTree ev) (sv_resolvedTree base),
      sv_wellKnownIndexUrl = orelse (sv_wellKnownIndexUrl ev) (sv_wellKnownIndexUrl base),
      sv_wellKnownEntryName = orelse (sv_wellKnownEntryName ev) (sv_wellKnownEntryName base),
      sv_frontmatterName = orelse (sv_frontmatterName ev) (sv_frontmatterName base),
      sv_frontmatterDescription = orelse (sv_frontmatterDescription ev) (sv_frontmatterDescription base),
      sv_externalDigest = orelse (sv_externalDigest ev) (sv_externalDigest base)\<rparr>"

definition truthy_or_none :: "jstring option \<Rightarrow> jstring option" where
  "truthy_or_none v = (if truthy v then v else None)"

definition snapshot_field_ok :: "jsval \<Rightarrow> bool" where
  "snapshot_field_ok v \<longleftrightarrow>
     (case v of JUndefined \<Rightarrow> True | JNull \<Rightarrow> True | JStr s \<Rightarrow> s \<noteq> [] \<and> length s \<le> 256 \<and> \<not> list_ex is_control s | _ \<Rightarrow> False)"

text \<open>The value of \<open>raw.externalSnapshotHash\<close>: absent, \<open>null\<close>, or a string.\<close>

fun snapshot_field :: "jsval \<Rightarrow> jstring option option" where
  "snapshot_field JNull = Some None"
| "snapshot_field (JStr s) = (if s = [] then None else Some (Some s))"
| "snapshot_field _ = None"

definition provenance_record ::
    "upstream_kind \<Rightarrow> import_request \<Rightarrow> jstring option \<Rightarrow> jstring option \<Rightarrow> jstring option \<Rightarrow> jstring option \<Rightarrow> jstring option \<Rightarrow>
     jstring option \<Rightarrow> jstring option \<Rightarrow> jstring option option \<Rightarrow> external_provenance option \<Rightarrow> source_evidence \<Rightarrow> provenance" where
  "provenance_record kind request upstreamId repository path revision sourceDigest externalId externalSourceType snapshot external evidence =
     \<lparr>pv_kind = UpstreamProvenance kind, pv_upstreamId = upstreamId, pv_repository = repository, pv_path = path, pv_revision = revision,
      pv_sourceDigest = sourceDigest, pv_externalId = externalId, pv_externalSourceType = externalSourceType,
      pv_externalSnapshotHash = snapshot, pv_feedId = truthy_or_none (im_feedId request), pv_feedName = truthy_or_none (im_feedName request),
      pv_feedConfigRevision = truthy_or_none (im_feedConfigRevision request),
      pv_sourceReference = truthy_or_none (im_sourceReference request), pv_externalSource = truthy_or_none (im_sourceCatalogId request),
      pv_external = external, pv_evidence = evidence\<rparr>"

text \<open>What the report says, and the parts of the request it is compared with.\<close>

abbreviation supplied :: "jsval \<Rightarrow> string \<Rightarrow> jstring option" where
  "supplied raw k \<equiv> stringValue (get_prop raw k)"

definition supplied_path :: "jsval \<Rightarrow> import_request \<Rightarrow> upstream \<Rightarrow> jstring option" where
  "supplied_path raw request upstream =
     (let allowsExplicitRootPath = up_kind upstream = GithubUpstream \<and> im_path request = [] \<and> truthy (im_repository request) in
      if get_prop raw ''path'' = JStr [] \<and> allowsExplicitRootPath then Some [] else supplied raw ''path'')"

definition catalog_external_id :: "import_request \<Rightarrow> jstring option" where
  "catalog_external_id request = (if im_sourceCatalogId request = None then None else im_externalId request)"

text \<open>The reference of the request, or the one that the recorded evidence proves.\<close>

definition with_reference :: "host \<Rightarrow> provenance \<Rightarrow> provenance" where
  "with_reference h pv = pv\<lparr>pv_sourceReference := orelse (pv_sourceReference pv) (sourceReferenceFromProvenance h pv)\<rparr>"

definition normalizeProvenance ::
    "host \<Rightarrow> jsval \<Rightarrow> import_request \<Rightarrow> jstring \<Rightarrow> upstream option \<Rightarrow> provenance api" where
  "normalizeProvenance h raw request digest upstream_opt =
     (case upstream_opt of
        None \<Rightarrow> Inl provenance_conflict
      | Some upstream \<Rightarrow>
       if \<not> is_object raw \<or> up_id upstream \<noteq> im_upstreamId request then Inl provenance_conflict
       else
         bindr (check (upstream_kind_of (get_prop raw ''kind'') = Some (up_kind upstream) \<and> supplied raw ''upstreamId'' \<noteq> None \<and> supplied raw ''repository'' \<noteq> None
             \<and> supplied_path raw request upstream \<noteq> None \<and> supplied raw ''revision'' \<noteq> None)) (\<lambda>_.
         bindr (check (supplied raw ''upstreamId'' = Some (im_upstreamId request) \<and> supplied_path raw request upstream = Some (im_path request))) (\<lambda>_.
         bindr (check (im_repository request = None \<or> supplied raw ''repository'' = im_repository request)) (\<lambda>_.
         bindr (check (provenanceRepositoryMatches h upstream (the (supplied raw ''repository'')))) (\<lambda>_.
         bindr (check (isValidImportRevision upstream (supplied raw ''revision'') (im_externalSnapshotHash request))) (\<lambda>_.
         bindr (check (\<not> (catalog_external_id request \<noteq> None \<and> supplied raw ''externalId'' \<noteq> None \<and> supplied raw ''externalId'' \<noteq> catalog_external_id request))) (\<lambda>_.
         bindr (optionalProvenanceString (get_prop raw ''feedId'') 256) (\<lambda>suppliedFeedId.
         bindr (optionalProvenanceString (get_prop raw ''feedName'') 128) (\<lambda>suppliedFeedName.
         bindr (optionalProvenanceString (get_prop raw ''feedConfigRevision'') 256) (\<lambda>suppliedFeedConfigRevision.
         bindr (optionalProvenanceString (get_prop raw ''sourceReference'') 2048) (\<lambda>suppliedSourceReference.
         bindr (optionalProvenanceString (get_prop raw ''sourceProviderOrigin'') 512) (\<lambda>suppliedSourceProviderOrigin.
         bindr (optionalCanonicalProvenanceTimestamp h (get_prop raw ''fetchedAt'')) (\<lambda>suppliedFetchedAt.
         bindr (optionalProvenanceString (get_prop raw ''externalDigest'') 128) (\<lambda>suppliedExternalDigest.
         bindr (check (case suppliedExternalDigest of None \<Rightarrow> True | Some d \<Rightarrow> isDigest d)) (\<lambda>_.
         bindr (if up_kind upstream = GithubUpstream then optionalProvenanceString (get_prop raw ''resolvedCommit'') 128 else Inr None) (\<lambda>suppliedResolvedCommit.
         bindr (check (suppliedResolvedCommit = None \<or> isCommit suppliedResolvedCommit \<and> suppliedResolvedCommit = supplied raw ''revision'')) (\<lambda>_.
         bindr (check (snapshot_field_ok (get_prop raw ''externalSnapshotHash''))) (\<lambda>_.
         bindr (literal_of [''github'', ''well-known''] (nullish (get_prop raw ''externalSourceType'') JUndefined)) (\<lambda>suppliedExternalSourceType.
         bindr (literal_of [''snapshot'', ''github'', ''well-known''] (nullish (get_prop raw ''sourceResolutionKind'') JUndefined)) (\<lambda>suppliedSourceResolutionKind.
         bindr (check (\<not> (suppliedSourceReference \<noteq> None \<and> im_sourceReference request \<noteq> None
             \<and> suppliedSourceReference \<noteq> im_sourceReference request))) (\<lambda>_.
         bindr (check (\<not> (up_kind upstream = SkillsShUpstream \<and>
             (\<not> truthy (im_externalId request) \<or> supplied raw ''externalId'' \<noteq> im_externalId request \<or> supplied raw ''externalId'' \<noteq> supplied_path raw request upstream
              \<or> im_externalSourceType request \<noteq> None \<and> suppliedExternalSourceType \<noteq> im_externalSourceType request
              \<or> im_externalSnapshotHash request \<noteq> None \<and> snapshot_field (get_prop raw ''externalSnapshotHash'') \<noteq> im_externalSnapshotHash request
              \<or> \<not> isValidSkillsShRevision (supplied raw ''revision'') (im_externalSnapshotHash request))))) (\<lambda>_.
         bindr (check (\<not> (suppliedFeedId \<noteq> None \<and> suppliedFeedId \<noteq> im_feedId request
             \<or> suppliedFeedName \<noteq> None \<and> suppliedFeedName \<noteq> im_feedName request
             \<or> suppliedFeedConfigRevision \<noteq> None \<and> suppliedFeedConfigRevision \<noteq> im_feedConfigRevision request))) (\<lambda>_.
         bindr (if up_kind upstream = SkillsShUpstream
                then normalizeSkillsShEvidence h raw (the (supplied raw ''repository'')) (supplied raw ''externalId'') suppliedExternalSourceType
                  (snapshot_field (get_prop raw ''externalSnapshotHash'')) suppliedFetchedAt
                else Inr (no_evidence, None)) (\<lambda>(evidence, external).
         if (case supplied raw ''sourceDigest'' of None \<Rightarrow> False | Some d \<Rightarrow> \<not> isDigest d \<or> d \<noteq> digest)
         then Inl (RegistryApiError ''DIGEST_MISMATCH'' 409 False)
         else
          (let result = with_reference h
             (provenance_record (up_kind upstream) request (supplied raw ''upstreamId'') (supplied raw ''repository'')
               (supplied_path raw request upstream) (supplied raw ''revision'') (supplied raw ''sourceDigest'')
               (truthy_or_none (orelse (catalog_external_id request) (supplied raw ''externalId''))) suppliedExternalSourceType
               (snapshot_field (get_prop raw ''externalSnapshotHash'')) external
               (merge_evidence (no_evidence\<lparr>sv_sourceProviderOrigin := suppliedSourceProviderOrigin, sv_fetchedAt := suppliedFetchedAt,
                 sv_sourceResolutionKind := suppliedSourceResolutionKind, sv_externalDigest := suppliedExternalDigest,
                 sv_resolvedCommit := suppliedResolvedCommit\<rparr>) evidence)) in
           if suppliedSourceReference \<noteq> None \<and> pv_sourceReference result \<noteq> suppliedSourceReference then Inl provenance_conflict
           else Inr result)))))))))))))))))))))))))"

text \<open>The check that the job handlers take as their argument.\<close>

definition provenance_check :: "host \<Rightarrow> jsval \<Rightarrow> import_request \<Rightarrow> jstring \<Rightarrow> upstream option \<Rightarrow> api_error option" where
  "provenance_check h raw request digest upstream =
     (case normalizeProvenance h raw request digest upstream of Inl e \<Rightarrow> Some e | Inr _ \<Rightarrow> None)"

section \<open>What is recorded\<close>

lemma external_of_SomeD:
  "external_of p e ns sl st hash ev = Some x \<Longrightarrow> xp_provider x = js ''skills.sh'' \<and> e = Some (xp_externalId x) \<and> ns = Some (xp_source x) \<and> sl = Some (xp_slug x)"
  by (auto simp: external_of_def truthy_def split: if_splits option.splits)

lemma normalizeSkillsShEvidence_external:
  assumes "normalizeSkillsShEvidence h raw rep ext st snap f = Inr (ev, Some x)"
  shows "xp_provider x = js ''skills.sh'' \<and> ext = Some (xp_externalId x) \<and> xp_source x = rep \<and>
    xp_externalId x = xp_source x @ js ''/'' @ xp_slug x"
proof -
  obtain p ns sl ty hash ev' where "external_of p ext ns sl ty hash ev' = Some x" "ns = None \<or> ns = Some rep"
      "\<not> (ns \<noteq> None \<and> sl \<noteq> None \<and> ext \<noteq> Some (the ns @ js ''/'' @ the sl))"
    using assms unfolding normalizeSkillsShEvidence_def Let_def if_Inl_eq_Inr bindr_Inr_iff check_Inr_iff sum.inject prod.inject
    by (elim conjE exE) (rule that; assumption)
  then show ?thesis using external_of_SomeD by fastforce
qed

lemma stringValue_Some: "stringValue v = Some s \<longleftrightarrow> v = JStr s \<and> s \<noteq> []"
  by (cases v) (auto simp: stringValue_def)

lemma truthy_simps [simp]:
  "truthy v \<Longrightarrow> truthy_or_none v = v" "truthy v \<Longrightarrow> orelse v w = v" "orelse v v = v" "truthy (stringValue x) \<longleftrightarrow> stringValue x \<noteq> None"
  by (cases v; auto simp: truthy_or_none_def truthy_def stringValue_def split: option.splits jsval.splits if_splits)+

lemma normalizeProvenance_InrE:
  assumes "normalizeProvenance h raw r digest (Some u) = Inr pv"
  obtains st fetched v ev where
    "\<not> (\<not> is_object raw \<or> up_id u \<noteq> im_upstreamId r)" and "supplied raw ''repository'' \<noteq> None"
    and "supplied raw ''upstreamId'' = Some (im_upstreamId r)" and "supplied_path raw r u = Some (im_path r)"
    and "im_repository r = None \<or> supplied raw ''repository'' = im_repository r"
    and "provenanceRepositoryMatches h u (the (supplied raw ''repository''))"
    and "isValidImportRevision u (supplied raw ''revision'') (im_externalSnapshotHash r)"
    and "\<not> (catalog_external_id r \<noteq> None \<and> supplied raw ''externalId'' \<noteq> None \<and> supplied raw ''externalId'' \<noteq> catalog_external_id r)"
    and "\<not> (up_kind u = SkillsShUpstream \<and>
       (\<not> truthy (im_externalId r) \<or> supplied raw ''externalId'' \<noteq> im_externalId r \<or> supplied raw ''externalId'' \<noteq> supplied_path raw r u
        \<or> im_externalSourceType r \<noteq> None \<and> st \<noteq> im_externalSourceType r
        \<or> im_externalSnapshotHash r \<noteq> None \<and> snapshot_field (get_prop raw ''externalSnapshotHash'') \<noteq> im_externalSnapshotHash r
        \<or> \<not> isValidSkillsShRevision (supplied raw ''revision'') (im_externalSnapshotHash r)))"
    and "(if up_kind u = SkillsShUpstream
       then normalizeSkillsShEvidence h raw (the (supplied raw ''repository'')) (supplied raw ''externalId'') st
         (snapshot_field (get_prop raw ''externalSnapshotHash'')) fetched
       else Inr (no_evidence, None)) = Inr v"
    and "\<not> (case supplied raw ''sourceDigest'' of None \<Rightarrow> False | Some d \<Rightarrow> \<not> isDigest d \<or> d \<noteq> digest)"
    and "with_reference h (provenance_record (up_kind u) r (supplied raw ''upstreamId'') (supplied raw ''repository'')
       (supplied_path raw r u) (supplied raw ''revision'') (supplied raw ''sourceDigest'')
       (truthy_or_none (orelse (catalog_external_id r) (supplied raw ''externalId''))) st
       (snapshot_field (get_prop raw ''externalSnapshotHash'')) (snd v) ev) = pv"
  using assms
  unfolding normalizeProvenance_def Let_def option.case if_Inl_eq_Inr bindr_Inr_iff check_Inr_iff case_prod_unfold sum.inject
  by (elim conjE exE) (rule that; assumption)

lemmas record_fields = with_reference_def provenance_record_def

text \<open>What the accepted external part may still disagree about with the provenance around it.\<close>

definition external_consistent :: "provenance \<Rightarrow> bool" where
  "external_consistent pv \<longleftrightarrow>
     (case pv_external pv of
        None \<Rightarrow> True
      | Some x \<Rightarrow> xp_externalSnapshotHash x = Option.bind (pv_externalSnapshotHash pv) id \<and>
          (pv_externalSourceType pv = None \<or> pv_externalSourceType pv = Some (xp_sourceType x)))"

text \<open>The requests that callers make carry none of the fields that the server adds, and no empty field.\<close>

definition caller_request :: "import_request \<Rightarrow> bool" where
  "caller_request r \<longleftrightarrow> im_feedId r = None \<and> im_feedName r = None \<and> im_feedConfigRevision r = None \<and> im_sourceReference r = None \<and>
     im_sourceCatalogId r = None"

lemma parseImportRequest_caller: "parseImportRequest body = Inr r \<Longrightarrow> caller_request r"
  by (auto simp: parseImportRequest_def caller_request_def result_simps)

lemma recorded_provenance_matches:
  assumes "normalizeProvenance h raw r (blob_digest (sk_artifact k)) (Some u) = Inr pv" and "caller_request r" and "external_consistent pv"
  shows "importProvenanceMatches h pv k r u"
proof -
  obtain st fetched v ev where parts:
    "\<not> (\<not> is_object raw \<or> up_id u \<noteq> im_upstreamId r)" "supplied raw ''repository'' \<noteq> None"
    "supplied raw ''upstreamId'' = Some (im_upstreamId r)" "supplied_path raw r u = Some (im_path r)"
    "im_repository r = None \<or> supplied raw ''repository'' = im_repository r"
    "provenanceRepositoryMatches h u (the (supplied raw ''repository''))"
    "isValidImportRevision u (supplied raw ''revision'') (im_externalSnapshotHash r)"
    and skills: "\<not> (up_kind u = SkillsShUpstream \<and>
       (\<not> truthy (im_externalId r) \<or> supplied raw ''externalId'' \<noteq> im_externalId r \<or> supplied raw ''externalId'' \<noteq> supplied_path raw r u
        \<or> im_externalSourceType r \<noteq> None \<and> st \<noteq> im_externalSourceType r
        \<or> im_externalSnapshotHash r \<noteq> None \<and> snapshot_field (get_prop raw ''externalSnapshotHash'') \<noteq> im_externalSnapshotHash r
        \<or> \<not> isValidSkillsShRevision (supplied raw ''revision'') (im_externalSnapshotHash r)))"
    and evidence: "(if up_kind u = SkillsShUpstream
       then normalizeSkillsShEvidence h raw (the (supplied raw ''repository'')) (supplied raw ''externalId'') st
         (snapshot_field (get_prop raw ''externalSnapshotHash'')) fetched
       else Inr (no_evidence, None)) = Inr v"
    and digest: "\<not> (case supplied raw ''sourceDigest'' of None \<Rightarrow> False | Some d \<Rightarrow> \<not> isDigest d \<or> d \<noteq> blob_digest (sk_artifact k))"
    and pv: "with_reference h (provenance_record (up_kind u) r (supplied raw ''upstreamId'') (supplied raw ''repository'')
       (supplied_path raw r u) (supplied raw ''revision'') (supplied raw ''sourceDigest'')
       (truthy_or_none (orelse (catalog_external_id r) (supplied raw ''externalId''))) st
       (snapshot_field (get_prop raw ''externalSnapshotHash'')) (snd v) ev) = pv"
    using assms(1) by (rule normalizeProvenance_InrE)
  have catalog: "catalog_external_id r = None" using assms(2) by (simp add: catalog_external_id_def caller_request_def)
  have fields: "pv_kind pv = UpstreamProvenance (up_kind u)" "pv_upstreamId pv = Some (im_upstreamId r)" "pv_path pv = Some (im_path r)"
    "pv_repository pv = supplied raw ''repository''" "pv_revision pv = supplied raw ''revision''" "pv_sourceDigest pv = supplied raw ''sourceDigest''"
    "pv_externalSnapshotHash pv = snapshot_field (get_prop raw ''externalSnapshotHash'')" "pv_externalSourceType pv = st"
    "pv_external pv = snd v" "pv_externalId pv = truthy_or_none (supplied raw ''externalId'')"
    unfolding pv [symmetric] using parts(3,4) by (simp_all add: record_fields catalog)
  have "external_matches pv r" if sh: "up_kind u = SkillsShUpstream"
  proof (cases "snd v")
    case (Some x)
    have "xp_provider x = js ''skills.sh'' \<and> supplied raw ''externalId'' = Some (xp_externalId x) \<and> xp_source x = the (supplied raw ''repository'') \<and>
        xp_externalId x = xp_source x @ js ''/'' @ xp_slug x"
      by (rule normalizeSkillsShEvidence_external [of h raw _ _ st "snapshot_field (get_prop raw ''externalSnapshotHash'')" fetched "fst v"])
         (use evidence sh Some in \<open>cases v; simp\<close>)
    then show ?thesis using assms(3) Some skills sh parts(2) by (auto simp: external_matches_def external_consistent_def fields)
  qed (simp add: external_matches_def fields)
  moreover have "truthy (pv_repository pv)" using parts(2) by (simp add: fields)
  moreover have "(case pv_sourceDigest pv of None \<Rightarrow> True | Some d \<Rightarrow> isDigest d \<and> d = blob_digest (sk_artifact k))"
    using digest by (auto simp: fields split: option.splits)
  ultimately show ?thesis
    using parts skills assms(2) unfolding importProvenanceMatches_def
    by (auto simp: fields caller_request_def)
qed

end
