(* ===== verification/Import_Guarantees.thy ===== *)
theory Import_Guarantees
  imports Lifecycle Provenance
begin

text \<open>
  What the pull-through route promises: a request is answered from a release only when that release was
  imported from the same source and is admitted now, and a name and version is imported from one source
  at a time.
\<close>

lemma same_job_source_queued: "same_job_source org r u (queued_import org e po r (Some u))"
  by (simp add: same_job_source_def queued_import_def importRequestsMatch_def sameUpstreamOrigin_def)

lemma active_queued: "active_target r (queued_import org e po r u)"
  by (simp add: active_target_def queued_import_def)

text \<open>
  C10. A pull-through request is bound to its source. It succeeds only for a caller who may publish the
  name, through an enabled upstream that the caller may read and that allows the repository. It is
  answered from a release only if that release has the requested name and version, is admitted at that
  instant, and was imported by a completed job for the same request and origin with matching provenance;
  nothing but the audit log changes then. Otherwise the answer is an import under way for the same
  request and origin, either one that was there or a new one when no release has the name and version;
  and no other source is being imported under that name and version afterwards.
\<close>

theorem pull_through_is_bound:
  assumes "resolveOrQueueImport h prov org body p e s0 s = Inr (t, res)"
  shows "\<exists>r u. parseImportRequest body = Inr r \<and> canPublishName p (im_name r) \<and>
    u \<in> set (st_upstreams s) \<and> up_enabled u \<and> up_id u = im_upstreamId r \<and> canReadNamespace p (up_namespace u) \<and>
    upstreamAllowsImport h u (im_repository r) \<and> st_skills t = st_skills s \<and>
    (case res of
       ImportResolved j resolution \<Rightarrow> st_jobs t = st_jobs s \<and> j \<in> set (st_jobs s) \<and> jb_state j = JobCompleted \<and> same_job_source org r u j \<and>
         (\<exists>k. k \<in> set (st_skills s) \<and> resolution = skillResolution k \<and> sk_name k = im_name r \<and> sk_version k = im_version r \<and>
            jb_resourceId j = Some (sk_id k) \<and> skillCurrentlyApproved s k (en_now e) \<and>
            importProvenanceMatches h (prov (sk_id k)) k r u)
     | ImportPending j \<Rightarrow> j \<in> set (st_jobs t) \<and> active_target r j \<and>
         list_all (same_job_source org r u) (filter (active_target r) (st_jobs t)) \<and>
         (st_jobs t = st_jobs s \<or>
          st_jobs t = st_jobs s @ [j] \<and> jb_upstream j = Some u \<and> jb_import j = Some r \<and> jb_policy j = st_policy s \<and>
          list_all (\<lambda>k. \<not> (sk_organizationId k = org \<and> sk_name k = im_name r \<and> sk_version k = im_version r)) (st_skills s)))"
proof -
  obtain r u where r: "parseImportRequest body = Inr r" "canPublishName p (im_name r)" "findImportUpstream h s r p = Inr u"
      and commit: "import_transaction h prov org r u p e s = Inr (t, res)"
    using assms by (rule resolveOrQueueImport_InrE)
  note found = findImportUpstream_InrD [OF r(3)]
  show ?thesis
    using commit
  proof (cases rule: import_transaction_cases)
    case (joined j)
    then show ?thesis using r(1,2) found by (intro exI [of _ r] exI [of _ u]) (simp add: appendAudit_def)
  next
    case (hit k j)
    then show ?thesis using r(1,2) found by (intro exI [of _ r] exI [of _ u]) (auto simp: appendAudit_def)
  next
    case (queued j)
    have "jb_upstream j = Some u \<and> jb_import j = Some r \<and> jb_policy j = st_policy s" unfolding queued(1) by (simp add: queued_import_def)
    then show ?thesis using queued(2-5) r(1,2) found same_job_source_queued [of org r u e "st_policy s"] active_queued [of r org e "st_policy s" "Some u"]
      by (intro exI [of _ r] exI [of _ u]) (simp add: appendAudit_def queued(1) [symmetric])
  qed
qed

text \<open>
  C40. The identities of the cache are exact. Two requests share a cache key exactly when they agree on
  every field the key is made of, and two upstreams are the same origin exactly when they agree on
  identifier, name, kind, namespace, address, credential, configuration revision and, in any order, the
  allowed repositories: the canonical strings that are compared never confuse two different identities.
\<close>

theorem import_identity_is_exact:
  assumes "request_units l" and "request_units r" and "upstream_units a" and "upstream_units b"
  shows "(importRequestsMatch l r \<longleftrightarrow> same_source l r) \<and> (sameUpstreamOrigin a b \<longleftrightarrow> same_origin a b)"
  using importRequestsMatch_iff [OF assms(1,2)] sameUpstreamOrigin_iff [OF assms(3,4)] by blast

text \<open>An import is committed only with a report that the normalisation accepts.\<close>

lemma import_completion_normalizes:
  assumes "complete_import (provenance_check h raw) org p e imported scans j s = Inr (t, j')"
  obtains r ib pv where "jb_import j = Some r" "imported = Some ib" "normalizeProvenance h raw r (ib_digest ib) (jb_upstream j) = Inr pv"
  using assms by (auto simp: complete_import_def provenance_check_def check_opt_def result_simps Let_def split: option.splits sum.splits if_splits)


section \<open>Witnesses\<close>

definition demo_upstream :: upstream where
  "demo_upstream = \<lparr>up_id = js ''up_1'', up_organizationId = js ''org'', up_name = js ''hub'', up_kind = GithubUpstream, up_enabled = True,
     up_repositories = Some [js ''acme/skills''], up_baseUrl = None, up_credentialEnv = None, up_namespace = js ''@a'', up_configRevision = None\<rparr>"

definition demo_import :: jsval where
  "demo_import = JObj [(js ''upstreamId'', JStr (js ''up_1'')), (js ''path'', JStr (js ''tools/b'')), (js ''name'', JStr (js ''@a/b'')),
     (js ''version'', JStr (js ''1.0.0''))]"

definition demo_import_request :: import_request where
  "demo_import_request = projr (parseImportRequest demo_import)"

definition demo_release :: skill_version where
  "demo_release = \<lparr>sk_id = js ''skill_1'', sk_organizationId = js ''org'', sk_name = js ''@a/b'', sk_skillName = js ''b'', sk_version = js ''1.0.0'',
     sk_description = [], sk_artifact = \<lparr>blob_key = js ''key'', blob_digest = js ''d'', blob_size = 3\<rparr>, sk_state = Approved,
     sk_policyRevision = js ''policy_1'', sk_createdAt = Stamp 1000, sk_approvedAt = Some (Stamp 1000), sk_fileCount = 1, sk_scanIds = []\<rparr>"

definition demo_import_job :: job where
  "demo_import_job = (queued_import (js ''org'') sample_env open_policy demo_import_request (Some demo_upstream))
     \<lparr>jb_state := JobCompleted, jb_resourceId := Some (js ''skill_1'')\<rparr>"

definition demo_imported :: registry_state where
  "demo_imported = s_empty\<lparr>st_upstreams := [demo_upstream], st_skills := [demo_release], st_jobs := [demo_import_job]\<rparr>"

definition demo_provenance :: provenance where
  "demo_provenance = \<lparr>pv_kind = UpstreamProvenance GithubUpstream, pv_upstreamId = Some (js ''up_1''), pv_repository = Some (js ''acme/skills''),
     pv_path = Some (js ''tools/b''), pv_revision = Some (replicate 40 97), pv_sourceDigest = None, pv_externalId = None,
     pv_externalSourceType = None, pv_externalSnapshotHash = None, pv_feedId = None, pv_feedName = None, pv_feedConfigRevision = None,
     pv_sourceReference = None, pv_externalSource = None, pv_external = None, pv_evidence = no_evidence\<rparr>"

definition demo_pull :: "(registry_state \<times> import_result) api" where
  "demo_pull = resolveOrQueueImport sample_host (\<lambda>_. demo_provenance) (js ''org'') demo_import sample_admin sample_env demo_imported demo_imported"

lemma map_sum_snd_InrD: "map_sum id snd m = Inr y \<Longrightarrow> \<exists>x. m = Inr (x, y)"
  by (cases m) auto

lemma demo_pull_hit: "map_sum id snd demo_pull = Inr (ImportResolved demo_import_job (skillResolution demo_release))"
  by code_simp

theorem pull_through_is_bound_witness:
  "\<exists>t r u. demo_pull = Inr (t, ImportResolved demo_import_job (skillResolution demo_release)) \<and> parseImportRequest demo_import = Inr r \<and>
     same_job_source (js ''org'') r u demo_import_job \<and> st_jobs t = st_jobs demo_imported"
proof -
  obtain t where t: "demo_pull = Inr (t, ImportResolved demo_import_job (skillResolution demo_release))"
    using map_sum_snd_InrD [OF demo_pull_hit] by blast
  show ?thesis using pull_through_is_bound [OF t [unfolded demo_pull_def]] t by auto
qed

theorem import_identity_is_exact_witness:
  "importRequestsMatch demo_import_request demo_import_request \<and>
   \<not> sameUpstreamOrigin demo_upstream (demo_upstream\<lparr>up_repositories := Some [js ''acme/skills'', js ''evil/skills'']\<rparr>)"
proof -
  have "request_units demo_import_request" "upstream_units demo_upstream"
    "upstream_units (demo_upstream\<lparr>up_repositories := Some [js ''acme/skills'', js ''evil/skills'']\<rparr>)"
    "same_source demo_import_request demo_import_request"
    "\<not> same_origin demo_upstream (demo_upstream\<lparr>up_repositories := Some [js ''acme/skills'', js ''evil/skills'']\<rparr>)"
    by code_simp+
  then show ?thesis using import_identity_is_exact by blast
qed

definition demo_report :: jsval where
  "demo_report = JObj [(js ''kind'', JStr (js ''github'')), (js ''upstreamId'', JStr (js ''up_1'')), (js ''repository'', JStr (js ''acme/skills'')),
     (js ''path'', JStr (js ''tools/b'')), (js ''revision'', JStr (replicate 40 97))]"

lemma demo_reported: "normalizeProvenance sample_host demo_report demo_import_request (blob_digest (sk_artifact demo_release)) (Some demo_upstream)
    = Inr demo_provenance"
  by code_simp


text \<open>
  The proviso is needed. For a request that names no snapshot, a completion may report a snapshot in the
  external part only. It is accepted and recorded, but the recorded provenance never matches again, so
  the release cannot be pulled a second time.
\<close>

definition directory_upstream :: upstream where
  "directory_upstream = demo_upstream\<lparr>up_kind := SkillsShUpstream, up_repositories := Some [js ''*'']\<rparr>"

definition directory_request :: import_request where
  "directory_request = demo_import_request\<lparr>im_path := js ''acme/b'', im_externalId := Some (js ''acme/b'')\<rparr>"

definition directory_report :: jsval where
  "directory_report = JObj [(js ''kind'', JStr (js ''skills-sh'')), (js ''upstreamId'', JStr (js ''up_1'')), (js ''repository'', JStr (js ''acme'')),
     (js ''path'', JStr (js ''acme/b'')), (js ''revision'', JStr (replicate 40 97)), (js ''externalId'', JStr (js ''acme/b'')),
     (js ''external'', JObj [(js ''provider'', JStr (js ''skills.sh'')), (js ''source'', JStr (js ''acme'')), (js ''slug'', JStr (js ''b'')),
       (js ''sourceType'', JStr (js ''github'')), (js ''sourceUrl'', JStr (js ''https://x'')), (js ''externalSnapshotHash'', JStr (js ''y''))])]"

theorem accepted_report_never_matches:
  "case normalizeProvenance sample_host directory_report directory_request (js ''d'') (Some directory_upstream) of
     Inl _ \<Rightarrow> False
   | Inr pv \<Rightarrow> \<not> importProvenanceMatches sample_host pv demo_release directory_request directory_upstream"
  by code_simp

end
