(* ===== verification/Spec2Isabelle.thy ===== *)
theory Spec2Isabelle
  imports Guarantees Worker_Protocol Scanner_Policy Review_Properties Session_Cookie Publication Import_Guarantees
begin

text \<open>
  A verified model of a private registry of agent skills.

  \<^bold>\<open>The program.\<close> An organization publishes skills (bundles of files with a \<open>SKILL.md\<close>) to the registry,
  or lets it import them from upstreams. Every release is scanned by workers under the organization's
  policy and is distributed only while the admission gate approves it; packs pin sets of releases.
  Clients resolve a name, obtain an install authorization, exchange it for short-lived download grants,
  and report receipts. Beside this, uploads of drafts are reviewed by automated reviewers through a
  leased queue, and people and programs sign in with company API tokens or a signed session cookie.
  The whole state of an organization is one document; a request handler reads a snapshot, validates,
  and commits one serialised transaction in which it checks again what it relies on.

  \<^bold>\<open>Conventions.\<close> Strings are lists of UTF-16 code units (\<open>jstring\<close>), untyped request data are values of
  \<open>jsval\<close>, integers that JavaScript keeps exact are \<open>int\<close> or \<open>nat\<close>, bytes are \<open>nat\<close> below 256 or words.
  Code that throws returns \<open>error + 'a\<close>, with the error's code and status and without its text. A handler
  is one definition over the snapshot \<open>s0\<close> it read and the state \<open>s\<close> its transaction runs against.
  Time, generated identifiers and secrets come from a record \<open>env\<close>. What the platform provides beyond
  the language (\<open>localeCompare\<close>, \<open>Date.parse\<close>, \<open>URL\<close>, Unicode case mapping and normalisation, SHA-256,
  HMAC, the YAML composer, blob stores) is a field of \<open>host\<close> or an argument. All definitions that model
  code are executable.

  \<^bold>\<open>Foundations.\<close>
  \<^item> \<open>Prelude\<close>: JavaScript strings, values and arrays, the result type, and three interfaces as locales:
    \<open>comparator\<close> (a total preorder given by a comparison function, with sorting by it),
    \<open>transition_system\<close> (an invariant along every run) and \<open>leased_queue\<close> (a claim makes earlier lease
    tokens useless).
  \<^item> \<open>Text_Encoding\<close>, \<open>Json\<close>, \<open>Base64_Url\<close>: UTF-8, \<open>JSON.stringify\<close> and \<open>JSON.parse\<close>, and the base64url
    helpers of \<open>packages/api-tokens\<close>, each with its round trip.
  \<^item> \<open>Contracts\<close>: the data model of \<open>packages/contracts/src/index.ts\<close> as records and datatypes, and \<open>host\<close>.

  \<^bold>\<open>Registry\<close>, \<open>packages/core/src/index.ts\<close>.
  \<^item> \<open>Access\<close> (principals, roles, namespaces, scopes), \<open>Versions\<close> (names, versions, digests, the choice of
    the newest version), \<open>Redaction\<close> (credentials in error text).
  \<^item> \<open>Admission\<close>: \<open>evaluatePolicy\<close>, \<open>skillCurrentlyApproved\<close> and the catalog's explanation. The evaluator is
    proved equal to a specification of when evidence admits a release, expiry is exact, and the locale
    \<open>admission_gate\<close> is what the rest of the registry relies on.
  \<^item> \<open>Policy_Input\<close>: validation of policy documents.
  \<^item> \<open>Registry\<close>: \<open>readState\<close>, resolution, \<open>publishSkill\<close>, packs, \<open>updatePolicy\<close>, \<open>rescanSkill\<close>, \<open>revokeSkill\<close>.
  \<^item> \<open>Install\<close>: authorizations, grants, transfers, receipts with their retention limits.
  \<^item> \<open>Jobs\<close>: claiming, artifact access, evidence parsing, completion.
  \<^item> \<open>Imports\<close>, \<open>Provenance\<close>: \<open>createUpstream\<close>, \<open>parseImportRequest\<close>, cache identities,
    \<open>resolveOrQueueImport\<close>; \<open>normalizeProvenance\<close> and the source identities derived from it.
  \<^item> \<open>Lifecycle\<close>: all handlers as one step relation over histories of committed states. A handler may read
    its snapshot from any state of the history. Every reachable state is readable, releases are
    immutable and revocation is final, approved packs have no revoked member, logs only grow.
  \<^item> \<open>Guarantees\<close>: resolution and transfer serve only admitted bytes; revocation and policy changes close
    every gate in the state that commits them; grants need a live authorization; receipts are unique.
  \<^item> \<open>Worker_Protocol\<close>: an approval that a completion writes is one the gate agrees with, leases fence
    stale workers, claims find available work, scan results are bound to their job.
  \<^item> \<open>Import_Guarantees\<close>: pull-through answers are bound to their source, the identities compared as
    strings are exact, and a completed import is found again.

  \<^bold>\<open>Bundles\<close>, \<open>packages/storage/src/bundle.ts\<close>.
  \<^item> \<open>Bundle\<close>, \<open>Bundle_Guarantees\<close>: base64, path safety, validation, the deterministic encoding. Accepted
    bundles are confined and bounded, and their bytes identify their content.
  \<^item> \<open>Frontmatter\<close>, \<open>Frontmatter_Guarantees\<close>: the metadata reader. The budgeted walk decides exactly the
    plain bounded trees, and accepted metadata is inert.
  \<^item> \<open>Publication\<close>: \<open>publishSkill\<close> run on the modelled bundle code. A release holds the canonical bytes of
    what was uploaded.

  \<^bold>\<open>Scanners\<close>, \<open>packages/scanners/src/policy.ts\<close>, \<open>util.ts\<close>, \<open>types.ts\<close>.
  \<^item> \<open>Scanner_Policy\<close>: running the configured adapters and the worker's verdict, with where it differs from
    the registry's.

  \<^bold>\<open>Upload reviews\<close>, \<open>packages/upload-reviews/src/index.ts\<close>.
  \<^item> \<open>Review_Input\<close> (validation, bindings, snapshots), \<open>Upload_Review\<close> (the queue and all its methods),
    \<open>Review_Guarantees\<close> and \<open>Review_Properties\<close>: an invariant over every interleaving, the state machine of
    a review, fencing, and that a review passes only while its draft and contract are current.

  \<^bold>\<open>API tokens\<close>, \<open>packages/api-tokens/src/index.ts\<close>.
  \<^item> \<open>Api_Tokens\<close> (roles, scopes, the service, the in-memory repository), \<open>Token_Session\<close> (the signed
    cookie, the handler and its cross-site checks), \<open>Token_Rows\<close> (the row codec of the SQL adapter).
  \<^item> \<open>Token_Guarantees\<close>, \<open>Token_Properties\<close>, \<open>Session_Cookie\<close>: the service is verified against the locale
    \<open>token_store\<close>, which the in-memory repository satisfies; a caller's authority is bounded by token,
    membership and role; creation cannot escalate; revocation is final; a cookie authenticates exactly
    as its token does.

  \<^bold>\<open>Loops.\<close> Every loop of the sources that is modelled is a total function with a termination measure (the
  rest of the input, the nodes of a tree, the attempts left), so no result depends on fuel. Limits that
  appear are the limits of the code: sizes, depths, three attempts at a fresh token, retention of
  receipts, tickets and reviews.

  \<^bold>\<open>Assumptions.\<close> Generated identifiers are fresh in the state they are committed to, and a new policy
  revision differs from the earlier ones; both are premises of the step relation. Hash functions appear
  with the hypotheses a property needs (for instance that a digest identifies its bytes), each with a
  witness that satisfies them. Numbers beyond \<open>2^53\<close> are not rounded.

  \<^bold>\<open>Not modelled.\<close> HTTP routing and response shapes, database and blob adapters, remote catalogs, feeds
  and directories, sign-in and billing, the authoring and builder sessions, scanner processes and the
  parsers of their reports, the user interface and the command-line client: they are I/O around the
  modelled operations, or clients of services outside the repository. The routes that queue imports
  for directories, feeds and catalogs are one rule of the step relation, which queues any request.

  \<^bold>\<open>Behaviour worth knowing.\<close> The lemmas \<open>redactJobError_keeps_bearer\<close>, \<open>compareVersions_build_metadata\<close>,
  \<open>trailing_surrogate_escapes_check\<close>, \<open>camel_case_hides_words\<close> and \<open>accepted_report_never_matches\<close> record
  concrete inputs on which the code does something its authors probably did not mean.
\<close>

end
